(* ===== verification/Prelude.thy ===== *)
theory Prelude
  imports Main "HOL-Library.Word"
begin

text \<open>
  Shared vocabulary of the LedgerPro development: the widths of the Go integers, the parts of the
  Go standard library the source calls (\<^verbatim>\<open>unicode/utf8\<close>, \<^verbatim>\<open>strings\<close>, \<^verbatim>\<open>fmt\<close>), lists of rows,
  and the lemmas every component uses on signed 64-bit sums.

  A Go \<^verbatim>\<open>string\<close> is a sequence of bytes; it is a HOL \<open>string\<close>, a list of 8-bit characters, so
  \<open>length\<close> is Go's \<^verbatim>\<open>len\<close>.
\<close>

section \<open>Collections of facts\<close>

named_theorems ledger_defs \<open>definitions unfolded by the component proofs\<close>
named_theorems frame_rules \<open>what an operation leaves unchanged\<close>
named_theorems inv_rules \<open>operations that keep an invariant\<close>

section \<open>Machine integers\<close>

type_synonym int64 = "64 word"
type_synonym int32 = "32 word"
type_synonym uuid = "128 word" \<comment> \<open>\<^verbatim>\<open>uuid.UUID\<close> is \<^verbatim>\<open>[16]byte\<close>\<close>

abbreviation (input) fits64 :: "int \<Rightarrow> bool" where
  "fits64 i \<equiv> - (2 ^ 63) \<le> i \<and> i < 2 ^ 63"

abbreviation (input) fits32 :: "int \<Rightarrow> bool" where
  "fits32 i \<equiv> - (2 ^ 31) \<le> i \<and> i < 2 ^ 31"

lemma sint64_fits: "fits64 (sint (x :: int64))"
  using sint_ge [of x] sint_lt [of x] by simp

lemma sint32_fits: "fits32 (sint (x :: int32))"
  using sint_ge [of x] sint_lt [of x] by simp

lemma sint64_add: "fits64 (sint a + sint b) \<Longrightarrow> sint (a + b :: int64) = sint a + sint b"
  by (simp add: sint_word_add signed_take_bit_int_eq_self)

lemma sint32_add: "fits32 (sint a + sint b) \<Longrightarrow> sint (a + b :: int32) = sint a + sint b"
  by (simp add: sint_word_add signed_take_bit_int_eq_self)

lemma sint64_of_int: "fits64 i \<Longrightarrow> sint (word_of_int i :: int64) = i"
  by (simp add: sint_sbintrunc' signed_take_bit_int_eq_self)

lemma sint32_of_int: "fits32 i \<Longrightarrow> sint (word_of_int i :: int32) = i"
  by (simp add: sint_sbintrunc' signed_take_bit_int_eq_self)

lemma sint64_succ: "sint (x :: int64) < 2 ^ 63 - 1 \<Longrightarrow> sint (x + 1) = sint x + 1"
  using sint64_fits [of x] by (simp add: sint64_add)

lemma sint32_succ: "sint (x :: int32) < 2 ^ 31 - 1 \<Longrightarrow> sint (x + 1) = sint x + 1"
  using sint32_fits [of x] by (simp add: sint32_add)

lemma sint_eq_iff: "sint (a :: 'a :: len word) = sint b \<longleftrightarrow> a = b"
  by (auto intro: signed_word_eqI)

section \<open>Bytes, runes and case\<close>

abbreviation byte :: "char \<Rightarrow> nat" where
  "byte c \<equiv> of_char c"

text \<open>
  Decoding of one rune as Go does in \<^verbatim>\<open>for range s\<close> and \<^verbatim>\<open>utf8.RuneCountInString\<close>: the width of a
  well-formed UTF-8 sequence (overlong forms and surrogates excluded), and 1 for a byte that starts
  none.
\<close>

fun between :: "nat \<Rightarrow> nat \<Rightarrow> nat list \<Rightarrow> nat \<Rightarrow> bool" where
  "between lo hi bs i = (i < length bs \<and> lo \<le> bs ! i \<and> bs ! i \<le> hi)"

definition rune_width :: "nat list \<Rightarrow> nat" where
  "rune_width bs =
     (let b0 = hd bs; cont = between 128 191 bs in
      if b0 < 128 then 1
      else if 194 \<le> b0 \<and> b0 \<le> 223 then (if cont 1 then 2 else 1)
      else if 224 \<le> b0 \<and> b0 \<le> 239 then
        (if between (if b0 = 224 then 160 else 128) (if b0 = 237 then 159 else 191) bs 1 \<and> cont 2
         then 3 else 1)
      else if 240 \<le> b0 \<and> b0 \<le> 244 then
        (if between (if b0 = 240 then 144 else 128) (if b0 = 244 then 143 else 191) bs 1
            \<and> cont 2 \<and> cont 3
         then 4 else 1)
      else 1)"

lemma rune_width_pos: "0 < rune_width bs"
  by (simp add: rune_width_def Let_def)

function rune_count_bytes :: "nat list \<Rightarrow> nat" where
  "rune_count_bytes [] = 0"
| "rune_count_bytes (b # bs) = Suc (rune_count_bytes (drop (rune_width (b # bs)) (b # bs)))"
  by pat_completeness auto
termination
  by (relation "measure length") (auto simp: rune_width_pos)

declare rune_count_bytes.simps(2) [simp del]

definition RuneCountInString :: "string \<Rightarrow> nat" where
  "RuneCountInString s = rune_count_bytes (map byte s)"

lemma rune_count_bytes_le: "rune_count_bytes bs \<le> length bs"
proof (induction bs rule: rune_count_bytes.induct)
  case (2 b bs)
  have "Suc (length (drop (rune_width (b # bs)) (b # bs))) \<le> length (b # bs)"
    using rune_width_pos [of "b # bs"] by (simp add: Suc_le_eq)
  with 2 show ?case by (simp add: rune_count_bytes.simps)
qed simp

lemma rune_count_zero: "rune_count_bytes bs = 0 \<longleftrightarrow> bs = []"
  by (cases bs) (simp_all add: rune_count_bytes.simps)

lemma RuneCount_zero: "RuneCountInString s = 0 \<longleftrightarrow> s = []"
  by (simp add: RuneCountInString_def rune_count_zero)

lemma rune_count_ascii:
  "\<forall>b \<in> set bs. b < 128 \<Longrightarrow> rune_count_bytes bs = length bs"
proof (induction bs)
  case (Cons b bs)
  then have "rune_width (b # bs) = 1" by (simp add: rune_width_def)
  with Cons show ?case by (simp add: rune_count_bytes.simps)
qed simp

text \<open>
  \<^verbatim>\<open>strings.ToUpper\<close>, as far as a comparison with ASCII strings can tell: ASCII letters are mapped,
  and the only two other runes whose upper case is ASCII are dotless i (bytes C4 B1) and long s
  (bytes C5 BF). Every other byte stands for part of a rune whose image is not ASCII and is kept.
\<close>

definition ascii_upper :: "char \<Rightarrow> char" where
  "ascii_upper c = (if 97 \<le> byte c \<and> byte c \<le> 122 then char_of (byte c - 32) else c)"

fun ToUpper :: "string \<Rightarrow> string" where
  "ToUpper [] = []"
| "ToUpper [c] = [ascii_upper c]"
| "ToUpper (c # d # s) =
     (if byte c = 196 \<and> byte d = 177 then CHR ''I'' # ToUpper s
      else if byte c = 197 \<and> byte d = 191 then CHR ''S'' # ToUpper s
      else ascii_upper c # ToUpper (d # s))"

section \<open>Formatting\<close>

text \<open>\<^verbatim>\<open>%d\<close> of \<^verbatim>\<open>fmt.Sprintf\<close>, and the em dash of the messages in its UTF-8 bytes.\<close>

definition digit :: "nat \<Rightarrow> char" where
  "digit n = char_of (48 + n)"

fun show_nat :: "nat \<Rightarrow> string" where
  "show_nat n = (if n < 10 then [digit n] else show_nat (n div 10) @ [digit (n mod 10)])"

declare show_nat.simps [simp del]

definition show_int :: "int \<Rightarrow> string" where
  "show_int i = (if i < 0 then CHR ''-'' # show_nat (nat (- i)) else show_nat (nat i))"

definition em_dash :: string where
  "em_dash = [CHR 0xE2, CHR 0x80, CHR 0x94]"

text \<open>The single quote, which a HOL string literal would end.\<close>

definition quote :: "string \<Rightarrow> string" where
  "quote s = [CHR 0x27] @ s @ [CHR 0x27]"

section \<open>Results\<close>

text \<open>
  A Go function that returns \<^verbatim>\<open>(T, error)\<close> is a function into \<open>error + T\<close>: \<open>Inl\<close> is the error
  return, \<open>Inr\<close> the value. A function that also changes a state returns the pair of its result and
  the new state.
\<close>

fun is_ok :: "'e + 'a \<Rightarrow> bool" where
  "is_ok (Inl _) = False"
| "is_ok (Inr _) = True"

lemma is_ok_projr: "is_ok r \<Longrightarrow> r = Inr (projr r)"
  by (cases r) simp_all

fun map_err :: "('e \<Rightarrow> 'f) \<Rightarrow> 'e + 'a \<Rightarrow> 'f + 'a" where
  "map_err f (Inl e) = Inl (f e)"
| "map_err f (Inr x) = Inr x"

lemma map_err_Inr: "map_err f r = Inr x \<longleftrightarrow> r = Inr x"
  by (cases r) auto

lemma map_err_Inl: "map_err f r = Inl e \<longleftrightarrow> (\<exists>e'. r = Inl e' \<and> e = f e')"
  by (cases r) auto

section \<open>Lists of rows\<close>

lemma find_append_None: "List.find P xs = None \<Longrightarrow> List.find P (xs @ ys) = List.find P ys"
  by (induction xs) auto

lemma find_append_Some: "List.find P xs = Some x \<Longrightarrow> List.find P (xs @ ys) = Some x"
  by (induction xs) (auto split: if_splits)

lemma find_Some_in: "List.find P xs = Some x \<Longrightarrow> x \<in> set xs \<and> P x"
  by (induction xs) (auto split: if_splits)

lemma find_None_all: "List.find P xs = None \<longleftrightarrow> (\<forall>x \<in> set xs. \<not> P x)"
  by (induction xs) auto

lemma distinct_map_unique:
  "distinct (map k xs) \<Longrightarrow> x \<in> set xs \<Longrightarrow> y \<in> set xs \<Longrightarrow> k x = k y \<Longrightarrow> x = y"
  by (meson distinct_map inj_onD)

lemma find_unique:
  assumes "distinct (map k xs)" and "x \<in> set xs" and "P x"
    and "\<And>y. y \<in> set xs \<Longrightarrow> P y \<Longrightarrow> k y = k x"
  shows "List.find P xs = Some x"
  using assms
proof (induction xs)
  case (Cons a xs)
  show ?case
  proof (cases "P a")
    case True
    with Cons.prems(4) have "k a = k x" by simp
    with Cons.prems(1,2) have "a = x"
      using distinct_map_unique [of k "a # xs" a x] by (metis list.set_intros(1))
    with True show ?thesis by simp
  next
    case False
    with Cons.prems(2,3) have "x \<in> set xs" by auto
    moreover have "distinct (map k xs)" using Cons.prems(1) by simp
    ultimately have "List.find P xs = Some x"
      using Cons.prems(3,4) by (blast intro: Cons.IH list.set_intros(2))
    with False show ?thesis by simp
  qed
qed simp

lemma filter_none: "\<forall>x \<in> set xs. \<not> P x \<Longrightarrow> filter P xs = []"
  by (induction xs) auto

end
