(* ===== verification/Json.thy ===== *)
theory Json
  imports Prelude
begin

text \<open>
  What the source uses of Go's \<^verbatim>\<open>encoding/json\<close> and \<^verbatim>\<open>strconv\<close>. A byte string the program stores
  or receives is a \<open>payload\<close>: either a JSON text, represented by the value it denotes (so two texts
  that differ in insignificant white space only are the same), or bytes that are no JSON text.
  Encoding a struct builds the object its struct tags describe; decoding follows the package: keys
  match a tag up to case folding, unknown keys are ignored, \<^verbatim>\<open>null\<close> leaves a field as it is, a value
  of the wrong type is an error.
\<close>

section \<open>JSON values and byte strings\<close>

datatype json =
    JNull
  | JBool bool
  | JInt int            \<comment> \<open>a number literal without fraction or exponent\<close>
  | JDec string         \<comment> \<open>any other number literal\<close>
  | JStr string
  | JArr "json list"
  | JObj "(string \<times> json) list"

datatype payload =
    Doc json
  | Raw string

section \<open>Decoding\<close>

text \<open>
  Case folding of object keys: ASCII case, and the two other runes that fold to an ASCII letter,
  long s (C5 BF) and the Kelvin sign (E2 84 AA).
\<close>

definition ascii_lower :: "char \<Rightarrow> char" where
  "ascii_lower c = (if 65 \<le> byte c \<and> byte c \<le> 90 then char_of (byte c + 32) else c)"

fun fold_key :: "string \<Rightarrow> string" where
  "fold_key [] = []"
| "fold_key [c] = [ascii_lower c]"
| "fold_key [c, d] =
     (if byte c = 197 \<and> byte d = 191 then ''s'' else [ascii_lower c, ascii_lower d])"
| "fold_key (c # d # e # s) =
     (if byte c = 197 \<and> byte d = 191 then CHR ''s'' # fold_key (e # s)
      else if byte c = 226 \<and> byte d = 132 \<and> byte e = 170 then CHR ''k'' # fold_key s
      else ascii_lower c # fold_key (d # e # s))"

definition key_is :: "string \<Rightarrow> string \<Rightarrow> bool" where
  "key_is key tag \<longleftrightarrow> key = tag \<or> fold_key key = fold_key tag"

fun decode_fields ::
  "(string \<Rightarrow> json \<Rightarrow> 's \<Rightarrow> 's option) \<Rightarrow> (string \<times> json) list \<Rightarrow> 's \<Rightarrow> 's option" where
  "decode_fields f [] s = Some s"
| "decode_fields f ((k, v) # kvs) s =
     (case f k v s of None \<Rightarrow> None | Some s' \<Rightarrow> decode_fields f kvs s')"

fun decode_struct :: "(string \<Rightarrow> json \<Rightarrow> 's \<Rightarrow> 's option) \<Rightarrow> json \<Rightarrow> 's \<Rightarrow> 's option" where
  "decode_struct f (JObj kvs) s = decode_fields f kvs s"
| "decode_struct f JNull s = Some s"
| "decode_struct f _ s = None"

fun decode_string :: "json \<Rightarrow> string \<Rightarrow> string option" where
  "decode_string (JStr v) old = Some v"
| "decode_string JNull old = Some old"
| "decode_string _ old = None"

fun decode_int64 :: "json \<Rightarrow> int64 \<Rightarrow> int64 option" where
  "decode_int64 (JInt i) old = (if fits64 i then Some (word_of_int i) else None)"
| "decode_int64 JNull old = Some old"
| "decode_int64 _ old = None"

text \<open>A slice: \<open>None\<close> is the nil slice, which encodes as \<^verbatim>\<open>null\<close>.\<close>

fun decode_slice :: "(json \<Rightarrow> 'a option) \<Rightarrow> json \<Rightarrow> 'a list option \<Rightarrow> 'a list option option" where
  "decode_slice f (JArr js) old = map_option Some (those (map f js))"
| "decode_slice f JNull old = Some None"
| "decode_slice f _ old = None"

text \<open>A \<^verbatim>\<open>json.RawMessage\<close> keeps the text it was given, \<^verbatim>\<open>null\<close> included; \<open>None\<close> is nil.\<close>

type_synonym RawMessage = "json option"

fun encode_raw :: "RawMessage \<Rightarrow> json" where
  "encode_raw None = JNull"
| "encode_raw (Some j) = j"

fun encode_slice :: "('a \<Rightarrow> json) \<Rightarrow> 'a list option \<Rightarrow> json" where
  "encode_slice f None = JNull"
| "encode_slice f (Some xs) = JArr (map f xs)"

definition encode_int64 :: "int64 \<Rightarrow> json" where
  "encode_int64 i = JInt (sint i)"

lemma decode_encode_int64 [simp]: "decode_int64 (encode_int64 i) old = Some i"
  using sint64_fits [of i] by (simp add: encode_int64_def)

lemma those_map_Some: "(\<And>x. x \<in> set xs \<Longrightarrow> g x = Some (h x)) \<Longrightarrow> those (map g xs) = Some (map h xs)"
  by (induction xs) auto

lemma decode_encode_slice:
  assumes "\<And>x. dec (enc x) = Some x"
  shows "decode_slice dec (encode_slice enc xs) old = Some xs"
  using those_map_Some [where g = "\<lambda>x. dec (enc x)" and h = id] assms
  by (cases xs) (auto simp: comp_def)

section \<open>Numbers\<close>

text \<open>\<^verbatim>\<open>strconv.ParseInt(s, 10, 64)\<close> returns a value also with an error: 0 on a syntax error, the
  nearest bound when the number does not fit. \<^verbatim>\<open>strconv.Atoi\<close> agrees with it on 64-bit platforms.\<close>

definition is_digit :: "char \<Rightarrow> bool" where
  "is_digit c \<longleftrightarrow> 48 \<le> byte c \<and> byte c \<le> 57"

definition digits_value :: "string \<Rightarrow> nat" where
  "digits_value s = foldl (\<lambda>n c. 10 * n + (byte c - 48)) 0 s"

definition split_sign :: "string \<Rightarrow> bool \<times> string" where
  "split_sign s =
     (case s of
        c # ds \<Rightarrow> if c = CHR ''-'' then (True, ds) else if c = CHR ''+'' then (False, ds)
                 else (False, s)
      | [] \<Rightarrow> (False, []))"

datatype num_error = ErrSyntax | ErrRange

definition ParseInt :: "string \<Rightarrow> int64 \<times> num_error option" where
  "ParseInt s =
     (let (neg, ds) = split_sign s;
          v = (if neg then - int (digits_value ds) else int (digits_value ds)) in
      if ds = [] \<or> \<not> list_all is_digit ds then (0, Some ErrSyntax)
      else if v < - (2 ^ 63) then (word_of_int (- (2 ^ 63)), Some ErrRange)
      else if 2 ^ 63 \<le> v then (word_of_int (2 ^ 63 - 1), Some ErrRange)
      else (word_of_int v, None))"

lemma byte_digit: "n < 10 \<Longrightarrow> byte (digit n) = 48 + n"
  by (simp add: digit_def)

lemma digits_value_snoc: "digits_value (s @ [c]) = 10 * digits_value s + (byte c - 48)"
  by (simp add: digits_value_def)

lemma is_digit_digit: "n < 10 \<Longrightarrow> is_digit (digit n)"
  by (simp add: is_digit_def byte_digit)

lemma show_nat_digits: "list_all is_digit (show_nat n)"
proof (induction n rule: show_nat.induct)
  case (1 n)
  show ?case
    by (subst show_nat.simps) (use 1 in \<open>auto simp: is_digit_digit\<close>)
qed

lemma show_nat_nonempty: "show_nat n \<noteq> []"
  by (subst show_nat.simps) simp

lemma digits_value_show: "digits_value (show_nat n) = n"
proof (induction n rule: show_nat.induct)
  case (1 n)
  show ?case
  proof (cases "n < 10")
    case True
    then show ?thesis by (subst show_nat.simps) (simp add: digits_value_def byte_digit)
  next
    case False
    with 1 have "digits_value (show_nat (n div 10)) = n div 10" by simp
    with False show ?thesis
      by (subst show_nat.simps) (simp add: digits_value_snoc byte_digit)
  qed
qed

lemma split_sign_show: "split_sign (show_int i) = (i < 0, show_nat (nat \<bar>i\<bar>))"
proof (cases "show_nat (nat i)")
  case Nil
  then show ?thesis by (simp add: show_nat_nonempty)
next
  case (Cons c ds)
  with show_nat_digits [of "nat i"] have "is_digit c" by simp
  then have "c \<noteq> CHR ''-''" "c \<noteq> CHR ''+''" by (auto simp: is_digit_def)
  with Cons show ?thesis by (simp add: split_sign_def show_int_def)
qed

lemma ParseInt_show_int: "fits64 i \<Longrightarrow> ParseInt (show_int i) = (word_of_int i, None)"
  by (simp add: ParseInt_def split_sign_show show_nat_nonempty show_nat_digits digits_value_show)

end
