(* ===== verification/Models.thy ===== *)
theory Models
  imports Json
begin

text \<open>
  The row types of \<^verbatim>\<open>internal/db/models.go\<close>. A Go string type with named constants stays a string
  (any string can be in a request); which strings PostgreSQL stores is decided by the enum types of
  \<^verbatim>\<open>db/migrations\<close>, in \<open>Queries\<close>. A \<^verbatim>\<open>pgtype.Timestamptz\<close> is an optional instant (in nanoseconds),
  \<open>None\<close> for \<^verbatim>\<open>Valid: false\<close>; a \<^verbatim>\<open>pgtype.Text\<close> is an optional string. A JSONB column is the JSON
  value it holds.
\<close>

type_synonym Timestamptz = "int option"
type_synonym Text = "string option"

section \<open>Enumerations\<close>

type_synonym AccountType = string
type_synonym OutboxStatus = string
type_synonym PostingDirection = string

definition AccountTypeAsset :: AccountType where "AccountTypeAsset = ''asset''"
definition AccountTypeLiability :: AccountType where "AccountTypeLiability = ''liability''"
definition AccountTypeEquity :: AccountType where "AccountTypeEquity = ''equity''"
definition AccountTypeRevenue :: AccountType where "AccountTypeRevenue = ''revenue''"
definition AccountTypeExpense :: AccountType where "AccountTypeExpense = ''expense''"

definition OutboxStatusPending :: OutboxStatus where "OutboxStatusPending = ''pending''"
definition OutboxStatusPublished :: OutboxStatus where "OutboxStatusPublished = ''published''"
definition OutboxStatusFailed :: OutboxStatus where "OutboxStatusFailed = ''failed''"

definition PostingDirectionDebit :: PostingDirection where "PostingDirectionDebit = ''debit''"
definition PostingDirectionCredit :: PostingDirection where "PostingDirectionCredit = ''credit''"

lemmas enum_defs [ledger_defs] =
  AccountTypeAsset_def AccountTypeLiability_def AccountTypeEquity_def AccountTypeRevenue_def
  AccountTypeExpense_def OutboxStatusPending_def OutboxStatusPublished_def OutboxStatusFailed_def
  PostingDirectionDebit_def PostingDirectionCredit_def

lemma direction_distinct [simp]:
  "PostingDirectionDebit \<noteq> PostingDirectionCredit" "PostingDirectionCredit \<noteq> PostingDirectionDebit"
  by (simp_all add: enum_defs)

lemma status_distinct [simp]:
  "OutboxStatusPending \<noteq> OutboxStatusPublished" "OutboxStatusPublished \<noteq> OutboxStatusPending"
  "OutboxStatusPending \<noteq> OutboxStatusFailed" "OutboxStatusFailed \<noteq> OutboxStatusPending"
  "OutboxStatusPublished \<noteq> OutboxStatusFailed" "OutboxStatusFailed \<noteq> OutboxStatusPublished"
  by (simp_all add: enum_defs)

section \<open>Scanning and producing driver values\<close>

text \<open>
  What a driver hands to \<^verbatim>\<open>Scan\<close>: nil, bytes, a string, or a value of another Go type (named by
  its \<^verbatim>\<open>%T\<close>).
\<close>

datatype driver_value = DNil | DBytes string | DString string | DOther string

fun go_type :: "driver_value \<Rightarrow> string" where
  "go_type DNil = ''<nil>''"
| "go_type (DBytes _) = ''[]uint8''"
| "go_type (DString _) = ''string''"
| "go_type (DOther t) = t"

fun AccountType_Scan :: "driver_value \<Rightarrow> string + AccountType" where
  "AccountType_Scan (DBytes s) = Inr s"
| "AccountType_Scan (DString s) = Inr s"
| "AccountType_Scan src = Inl (''unsupported scan type for AccountType: '' @ go_type src)"

fun OutboxStatus_Scan :: "driver_value \<Rightarrow> string + OutboxStatus" where
  "OutboxStatus_Scan (DBytes s) = Inr s"
| "OutboxStatus_Scan (DString s) = Inr s"
| "OutboxStatus_Scan src = Inl (''unsupported scan type for OutboxStatus: '' @ go_type src)"

fun PostingDirection_Scan :: "driver_value \<Rightarrow> string + PostingDirection" where
  "PostingDirection_Scan (DBytes s) = Inr s"
| "PostingDirection_Scan (DString s) = Inr s"
| "PostingDirection_Scan src = Inl (''unsupported scan type for PostingDirection: '' @ go_type src)"

record NullAccountType =
  nat_AccountType :: AccountType
  nat_Valid :: bool

record NullOutboxStatus =
  nos_OutboxStatus :: OutboxStatus
  nos_Valid :: bool

record NullPostingDirection =
  npd_PostingDirection :: PostingDirection
  npd_Valid :: bool

text \<open>
  The nullable scanners set \<^verbatim>\<open>Valid\<close> before they scan, so on an error the receiver is changed too:
  the result is the error, if any, and the receiver.
\<close>

fun NullAccountType_Scan ::
  "NullAccountType \<Rightarrow> driver_value \<Rightarrow> string option \<times> NullAccountType" where
  "NullAccountType_Scan ns DNil = (None, ns\<lparr>nat_AccountType := '''', nat_Valid := False\<rparr>)"
| "NullAccountType_Scan ns value =
     (case AccountType_Scan value of
        Inl e \<Rightarrow> (Some e, ns\<lparr>nat_Valid := True\<rparr>)
      | Inr s \<Rightarrow> (None, ns\<lparr>nat_AccountType := s, nat_Valid := True\<rparr>))"

fun NullOutboxStatus_Scan ::
  "NullOutboxStatus \<Rightarrow> driver_value \<Rightarrow> string option \<times> NullOutboxStatus" where
  "NullOutboxStatus_Scan ns DNil = (None, ns\<lparr>nos_OutboxStatus := '''', nos_Valid := False\<rparr>)"
| "NullOutboxStatus_Scan ns value =
     (case OutboxStatus_Scan value of
        Inl e \<Rightarrow> (Some e, ns\<lparr>nos_Valid := True\<rparr>)
      | Inr s \<Rightarrow> (None, ns\<lparr>nos_OutboxStatus := s, nos_Valid := True\<rparr>))"

fun NullPostingDirection_Scan ::
  "NullPostingDirection \<Rightarrow> driver_value \<Rightarrow> string option \<times> NullPostingDirection" where
  "NullPostingDirection_Scan ns DNil =
     (None, ns\<lparr>npd_PostingDirection := '''', npd_Valid := False\<rparr>)"
| "NullPostingDirection_Scan ns value =
     (case PostingDirection_Scan value of
        Inl e \<Rightarrow> (Some e, ns\<lparr>npd_Valid := True\<rparr>)
      | Inr s \<Rightarrow> (None, ns\<lparr>npd_PostingDirection := s, npd_Valid := True\<rparr>))"

definition NullAccountType_Value :: "NullAccountType \<Rightarrow> driver_value" where
  "NullAccountType_Value ns = (if \<not> nat_Valid ns then DNil else DString (nat_AccountType ns))"

definition NullOutboxStatus_Value :: "NullOutboxStatus \<Rightarrow> driver_value" where
  "NullOutboxStatus_Value ns = (if \<not> nos_Valid ns then DNil else DString (nos_OutboxStatus ns))"

definition NullPostingDirection_Value :: "NullPostingDirection \<Rightarrow> driver_value" where
  "NullPostingDirection_Value ns =
     (if \<not> npd_Valid ns then DNil else DString (npd_PostingDirection ns))"

section \<open>Rows\<close>

record Account =
  acc_ID :: int64
  acc_AccountName :: string
  acc_AccountType :: AccountType
  acc_Currency :: string
  acc_Metadata :: RawMessage
  acc_CreatedAt :: Timestamptz
  acc_TenantID :: uuid

record Document =
  doc_ID :: uuid
  doc_TransactionID :: uuid
  doc_Filename :: string
  doc_ContentType :: string
  doc_SizeBytes :: int64
  doc_ObjectKey :: string
  doc_CreatedAt :: Timestamptz
  doc_TenantID :: uuid

record LedgerOutbox =
  ob_ID :: uuid
  ob_EventType :: string
  ob_RoutingKey :: string
  ob_Payload :: json
  ob_Status :: OutboxStatus
  ob_RetryCount :: int32
  ob_MaxRetries :: int32
  ob_LastError :: Text
  ob_CreatedAt :: Timestamptz
  ob_ProcessedAt :: Timestamptz
  ob_TenantID :: uuid

record Posting =
  pst_ID :: int64
  pst_TransactionID :: uuid
  pst_AccountID :: int64
  pst_Amount :: int64
  pst_Direction :: PostingDirection
  pst_CreatedAt :: Timestamptz
  pst_TenantID :: uuid

record Tenant =
  tn_ID :: uuid
  tn_Name :: string
  tn_CreatedAt :: Timestamptz

record Transaction =
  tx_ID :: uuid
  tx_IdempotencyKey :: string
  tx_Description :: string
  tx_Metadata :: RawMessage
  tx_CreatedAt :: Timestamptz
  tx_TenantID :: uuid

record User =
  usr_ID :: uuid
  usr_Email :: string
  usr_PasswordHash :: string
  usr_Role :: string
  usr_CreatedAt :: Timestamptz
  usr_UpdatedAt :: Timestamptz
  usr_TenantID :: uuid

end
