(* ===== verification/Store.thy ===== *)
theory Store
  imports Models
begin

text \<open>
  The PostgreSQL database the program runs on, as the migrations under \<^verbatim>\<open>db/migrations\<close> define it:
  the seven tables, the two sequences behind the BIGSERIAL columns, the constraints and the deferred
  balance trigger, and what a transaction does with them. The statements of \<^verbatim>\<open>queries.sql\<close> are in
  \<open>Queries\<close>.

  Rows are kept in the order they were inserted. What the server generates (random UUIDs,
  \<^verbatim>\<open>now()\<close>) and whether a call reaches it are arguments of the operations that use them.
\<close>

section \<open>Errors and state\<close>

datatype pg_error =
    NoRows                         \<comment> \<open>\<^verbatim>\<open>pgx.ErrNoRows\<close>\<close>
  | UniqueViolation string
  | ForeignKeyViolation string
  | CheckViolation string
  | NotNullViolation string
  | InvalidEnumValue string
  | ValueTooLong nat               \<comment> \<open>a VARCHAR of that many characters\<close>
  | NumericOutOfRange
  | NegativeLimit
  | NegativeOffset
  | SequenceLimit string
  | ConnError string               \<comment> \<open>the connection, the server or the serializability check failed\<close>

record db =
  db_tenants :: "Tenant list"
  db_users :: "User list"
  db_accounts :: "Account list"
  db_transactions :: "Transaction list"
  db_postings :: "Posting list"
  db_documents :: "Document list"
  db_outbox :: "LedgerOutbox list"
  db_account_seq :: int64          \<comment> \<open>last value handed out by \<^verbatim>\<open>accounts_id_seq\<close>\<close>
  db_posting_seq :: int64          \<comment> \<open>last value handed out by \<^verbatim>\<open>postings_id_seq\<close>\<close>
  db_deferred :: "uuid list"       \<comment> \<open>queued calls of the balance trigger, by transaction id\<close>

text \<open>The all-zero UUID: \<^verbatim>\<open>uuid.Nil\<close>, and the default tenant of migration 5.\<close>

definition uuid_Nil :: uuid where
  "uuid_Nil = 0"

definition initial_db :: "int \<Rightarrow> db" where
  "initial_db now =
     \<lparr>db_tenants = [\<lparr>tn_ID = uuid_Nil, tn_Name = ''Default Tenant'', tn_CreatedAt = Some now\<rparr>],
      db_users = [], db_accounts = [], db_transactions = [], db_postings = [],
      db_documents = [], db_outbox = [], db_account_seq = 0, db_posting_seq = 0,
      db_deferred = []\<rparr>"

section \<open>Inserting a row\<close>

text \<open>The constraints a statement checks, in order: the first that is violated is its error.\<close>

fun first_violation :: "(bool \<times> pg_error) list \<Rightarrow> pg_error option" where
  "first_violation [] = None"
| "first_violation ((bad, e) # cs) = (if bad then Some e else first_violation cs)"

definition insert_row ::
  "(bool \<times> pg_error) list \<Rightarrow> ('a \<Rightarrow> db \<Rightarrow> db) \<Rightarrow> 'a \<Rightarrow> db \<Rightarrow> (pg_error + 'a) \<times> db" where
  "insert_row checks put row d =
     (case first_violation checks of Some e \<Rightarrow> (Inl e, d) | None \<Rightarrow> (Inr row, put row d))"

lemma first_violation_None: "first_violation cs = None \<longleftrightarrow> (\<forall>(bad, e) \<in> set cs. \<not> bad)"
  by (induction cs) (auto split: if_splits)

lemma insert_row_Inr:
  "insert_row cs put row d = (Inr r, d') \<longleftrightarrow>
     first_violation cs = None \<and> r = row \<and> d' = put row d"
  by (auto simp: insert_row_def split: option.splits)

lemma insert_row_Inl:
  "insert_row cs put row d = (Inl e, d') \<longleftrightarrow> first_violation cs = Some e \<and> d' = d"
  by (auto simp: insert_row_def split: option.splits)

definition put_tenant :: "Tenant \<Rightarrow> db \<Rightarrow> db" where
  "put_tenant r d = d\<lparr>db_tenants := db_tenants d @ [r]\<rparr>"

definition put_user :: "User \<Rightarrow> db \<Rightarrow> db" where
  "put_user r d = d\<lparr>db_users := db_users d @ [r]\<rparr>"

definition put_account :: "Account \<Rightarrow> db \<Rightarrow> db" where
  "put_account r d = d\<lparr>db_accounts := db_accounts d @ [r]\<rparr>"

definition put_transaction :: "Transaction \<Rightarrow> db \<Rightarrow> db" where
  "put_transaction r d = d\<lparr>db_transactions := db_transactions d @ [r]\<rparr>"

definition put_posting :: "Posting \<Rightarrow> db \<Rightarrow> db" where
  "put_posting r d =
     d\<lparr>db_postings := db_postings d @ [r], db_deferred := db_deferred d @ [pst_TransactionID r]\<rparr>"

definition put_document :: "Document \<Rightarrow> db \<Rightarrow> db" where
  "put_document r d = d\<lparr>db_documents := db_documents d @ [r]\<rparr>"

definition put_outbox :: "LedgerOutbox \<Rightarrow> db \<Rightarrow> db" where
  "put_outbox r d = d\<lparr>db_outbox := db_outbox d @ [r]\<rparr>"

lemmas put_defs [ledger_defs] =
  put_tenant_def put_user_def put_account_def put_transaction_def put_posting_def
  put_document_def put_outbox_def

text \<open>BIGSERIAL: the next value; a value once handed out is never given back.\<close>

definition nextval :: "string \<Rightarrow> int64 \<Rightarrow> pg_error + int64" where
  "nextval name prev =
     (if sint prev < 2 ^ 63 - 1 then Inr (prev + 1) else Inl (SequenceLimit name))"

lemma nextval_Inr: "nextval name prev = Inr i \<Longrightarrow> sint i = sint prev + 1 \<and> i = prev + 1"
  using sint64_succ [of prev] by (simp add: nextval_def split: if_splits)

section \<open>Tables with a key\<close>

text \<open>
  Every table is appended to by \<^verbatim>\<open>INSERT\<close> and read by key. This interface is what the queries use
  of a table and a (primary or unique) key of it; it is interpreted below for each table.
\<close>

locale keyed_table =
  fixes rows :: "db \<Rightarrow> 'a list"
    and put :: "'a \<Rightarrow> db \<Rightarrow> db"
    and key :: "'a \<Rightarrow> 'k"
  assumes rows_put: "rows (put r d) = rows d @ [r]"
begin

definition fresh :: "'k \<Rightarrow> db \<Rightarrow> bool" where
  "fresh k d \<longleftrightarrow> (\<forall>r \<in> set (rows d). key r \<noteq> k)"

lemma distinct_put:
  "distinct (map key (rows d)) \<Longrightarrow> fresh (key r) d \<Longrightarrow> distinct (map key (rows (put r d)))"
  by (auto simp: rows_put fresh_def)

lemma find_put_new:
  "fresh (key r) d \<Longrightarrow> List.find (\<lambda>x. key x = key r) (rows (put r d)) = Some r"
  by (simp add: rows_put fresh_def find_append_None find_None_all)

lemma find_put_other:
  "\<not> P r \<Longrightarrow> List.find P (rows (put r d)) = List.find P (rows d)"
  by (cases "List.find P (rows d)") (auto simp: rows_put find_append_None find_append_Some)

lemma find_put_old:
  "List.find P (rows d) = Some x \<Longrightarrow> List.find P (rows (put r d)) = Some x"
  by (simp add: rows_put find_append_Some)

lemma find_key:
  "distinct (map key (rows d)) \<Longrightarrow> r \<in> set (rows d)
    \<Longrightarrow> List.find (\<lambda>x. key x = key r) (rows d) = Some r"
  by (rule find_unique [where k = key]) auto

lemma not_fresh_put: "\<not> fresh (key r) (put r d)"
  by (auto simp: rows_put fresh_def)

lemma fresh_put: "fresh k (put r d) \<longleftrightarrow> key r \<noteq> k \<and> fresh k d"
  by (auto simp: rows_put fresh_def)

end

interpretation tenants_pk: keyed_table db_tenants put_tenant tn_ID
  by unfold_locales (simp add: put_defs)

interpretation users_pk: keyed_table db_users put_user usr_ID
  by unfold_locales (simp add: put_defs)

interpretation users_email: keyed_table db_users put_user "\<lambda>u. (usr_TenantID u, usr_Email u)"
  by unfold_locales (simp add: put_defs)

interpretation accounts_pk: keyed_table db_accounts put_account acc_ID
  by unfold_locales (simp add: put_defs)

interpretation accounts_name: keyed_table db_accounts put_account
    "\<lambda>a. (acc_TenantID a, acc_AccountName a)"
  by unfold_locales (simp add: put_defs)

interpretation transactions_pk: keyed_table db_transactions put_transaction tx_ID
  by unfold_locales (simp add: put_defs)

interpretation transactions_key: keyed_table db_transactions put_transaction
    "\<lambda>t. (tx_TenantID t, tx_IdempotencyKey t)"
  by unfold_locales (simp add: put_defs)

interpretation postings_pk: keyed_table db_postings put_posting pst_ID
  by unfold_locales (simp add: put_defs)

interpretation documents_pk: keyed_table db_documents put_document doc_ID
  by unfold_locales (simp add: put_defs)

interpretation documents_object: keyed_table db_documents put_document doc_ObjectKey
  by unfold_locales (simp add: put_defs)

interpretation outbox_pk: keyed_table db_outbox put_outbox ob_ID
  by unfold_locales (simp add: put_defs)

lemmas fresh_defs =
  tenants_pk.fresh_def users_pk.fresh_def users_email.fresh_def accounts_pk.fresh_def
  accounts_name.fresh_def transactions_pk.fresh_def transactions_key.fresh_def
  postings_pk.fresh_def documents_pk.fresh_def documents_object.fresh_def outbox_pk.fresh_def

section \<open>Sums over postings\<close>

text \<open>
  \<^verbatim>\<open>COALESCE(SUM(CASE WHEN direction = d THEN amount ELSE 0 END), 0)\<close>: PostgreSQL sums BIGINT
  values as NUMERIC, so the sum is exact; a cast or an assignment to BIGINT fails when the sum does
  not fit.
\<close>

definition sum_direction :: "PostingDirection \<Rightarrow> Posting list \<Rightarrow> int" where
  "sum_direction dir ps = (\<Sum>p\<leftarrow>ps. if pst_Direction p = dir then sint (pst_Amount p) else 0)"

definition to_bigint :: "int \<Rightarrow> pg_error + int64" where
  "to_bigint i = (if fits64 i then Inr (word_of_int i) else Inl NumericOutOfRange)"

definition postings_of :: "uuid \<Rightarrow> Posting list \<Rightarrow> Posting list" where
  "postings_of t ps = filter (\<lambda>p. pst_TransactionID p = t) ps"

definition debits_of :: "uuid \<Rightarrow> db \<Rightarrow> int" where
  "debits_of t d = sum_direction PostingDirectionDebit (postings_of t (db_postings d))"

definition credits_of :: "uuid \<Rightarrow> db \<Rightarrow> int" where
  "credits_of t d = sum_direction PostingDirectionCredit (postings_of t (db_postings d))"

lemma sum_direction_simps [simp]:
  "sum_direction dir [] = 0"
  "sum_direction dir (p # ps) =
     (if pst_Direction p = dir then sint (pst_Amount p) else 0) + sum_direction dir ps"
  "sum_direction dir (ps @ qs) = sum_direction dir ps + sum_direction dir qs"
  by (simp_all add: sum_direction_def)

lemma sum_direction_nonneg:
  "\<forall>p \<in> set ps. 0 \<le> sint (pst_Amount p) \<Longrightarrow> 0 \<le> sum_direction dir ps"
  by (induction ps) auto

lemma to_bigint_Inr: "to_bigint i = Inr w \<longleftrightarrow> fits64 i \<and> w = word_of_int i"
  by (auto simp: to_bigint_def)

section \<open>Transactions\<close>

text \<open>
  \<^verbatim>\<open>fn_check_transaction_balance\<close>, run at COMMIT once for each posting inserted in the transaction.
\<close>

definition fn_check_transaction_balance :: "uuid \<Rightarrow> db \<Rightarrow> pg_error option" where
  "fn_check_transaction_balance t d =
     (case to_bigint (debits_of t d) of
        Inl e \<Rightarrow> Some e
      | Inr v_debit_sum \<Rightarrow>
          (case to_bigint (credits_of t d) of
             Inl e \<Rightarrow> Some e
           | Inr v_credit_sum \<Rightarrow>
               if v_debit_sum \<noteq> v_credit_sum then Some (CheckViolation ''trg_check_balance'')
               else None))"

fun run_deferred :: "uuid list \<Rightarrow> db \<Rightarrow> pg_error option" where
  "run_deferred [] d = None"
| "run_deferred (t # ts) d =
     (case fn_check_transaction_balance t d of Some e \<Rightarrow> Some e | None \<Rightarrow> run_deferred ts d)"

text \<open>
  A transaction works on the committed state (SERIALIZABLE: as if it ran alone; a conflict is a
  \<open>ConnError\<close> of one of its calls). COMMIT runs the queued triggers; if one raises, or on ROLLBACK,
  every change is undone but the sequences, which are not transactional.
\<close>

definition commit_db :: "db \<Rightarrow> pg_error + db" where
  "commit_db d =
     (case run_deferred (db_deferred d) d of
        Some e \<Rightarrow> Inl e
      | None \<Rightarrow> Inr (d\<lparr>db_deferred := []\<rparr>))"

definition rollback_db :: "db \<Rightarrow> db \<Rightarrow> db" where
  "rollback_db start d =
     start\<lparr>db_account_seq := db_account_seq d, db_posting_seq := db_posting_seq d\<rparr>"

text \<open>A statement on the pool is its own transaction; \<open>flt\<close> is set when the call fails outside the
  model's control.\<close>

definition autocommit ::
  "string option \<Rightarrow> (db \<Rightarrow> (pg_error + 'a) \<times> db) \<Rightarrow> db \<Rightarrow> (pg_error + 'a) \<times> db" where
  "autocommit flt q d =
     (case flt of
        Some e \<Rightarrow> (Inl (ConnError e), d)
      | None \<Rightarrow>
          (case q d of
             (Inl e, d') \<Rightarrow> (Inl e, rollback_db d d')
           | (Inr r, d') \<Rightarrow>
               (case commit_db d' of
                  Inl e \<Rightarrow> (Inl e, rollback_db d d')
                | Inr d'' \<Rightarrow> (Inr r, d''))))"

definition read_query :: "string option \<Rightarrow> pg_error + 'a \<Rightarrow> pg_error + 'a" where
  "read_query flt r = (case flt of Some e \<Rightarrow> Inl (ConnError e) | None \<Rightarrow> r)"

lemma check_balance_None:
  "fn_check_transaction_balance t d = None \<longleftrightarrow>
     fits64 (debits_of t d) \<and> debits_of t d = credits_of t d"
proof -
  have "word_of_int i = (word_of_int j :: int64) \<longleftrightarrow> i = j" if "fits64 i" "fits64 j" for i j
    using sint64_of_int [of i] sint64_of_int [of j] that by metis
  then show ?thesis
    by (auto simp: fn_check_transaction_balance_def to_bigint_def)
qed

lemma run_deferred_None:
  "run_deferred ts d = None \<longleftrightarrow> (\<forall>t \<in> set ts. fn_check_transaction_balance t d = None)"
  by (induction ts) (auto split: option.splits)

lemma commit_db_Inr:
  "commit_db d = Inr d' \<longleftrightarrow>
     (\<forall>t \<in> set (db_deferred d). fits64 (debits_of t d) \<and> debits_of t d = credits_of t d)
     \<and> d' = d\<lparr>db_deferred := []\<rparr>"
proof -
  have "run_deferred (db_deferred d) d = None \<longleftrightarrow>
      (\<forall>t \<in> set (db_deferred d). fits64 (debits_of t d) \<and> debits_of t d = credits_of t d)"
    by (simp only: run_deferred_None check_balance_None)
  then show ?thesis
    by (cases "run_deferred (db_deferred d) d") (auto simp: commit_db_def)
qed

end
