(* ===== verification/Queries.thy ===== *)
theory Queries
  imports Store
begin

text \<open>
  The queries of \<^verbatim>\<open>internal/db/queries.sql.go\<close> (generated by sqlc from \<^verbatim>\<open>db/queries/queries.sql\<close>), one
  definition \<open>q_Name\<close> per method of \<^verbatim>\<open>Queries\<close>: the SQL text over the tables of \<open>Store\<close>, and the
  scan of the result. Inserts check the constraints of the migrations in the order PostgreSQL does:
  casts to enum and VARCHAR types, CHECK, unique indexes, foreign keys.

  Where a SELECT orders by a column with ties, SQL leaves their order open; the model keeps the
  order of insertion (\<open>sort_key\<close> is stable).
\<close>

section \<open>Reading results\<close>

text \<open>A \<^verbatim>\<open>:one\<close> query scans the first row, or fails with \<^verbatim>\<open>pgx.ErrNoRows\<close>.\<close>

fun query_one :: "'a list \<Rightarrow> pg_error + 'a" where
  "query_one [] = Inl NoRows"
| "query_one (r # rs) = Inr r"

lemma query_one_Inr: "query_one xs = Inr r \<Longrightarrow> r \<in> set xs"
  by (cases xs) auto

lemma query_one_Inl: "query_one xs = Inl e \<longleftrightarrow> xs = [] \<and> e = NoRows"
  by (cases xs) auto

definition limit_rows :: "int32 \<Rightarrow> 'a list \<Rightarrow> pg_error + 'a list" where
  "limit_rows n rs = (if sint n < 0 then Inl NegativeLimit else Inr (take (nat (sint n)) rs))"

definition limit_offset_rows :: "int32 \<Rightarrow> int32 \<Rightarrow> 'a list \<Rightarrow> pg_error + 'a list" where
  "limit_offset_rows n off rs =
     (if sint n < 0 then Inl NegativeLimit
      else if sint off < 0 then Inl NegativeOffset
      else Inr (take (nat (sint n)) (drop (nat (sint off)) rs)))"

text \<open>The sort key of a timestamp column that is NOT NULL.\<close>

definition ts_key :: "Timestamptz \<Rightarrow> int" where
  "ts_key t = (case t of Some i \<Rightarrow> i | None \<Rightarrow> 0)"

lemma ts_key_Some [simp]: "ts_key (Some i) = i"
  by (simp add: ts_key_def)

section \<open>Enum and VARCHAR types of the schema\<close>

definition account_type_enum :: "string list" where
  "account_type_enum = [''asset'', ''liability'', ''equity'', ''revenue'', ''expense'']"

definition posting_direction_enum :: "string list" where
  "posting_direction_enum = [''debit'', ''credit'']"

definition too_long :: "nat \<Rightarrow> string \<Rightarrow> bool" where
  "too_long n s \<longleftrightarrow> n < RuneCountInString s"

definition tenant_exists :: "uuid \<Rightarrow> db \<Rightarrow> bool" where
  "tenant_exists t d \<longleftrightarrow> (\<exists>r \<in> set (db_tenants d). tn_ID r = t)"

definition account_exists :: "int64 \<Rightarrow> db \<Rightarrow> bool" where
  "account_exists i d \<longleftrightarrow> (\<exists>r \<in> set (db_accounts d). acc_ID r = i)"

definition transaction_exists :: "uuid \<Rightarrow> db \<Rightarrow> bool" where
  "transaction_exists t d \<longleftrightarrow> (\<exists>r \<in> set (db_transactions d). tx_ID r = t)"

lemmas exists_defs = tenant_exists_def account_exists_def transaction_exists_def

section \<open>Tenants and users\<close>

definition q_CreateTenant ::
  "uuid \<Rightarrow> int \<Rightarrow> string \<Rightarrow> db \<Rightarrow> (pg_error + Tenant) \<times> db" where
  "q_CreateTenant new_id now name d =
     insert_row
       [(too_long 255 name, ValueTooLong 255),
        (\<exists>r \<in> set (db_tenants d). tn_ID r = new_id, UniqueViolation ''tenants_pkey'')]
       put_tenant
       \<lparr>tn_ID = new_id, tn_Name = name, tn_CreatedAt = Some now\<rparr> d"

record CreateUserParams =
  cup_TenantID :: uuid
  cup_Email :: string
  cup_PasswordHash :: string
  cup_Role :: string

definition q_CreateUser ::
  "uuid \<Rightarrow> int \<Rightarrow> CreateUserParams \<Rightarrow> db \<Rightarrow> (pg_error + User) \<times> db" where
  "q_CreateUser new_id now arg d =
     insert_row
       [(too_long 255 (cup_Email arg), ValueTooLong 255),
        (too_long 255 (cup_PasswordHash arg), ValueTooLong 255),
        (too_long 50 (cup_Role arg), ValueTooLong 50),
        (\<exists>r \<in> set (db_users d). usr_ID r = new_id, UniqueViolation ''users_pkey''),
        (\<exists>r \<in> set (db_users d). usr_TenantID r = cup_TenantID arg \<and> usr_Email r = cup_Email arg,
         UniqueViolation ''users_tenant_email_key''),
        (\<not> tenant_exists (cup_TenantID arg) d, ForeignKeyViolation ''users_tenant_id_fkey'')]
       put_user
       \<lparr>usr_ID = new_id, usr_Email = cup_Email arg, usr_PasswordHash = cup_PasswordHash arg,
        usr_Role = cup_Role arg, usr_CreatedAt = Some now, usr_UpdatedAt = Some now,
        usr_TenantID = cup_TenantID arg\<rparr> d"

definition q_GetUserByEmail :: "string \<Rightarrow> db \<Rightarrow> pg_error + User" where
  "q_GetUserByEmail email d = query_one (filter (\<lambda>u. usr_Email u = email) (db_users d))"

section \<open>Accounts\<close>

record CreateAccountParams =
  cap_TenantID :: uuid
  cap_AccountName :: string
  cap_AccountType :: AccountType
  cap_Currency :: string
  cap_Metadata :: RawMessage

definition q_CreateAccount ::
  "int \<Rightarrow> CreateAccountParams \<Rightarrow> db \<Rightarrow> (pg_error + Account) \<times> db" where
  "q_CreateAccount now arg d =
     (if cap_AccountType arg \<notin> set account_type_enum
      then (Inl (InvalidEnumValue ''account_type''), d)
      else case nextval ''accounts_id_seq'' (db_account_seq d) of
        Inl e \<Rightarrow> (Inl e, d)
      | Inr i \<Rightarrow>
          insert_row
            [(\<exists>r \<in> set (db_accounts d). acc_ID r = i, UniqueViolation ''accounts_pkey''),
             (\<exists>r \<in> set (db_accounts d).
                acc_TenantID r = cap_TenantID arg \<and> acc_AccountName r = cap_AccountName arg,
              UniqueViolation ''accounts_tenant_account_name_key''),
             (\<not> tenant_exists (cap_TenantID arg) d,
              ForeignKeyViolation ''accounts_tenant_id_fkey'')]
            put_account
            \<lparr>acc_ID = i, acc_AccountName = cap_AccountName arg,
             acc_AccountType = cap_AccountType arg, acc_Currency = cap_Currency arg,
             acc_Metadata = cap_Metadata arg, acc_CreatedAt = Some now,
             acc_TenantID = cap_TenantID arg\<rparr>
            (d\<lparr>db_account_seq := i\<rparr>))"

definition q_CountAccounts :: "uuid \<Rightarrow> db \<Rightarrow> int64" where
  "q_CountAccounts tenant d =
     of_nat (length (filter (\<lambda>a. acc_TenantID a = tenant) (db_accounts d)))"

record GetAccountByIDParams =
  gap_ID :: int64
  gap_TenantID :: uuid

definition q_GetAccountByID :: "GetAccountByIDParams \<Rightarrow> db \<Rightarrow> pg_error + Account" where
  "q_GetAccountByID arg d =
     query_one (filter (\<lambda>a. acc_ID a = gap_ID arg \<and> acc_TenantID a = gap_TenantID arg)
       (db_accounts d))"

record GetAccountByNameParams =
  gan_AccountName :: string
  gan_TenantID :: uuid

definition q_GetAccountByName :: "GetAccountByNameParams \<Rightarrow> db \<Rightarrow> pg_error + Account" where
  "q_GetAccountByName arg d =
     query_one (filter (\<lambda>a. acc_AccountName a = gan_AccountName arg
       \<and> acc_TenantID a = gan_TenantID arg) (db_accounts d))"

record ListAccountsParams =
  lap_TenantID :: uuid
  lap_Cursor :: int64
  lap_PageSize :: int32

definition q_ListAccounts :: "ListAccountsParams \<Rightarrow> db \<Rightarrow> pg_error + Account list" where
  "q_ListAccounts arg d =
     limit_rows (lap_PageSize arg)
       (sort_key (\<lambda>a. sint (acc_ID a))
         (filter (\<lambda>a. acc_TenantID a = lap_TenantID arg \<and> sint (lap_Cursor arg) < sint (acc_ID a))
           (db_accounts d)))"

section \<open>Transactions\<close>

record CreateTransactionParams =
  ctp_TenantID :: uuid
  ctp_IdempotencyKey :: string
  ctp_Description :: string
  ctp_Metadata :: RawMessage

definition q_CreateTransaction ::
  "uuid \<Rightarrow> int \<Rightarrow> CreateTransactionParams \<Rightarrow> db \<Rightarrow> (pg_error + Transaction) \<times> db" where
  "q_CreateTransaction new_id now arg d =
     insert_row
       [(\<exists>r \<in> set (db_transactions d). tx_ID r = new_id, UniqueViolation ''transactions_pkey''),
        (\<exists>r \<in> set (db_transactions d).
           tx_TenantID r = ctp_TenantID arg \<and> tx_IdempotencyKey r = ctp_IdempotencyKey arg,
         UniqueViolation ''transactions_tenant_idempotency_key_key''),
        (\<not> tenant_exists (ctp_TenantID arg) d,
         ForeignKeyViolation ''transactions_tenant_id_fkey'')]
       put_transaction
       \<lparr>tx_ID = new_id, tx_IdempotencyKey = ctp_IdempotencyKey arg,
        tx_Description = ctp_Description arg, tx_Metadata = ctp_Metadata arg,
        tx_CreatedAt = Some now, tx_TenantID = ctp_TenantID arg\<rparr> d"

definition q_CountTransactions :: "uuid \<Rightarrow> db \<Rightarrow> int64" where
  "q_CountTransactions tenant d =
     of_nat (length (filter (\<lambda>t. tx_TenantID t = tenant) (db_transactions d)))"

record GetTransactionByIDParams =
  gtp_ID :: uuid
  gtp_TenantID :: uuid

definition q_GetTransactionByID ::
  "GetTransactionByIDParams \<Rightarrow> db \<Rightarrow> pg_error + Transaction" where
  "q_GetTransactionByID arg d =
     query_one (filter (\<lambda>t. tx_ID t = gtp_ID arg \<and> tx_TenantID t = gtp_TenantID arg)
       (db_transactions d))"

record GetTransactionByIdempotencyKeyParams =
  gtk_IdempotencyKey :: string
  gtk_TenantID :: uuid

definition q_GetTransactionByIdempotencyKey ::
  "GetTransactionByIdempotencyKeyParams \<Rightarrow> db \<Rightarrow> pg_error + Transaction" where
  "q_GetTransactionByIdempotencyKey arg d =
     query_one (filter (\<lambda>t. tx_IdempotencyKey t = gtk_IdempotencyKey arg
       \<and> tx_TenantID t = gtk_TenantID arg) (db_transactions d))"

record ListTransactionsParams =
  ltp_TenantID :: uuid
  ltp_CursorCreatedAt :: Timestamptz
  ltp_PageSize :: int32

text \<open>A comparison with a NULL cursor is not true, so it selects nothing.\<close>

definition before_cursor :: "Timestamptz \<Rightarrow> Timestamptz \<Rightarrow> bool" where
  "before_cursor created cursor =
     (case (created, cursor) of (Some c, Some k) \<Rightarrow> c < k | _ \<Rightarrow> False)"

definition q_ListTransactions ::
  "ListTransactionsParams \<Rightarrow> db \<Rightarrow> pg_error + Transaction list" where
  "q_ListTransactions arg d =
     limit_rows (ltp_PageSize arg)
       (sort_key (\<lambda>t. - ts_key (tx_CreatedAt t))
         (filter (\<lambda>t. tx_TenantID t = ltp_TenantID arg
              \<and> before_cursor (tx_CreatedAt t) (ltp_CursorCreatedAt arg))
           (db_transactions d)))"

section \<open>Postings\<close>

record CreatePostingParams =
  cpp_TenantID :: uuid
  cpp_TransactionID :: uuid
  cpp_AccountID :: int64
  cpp_Amount :: int64
  cpp_Direction :: PostingDirection

definition q_CreatePosting ::
  "int \<Rightarrow> CreatePostingParams \<Rightarrow> db \<Rightarrow> (pg_error + Posting) \<times> db" where
  "q_CreatePosting now arg d =
     (if cpp_Direction arg \<notin> set posting_direction_enum
      then (Inl (InvalidEnumValue ''posting_direction''), d)
      else case nextval ''postings_id_seq'' (db_posting_seq d) of
        Inl e \<Rightarrow> (Inl e, d)
      | Inr i \<Rightarrow>
          insert_row
            [(sint (cpp_Amount arg) \<le> 0, CheckViolation ''postings_amount_check''),
             (\<exists>r \<in> set (db_postings d). pst_ID r = i, UniqueViolation ''postings_pkey''),
             (\<not> transaction_exists (cpp_TransactionID arg) d,
              ForeignKeyViolation ''postings_transaction_id_fkey''),
             (\<not> account_exists (cpp_AccountID arg) d,
              ForeignKeyViolation ''postings_account_id_fkey''),
             (\<not> tenant_exists (cpp_TenantID arg) d,
              ForeignKeyViolation ''postings_tenant_id_fkey'')]
            put_posting
            \<lparr>pst_ID = i, pst_TransactionID = cpp_TransactionID arg,
             pst_AccountID = cpp_AccountID arg, pst_Amount = cpp_Amount arg,
             pst_Direction = cpp_Direction arg, pst_CreatedAt = Some now,
             pst_TenantID = cpp_TenantID arg\<rparr>
            (d\<lparr>db_posting_seq := i\<rparr>))"

record GetPostingsByTransactionIDParams =
  gpt_TransactionID :: uuid
  gpt_TenantID :: uuid

record GetPostingsByTransactionIDRow =
  row_ID :: int64
  row_TenantID :: uuid
  row_TransactionID :: uuid
  row_AccountID :: int64
  row_AccountName :: string
  row_Amount :: int64
  row_Direction :: PostingDirection
  row_CreatedAt :: Timestamptz

definition q_GetPostingsByTransactionID ::
  "GetPostingsByTransactionIDParams \<Rightarrow> db
    \<Rightarrow> pg_error + GetPostingsByTransactionIDRow list" where
  "q_GetPostingsByTransactionID arg d =
     Inr (sort_key (\<lambda>r. sint (row_ID r))
       [\<lparr>row_ID = pst_ID p, row_TenantID = pst_TenantID p,
         row_TransactionID = pst_TransactionID p, row_AccountID = pst_AccountID p,
         row_AccountName = acc_AccountName a, row_Amount = pst_Amount p,
         row_Direction = pst_Direction p, row_CreatedAt = pst_CreatedAt p\<rparr>.
        p \<leftarrow> db_postings d, a \<leftarrow> db_accounts d,
        acc_ID a = pst_AccountID p \<and> pst_TransactionID p = gpt_TransactionID arg
          \<and> pst_TenantID p = gpt_TenantID arg])"

record GetPostingsByAccountIDParams =
  gpa_AccountID :: int64
  gpa_TenantID :: uuid
  gpa_PageOffset :: int32
  gpa_PageSize :: int32

record GetPostingsByAccountIDRow =
  arow_ID :: int64
  arow_TenantID :: uuid
  arow_TransactionID :: uuid
  arow_TransactionDescription :: string
  arow_AccountID :: int64
  arow_AccountName :: string
  arow_Amount :: int64
  arow_Direction :: PostingDirection
  arow_CreatedAt :: Timestamptz

definition q_GetPostingsByAccountID ::
  "GetPostingsByAccountIDParams \<Rightarrow> db \<Rightarrow> pg_error + GetPostingsByAccountIDRow list" where
  "q_GetPostingsByAccountID arg d =
     limit_offset_rows (gpa_PageSize arg) (gpa_PageOffset arg)
       (sort_key (\<lambda>r. - ts_key (arow_CreatedAt r))
         [\<lparr>arow_ID = pst_ID p, arow_TenantID = pst_TenantID p,
           arow_TransactionID = pst_TransactionID p,
           arow_TransactionDescription = tx_Description t, arow_AccountID = pst_AccountID p,
           arow_AccountName = acc_AccountName a, arow_Amount = pst_Amount p,
           arow_Direction = pst_Direction p, arow_CreatedAt = pst_CreatedAt p\<rparr>.
          p \<leftarrow> db_postings d, a \<leftarrow> db_accounts d, t \<leftarrow> db_transactions d,
          acc_ID a = pst_AccountID p \<and> tx_ID t = pst_TransactionID p
            \<and> pst_AccountID p = gpa_AccountID arg \<and> pst_TenantID p = gpa_TenantID arg])"

record GetAccountBalanceParams =
  gab_AccountID :: int64
  gab_TenantID :: uuid

record GetAccountBalanceRow =
  bal_TotalDebits :: int64
  bal_TotalCredits :: int64
  bal_NetBalance :: int64

definition postings_at :: "int64 \<Rightarrow> uuid \<Rightarrow> db \<Rightarrow> Posting list" where
  "postings_at account tenant d =
     filter (\<lambda>p. pst_AccountID p = account \<and> pst_TenantID p = tenant) (db_postings d)"

definition q_GetAccountBalance ::
  "GetAccountBalanceParams \<Rightarrow> db \<Rightarrow> pg_error + GetAccountBalanceRow" where
  "q_GetAccountBalance arg d =
     (let ps = postings_at (gab_AccountID arg) (gab_TenantID arg) d;
          debits = sum_direction PostingDirectionDebit ps;
          credits = sum_direction PostingDirectionCredit ps in
      case to_bigint debits of
        Inl e \<Rightarrow> Inl e
      | Inr total_debits \<Rightarrow>
          (case to_bigint credits of
             Inl e \<Rightarrow> Inl e
           | Inr total_credits \<Rightarrow>
               (case to_bigint (debits - credits) of
                  Inl e \<Rightarrow> Inl e
                | Inr net_balance \<Rightarrow>
                    Inr \<lparr>bal_TotalDebits = total_debits, bal_TotalCredits = total_credits,
                         bal_NetBalance = net_balance\<rparr>)))"

section \<open>Documents\<close>

record CreateDocumentParams =
  cdp_TenantID :: uuid
  cdp_TransactionID :: uuid
  cdp_Filename :: string
  cdp_ContentType :: string
  cdp_SizeBytes :: int64
  cdp_ObjectKey :: string

definition q_CreateDocument ::
  "uuid \<Rightarrow> int \<Rightarrow> CreateDocumentParams \<Rightarrow> db \<Rightarrow> (pg_error + Document) \<times> db" where
  "q_CreateDocument new_id now arg d =
     insert_row
       [(\<exists>r \<in> set (db_documents d). doc_ID r = new_id, UniqueViolation ''documents_pkey''),
        (\<exists>r \<in> set (db_documents d). doc_ObjectKey r = cdp_ObjectKey arg,
         UniqueViolation ''documents_object_key_key''),
        (\<not> transaction_exists (cdp_TransactionID arg) d,
         ForeignKeyViolation ''documents_transaction_id_fkey''),
        (\<not> tenant_exists (cdp_TenantID arg) d, ForeignKeyViolation ''documents_tenant_id_fkey'')]
       put_document
       \<lparr>doc_ID = new_id, doc_TransactionID = cdp_TransactionID arg,
        doc_Filename = cdp_Filename arg, doc_ContentType = cdp_ContentType arg,
        doc_SizeBytes = cdp_SizeBytes arg, doc_ObjectKey = cdp_ObjectKey arg,
        doc_CreatedAt = Some now, doc_TenantID = cdp_TenantID arg\<rparr> d"

record GetDocumentsByTransactionParams =
  gdt_TransactionID :: uuid
  gdt_TenantID :: uuid

definition q_GetDocumentsByTransaction ::
  "GetDocumentsByTransactionParams \<Rightarrow> db \<Rightarrow> pg_error + Document list" where
  "q_GetDocumentsByTransaction arg d =
     Inr (sort_key (\<lambda>r. ts_key (doc_CreatedAt r))
       (filter (\<lambda>r. doc_TransactionID r = gdt_TransactionID arg
          \<and> doc_TenantID r = gdt_TenantID arg) (db_documents d)))"

section \<open>Outbox\<close>

record CreateOutboxEventParams =
  cop_TenantID :: uuid
  cop_EventType :: string
  cop_RoutingKey :: string
  cop_Payload :: RawMessage

definition q_CreateOutboxEvent ::
  "uuid \<Rightarrow> int \<Rightarrow> CreateOutboxEventParams \<Rightarrow> db \<Rightarrow> (pg_error + LedgerOutbox) \<times> db" where
  "q_CreateOutboxEvent new_id now arg d =
     insert_row
       [(cop_Payload arg = None, NotNullViolation ''payload''),
        (\<exists>r \<in> set (db_outbox d). ob_ID r = new_id, UniqueViolation ''ledger_outbox_pkey''),
        (\<not> tenant_exists (cop_TenantID arg) d,
         ForeignKeyViolation ''ledger_outbox_tenant_id_fkey'')]
       put_outbox
       \<lparr>ob_ID = new_id, ob_EventType = cop_EventType arg, ob_RoutingKey = cop_RoutingKey arg,
        ob_Payload = encode_raw (cop_Payload arg), ob_Status = OutboxStatusPending,
        ob_RetryCount = 0, ob_MaxRetries = 5, ob_LastError = Some '''',
        ob_CreatedAt = Some now, ob_ProcessedAt = None, ob_TenantID = cop_TenantID arg\<rparr> d"

definition q_GetPendingOutboxEvents :: "int32 \<Rightarrow> db \<Rightarrow> pg_error + LedgerOutbox list" where
  "q_GetPendingOutboxEvents batch_size d =
     limit_rows batch_size
       (sort_key (\<lambda>r. ts_key (ob_CreatedAt r))
         (filter (\<lambda>r. ob_Status r = OutboxStatusPending) (db_outbox d)))"

text \<open>An UPDATE rewrites the rows its WHERE clause selects.\<close>

definition update_outbox ::
  "(LedgerOutbox \<Rightarrow> bool) \<Rightarrow> (LedgerOutbox \<Rightarrow> LedgerOutbox) \<Rightarrow> db \<Rightarrow> db" where
  "update_outbox sel f d =
     d\<lparr>db_outbox := map (\<lambda>r. if sel r then f r else r) (db_outbox d)\<rparr>"

definition q_MarkOutboxEventPublished ::
  "int \<Rightarrow> uuid \<Rightarrow> db \<Rightarrow> (pg_error + unit) \<times> db" where
  "q_MarkOutboxEventPublished now i d =
     (Inr (), update_outbox (\<lambda>r. ob_ID r = i \<and> ob_Status r = OutboxStatusPending)
        (\<lambda>r. r\<lparr>ob_Status := OutboxStatusPublished, ob_ProcessedAt := Some now\<rparr>) d)"

record MarkOutboxEventFailedParams =
  mof_ID :: uuid
  mof_LastError :: Text

definition q_MarkOutboxEventFailed ::
  "int \<Rightarrow> MarkOutboxEventFailedParams \<Rightarrow> db \<Rightarrow> (pg_error + unit) \<times> db" where
  "q_MarkOutboxEventFailed now arg d =
     (Inr (), update_outbox (\<lambda>r. ob_ID r = mof_ID arg)
        (\<lambda>r. r\<lparr>ob_Status := OutboxStatusFailed, ob_LastError := mof_LastError arg,
              ob_ProcessedAt := Some now\<rparr>) d)"

record IncrementOutboxRetryParams =
  ior_ID :: uuid
  ior_LastError :: Text

text \<open>\<^verbatim>\<open>retry_count\<close> is an INT: adding beyond its range is an error that undoes the statement.\<close>

definition q_IncrementOutboxRetry ::
  "IncrementOutboxRetryParams \<Rightarrow> db \<Rightarrow> (pg_error + unit) \<times> db" where
  "q_IncrementOutboxRetry arg d =
     (let sel = (\<lambda>r. ob_ID r = ior_ID arg \<and> ob_Status r = OutboxStatusPending) in
      if \<exists>r \<in> set (db_outbox d). sel r \<and> sint (ob_RetryCount r) = 2 ^ 31 - 1
      then (Inl NumericOutOfRange, d)
      else (Inr (), update_outbox sel
        (\<lambda>r. r\<lparr>ob_RetryCount := ob_RetryCount r + 1, ob_LastError := ior_LastError arg\<rparr>) d))"

definition q_RequeueFailedOutboxEvents :: "db \<Rightarrow> (pg_error + unit) \<times> db" where
  "q_RequeueFailedOutboxEvents d =
     (Inr (), update_outbox
        (\<lambda>r. ob_Status r = OutboxStatusFailed \<and> sint (ob_RetryCount r) < sint (ob_MaxRetries r))
        (\<lambda>r. r\<lparr>ob_Status := OutboxStatusPending, ob_RetryCount := 0, ob_LastError := Some '''',
              ob_ProcessedAt := None\<rparr>) d)"

end
