(* ===== verification/Integrity.thy ===== *)
theory Integrity
  imports Queries "HOL-Library.Sublist"
begin

text \<open>
  What the schema guarantees of every state of the database: the keys are unique, the foreign keys
  resolve, the enum and CHECK constraints hold, and the sequences are ahead of the ids they gave out.
  Every query keeps this, inside or outside a transaction; the balance of each transaction's postings
  is restored by the deferred trigger at COMMIT.
\<close>

section \<open>The schema invariant\<close>

definition keys_ok :: "db \<Rightarrow> bool" where
  "keys_ok d \<longleftrightarrow>
     distinct (map tn_ID (db_tenants d))
   \<and> distinct (map usr_ID (db_users d))
   \<and> distinct (map (\<lambda>u. (usr_TenantID u, usr_Email u)) (db_users d))
   \<and> distinct (map acc_ID (db_accounts d))
   \<and> distinct (map (\<lambda>a. (acc_TenantID a, acc_AccountName a)) (db_accounts d))
   \<and> distinct (map tx_ID (db_transactions d))
   \<and> distinct (map (\<lambda>t. (tx_TenantID t, tx_IdempotencyKey t)) (db_transactions d))
   \<and> distinct (map pst_ID (db_postings d))
   \<and> distinct (map doc_ID (db_documents d))
   \<and> distinct (map doc_ObjectKey (db_documents d))
   \<and> distinct (map ob_ID (db_outbox d))"

definition refs_ok :: "db \<Rightarrow> bool" where
  "refs_ok d \<longleftrightarrow>
     (\<forall>u \<in> set (db_users d). tenant_exists (usr_TenantID u) d)
   \<and> (\<forall>a \<in> set (db_accounts d). tenant_exists (acc_TenantID a) d)
   \<and> (\<forall>t \<in> set (db_transactions d). tenant_exists (tx_TenantID t) d)
   \<and> (\<forall>p \<in> set (db_postings d). transaction_exists (pst_TransactionID p) d
        \<and> account_exists (pst_AccountID p) d \<and> tenant_exists (pst_TenantID p) d)
   \<and> (\<forall>x \<in> set (db_documents d). transaction_exists (doc_TransactionID x) d
        \<and> tenant_exists (doc_TenantID x) d)
   \<and> (\<forall>e \<in> set (db_outbox d). tenant_exists (ob_TenantID e) d)"

definition values_ok :: "db \<Rightarrow> bool" where
  "values_ok d \<longleftrightarrow>
     (\<forall>a \<in> set (db_accounts d). acc_AccountType a \<in> set account_type_enum)
   \<and> (\<forall>p \<in> set (db_postings d). 0 < sint (pst_Amount p)
        \<and> pst_Direction p \<in> set posting_direction_enum)
   \<and> (\<forall>e \<in> set (db_outbox d).
        ob_Status e \<in> {OutboxStatusPending, OutboxStatusPublished, OutboxStatusFailed})"

definition seqs_ok :: "db \<Rightarrow> bool" where
  "seqs_ok d \<longleftrightarrow>
     0 \<le> sint (db_account_seq d) \<and> 0 \<le> sint (db_posting_seq d)
   \<and> (\<forall>a \<in> set (db_accounts d). 0 < sint (acc_ID a) \<and> sint (acc_ID a) \<le> sint (db_account_seq d))
   \<and> (\<forall>p \<in> set (db_postings d). 0 < sint (pst_ID p) \<and> sint (pst_ID p) \<le> sint (db_posting_seq d))"

definition schema_ok :: "db \<Rightarrow> bool" where
  "schema_ok d \<longleftrightarrow> keys_ok d \<and> refs_ok d \<and> values_ok d \<and> seqs_ok d"

text \<open>
  Inside a transaction a group of postings may be out of balance, but then the trigger is queued for
  it; a committed state has an empty queue.
\<close>

definition balanced :: "uuid \<Rightarrow> db \<Rightarrow> bool" where
  "balanced t d \<longleftrightarrow> debits_of t d = credits_of t d"

definition tx_ok :: "db \<Rightarrow> bool" where
  "tx_ok d \<longleftrightarrow> schema_ok d \<and> (\<forall>t. t \<notin> set (db_deferred d) \<longrightarrow> balanced t d)"

definition committed_ok :: "db \<Rightarrow> bool" where
  "committed_ok d \<longleftrightarrow> tx_ok d \<and> db_deferred d = []"

lemmas schema_defs = keys_ok_def refs_ok_def values_ok_def seqs_ok_def

lemmas query_defs =
  q_CreateTenant_def q_CreateUser_def q_CreateAccount_def q_CreateTransaction_def
  q_CreatePosting_def q_CreateDocument_def q_CreateOutboxEvent_def

section \<open>Each query keeps the schema invariant\<close>

lemma keys_ok_CreateTenant: "keys_ok d \<Longrightarrow> keys_ok (snd (q_CreateTenant i now name d))"
  by (auto simp: keys_ok_def q_CreateTenant_def insert_row_def put_defs)

lemma keys_ok_CreateUser: "keys_ok d \<Longrightarrow> keys_ok (snd (q_CreateUser i now arg d))"
  by (auto simp: keys_ok_def q_CreateUser_def insert_row_def put_defs)

lemma keys_ok_CreateAccount: "keys_ok d \<Longrightarrow> keys_ok (snd (q_CreateAccount now arg d))"
  by (auto simp: keys_ok_def q_CreateAccount_def insert_row_def put_defs split: sum.splits)

lemma keys_ok_CreateTransaction: "keys_ok d \<Longrightarrow> keys_ok (snd (q_CreateTransaction i now arg d))"
  by (auto simp: keys_ok_def q_CreateTransaction_def insert_row_def put_defs)

lemma keys_ok_CreatePosting: "keys_ok d \<Longrightarrow> keys_ok (snd (q_CreatePosting now arg d))"
  by (auto simp: keys_ok_def q_CreatePosting_def insert_row_def put_defs split: sum.splits)

lemma keys_ok_CreateDocument: "keys_ok d \<Longrightarrow> keys_ok (snd (q_CreateDocument i now arg d))"
  by (auto simp: keys_ok_def q_CreateDocument_def insert_row_def put_defs)

lemma keys_ok_CreateOutboxEvent: "keys_ok d \<Longrightarrow> keys_ok (snd (q_CreateOutboxEvent i now arg d))"
  by (auto simp: keys_ok_def q_CreateOutboxEvent_def insert_row_def put_defs)

lemma refs_ok_CreateTenant: "refs_ok d \<Longrightarrow> refs_ok (snd (q_CreateTenant i now name d))"
  by (auto simp: refs_ok_def q_CreateTenant_def insert_row_def put_defs exists_defs)

lemma refs_ok_CreateUser: "refs_ok d \<Longrightarrow> refs_ok (snd (q_CreateUser i now arg d))"
  by (auto simp: refs_ok_def q_CreateUser_def insert_row_def put_defs exists_defs)

lemma refs_ok_CreateAccount: "refs_ok d \<Longrightarrow> refs_ok (snd (q_CreateAccount now arg d))"
  by (auto simp: refs_ok_def q_CreateAccount_def insert_row_def put_defs exists_defs split: sum.splits)

lemma refs_ok_CreateTransaction: "refs_ok d \<Longrightarrow> refs_ok (snd (q_CreateTransaction i now arg d))"
  by (auto simp: refs_ok_def q_CreateTransaction_def insert_row_def put_defs exists_defs)

lemma refs_ok_CreatePosting: "refs_ok d \<Longrightarrow> refs_ok (snd (q_CreatePosting now arg d))"
  by (auto simp: refs_ok_def q_CreatePosting_def insert_row_def put_defs exists_defs split: sum.splits)

lemma refs_ok_CreateDocument: "refs_ok d \<Longrightarrow> refs_ok (snd (q_CreateDocument i now arg d))"
  by (auto simp: refs_ok_def q_CreateDocument_def insert_row_def put_defs exists_defs)

lemma refs_ok_CreateOutboxEvent: "refs_ok d \<Longrightarrow> refs_ok (snd (q_CreateOutboxEvent i now arg d))"
  by (auto simp: refs_ok_def q_CreateOutboxEvent_def insert_row_def put_defs exists_defs)

lemma values_ok_CreateTenant: "values_ok d \<Longrightarrow> values_ok (snd (q_CreateTenant i now name d))"
  by (auto simp: values_ok_def q_CreateTenant_def insert_row_def put_defs)

lemma values_ok_CreateUser: "values_ok d \<Longrightarrow> values_ok (snd (q_CreateUser i now arg d))"
  by (auto simp: values_ok_def q_CreateUser_def insert_row_def put_defs)

lemma values_ok_CreateAccount: "values_ok d \<Longrightarrow> values_ok (snd (q_CreateAccount now arg d))"
  by (auto simp: values_ok_def q_CreateAccount_def insert_row_def put_defs split: sum.splits)

lemma values_ok_CreateTransaction: "values_ok d \<Longrightarrow> values_ok (snd (q_CreateTransaction i now arg d))"
  by (auto simp: values_ok_def q_CreateTransaction_def insert_row_def put_defs)

lemma values_ok_CreatePosting: "values_ok d \<Longrightarrow> values_ok (snd (q_CreatePosting now arg d))"
  by (auto simp: values_ok_def q_CreatePosting_def insert_row_def put_defs split: sum.splits)

lemma values_ok_CreateDocument: "values_ok d \<Longrightarrow> values_ok (snd (q_CreateDocument i now arg d))"
  by (auto simp: values_ok_def q_CreateDocument_def insert_row_def put_defs)

lemma values_ok_CreateOutboxEvent: "values_ok d \<Longrightarrow> values_ok (snd (q_CreateOutboxEvent i now arg d))"
  by (auto simp: values_ok_def q_CreateOutboxEvent_def insert_row_def put_defs)

lemma seqs_ok_CreateTenant: "seqs_ok d \<Longrightarrow> seqs_ok (snd (q_CreateTenant i now name d))"
  by (auto simp: seqs_ok_def q_CreateTenant_def insert_row_def put_defs)

lemma seqs_ok_CreateUser: "seqs_ok d \<Longrightarrow> seqs_ok (snd (q_CreateUser i now arg d))"
  by (auto simp: seqs_ok_def q_CreateUser_def insert_row_def put_defs)

lemma seqs_ok_CreateAccount: "seqs_ok d \<Longrightarrow> seqs_ok (snd (q_CreateAccount now arg d))"
  by (auto simp: seqs_ok_def q_CreateAccount_def insert_row_def put_defs split: sum.splits dest!: nextval_Inr)

lemma seqs_ok_CreateTransaction: "seqs_ok d \<Longrightarrow> seqs_ok (snd (q_CreateTransaction i now arg d))"
  by (auto simp: seqs_ok_def q_CreateTransaction_def insert_row_def put_defs)

lemma seqs_ok_CreatePosting: "seqs_ok d \<Longrightarrow> seqs_ok (snd (q_CreatePosting now arg d))"
  by (auto simp: seqs_ok_def q_CreatePosting_def insert_row_def put_defs split: sum.splits dest!: nextval_Inr)

lemma seqs_ok_CreateDocument: "seqs_ok d \<Longrightarrow> seqs_ok (snd (q_CreateDocument i now arg d))"
  by (auto simp: seqs_ok_def q_CreateDocument_def insert_row_def put_defs)

lemma seqs_ok_CreateOutboxEvent: "seqs_ok d \<Longrightarrow> seqs_ok (snd (q_CreateOutboxEvent i now arg d))"
  by (auto simp: seqs_ok_def q_CreateOutboxEvent_def insert_row_def put_defs)

lemmas schema_ok_inserts =
  keys_ok_CreateTenant keys_ok_CreateUser keys_ok_CreateAccount keys_ok_CreateTransaction
  keys_ok_CreatePosting keys_ok_CreateDocument keys_ok_CreateOutboxEvent
  refs_ok_CreateTenant refs_ok_CreateUser refs_ok_CreateAccount refs_ok_CreateTransaction
  refs_ok_CreatePosting refs_ok_CreateDocument refs_ok_CreateOutboxEvent
  values_ok_CreateTenant values_ok_CreateUser values_ok_CreateAccount values_ok_CreateTransaction
  values_ok_CreatePosting values_ok_CreateDocument values_ok_CreateOutboxEvent
  seqs_ok_CreateTenant seqs_ok_CreateUser seqs_ok_CreateAccount seqs_ok_CreateTransaction
  seqs_ok_CreatePosting seqs_ok_CreateDocument seqs_ok_CreateOutboxEvent

text \<open>The UPDATE statements change no key, no reference and no other table.\<close>

lemma update_outbox_frame [simp]:
  "db_tenants (update_outbox sel f d) = db_tenants d"
  "db_users (update_outbox sel f d) = db_users d"
  "db_accounts (update_outbox sel f d) = db_accounts d"
  "db_transactions (update_outbox sel f d) = db_transactions d"
  "db_postings (update_outbox sel f d) = db_postings d"
  "db_documents (update_outbox sel f d) = db_documents d"
  "db_account_seq (update_outbox sel f d) = db_account_seq d"
  "db_posting_seq (update_outbox sel f d) = db_posting_seq d"
  "db_deferred (update_outbox sel f d) = db_deferred d"
  by (simp_all add: update_outbox_def)

lemma update_outbox_ids:
  "(\<And>r. ob_ID (f r) = ob_ID r) \<Longrightarrow>
     map ob_ID (db_outbox (update_outbox sel f d)) = map ob_ID (db_outbox d)"
  by (simp add: update_outbox_def)

lemma schema_ok_update:
  assumes "\<And>r. ob_ID (f r) = ob_ID r" and "\<And>r. ob_TenantID (f r) = ob_TenantID r"
    and "\<And>r. ob_Status r \<in> {OutboxStatusPending, OutboxStatusPublished, OutboxStatusFailed}
      \<Longrightarrow> ob_Status (f r) \<in> {OutboxStatusPending, OutboxStatusPublished, OutboxStatusFailed}"
    and "schema_ok d"
  shows "schema_ok (update_outbox sel f d)"
proof -
  have "keys_ok (update_outbox sel f d)"
    using assms(4) update_outbox_ids [of f sel d] assms(1) by (simp add: schema_ok_def keys_ok_def)
  moreover have "refs_ok (update_outbox sel f d)"
    using assms(2,4)
    by (auto simp: schema_ok_def refs_ok_def exists_defs) (auto simp: update_outbox_def)
  moreover have "values_ok (update_outbox sel f d)"
    using assms(3,4) by (fastforce simp: schema_ok_def values_ok_def update_outbox_def)
  moreover have "seqs_ok (update_outbox sel f d)"
    using assms(4) by (simp add: schema_ok_def seqs_ok_def)
  ultimately show ?thesis by (simp add: schema_ok_def)
qed

section \<open>The database only grows\<close>

text \<open>
  Rows are appended, never removed or rewritten, except that an outbox row keeps its identity while
  its delivery state changes; sequences only advance.
\<close>

definition evolves :: "db \<Rightarrow> db \<Rightarrow> bool" where
  "evolves d d' \<longleftrightarrow>
     prefix (db_tenants d) (db_tenants d') \<and> prefix (db_users d) (db_users d')
   \<and> prefix (db_accounts d) (db_accounts d') \<and> prefix (db_transactions d) (db_transactions d')
   \<and> prefix (db_postings d) (db_postings d') \<and> prefix (db_documents d) (db_documents d')
   \<and> prefix (map ob_ID (db_outbox d)) (map ob_ID (db_outbox d'))
   \<and> sint (db_account_seq d) \<le> sint (db_account_seq d')
   \<and> sint (db_posting_seq d) \<le> sint (db_posting_seq d')"

lemma evolves_refl [simp]: "evolves d d"
  by (simp add: evolves_def)

lemma evolves_trans: "evolves a b \<Longrightarrow> evolves b c \<Longrightarrow> evolves a c"
  unfolding evolves_def by (meson order_trans prefix_order.trans)

lemma evolves_rollback: "evolves d d' \<Longrightarrow> evolves d (rollback_db d d')"
  by (simp add: evolves_def rollback_db_def)

lemma evolves_commit: "evolves d d' \<Longrightarrow> evolves d (d'\<lparr>db_deferred := q\<rparr>)"
  by (simp add: evolves_def)

lemma postings_of_append [simp]: "postings_of t (ps @ qs) = postings_of t ps @ postings_of t qs"
  by (simp add: postings_of_def)

lemma balanced_cong: "db_postings d' = db_postings d \<Longrightarrow> balanced t d' = balanced t d"
  by (simp add: balanced_def debits_of_def credits_of_def)

lemma committed_tx_ok: "committed_ok d \<Longrightarrow> tx_ok d"
  by (simp add: committed_ok_def)

lemma committed_balanced: "committed_ok d \<Longrightarrow> balanced t d"
  by (simp add: committed_ok_def tx_ok_def)

lemma commit_committed:
  assumes "tx_ok d" and "commit_db d = Inr d'"
  shows "committed_ok d'"
proof -
  from assms(2) have d': "d' = d\<lparr>db_deferred := []\<rparr>"
    and bal: "\<forall>t \<in> set (db_deferred d). debits_of t d = credits_of t d"
    by (auto simp: commit_db_Inr)
  with assms(1) have "balanced t d" for t by (auto simp: tx_ok_def balanced_def)
  then have "balanced t d'" for t using balanced_cong [of d' d t] by (simp add: d')
  moreover have "schema_ok d'"
    using assms(1) by (simp add: d' tx_ok_def schema_ok_def schema_defs exists_defs)
  ultimately show ?thesis by (simp add: committed_ok_def tx_ok_def d')
qed

lemma rollback_committed:
  assumes "committed_ok d" and "evolves d d'"
  shows "committed_ok (rollback_db d d')"
proof -
  have "seqs_ok (rollback_db d d')"
    using assms
    by (force simp: committed_ok_def tx_ok_def schema_ok_def seqs_ok_def rollback_db_def evolves_def)
  moreover have "keys_ok (rollback_db d d')" "refs_ok (rollback_db d d')" "values_ok (rollback_db d d')"
    using assms(1)
    by (simp_all add: committed_ok_def tx_ok_def schema_ok_def rollback_db_def schema_defs exists_defs)
  moreover have "balanced t (rollback_db d d')" for t
    using committed_balanced [OF assms(1), of t] balanced_cong [of "rollback_db d d'" d t]
    by (simp add: rollback_db_def)
  moreover have "db_deferred (rollback_db d d') = []"
    using assms(1) by (simp add: committed_ok_def rollback_db_def)
  ultimately show ?thesis by (simp add: committed_ok_def tx_ok_def schema_ok_def)
qed

section \<open>Statements\<close>

text \<open>
  What a transaction relies on from each statement it runs, whether it succeeds or fails.
\<close>

locale statement =
  fixes q :: "db \<Rightarrow> (pg_error + 'a) \<times> db"
  assumes keeps_tx_ok: "tx_ok d \<Longrightarrow> tx_ok (snd (q d))"
    and evolves_q: "evolves d (snd (q d))"
begin

lemma keeps: "tx_ok d \<Longrightarrow> q d = (r, d') \<Longrightarrow> tx_ok d'"
  using keeps_tx_ok [of d] by simp

lemma grows: "q d = (r, d') \<Longrightarrow> evolves d d'"
  using evolves_q [of d] by simp

lemma autocommit_evolves: "evolves d (snd (autocommit flt q d))"
  using evolves_q [of d]
  by (auto simp: autocommit_def commit_db_Inr evolves_rollback evolves_commit
           split: option.splits sum.splits prod.splits)

lemma autocommit_committed:
  assumes "committed_ok d"
  shows "committed_ok (snd (autocommit flt q d))"
proof -
  obtain r d' where q: "q d = (r, d')" by (cases "q d")
  note ok = keeps [OF committed_tx_ok [OF assms] q] and ev = grows [OF q]
  show ?thesis
    using assms ok ev
    by (auto simp: autocommit_def q rollback_committed split: option.splits sum.splits
             dest: commit_committed)
qed

text \<open>A statement on the pool that reports an error has changed no table.\<close>

lemma autocommit_error:
  "autocommit flt q d = (Inl e, d') \<Longrightarrow>
     d' = d \<or> (\<exists>d''. evolves d d'' \<and> d' = rollback_db d d'')"
  using evolves_q [of d]
  by (auto simp: autocommit_def split: option.splits sum.splits prod.splits)

end

text \<open>Each query of the service is such a statement.\<close>

lemma schema_ok_insertI [intro]:
  "keys_ok d \<Longrightarrow> refs_ok d \<Longrightarrow> values_ok d \<Longrightarrow> seqs_ok d \<Longrightarrow> schema_ok d"
  by (simp add: schema_ok_def)

lemma schema_ok_CreateTenant: "schema_ok d \<Longrightarrow> schema_ok (snd (q_CreateTenant i now name d))"
  by (simp add: schema_ok_def schema_ok_inserts)

lemma evolves_CreateTenant: "evolves d (snd (q_CreateTenant i now name d))"
  by (auto simp: evolves_def q_CreateTenant_def insert_row_def put_defs)

lemma frame_CreateTenant:
  "db_postings (snd (q_CreateTenant i now name d)) = db_postings d"
  "db_deferred (snd (q_CreateTenant i now name d)) = db_deferred d"
  by (auto simp: q_CreateTenant_def insert_row_def put_defs)

lemma schema_ok_CreateUser: "schema_ok d \<Longrightarrow> schema_ok (snd (q_CreateUser i now arg d))"
  by (simp add: schema_ok_def schema_ok_inserts)

lemma evolves_CreateUser: "evolves d (snd (q_CreateUser i now arg d))"
  by (auto simp: evolves_def q_CreateUser_def insert_row_def put_defs)

lemma frame_CreateUser:
  "db_postings (snd (q_CreateUser i now arg d)) = db_postings d"
  "db_deferred (snd (q_CreateUser i now arg d)) = db_deferred d"
  by (auto simp: q_CreateUser_def insert_row_def put_defs)

lemma schema_ok_CreateAccount: "schema_ok d \<Longrightarrow> schema_ok (snd (q_CreateAccount now arg d))"
  by (simp add: schema_ok_def schema_ok_inserts)

lemma evolves_CreateAccount: "evolves d (snd (q_CreateAccount now arg d))"
  by (auto simp: evolves_def q_CreateAccount_def insert_row_def put_defs split: sum.splits dest!: nextval_Inr)

lemma frame_CreateAccount:
  "db_postings (snd (q_CreateAccount now arg d)) = db_postings d"
  "db_deferred (snd (q_CreateAccount now arg d)) = db_deferred d"
  by (auto simp: q_CreateAccount_def insert_row_def put_defs split: sum.splits)

lemma schema_ok_CreateTransaction: "schema_ok d \<Longrightarrow> schema_ok (snd (q_CreateTransaction i now arg d))"
  by (simp add: schema_ok_def schema_ok_inserts)

lemma evolves_CreateTransaction: "evolves d (snd (q_CreateTransaction i now arg d))"
  by (auto simp: evolves_def q_CreateTransaction_def insert_row_def put_defs)

lemma frame_CreateTransaction:
  "db_postings (snd (q_CreateTransaction i now arg d)) = db_postings d"
  "db_deferred (snd (q_CreateTransaction i now arg d)) = db_deferred d"
  by (auto simp: q_CreateTransaction_def insert_row_def put_defs)

lemma schema_ok_CreatePosting: "schema_ok d \<Longrightarrow> schema_ok (snd (q_CreatePosting now arg d))"
  by (simp add: schema_ok_def schema_ok_inserts)

lemma evolves_CreatePosting: "evolves d (snd (q_CreatePosting now arg d))"
  by (auto simp: evolves_def q_CreatePosting_def insert_row_def put_defs split: sum.splits dest!: nextval_Inr)

lemma schema_ok_CreateDocument: "schema_ok d \<Longrightarrow> schema_ok (snd (q_CreateDocument i now arg d))"
  by (simp add: schema_ok_def schema_ok_inserts)

lemma evolves_CreateDocument: "evolves d (snd (q_CreateDocument i now arg d))"
  by (auto simp: evolves_def q_CreateDocument_def insert_row_def put_defs)

lemma frame_CreateDocument:
  "db_postings (snd (q_CreateDocument i now arg d)) = db_postings d"
  "db_deferred (snd (q_CreateDocument i now arg d)) = db_deferred d"
  by (auto simp: q_CreateDocument_def insert_row_def put_defs)

lemma schema_ok_CreateOutboxEvent: "schema_ok d \<Longrightarrow> schema_ok (snd (q_CreateOutboxEvent i now arg d))"
  by (simp add: schema_ok_def schema_ok_inserts)

lemma evolves_CreateOutboxEvent: "evolves d (snd (q_CreateOutboxEvent i now arg d))"
  by (auto simp: evolves_def q_CreateOutboxEvent_def insert_row_def put_defs)

lemma frame_CreateOutboxEvent:
  "db_postings (snd (q_CreateOutboxEvent i now arg d)) = db_postings d"
  "db_deferred (snd (q_CreateOutboxEvent i now arg d)) = db_deferred d"
  by (auto simp: q_CreateOutboxEvent_def insert_row_def put_defs)

lemma tx_ok_frame:
  "tx_ok d \<Longrightarrow> schema_ok d' \<Longrightarrow> db_postings d' = db_postings d \<Longrightarrow> db_deferred d' = db_deferred d
    \<Longrightarrow> tx_ok d'"
  by (simp add: tx_ok_def balanced_cong [of d' d])

lemma deferred_put_posting [simp]:
  "db_deferred (put_posting p d) = db_deferred d @ [pst_TransactionID p]"
  by (simp add: put_posting_def)

lemma balanced_put_posting: "t \<noteq> pst_TransactionID p \<Longrightarrow> balanced t (put_posting p d) = balanced t d"
  by (simp add: balanced_def debits_of_def credits_of_def put_posting_def postings_of_def)

lemma CreatePosting_shape:
  obtains (none) i where "snd (q_CreatePosting now arg d) = d\<lparr>db_posting_seq := i\<rparr>"
  | (put) i p where "pst_TransactionID p = cpp_TransactionID arg"
      "snd (q_CreatePosting now arg d) = put_posting p (d\<lparr>db_posting_seq := i\<rparr>)"
proof -
  let ?s = "snd (q_CreatePosting now arg d)"
  have "(\<exists>i. ?s = d\<lparr>db_posting_seq := i\<rparr>) \<or>
      (\<exists>i p. pst_TransactionID p = cpp_TransactionID arg
        \<and> ?s = put_posting p (d\<lparr>db_posting_seq := i\<rparr>))"
    by (cases "nextval ''postings_id_seq'' (db_posting_seq d)")
       (force simp: q_CreatePosting_def insert_row_def simp del: first_violation.simps
         intro: exI [where x = "db_posting_seq d"] split: option.split)+
  then show ?thesis using none put by blast
qed

lemma tx_ok_CreatePosting:
  assumes "tx_ok d"
  shows "tx_ok (snd (q_CreatePosting now arg d))"
proof -
  have seq: "balanced t (d\<lparr>db_posting_seq := i\<rparr>) = balanced t d" for t i
    by (rule balanced_cong) simp
  have "balanced t (snd (q_CreatePosting now arg d))"
    if "t \<notin> set (db_deferred (snd (q_CreatePosting now arg d)))" for t
    using that assms
    by (cases now arg d rule: CreatePosting_shape)
       (auto simp: tx_ok_def seq balanced_put_posting)
  with assms show ?thesis by (simp add: tx_ok_def schema_ok_CreatePosting)
qed

lemma evolves_update:
  "(\<And>r. ob_ID (f r) = ob_ID r) \<Longrightarrow> evolves d (update_outbox sel f d)"
  by (simp add: evolves_def update_outbox_ids)

lemma tx_ok_update:
  assumes "\<And>r. ob_ID (f r) = ob_ID r" and "\<And>r. ob_TenantID (f r) = ob_TenantID r"
    and "\<And>r. ob_Status r \<in> {OutboxStatusPending, OutboxStatusPublished, OutboxStatusFailed}
      \<Longrightarrow> ob_Status (f r) \<in> {OutboxStatusPending, OutboxStatusPublished, OutboxStatusFailed}"
    and "tx_ok d"
  shows "tx_ok (update_outbox sel f d)"
  using assms(4) schema_ok_update [of f d sel, OF assms(1-3)]
  by (intro tx_ok_frame [OF assms(4)]) (simp_all add: tx_ok_def)

interpretation CreateTenant: statement "q_CreateTenant i now name" for i now name
proof unfold_locales
  show "tx_ok (snd (q_CreateTenant i now name d))" if "tx_ok d" for d
    using that
    by (intro tx_ok_frame [OF that]) (simp_all add: tx_ok_def schema_ok_CreateTenant frame_CreateTenant)
qed (rule evolves_CreateTenant)

interpretation CreateUser: statement "q_CreateUser i now arg" for i now arg
proof unfold_locales
  show "tx_ok (snd (q_CreateUser i now arg d))" if "tx_ok d" for d
    using that
    by (intro tx_ok_frame [OF that]) (simp_all add: tx_ok_def schema_ok_CreateUser frame_CreateUser)
qed (rule evolves_CreateUser)

interpretation CreateAccount: statement "q_CreateAccount now arg" for now arg
proof unfold_locales
  show "tx_ok (snd (q_CreateAccount now arg d))" if "tx_ok d" for d
    using that
    by (intro tx_ok_frame [OF that]) (simp_all add: tx_ok_def schema_ok_CreateAccount frame_CreateAccount)
qed (rule evolves_CreateAccount)

interpretation CreateTransaction: statement "q_CreateTransaction i now arg" for i now arg
proof unfold_locales
  show "tx_ok (snd (q_CreateTransaction i now arg d))" if "tx_ok d" for d
    using that
    by (intro tx_ok_frame [OF that]) (simp_all add: tx_ok_def schema_ok_CreateTransaction frame_CreateTransaction)
qed (rule evolves_CreateTransaction)

interpretation CreatePosting: statement "q_CreatePosting now arg" for now arg
  by unfold_locales (simp_all add: tx_ok_CreatePosting evolves_CreatePosting)

interpretation CreateDocument: statement "q_CreateDocument i now arg" for i now arg
proof unfold_locales
  show "tx_ok (snd (q_CreateDocument i now arg d))" if "tx_ok d" for d
    using that
    by (intro tx_ok_frame [OF that]) (simp_all add: tx_ok_def schema_ok_CreateDocument frame_CreateDocument)
qed (rule evolves_CreateDocument)

interpretation CreateOutboxEvent: statement "q_CreateOutboxEvent i now arg" for i now arg
proof unfold_locales
  show "tx_ok (snd (q_CreateOutboxEvent i now arg d))" if "tx_ok d" for d
    using that
    by (intro tx_ok_frame [OF that]) (simp_all add: tx_ok_def schema_ok_CreateOutboxEvent frame_CreateOutboxEvent)
qed (rule evolves_CreateOutboxEvent)

interpretation MarkOutboxEventPublished: statement "q_MarkOutboxEventPublished now i" for now i
  by unfold_locales
    (simp_all add: q_MarkOutboxEventPublished_def Let_def tx_ok_update evolves_update)

interpretation MarkOutboxEventFailed: statement "q_MarkOutboxEventFailed now arg" for now arg
  by unfold_locales
    (simp_all add: q_MarkOutboxEventFailed_def Let_def tx_ok_update evolves_update)

interpretation IncrementOutboxRetry: statement "q_IncrementOutboxRetry arg" for arg
  by unfold_locales
    (auto simp: q_IncrementOutboxRetry_def Let_def intro!: tx_ok_update evolves_update)

interpretation RequeueFailedOutboxEvents: statement q_RequeueFailedOutboxEvents
  by unfold_locales
    (simp_all add: q_RequeueFailedOutboxEvents_def Let_def tx_ok_update evolves_update)

end
