(* ===== verification/Externals.thy ===== *)
theory Externals
  imports Json
begin

text \<open>
  The code the repository only calls: \<^verbatim>\<open>google/uuid\<close>, \<^verbatim>\<open>pgx/pgtype\<close>, Redis and its lock. Each is a
  record of functions that the model takes as an argument, with the behaviour its documentation
  promises as a named law (\<open>formats_ok\<close>, \<open>redis_ok\<close>). At the end of the theory each law is shown
  satisfiable on a concrete record, which the witnesses of the properties use.
\<close>

section \<open>Text forms of UUIDs and timestamps\<close>

record formats =
  uuid_String :: "uuid \<Rightarrow> string"
  uuid_Parse :: "string \<Rightarrow> uuid option"
  ts_Format :: "int \<Rightarrow> string"
  ts_Parse :: "string \<Rightarrow> int option"

text \<open>
  The canonical text of a UUID has 36 characters and parses back to it; a timestamp is written with
  all its digits and read back.
\<close>

definition formats_ok :: "formats \<Rightarrow> bool" where
  "formats_ok F \<longleftrightarrow>
     (\<forall>u. length (uuid_String F u) = 36)
   \<and> (\<forall>u. uuid_Parse F (uuid_String F u) = Some u)
   \<and> (\<forall>t. ts_Parse F (ts_Format F t) = Some t)"

lemma uuid_String_inj: "formats_ok F \<Longrightarrow> uuid_String F u = uuid_String F v \<longleftrightarrow> u = v"
  unfolding formats_ok_def by (metis option.inject)

section \<open>Redis\<close>

text \<open>
  The reply of \<^verbatim>\<open>GET\<close>: \<^verbatim>\<open>redis.Nil\<close>, another error, or the value.
\<close>

datatype redis_reply = RNil | RErr string | RVal payload

text \<open>
  The state \<open>'r\<close> is everything the client can depend on (the server's data, its clock, whether it
  answers). \<open>rd_store\<close> is what the server holds. A TTL is in nanoseconds, as a \<^verbatim>\<open>time.Duration\<close>.
  \<open>rd_GetExpire\<close> is the pipeline GET; EXPIRE; \<open>lk_Obtain\<close> is \<^verbatim>\<open>redislock\<close> with its retries. A command
  returns its error, if any.
\<close>

record 'r redis =
  rd_store :: "'r \<Rightarrow> string \<Rightarrow> payload option"
  rd_Get :: "string \<Rightarrow> 'r \<Rightarrow> redis_reply"
  rd_Set :: "string \<Rightarrow> payload \<Rightarrow> int \<Rightarrow> 'r \<Rightarrow> string option \<times> 'r"
  rd_Del :: "string \<Rightarrow> 'r \<Rightarrow> string option \<times> 'r"
  rd_GetExpire :: "string \<Rightarrow> int \<Rightarrow> 'r \<Rightarrow> redis_reply \<times> 'r"
  lk_Obtain :: "string \<Rightarrow> int \<Rightarrow> 'r \<Rightarrow> string option \<times> 'r"
  lk_Release :: "string \<Rightarrow> 'r \<Rightarrow> string option \<times> 'r"

text \<open>
  During any command other keys may expire, so the frame of a command is: another key keeps its value
  or is gone. A command that fails may or may not have been applied.
\<close>

definition may_expire :: "('k \<Rightarrow> 'v option) \<Rightarrow> ('k \<Rightarrow> 'v option) \<Rightarrow> bool" where
  "may_expire m m' \<longleftrightarrow> m' \<subseteq>\<^sub>m m"

definition set_law :: "'r redis \<Rightarrow> bool" where
  "set_law R \<longleftrightarrow> (\<forall>k v ttl r e r'. rd_Set R k v ttl r = (e, r') \<longrightarrow>
     may_expire ((rd_store R r)(k \<mapsto> v)) (rd_store R r')
       \<or> e \<noteq> None \<and> may_expire (rd_store R r) (rd_store R r'))"

definition get_law :: "'r redis \<Rightarrow> bool" where
  "get_law R \<longleftrightarrow> (\<forall>k r. case rd_Get R k r of
       RNil \<Rightarrow> rd_store R r k = None
     | RErr _ \<Rightarrow> True
     | RVal v \<Rightarrow> rd_store R r k = Some v)"

definition del_law :: "'r redis \<Rightarrow> bool" where
  "del_law R \<longleftrightarrow> (\<forall>k r e r'. rd_Del R k r = (e, r') \<longrightarrow>
     may_expire (rd_store R r) (rd_store R r') \<and> (e = None \<longrightarrow> rd_store R r' k = None))"

definition get_expire_law :: "'r redis \<Rightarrow> bool" where
  "get_expire_law R \<longleftrightarrow> (\<forall>k ttl r rep r'. rd_GetExpire R k ttl r = (rep, r') \<longrightarrow>
     may_expire (rd_store R r) (rd_store R r')
     \<and> (case rep of
          RNil \<Rightarrow> rd_store R r' k = None
        | RErr _ \<Rightarrow> True
        | RVal v \<Rightarrow> rd_store R r k = Some v \<and> (0 < ttl \<longrightarrow> rd_store R r' k = Some v)))"

text \<open>The lock writes its own key only.\<close>

definition lock_law :: "'r redis \<Rightarrow> bool" where
  "lock_law R \<longleftrightarrow>
     (\<forall>k ttl r e r'. lk_Obtain R k ttl r = (e, r') \<longrightarrow>
        (\<forall>k'. k' \<noteq> k \<longrightarrow> rd_store R r' k' = rd_store R r k' \<or> rd_store R r' k' = None))
   \<and> (\<forall>k r e r'. lk_Release R k r = (e, r') \<longrightarrow>
        (\<forall>k'. k' \<noteq> k \<longrightarrow> rd_store R r' k' = rd_store R r k' \<or> rd_store R r' k' = None))"

definition redis_ok :: "'r redis \<Rightarrow> bool" where
  "redis_ok R \<longleftrightarrow>
     set_law R \<and> get_law R \<and> del_law R \<and> get_expire_law R \<and> lock_law R"

lemma may_expire_refl [simp]: "may_expire m m"
  by (simp add: may_expire_def)

lemma may_expire_trans: "may_expire a b \<Longrightarrow> may_expire b c \<Longrightarrow> may_expire a c"
  unfolding may_expire_def by (rule map_le_trans)

lemma may_expire_Some: "may_expire m m' \<Longrightarrow> m' k = Some v \<Longrightarrow> m k = Some v"
  unfolding may_expire_def map_le_def by (metis domI)

section \<open>Concrete instances\<close>

text \<open>Canonical UUID text: 32 hexadecimal digits, dashes after the 8th, 12th, 16th and 20th.\<close>

definition hex_digit :: "nat \<Rightarrow> char" where
  "hex_digit n = (if n < 10 then char_of (48 + n) else char_of (87 + n))"

definition hex_value :: "char \<Rightarrow> nat" where
  "hex_value c = (if byte c < 58 then byte c - 48 else byte c - 87)"

fun to_hex :: "nat \<Rightarrow> nat \<Rightarrow> string" where
  "to_hex 0 n = []"
| "to_hex (Suc k) n = to_hex k (n div 16) @ [hex_digit (n mod 16)]"

definition from_hex :: "string \<Rightarrow> nat" where
  "from_hex s = foldl (\<lambda>n c. 16 * n + hex_value c) 0 s"

definition hex_uuid_String :: "uuid \<Rightarrow> string" where
  "hex_uuid_String u =
     (let h = to_hex 32 (unat u) in
      take 8 h @ ''-'' @ take 4 (drop 8 h) @ ''-'' @ take 4 (drop 12 h) @ ''-''
        @ take 4 (drop 16 h) @ ''-'' @ drop 20 h)"

definition hex_uuid_Parse :: "string \<Rightarrow> uuid option" where
  "hex_uuid_Parse s =
     (if length s = 36 then Some (of_nat (from_hex (filter (\<lambda>c. c \<noteq> CHR ''-'') s))) else None)"

definition decimal_ts_Parse :: "string \<Rightarrow> int option" where
  "decimal_ts_Parse s =
     (let (neg, ds) = split_sign s in
      Some (if neg then - int (digits_value ds) else int (digits_value ds)))"

definition plain_formats :: formats where
  "plain_formats =
     \<lparr>uuid_String = hex_uuid_String, uuid_Parse = hex_uuid_Parse,
      ts_Format = show_int, ts_Parse = decimal_ts_Parse\<rparr>"

lemma byte_hex: "n < 16 \<Longrightarrow> byte (hex_digit n) = (if n < 10 then 48 + n else 87 + n)"
  by (simp add: hex_digit_def)

lemma hex_value_digit: "n < 16 \<Longrightarrow> hex_value (hex_digit n) = n"
  by (simp add: hex_value_def byte_hex)

lemma hex_digit_not_dash: "n < 16 \<Longrightarrow> hex_digit n \<noteq> CHR ''-''"
  using byte_hex [of n] by (auto split: if_splits)

lemma length_to_hex [simp]: "length (to_hex k n) = k"
  by (induction k arbitrary: n) auto

lemma to_hex_no_dash: "c \<in> set (to_hex k n) \<Longrightarrow> c \<noteq> CHR ''-''"
proof (induction k arbitrary: n)
  case (Suc k)
  have "hex_digit (n mod 16) \<noteq> CHR ''-''" by (rule hex_digit_not_dash) simp
  with Suc show ?case by auto
qed simp

lemma from_to_hex: "from_hex (to_hex k n) = n mod 16 ^ k"
proof (induction k arbitrary: n)
  case 0
  show ?case by (simp add: from_hex_def)
next
  case (Suc k)
  have "from_hex (to_hex (Suc k) n) = 16 * from_hex (to_hex k (n div 16)) + n mod 16"
    by (simp add: from_hex_def hex_value_digit)
  also have "\<dots> = n mod (16 * 16 ^ k)"
    by (simp add: Suc.IH mod_mult2_eq)
  finally show ?case by simp
qed

lemma hex_uuid_String_hex: "filter (\<lambda>c. c \<noteq> CHR ''-'') (hex_uuid_String u) = to_hex 32 (unat u)"
proof -
  let ?h = "to_hex 32 (unat u)"
  have part: "filter (\<lambda>c. c \<noteq> CHR ''-'') s = s" if "set s \<subseteq> set ?h" for s
    using that by (auto intro!: filter_True dest: to_hex_no_dash)
  have chunk: "drop n xs = take 4 (drop n xs) @ drop (n + 4) xs" for n and xs :: string
    by (metis add.commute append_take_drop_id drop_drop)
  have split: "?h = take 8 ?h @ take 4 (drop 8 ?h) @ take 4 (drop 12 ?h) @ take 4 (drop 16 ?h)
      @ drop 20 ?h"
    using chunk [of 8 ?h] chunk [of 12 ?h] chunk [of 16 ?h] append_take_drop_id [of 8 ?h]
    by simp
  have sub: "set (take m (drop n ?h)) \<subseteq> set ?h" "set (take m ?h) \<subseteq> set ?h" "set (drop n ?h) \<subseteq> set ?h"
    for m n by (auto dest: in_set_takeD in_set_dropD)
  have "filter (\<lambda>c. c \<noteq> CHR ''-'') (hex_uuid_String u) =
      take 8 ?h @ take 4 (drop 8 ?h) @ take 4 (drop 12 ?h) @ take 4 (drop 16 ?h) @ drop 20 ?h"
    by (simp add: hex_uuid_String_def Let_def part sub)
  then show ?thesis by (simp only: split [symmetric])
qed

lemma plain_formats_ok: "formats_ok plain_formats"
proof -
  have len: "length (hex_uuid_String u) = 36" for u
    by (simp add: hex_uuid_String_def Let_def)
  have "unat (u :: uuid) < 2 ^ LENGTH(128)" for u
    by (rule unsigned_less)
  then have "hex_uuid_Parse (hex_uuid_String u) = Some u" for u
    by (simp add: hex_uuid_Parse_def len hex_uuid_String_hex from_to_hex)
  moreover have "decimal_ts_Parse (show_int t) = Some t" for t
    by (simp add: decimal_ts_Parse_def split_sign_show digits_value_show)
  ultimately show ?thesis
    using len by (simp add: formats_ok_def plain_formats_def)
qed

text \<open>A Redis that never fails and never expires: its state is its data.\<close>

definition map_redis :: "(string \<Rightarrow> payload option) redis" where
  "map_redis =
     \<lparr>rd_store = (\<lambda>r. r),
      rd_Get = (\<lambda>k r. case r k of None \<Rightarrow> RNil | Some v \<Rightarrow> RVal v),
      rd_Set = (\<lambda>k v ttl r. (None, r(k \<mapsto> v))),
      rd_Del = (\<lambda>k r. (None, r(k := None))),
      rd_GetExpire = (\<lambda>k ttl r. (case r k of None \<Rightarrow> RNil | Some v \<Rightarrow> RVal v, r)),
      lk_Obtain = (\<lambda>k ttl r. case r k of None \<Rightarrow> (None, r(k \<mapsto> Raw ''lock''))
                                      | Some _ \<Rightarrow> (Some ''not obtained'', r)),
      lk_Release = (\<lambda>k r. (None, r(k := None)))\<rparr>"

lemma map_redis_ok: "redis_ok map_redis"
  by (auto simp: redis_ok_def set_law_def get_law_def del_law_def get_expire_law_def lock_law_def
        map_redis_def may_expire_def map_le_def split: option.splits)

end
