(* ===== verification/Messages.thy ===== *)
theory Messages
  imports Queries Externals
begin

text \<open>
  The error values, request and response types of \<^verbatim>\<open>internal/service/ledger.go\<close> and their JSON form,
  as the struct tags give it. \<open>F\<close> is the text form of UUIDs and timestamps (\<open>Externals\<close>).
\<close>

section \<open>Errors\<close>

datatype sentinel =
    ErrIdempotencyKeyRequired
  | ErrIdempotencyKeyConflict
  | ErrUnbalancedTransaction
  | ErrEmptyPostings
  | ErrInvalidAmount
  | ErrAccountNotFound
  | ErrTransactionNotFound
  | ErrLockAcquisitionFailed
  | ErrInvalidDirection

fun sentinel_text :: "sentinel \<Rightarrow> string" where
  "sentinel_text ErrIdempotencyKeyRequired = ''idempotency key is required''"
| "sentinel_text ErrIdempotencyKeyConflict =
     ''a transaction with this idempotency key already exists''"
| "sentinel_text ErrUnbalancedTransaction = ''sum of debits must equal sum of credits''"
| "sentinel_text ErrEmptyPostings = ''transaction must have at least two postings''"
| "sentinel_text ErrInvalidAmount = ''posting amount must be positive''"
| "sentinel_text ErrAccountNotFound = ''account not found''"
| "sentinel_text ErrTransactionNotFound = ''transaction not found''"
| "sentinel_text ErrLockAcquisitionFailed =
     ''failed to acquire distributed lock '' @ em_dash @ '' try again''"
| "sentinel_text ErrInvalidDirection = ''invalid posting direction''"

text \<open>
  What a service method returns as its error: a sentinel, a sentinel wrapped with a detail
  (\<^verbatim>\<open>fmt.Errorf("%w: ...")\<close>), or another package's error wrapped with a context
  (\<^verbatim>\<open>fmt.Errorf("context: %w")\<close>).
\<close>

datatype svc_error =
    Sentinel sentinel
  | WithDetail sentinel string
  | DbError string pg_error
  | StoreError string string      \<comment> \<open>object storage or JSON\<close>

text \<open>\<^verbatim>\<open>errors.Is(err, s)\<close> for a sentinel \<open>s\<close>, and \<^verbatim>\<open>err.Error()\<close> where the text is the program's own.\<close>

fun errors_Is :: "svc_error \<Rightarrow> sentinel \<Rightarrow> bool" where
  "errors_Is (Sentinel t) s = (t = s)"
| "errors_Is (WithDetail t _) s = (t = s)"
| "errors_Is _ s = False"

fun error_text :: "svc_error \<Rightarrow> string option" where
  "error_text (Sentinel s) = Some (sentinel_text s)"
| "error_text (WithDetail s m) = Some (sentinel_text s @ '': '' @ m)"
| "error_text (DbError _ _) = None"
| "error_text (StoreError c m) = Some (c @ '': '' @ m)"

section \<open>Requests and responses\<close>

record CreateAccountRequest =
  car_AccountName :: string
  car_AccountType :: AccountType
  car_Currency :: string
  car_Metadata :: RawMessage

record PostingEntry =
  pe_AccountID :: int64
  pe_Amount :: int64
  pe_Direction :: PostingDirection

record CreateTransactionRequest =
  ctr_IdempotencyKey :: string
  ctr_Description :: string
  ctr_Metadata :: RawMessage
  ctr_Postings :: "PostingEntry list"

text \<open>\<^verbatim>\<open>Postings\<close> is nil when the rows could not be fetched.\<close>

record TransactionResponse =
  tr_ID :: uuid
  tr_IdempotencyKey :: string
  tr_Description :: string
  tr_Metadata :: RawMessage
  tr_Postings :: "GetPostingsByTransactionIDRow list option"
  tr_CreatedAt :: Timestamptz

record BalanceResponse =
  br_AccountID :: int64
  br_TotalDebits :: int64
  br_TotalCredits :: int64
  br_NetBalance :: int64
  br_Currency :: string

record DocumentResponse =
  dr_ID :: uuid
  dr_TransactionID :: uuid
  dr_Filename :: string
  dr_ContentType :: string
  dr_SizeBytes :: int64
  dr_DownloadURL :: string
  dr_CreatedAt :: Timestamptz

record TransactionCreatedEvent =
  ev_EventID :: string
  ev_EventType :: string
  ev_TenantID :: uuid
  ev_TransactionID :: uuid
  ev_IdempotencyKey :: string
  ev_Description :: string
  ev_Postings :: "PostingEntry list"
  ev_Metadata :: RawMessage
  ev_CreatedAt :: int

section \<open>JSON forms\<close>

definition encode_uuid :: "formats \<Rightarrow> uuid \<Rightarrow> json" where
  "encode_uuid F u = JStr (uuid_String F u)"

fun encode_ts :: "formats \<Rightarrow> Timestamptz \<Rightarrow> json" where
  "encode_ts F None = JNull"
| "encode_ts F (Some t) = JStr (ts_Format F t)"

fun decode_uuid :: "formats \<Rightarrow> json \<Rightarrow> uuid \<Rightarrow> uuid option" where
  "decode_uuid F (JStr s) old = uuid_Parse F s"
| "decode_uuid F JNull old = Some old"
| "decode_uuid F _ old = None"

fun decode_ts :: "formats \<Rightarrow> json \<Rightarrow> Timestamptz option" where
  "decode_ts F JNull = Some None"
| "decode_ts F (JStr s) = map_option Some (ts_Parse F s)"
| "decode_ts F _ = None"

definition encode_posting_entry :: "PostingEntry \<Rightarrow> json" where
  "encode_posting_entry p =
     JObj [(''account_id'', encode_int64 (pe_AccountID p)),
           (''amount'', encode_int64 (pe_Amount p)),
           (''direction'', JStr (pe_Direction p))]"

definition encode_posting_row :: "formats \<Rightarrow> GetPostingsByTransactionIDRow \<Rightarrow> json" where
  "encode_posting_row F r =
     JObj [(''id'', encode_int64 (row_ID r)),
           (''tenant_id'', encode_uuid F (row_TenantID r)),
           (''transaction_id'', encode_uuid F (row_TransactionID r)),
           (''account_id'', encode_int64 (row_AccountID r)),
           (''account_name'', JStr (row_AccountName r)),
           (''amount'', encode_int64 (row_Amount r)),
           (''direction'', JStr (row_Direction r)),
           (''created_at'', encode_ts F (row_CreatedAt r))]"

definition encode_TransactionResponse :: "formats \<Rightarrow> TransactionResponse \<Rightarrow> json" where
  "encode_TransactionResponse F r =
     JObj [(''id'', encode_uuid F (tr_ID r)),
           (''idempotency_key'', JStr (tr_IdempotencyKey r)),
           (''description'', JStr (tr_Description r)),
           (''metadata'', encode_raw (tr_Metadata r)),
           (''postings'', encode_slice (encode_posting_row F) (tr_Postings r)),
           (''created_at'', encode_ts F (tr_CreatedAt r))]"

definition encode_TransactionCreatedEvent :: "formats \<Rightarrow> TransactionCreatedEvent \<Rightarrow> json" where
  "encode_TransactionCreatedEvent F e =
     JObj [(''event_id'', JStr (ev_EventID e)),
           (''event_type'', JStr (ev_EventType e)),
           (''tenant_id'', encode_uuid F (ev_TenantID e)),
           (''transaction_id'', encode_uuid F (ev_TransactionID e)),
           (''idempotency_key'', JStr (ev_IdempotencyKey e)),
           (''description'', JStr (ev_Description e)),
           (''postings'', JArr (map encode_posting_entry (ev_Postings e))),
           (''metadata'', encode_raw (ev_Metadata e)),
           (''created_at'', encode_ts F (Some (ev_CreatedAt e)))]"

definition zero_posting_row :: GetPostingsByTransactionIDRow where
  "zero_posting_row =
     \<lparr>row_ID = 0, row_TenantID = uuid_Nil, row_TransactionID = uuid_Nil, row_AccountID = 0,
      row_AccountName = '''', row_Amount = 0, row_Direction = '''', row_CreatedAt = None\<rparr>"

definition zero_response :: TransactionResponse where
  "zero_response =
     \<lparr>tr_ID = uuid_Nil, tr_IdempotencyKey = '''', tr_Description = '''', tr_Metadata = None,
      tr_Postings = None, tr_CreatedAt = None\<rparr>"

definition posting_row_field ::
  "formats \<Rightarrow> string \<Rightarrow> json \<Rightarrow> GetPostingsByTransactionIDRow
    \<Rightarrow> GetPostingsByTransactionIDRow option" where
  "posting_row_field F k v r =
     (if key_is k ''id'' then map_option (\<lambda>x. r\<lparr>row_ID := x\<rparr>) (decode_int64 v (row_ID r))
      else if key_is k ''tenant_id''
        then map_option (\<lambda>x. r\<lparr>row_TenantID := x\<rparr>) (decode_uuid F v (row_TenantID r))
      else if key_is k ''transaction_id''
        then map_option (\<lambda>x. r\<lparr>row_TransactionID := x\<rparr>) (decode_uuid F v (row_TransactionID r))
      else if key_is k ''account_id''
        then map_option (\<lambda>x. r\<lparr>row_AccountID := x\<rparr>) (decode_int64 v (row_AccountID r))
      else if key_is k ''account_name''
        then map_option (\<lambda>x. r\<lparr>row_AccountName := x\<rparr>) (decode_string v (row_AccountName r))
      else if key_is k ''amount''
        then map_option (\<lambda>x. r\<lparr>row_Amount := x\<rparr>) (decode_int64 v (row_Amount r))
      else if key_is k ''direction''
        then map_option (\<lambda>x. r\<lparr>row_Direction := x\<rparr>) (decode_string v (row_Direction r))
      else if key_is k ''created_at''
        then map_option (\<lambda>x. r\<lparr>row_CreatedAt := x\<rparr>) (decode_ts F v)
      else Some r)"

definition decode_posting_row ::
  "formats \<Rightarrow> json \<Rightarrow> GetPostingsByTransactionIDRow option" where
  "decode_posting_row F j = decode_struct (posting_row_field F) j zero_posting_row"

definition response_field ::
  "formats \<Rightarrow> string \<Rightarrow> json \<Rightarrow> TransactionResponse \<Rightarrow> TransactionResponse option" where
  "response_field F k v r =
     (if key_is k ''id'' then map_option (\<lambda>x. r\<lparr>tr_ID := x\<rparr>) (decode_uuid F v (tr_ID r))
      else if key_is k ''idempotency_key''
        then map_option (\<lambda>x. r\<lparr>tr_IdempotencyKey := x\<rparr>) (decode_string v (tr_IdempotencyKey r))
      else if key_is k ''description''
        then map_option (\<lambda>x. r\<lparr>tr_Description := x\<rparr>) (decode_string v (tr_Description r))
      else if key_is k ''metadata'' then Some (r\<lparr>tr_Metadata := Some v\<rparr>)
      else if key_is k ''postings''
        then map_option (\<lambda>x. r\<lparr>tr_Postings := x\<rparr>)
               (decode_slice (decode_posting_row F) v (tr_Postings r))
      else if key_is k ''created_at''
        then map_option (\<lambda>x. r\<lparr>tr_CreatedAt := x\<rparr>) (decode_ts F v)
      else Some r)"

text \<open>\<^verbatim>\<open>json.Unmarshal\<close> into a zero \<^verbatim>\<open>TransactionResponse\<close>.\<close>

fun unmarshal_TransactionResponse :: "formats \<Rightarrow> payload \<Rightarrow> TransactionResponse option" where
  "unmarshal_TransactionResponse F (Raw s) = None"
| "unmarshal_TransactionResponse F (Doc j) = decode_struct (response_field F) j zero_response"

section \<open>Round trips\<close>

lemma decode_encode_uuid: "formats_ok F \<Longrightarrow> decode_uuid F (encode_uuid F u) old = Some u"
  by (simp add: encode_uuid_def formats_ok_def)

lemma decode_encode_ts: "formats_ok F \<Longrightarrow> decode_ts F (encode_ts F t) = Some t"
  by (cases t) (simp_all add: formats_ok_def)

lemma decode_posting_row_encode:
  assumes "formats_ok F"
  shows "decode_posting_row F (encode_posting_row F r) = Some r"
  by (simp add: decode_posting_row_def encode_posting_row_def posting_row_field_def key_is_def
      ascii_lower_def decode_encode_uuid [OF assms] decode_encode_ts [OF assms])

text \<open>
  A response read back from its JSON form is the response, but for a nil metadata, whose JSON
  \<^verbatim>\<open>null\<close> is read as the four bytes null.
\<close>

lemma unmarshal_encode_response:
  assumes "formats_ok F" and "tr_Metadata r \<noteq> None"
  shows "unmarshal_TransactionResponse F (Doc (encode_TransactionResponse F r)) = Some r"
proof -
  from assms(2) obtain m where m: "tr_Metadata r = Some m" by auto
  have rows: "decode_slice (decode_posting_row F) (encode_slice (encode_posting_row F) xs) old = Some xs"
    for xs old by (rule decode_encode_slice) (rule decode_posting_row_encode [OF assms(1)])
  show ?thesis
    by (simp add: encode_TransactionResponse_def response_field_def key_is_def ascii_lower_def rows m
        decode_encode_uuid [OF assms(1)] decode_encode_ts [OF assms(1)])
qed

end
