(* ===== verification/Ledger.thy ===== *)
theory Ledger
  imports Integrity Messages
begin

text \<open>
  \<^verbatim>\<open>LedgerService\<close> (\<^verbatim>\<open>internal/service/ledger.go\<close>): accounts, balances and the double-entry
  transaction with its lock, idempotency cache, database transaction and outbox event. The service's
  dependencies are the database and Redis, its state a \<open>world\<close>; logging is left out.

  What one call of \<^verbatim>\<open>CreateTransaction\<close> receives from outside is a \<open>call_env\<close>: the time and the UUIDs
  the server and \<^verbatim>\<open>uuid.New\<close> generate, which database calls fail, and whether the reply to COMMIT is
  lost after the commit took effect.
\<close>

record 'r world =
  w_db :: db
  w_redis :: 'r

datatype site =
    AtBeginTx
  | AtInsertTransaction
  | AtInsertPosting nat
  | AtInsertOutbox
  | AtCommit
  | AtFetchPostings

record call_env =
  ce_now :: int
  ce_tx_id :: uuid
  ce_event_id :: uuid
  ce_outbox_id :: uuid
  ce_fault :: "site \<Rightarrow> string option"
  ce_commit_lost :: "string option"

section \<open>Accounts\<close>

definition metadata_or_empty :: "RawMessage \<Rightarrow> RawMessage" where
  "metadata_or_empty m = (if m = None then Some (JObj []) else m)"

definition CreateAccount ::
  "string option \<Rightarrow> int \<Rightarrow> uuid \<Rightarrow> CreateAccountRequest \<Rightarrow> db \<Rightarrow> (svc_error + Account) \<times> db"
  where
  "CreateAccount flt now tenantID req d =
     (case autocommit flt (q_CreateAccount now
        \<lparr>cap_TenantID = tenantID, cap_AccountName = car_AccountName req,
         cap_AccountType = car_AccountType req, cap_Currency = car_Currency req,
         cap_Metadata = metadata_or_empty (car_Metadata req)\<rparr>) d of
        (Inl e, d') \<Rightarrow> (Inl (DbError ''create account'' e), d')
      | (Inr account, d') \<Rightarrow> (Inr account, d'))"

definition GetAccount :: "string option \<Rightarrow> uuid \<Rightarrow> int64 \<Rightarrow> db \<Rightarrow> svc_error + Account" where
  "GetAccount flt tenantID i d =
     (case read_query flt (q_GetAccountByID \<lparr>gap_ID = i, gap_TenantID = tenantID\<rparr> d) of
        Inl NoRows \<Rightarrow> Inl (Sentinel ErrAccountNotFound)
      | Inl e \<Rightarrow> Inl (DbError ''get account'' e)
      | Inr account \<Rightarrow> Inr account)"

definition clamp_page :: "int32 \<Rightarrow> int32" where
  "clamp_page pageSize = (if sint pageSize \<le> 0 \<or> 100 < sint pageSize then 20 else pageSize)"

definition ListAccounts ::
  "string option \<Rightarrow> uuid \<Rightarrow> int64 \<Rightarrow> int32 \<Rightarrow> db \<Rightarrow> svc_error + Account list" where
  "ListAccounts flt tenantID cursor pageSize d =
     map_err (DbError ''list accounts'')
       (read_query flt (q_ListAccounts
          \<lparr>lap_TenantID = tenantID, lap_Cursor = cursor, lap_PageSize = clamp_page pageSize\<rparr> d))"

definition GetAccountBalance ::
  "string option \<Rightarrow> string option \<Rightarrow> uuid \<Rightarrow> int64 \<Rightarrow> db \<Rightarrow> svc_error + BalanceResponse" where
  "GetAccountBalance flt1 flt2 tenantID accountID d =
     (case read_query flt1 (q_GetAccountByID \<lparr>gap_ID = accountID, gap_TenantID = tenantID\<rparr> d) of
        Inl NoRows \<Rightarrow> Inl (Sentinel ErrAccountNotFound)
      | Inl e \<Rightarrow> Inl (DbError ''get account for balance'' e)
      | Inr account \<Rightarrow>
          (case read_query flt2 (q_GetAccountBalance
                  \<lparr>gab_AccountID = accountID, gab_TenantID = tenantID\<rparr> d) of
             Inl e \<Rightarrow> Inl (DbError ''get account balance'' e)
           | Inr balance \<Rightarrow>
               Inr \<lparr>br_AccountID = accountID, br_TotalDebits = bal_TotalDebits balance,
                    br_TotalCredits = bal_TotalCredits balance,
                    br_NetBalance = bal_NetBalance balance, br_Currency = acc_Currency account\<rparr>))"

definition ListAccountPostings ::
  "string option \<Rightarrow> uuid \<Rightarrow> int64 \<Rightarrow> int32 \<Rightarrow> int32 \<Rightarrow> db
    \<Rightarrow> svc_error + GetPostingsByAccountIDRow list" where
  "ListAccountPostings flt tenantID accountID offset pageSize d =
     map_err (DbError ''list account postings'')
       (read_query flt (q_GetPostingsByAccountID
          \<lparr>gpa_AccountID = accountID, gpa_TenantID = tenantID, gpa_PageOffset = offset,
           gpa_PageSize = clamp_page pageSize\<rparr> d))"

section \<open>Creating a transaction\<close>

subsection \<open>Validation\<close>

text \<open>The loop over the postings, with the early returns of its body.\<close>

fun sum_entries :: "PostingEntry list \<Rightarrow> int64 \<Rightarrow> int64 \<Rightarrow> svc_error + int64 \<times> int64" where
  "sum_entries [] debitSum creditSum = Inr (debitSum, creditSum)"
| "sum_entries (p # ps) debitSum creditSum =
     (if sint (pe_Amount p) \<le> 0 then Inl (Sentinel ErrInvalidAmount)
      else if pe_Direction p = PostingDirectionDebit
        then sum_entries ps (debitSum + pe_Amount p) creditSum
      else if pe_Direction p = PostingDirectionCredit
        then sum_entries ps debitSum (creditSum + pe_Amount p)
      else Inl (WithDetail ErrInvalidDirection (pe_Direction p)))"

definition check_request :: "CreateTransactionRequest \<Rightarrow> svc_error option" where
  "check_request req =
     (if ctr_IdempotencyKey req = '''' then Some (Sentinel ErrIdempotencyKeyRequired)
      else if length (ctr_Postings req) < 2 then Some (Sentinel ErrEmptyPostings)
      else case sum_entries (ctr_Postings req) 0 0 of
        Inl e \<Rightarrow> Some e
      | Inr (debitSum, creditSum) \<Rightarrow>
          if debitSum \<noteq> creditSum
          then Some (WithDetail ErrUnbalancedTransaction
            (''debits='' @ show_int (sint debitSum) @ '' credits='' @ show_int (sint creditSum)))
          else None)"

subsection \<open>Redis keys and the idempotency cache\<close>

definition lock_key :: "formats \<Rightarrow> uuid \<Rightarrow> string \<Rightarrow> string" where
  "lock_key F tenantID key = ''ledger:lock:'' @ uuid_String F tenantID @ '':'' @ key"

definition idempotency_key :: "formats \<Rightarrow> uuid \<Rightarrow> string \<Rightarrow> string" where
  "idempotency_key F tenantID key = ''ledger:idempotency:'' @ uuid_String F tenantID @ '':'' @ key"

text \<open>Replay: a non-empty cached value that decodes. Any other outcome of the GET goes on.\<close>

definition cached_replay ::
  "formats \<Rightarrow> 'r redis \<Rightarrow> string \<Rightarrow> 'r \<Rightarrow> TransactionResponse option" where
  "cached_replay F R key r =
     (case rd_Get R key r of
        RVal cached \<Rightarrow>
          if cached \<noteq> Raw '''' then unmarshal_TransactionResponse F cached else None
      | RNil \<Rightarrow> None
      | RErr _ \<Rightarrow> None)"

subsection \<open>The database transaction\<close>

text \<open>A statement inside the transaction; \<open>flt\<close> is a failure outside the model.\<close>

definition run_stmt ::
  "string option \<Rightarrow> (db \<Rightarrow> (pg_error + 'a) \<times> db) \<Rightarrow> db \<Rightarrow> (pg_error + 'a) \<times> db" where
  "run_stmt flt q d = (case flt of Some e \<Rightarrow> (Inl (ConnError e), d) | None \<Rightarrow> q d)"

fun insert_postings ::
  "call_env \<Rightarrow> uuid \<Rightarrow> uuid \<Rightarrow> nat \<Rightarrow> PostingEntry list \<Rightarrow> db \<Rightarrow> svc_error option \<times> db" where
  "insert_postings E tenantID txID i [] d = (None, d)"
| "insert_postings E tenantID txID i (p # ps) d =
     (case run_stmt (ce_fault E (AtInsertPosting i)) (q_CreatePosting (ce_now E)
        \<lparr>cpp_TenantID = tenantID, cpp_TransactionID = txID, cpp_AccountID = pe_AccountID p,
         cpp_Amount = pe_Amount p, cpp_Direction = pe_Direction p\<rparr>) d of
        (Inl e, d') \<Rightarrow> (Some (DbError (''insert posting['' @ show_nat i @ '']'') e), d')
      | (Inr _, d') \<Rightarrow> insert_postings E tenantID txID (Suc i) ps d')"

text \<open>
  \<^verbatim>\<open>BuildOutboxPayload\<close>: \<^verbatim>\<open>json.Marshal\<close>, which has no error for the event's fields.
\<close>

definition BuildOutboxPayload ::
  "formats \<Rightarrow> TransactionCreatedEvent \<Rightarrow> string + RawMessage" where
  "BuildOutboxPayload F v = Inr (Some (encode_TransactionCreatedEvent F v))"

definition created_event ::
  "formats \<Rightarrow> call_env \<Rightarrow> uuid \<Rightarrow> CreateTransactionRequest \<Rightarrow> Transaction
    \<Rightarrow> TransactionCreatedEvent" where
  "created_event F E tenantID req txRecord =
     \<lparr>ev_EventID = uuid_String F (ce_event_id E), ev_EventType = ''transaction.created'',
      ev_TenantID = tenantID, ev_TransactionID = tx_ID txRecord,
      ev_IdempotencyKey = tx_IdempotencyKey txRecord, ev_Description = tx_Description txRecord,
      ev_Postings = ctr_Postings req, ev_Metadata = tx_Metadata txRecord,
      ev_CreatedAt = ts_key (tx_CreatedAt txRecord)\<rparr>"

definition tx_body ::
  "formats \<Rightarrow> call_env \<Rightarrow> uuid \<Rightarrow> CreateTransactionRequest \<Rightarrow> db
    \<Rightarrow> (svc_error + Transaction) \<times> db" where
  "tx_body F E tenantID req d =
     (case run_stmt (ce_fault E AtInsertTransaction) (q_CreateTransaction (ce_tx_id E) (ce_now E)
        \<lparr>ctp_TenantID = tenantID, ctp_IdempotencyKey = ctr_IdempotencyKey req,
         ctp_Description = ctr_Description req,
         ctp_Metadata = metadata_or_empty (ctr_Metadata req)\<rparr>) d of
        (Inl e, d1) \<Rightarrow> (Inl (DbError ''insert transaction'' e), d1)
      | (Inr txRecord, d1) \<Rightarrow>
          (case insert_postings E tenantID (tx_ID txRecord) 0 (ctr_Postings req) d1 of
             (Some err, d2) \<Rightarrow> (Inl err, d2)
           | (None, d2) \<Rightarrow>
               (case BuildOutboxPayload F (created_event F E tenantID req txRecord) of
                  Inl e \<Rightarrow> (Inl (StoreError ''build outbox payload'' e), d2)
                | Inr outboxPayload \<Rightarrow>
                    (case run_stmt (ce_fault E AtInsertOutbox)
                       (q_CreateOutboxEvent (ce_outbox_id E) (ce_now E)
                          \<lparr>cop_TenantID = tenantID, cop_EventType = ''transaction.created'',
                           cop_RoutingKey = ''transaction.created'',
                           cop_Payload = outboxPayload\<rparr>) d2 of
                       (Inl e, d3) \<Rightarrow> (Inl (DbError ''insert outbox event'' e), d3)
                     | (Inr _, d3) \<Rightarrow> (Inr txRecord, d3)))))"

text \<open>
  BEGIN, the body, and COMMIT or ROLLBACK. An error of COMMIT whose cause is the connection leaves
  open whether it took effect: \<open>ce_commit_lost\<close> is the case where it did.
\<close>

definition write_transaction ::
  "formats \<Rightarrow> call_env \<Rightarrow> uuid \<Rightarrow> CreateTransactionRequest \<Rightarrow> db
    \<Rightarrow> (svc_error + Transaction) \<times> db" where
  "write_transaction F E tenantID req d =
     (case ce_fault E AtBeginTx of
        Some e \<Rightarrow> (Inl (DbError ''begin tx'' (ConnError e)), d)
      | None \<Rightarrow>
          (case tx_body F E tenantID req d of
             (Inl err, d1) \<Rightarrow> (Inl err, rollback_db d d1)
           | (Inr txRecord, d1) \<Rightarrow>
               (case ce_fault E AtCommit of
                  Some e \<Rightarrow> (Inl (DbError ''commit transaction'' (ConnError e)), rollback_db d d1)
                | None \<Rightarrow>
                    (case commit_db d1 of
                       Inl e \<Rightarrow> (Inl (DbError ''commit transaction'' e), rollback_db d d1)
                     | Inr d2 \<Rightarrow>
                         (case ce_commit_lost E of
                            Some e \<Rightarrow> (Inl (DbError ''commit transaction'' (ConnError e)), d2)
                          | None \<Rightarrow> (Inr txRecord, d2))))))"

subsection \<open>The response and the whole call\<close>

definition make_response ::
  "Transaction \<Rightarrow> GetPostingsByTransactionIDRow list option \<Rightarrow> TransactionResponse" where
  "make_response txRecord rows =
     \<lparr>tr_ID = tx_ID txRecord, tr_IdempotencyKey = tx_IdempotencyKey txRecord,
      tr_Description = tx_Description txRecord, tr_Metadata = tx_Metadata txRecord,
      tr_Postings = rows, tr_CreatedAt = tx_CreatedAt txRecord\<rparr>"

definition fetch_postings ::
  "string option \<Rightarrow> uuid \<Rightarrow> uuid \<Rightarrow> db \<Rightarrow> GetPostingsByTransactionIDRow list option" where
  "fetch_postings flt tenantID txID d =
     (case read_query flt (q_GetPostingsByTransactionID
        \<lparr>gpt_TransactionID = txID, gpt_TenantID = tenantID\<rparr> d) of
        Inl _ \<Rightarrow> None
      | Inr rows \<Rightarrow> Some rows)"

definition under_lock ::
  "formats \<Rightarrow> 'r redis \<Rightarrow> int \<Rightarrow> call_env \<Rightarrow> uuid \<Rightarrow> CreateTransactionRequest \<Rightarrow> 'r world
    \<Rightarrow> (svc_error + TransactionResponse) \<times> 'r world" where
  "under_lock F R ttl E tenantID req w =
     (let key = idempotency_key F tenantID (ctr_IdempotencyKey req) in
      case cached_replay F R key (w_redis w) of
        Some replay \<Rightarrow> (Inr replay, w)
      | None \<Rightarrow>
          (case write_transaction F E tenantID req (w_db w) of
             (Inl err, d) \<Rightarrow> (Inl err, w\<lparr>w_db := d\<rparr>)
           | (Inr txRecord, d) \<Rightarrow>
               (let response = make_response txRecord
                      (fetch_postings (ce_fault E AtFetchPostings) tenantID (tx_ID txRecord) d);
                    (setErr, r) = rd_Set R key (Doc (encode_TransactionResponse F response)) ttl
                      (w_redis w)
                in (Inr response, w\<lparr>w_db := d, w_redis := r\<rparr>))))"

definition lock_ttl :: int where
  "lock_ttl = 30 * 10 ^ 9"

definition CreateTransaction ::
  "formats \<Rightarrow> 'r redis \<Rightarrow> int \<Rightarrow> call_env \<Rightarrow> uuid \<Rightarrow> CreateTransactionRequest \<Rightarrow> 'r world
    \<Rightarrow> (svc_error + TransactionResponse) \<times> 'r world" where
  "CreateTransaction F R idempotencyTTL E tenantID req w =
     (case check_request req of
        Some err \<Rightarrow> (Inl err, w)
      | None \<Rightarrow>
          (let lockKey = lock_key F tenantID (ctr_IdempotencyKey req) in
           case lk_Obtain R lockKey lock_ttl (w_redis w) of
             (Some _, r) \<Rightarrow> (Inl (Sentinel ErrLockAcquisitionFailed), w\<lparr>w_redis := r\<rparr>)
           | (None, r) \<Rightarrow>
               (let (res, w1) = under_lock F R idempotencyTTL E tenantID req (w\<lparr>w_redis := r\<rparr>);
                    (releaseErr, r2) = lk_Release R lockKey (w_redis w1)
                in (res, w1\<lparr>w_redis := r2\<rparr>))))"

section \<open>Reading transactions\<close>

definition GetTransaction ::
  "string option \<Rightarrow> string option \<Rightarrow> uuid \<Rightarrow> uuid \<Rightarrow> db \<Rightarrow> svc_error + TransactionResponse" where
  "GetTransaction flt1 flt2 tenantID i d =
     (case read_query flt1 (q_GetTransactionByID \<lparr>gtp_ID = i, gtp_TenantID = tenantID\<rparr> d) of
        Inl NoRows \<Rightarrow> Inl (Sentinel ErrTransactionNotFound)
      | Inl e \<Rightarrow> Inl (DbError ''get transaction'' e)
      | Inr txRecord \<Rightarrow>
          (case read_query flt2 (q_GetPostingsByTransactionID
                  \<lparr>gpt_TransactionID = i, gpt_TenantID = tenantID\<rparr> d) of
             Inl e \<Rightarrow> Inl (DbError ''get postings'' e)
           | Inr rows \<Rightarrow> Inr (make_response txRecord (Some rows))))"

definition ListTransactions ::
  "string option \<Rightarrow> uuid \<Rightarrow> int \<Rightarrow> int32 \<Rightarrow> db \<Rightarrow> svc_error + Transaction list" where
  "ListTransactions flt tenantID cursorTime pageSize d =
     map_err (DbError ''list transactions'')
       (read_query flt (q_ListTransactions
          \<lparr>ltp_TenantID = tenantID, ltp_CursorCreatedAt = Some cursorTime,
           ltp_PageSize = clamp_page pageSize\<rparr> d))"

end
