(* ===== verification/Bookkeeping.thy ===== *)
theory Bookkeeping
  imports Ledger
begin

text \<open>
  What \<^verbatim>\<open>CreateTransaction\<close> does to the ledger, on success and on every error: the rows it adds, the
  invariant it keeps, the atomicity of the database transaction, and the double-entry identities
  that follow.
\<close>

section \<open>Statements of the transaction\<close>

lemma run_stmt_Inr: "run_stmt flt q d = (Inr r, d') \<longleftrightarrow> flt = None \<and> q d = (Inr r, d')"
  by (auto simp: run_stmt_def split: option.splits)

definition posting_of_entry :: "uuid \<Rightarrow> uuid \<Rightarrow> int \<Rightarrow> PostingEntry \<Rightarrow> Posting \<Rightarrow> bool" where
  "posting_of_entry tenantID txID now e p \<longleftrightarrow>
     pst_TransactionID p = txID \<and> pst_TenantID p = tenantID \<and> pst_AccountID p = pe_AccountID e
   \<and> pst_Amount p = pe_Amount e \<and> pst_Direction p = pe_Direction e
   \<and> pst_CreatedAt p = Some now"

lemma q_CreatePosting_Inr:
  assumes "q_CreatePosting now arg d = (Inr p, d')"
  shows "d' = put_posting p (d\<lparr>db_posting_seq := pst_ID p\<rparr>)"
    and "pst_TransactionID p = cpp_TransactionID arg" and "pst_TenantID p = cpp_TenantID arg"
    and "pst_AccountID p = cpp_AccountID arg" and "pst_Amount p = cpp_Amount arg"
    and "pst_Direction p = cpp_Direction arg" and "pst_CreatedAt p = Some now"
    and "account_exists (cpp_AccountID arg) d" and "0 < sint (cpp_Amount arg)"
    and "sint (pst_ID p) = sint (db_posting_seq d) + 1"
  using assms nextval_Inr [of "''postings_id_seq''" "db_posting_seq d"]
  by (auto simp: q_CreatePosting_def insert_row_Inr first_violation_None
      simp del: first_violation.simps split: if_splits sum.splits)

lemma q_CreateTransaction_Inr:
  assumes "q_CreateTransaction i now arg d = (Inr t, d')"
  shows "d' = put_transaction t d"
    and "t = \<lparr>tx_ID = i, tx_IdempotencyKey = ctp_IdempotencyKey arg,
              tx_Description = ctp_Description arg, tx_Metadata = ctp_Metadata arg,
              tx_CreatedAt = Some now, tx_TenantID = ctp_TenantID arg\<rparr>"
    and "\<forall>r \<in> set (db_transactions d). tx_ID r \<noteq> i"
    and "\<forall>r \<in> set (db_transactions d).
           \<not> (tx_TenantID r = ctp_TenantID arg \<and> tx_IdempotencyKey r = ctp_IdempotencyKey arg)"
  using assms
  by (auto simp: q_CreateTransaction_def insert_row_Inr first_violation_None
      simp del: first_violation.simps)

lemma q_CreateOutboxEvent_Inr:
  assumes "q_CreateOutboxEvent i now arg d = (Inr e, d')"
  shows "d' = put_outbox e d"
    and "ob_ID e = i" and "ob_EventType e = cop_EventType arg"
    and "ob_RoutingKey e = cop_RoutingKey arg" and "ob_Payload e = encode_raw (cop_Payload arg)"
    and "ob_Status e = OutboxStatusPending" and "ob_RetryCount e = 0"
    and "ob_MaxRetries e = 5" and "ob_TenantID e = cop_TenantID arg"
    and "ob_CreatedAt e = Some now"
  using assms
  by (auto simp: q_CreateOutboxEvent_def insert_row_Inr simp del: first_violation.simps)

section \<open>Inserting the postings\<close>

definition same_but_postings :: "db \<Rightarrow> db \<Rightarrow> bool" where
  "same_but_postings d d' \<longleftrightarrow>
     d' = d\<lparr>db_postings := db_postings d', db_posting_seq := db_posting_seq d',
           db_deferred := db_deferred d'\<rparr>"

lemma insert_postings_None:
  "insert_postings E tenantID txID i es d = (None, d') \<Longrightarrow>
     \<exists>ps. db_postings d' = db_postings d @ ps
        \<and> list_all2 (posting_of_entry tenantID txID (ce_now E)) es ps
        \<and> sorted_wrt (<) (sint (db_posting_seq d) # map (\<lambda>p. sint (pst_ID p)) ps)
        \<and> same_but_postings d d'"
proof (induction es arbitrary: i d)
  case Nil
  then show ?case by (simp add: same_but_postings_def)
next
  case (Cons e es)
  let ?arg = "\<lparr>cpp_TenantID = tenantID, cpp_TransactionID = txID, cpp_AccountID = pe_AccountID e,
    cpp_Amount = pe_Amount e, cpp_Direction = pe_Direction e\<rparr>"
  from Cons.prems obtain p d1 where q: "q_CreatePosting (ce_now E) ?arg d = (Inr p, d1)"
    and rest: "insert_postings E tenantID txID (Suc i) es d1 = (None, d')"
    by (auto simp: run_stmt_Inr split: prod.splits sum.splits)
  note p = q_CreatePosting_Inr [OF q]
  from Cons.IH [OF rest] obtain ps where ps: "db_postings d' = db_postings d1 @ ps"
      "list_all2 (posting_of_entry tenantID txID (ce_now E)) es ps" "same_but_postings d1 d'"
      "sorted_wrt (<) (sint (db_posting_seq d1) # map (\<lambda>p. sint (pst_ID p)) ps)"
    by blast
  have "db_postings d' = db_postings d @ (p # ps)"
    by (simp add: ps(1) p(1) put_posting_def)
  moreover have "list_all2 (posting_of_entry tenantID txID (ce_now E)) (e # es) (p # ps)"
    using ps(2) p(2-7) by (simp add: posting_of_entry_def)
  moreover have "same_but_postings d d'"
    using ps(3) by (simp add: same_but_postings_def p(1) put_posting_def)
  moreover have "sorted_wrt (<) (sint (db_posting_seq d) # map (\<lambda>q. sint (pst_ID q)) (p # ps))"
    using ps(4) p(10) by (auto simp: p(1) put_posting_def)
  ultimately show ?case by blast
qed

lemma insert_postings_keeps:
  "tx_ok d \<Longrightarrow> insert_postings E tenantID txID i es d = (r, d') \<Longrightarrow> tx_ok d' \<and> evolves d d'"
proof (induction es arbitrary: i d)
  case (Cons e es)
  let ?arg = "\<lparr>cpp_TenantID = tenantID, cpp_TransactionID = txID, cpp_AccountID = pe_AccountID e,
    cpp_Amount = pe_Amount e, cpp_Direction = pe_Direction e\<rparr>"
  obtain r1 d1 where q: "run_stmt (ce_fault E (AtInsertPosting i))
      (q_CreatePosting (ce_now E) ?arg) d = (r1, d1)"
    by (cases "run_stmt (ce_fault E (AtInsertPosting i)) (q_CreatePosting (ce_now E) ?arg) d")
  have d1: "tx_ok d1" "evolves d d1"
    using q Cons.prems(1) CreatePosting.keeps [of d] CreatePosting.grows [of _ _ d]
    by (auto simp: run_stmt_def split: option.splits)
  show ?case
  proof (cases r1)
    case (Inl err)
    with Cons.prems(2) q d1 show ?thesis by simp
  next
    case (Inr p)
    with Cons.prems(2) q have "insert_postings E tenantID txID (Suc i) es d1 = (r, d')" by simp
    from Cons.IH [OF d1(1) this] show ?thesis using d1(2) evolves_trans by blast
  qed
qed auto

section \<open>The body and the commit\<close>

text \<open>The rows a request adds: its transaction, its postings and its outbox event.\<close>

definition new_transaction ::
  "call_env \<Rightarrow> uuid \<Rightarrow> CreateTransactionRequest \<Rightarrow> Transaction" where
  "new_transaction E tenantID req =
     \<lparr>tx_ID = ce_tx_id E, tx_IdempotencyKey = ctr_IdempotencyKey req,
      tx_Description = ctr_Description req, tx_Metadata = metadata_or_empty (ctr_Metadata req),
      tx_CreatedAt = Some (ce_now E), tx_TenantID = tenantID\<rparr>"

definition event_row ::
  "formats \<Rightarrow> call_env \<Rightarrow> uuid \<Rightarrow> CreateTransactionRequest \<Rightarrow> LedgerOutbox \<Rightarrow> bool" where
  "event_row F E tenantID req e \<longleftrightarrow>
     ob_ID e = ce_outbox_id E \<and> ob_Status e = OutboxStatusPending \<and> ob_RetryCount e = 0
   \<and> ob_TenantID e = tenantID \<and> ob_RoutingKey e = ''transaction.created''
   \<and> ob_MaxRetries e = 5
   \<and> ob_Payload e = encode_TransactionCreatedEvent F
       (created_event F E tenantID req (new_transaction E tenantID req))"

definition posted ::
  "formats \<Rightarrow> call_env \<Rightarrow> uuid \<Rightarrow> CreateTransactionRequest \<Rightarrow> db \<Rightarrow> db \<Rightarrow> bool" where
  "posted F E tenantID req d d' \<longleftrightarrow>
     db_transactions d' = db_transactions d @ [new_transaction E tenantID req]
   \<and> (\<exists>ps. db_postings d' = db_postings d @ ps
        \<and> list_all2 (posting_of_entry tenantID (ce_tx_id E) (ce_now E)) (ctr_Postings req) ps
        \<and> sorted_wrt (<) (map (\<lambda>p. sint (pst_ID p)) ps))
   \<and> (\<exists>e. db_outbox d' = db_outbox d @ [e] \<and> event_row F E tenantID req e)
   \<and> db_tenants d' = db_tenants d \<and> db_users d' = db_users d \<and> db_accounts d' = db_accounts d
   \<and> db_documents d' = db_documents d \<and> db_account_seq d' = db_account_seq d"

text \<open>Nothing but the sequences has moved.\<close>

definition unchanged :: "db \<Rightarrow> db \<Rightarrow> bool" where
  "unchanged d d' \<longleftrightarrow> d' = rollback_db d d'"

lemma rollback_unchanged [simp]: "unchanged d (rollback_db d d')"
  by (simp add: unchanged_def rollback_db_def)

lemma unchanged_refl [simp]: "unchanged d d"
  by (simp add: unchanged_def rollback_db_def)

lemma tx_body_Inr:
  assumes "tx_body F E tenantID req d = (Inr t, d')"
  shows "t = new_transaction E tenantID req" and "posted F E tenantID req d d'"
    and "\<forall>r \<in> set (db_transactions d). tx_ID r \<noteq> ce_tx_id E"
    and "\<forall>r \<in> set (db_transactions d).
           \<not> (tx_TenantID r = tenantID \<and> tx_IdempotencyKey r = ctr_IdempotencyKey req)"
proof -
  let ?targ = "\<lparr>ctp_TenantID = tenantID, ctp_IdempotencyKey = ctr_IdempotencyKey req,
    ctp_Description = ctr_Description req,
    ctp_Metadata = metadata_or_empty (ctr_Metadata req)\<rparr>"
  from assms obtain t0 d1 d2 e d3 oarg where
    q1: "q_CreateTransaction (ce_tx_id E) (ce_now E) ?targ d = (Inr t0, d1)" and
    q2: "insert_postings E tenantID (tx_ID t0) 0 (ctr_Postings req) d1 = (None, d2)" and
    oarg: "oarg = \<lparr>cop_TenantID = tenantID, cop_EventType = ''transaction.created'',
      cop_RoutingKey = ''transaction.created'',
      cop_Payload = Some (encode_TransactionCreatedEvent F (created_event F E tenantID req t0))\<rparr>"
      and
    q3: "q_CreateOutboxEvent (ce_outbox_id E) (ce_now E) oarg d2 = (Inr e, d3)" and
    res: "t = t0" "d' = d3"
    by (auto simp: tx_body_def run_stmt_Inr BuildOutboxPayload_def
        split: prod.splits sum.splits option.splits)
  note t = q_CreateTransaction_Inr [OF q1] and o = q_CreateOutboxEvent_Inr [OF q3]
  have t0: "t0 = new_transaction E tenantID req"
    by (simp add: t(2) new_transaction_def)
  then show "t = new_transaction E tenantID req" by (simp add: res)
  from insert_postings_None [OF q2] obtain ps where ps: "db_postings d2 = db_postings d1 @ ps"
      "list_all2 (posting_of_entry tenantID (tx_ID t0) (ce_now E)) (ctr_Postings req) ps"
      "sorted_wrt (<) (map (\<lambda>p. sint (pst_ID p)) ps)" "same_but_postings d1 d2" by auto
  have frame: "db_transactions d2 = db_transactions d1" "db_outbox d2 = db_outbox d1"
      "db_tenants d2 = db_tenants d1" "db_users d2 = db_users d1" "db_accounts d2 = db_accounts d1"
      "db_documents d2 = db_documents d1" "db_account_seq d2 = db_account_seq d1"
    by (subst ps(4) [unfolded same_but_postings_def]; simp)+
  show "posted F E tenantID req d d'"
    unfolding posted_def res
    using ps(1-3) o(2-10)
    by (auto simp: o(1) t(1) frame put_transaction_def put_outbox_def event_row_def oarg t0
        new_transaction_def)
  show "\<forall>r \<in> set (db_transactions d). tx_ID r \<noteq> ce_tx_id E"
    and "\<forall>r \<in> set (db_transactions d).
           \<not> (tx_TenantID r = tenantID \<and> tx_IdempotencyKey r = ctr_IdempotencyKey req)"
    using t(3,4) by auto
qed

lemma tx_body_keeps:
  assumes "tx_ok d" and "tx_body F E tenantID req d = (r, d')"
  shows "tx_ok d' \<and> evolves d d'"
proof -
  let ?targ = "\<lparr>ctp_TenantID = tenantID, ctp_IdempotencyKey = ctr_IdempotencyKey req,
    ctp_Description = ctr_Description req,
    ctp_Metadata = metadata_or_empty (ctr_Metadata req)\<rparr>"
  obtain r1 d1 where q1: "run_stmt (ce_fault E AtInsertTransaction)
      (q_CreateTransaction (ce_tx_id E) (ce_now E) ?targ) d = (r1, d1)" by fastforce
  have d1: "tx_ok d1 \<and> evolves d d1"
    using q1 assms(1) CreateTransaction.keeps [of d] CreateTransaction.grows [of _ _ _ d]
    by (auto simp: run_stmt_def split: option.splits)
  show ?thesis
  proof (cases r1)
    case (Inl e)
    with assms(2) q1 d1 show ?thesis by (simp add: tx_body_def)
  next
    case (Inr t)
    obtain r2 d2 where q2: "insert_postings E tenantID (tx_ID t) 0 (ctr_Postings req) d1 = (r2, d2)"
      by fastforce
    have d2: "tx_ok d2 \<and> evolves d d2"
      using insert_postings_keeps [OF _ q2] d1 evolves_trans by blast
    show ?thesis
    proof (cases r2)
      case None
      with assms(2) q1 Inr q2 d2 show ?thesis
        using CreateOutboxEvent.keeps [of d2] CreateOutboxEvent.grows [of _ _ _ d2] evolves_trans
        by (fastforce simp: tx_body_def BuildOutboxPayload_def run_stmt_def
            split: option.splits sum.splits prod.splits)
    next
      case (Some e)
      with assms(2) q1 Inr q2 d2 show ?thesis by (simp add: tx_body_def)
    qed
  qed
qed

lemma posted_deferred: "posted F E tenantID req d (d'\<lparr>db_deferred := x\<rparr>) = posted F E tenantID req d d'"
  by (simp add: posted_def)

text \<open>The three outcomes of the transaction.\<close>

lemma write_transaction_Inr:
  assumes "write_transaction F E tenantID req d = (Inr t, d')"
  shows "t = new_transaction E tenantID req" and "posted F E tenantID req d d'"
    and "ce_commit_lost E = None"
    and "\<forall>r \<in> set (db_transactions d).
           \<not> (tx_TenantID r = tenantID \<and> tx_IdempotencyKey r = ctr_IdempotencyKey req)"
  using assms tx_body_Inr [of F E tenantID req d]
  by (auto simp: write_transaction_def commit_db_Inr posted_deferred
      split: option.splits sum.splits prod.splits)

lemma write_transaction_Inl:
  assumes "write_transaction F E tenantID req d = (Inl e, d')"
  shows "unchanged d d' \<or> ce_commit_lost E \<noteq> None \<and> posted F E tenantID req d d'"
  using assms tx_body_Inr(2) [of F E tenantID req d]
  by (auto simp: write_transaction_def commit_db_Inr posted_deferred
      split: option.splits sum.splits prod.splits)

lemma write_transaction_committed:
  assumes "committed_ok d" and "write_transaction F E tenantID req d = (r, d')"
  shows "committed_ok d' \<and> evolves d d'"
proof -
  obtain r1 d1 where b: "tx_body F E tenantID req d = (r1, d1)" by fastforce
  have d1: "tx_ok d1" "evolves d d1"
    using tx_body_keeps [OF committed_tx_ok [OF assms(1)] b] by auto
  show ?thesis
    using assms b d1
    by (auto simp: write_transaction_def rollback_committed evolves_rollback
        split: option.splits sum.splits dest: commit_committed)
       (auto simp: commit_db_Inr evolves_commit)
qed

section \<open>The whole call\<close>

text \<open>How a call of \<^verbatim>\<open>CreateTransaction\<close> can end.\<close>

lemma CreateTransaction_cases:
  assumes "CreateTransaction F R ttl E tenantID req w = (res, w')"
  obtains
    (invalid) err where "check_request req = Some err" "res = Inl err" "w' = w"
  | (locked) "check_request req = None" "res = Inl (Sentinel ErrLockAcquisitionFailed)"
      "w_db w' = w_db w"
  | (replay) r1 resp where "check_request req = None"
      "lk_Obtain R (lock_key F tenantID (ctr_IdempotencyKey req)) lock_ttl (w_redis w) = (None, r1)"
      "cached_replay F R (idempotency_key F tenantID (ctr_IdempotencyKey req)) r1 = Some resp"
      "res = Inr resp" "w_db w' = w_db w"
  | (failed) err where "check_request req = None"
      "write_transaction F E tenantID req (w_db w) = (Inl err, w_db w')" "res = Inl err"
  | (created) t r1 setErr r2 where "check_request req = None"
      "lk_Obtain R (lock_key F tenantID (ctr_IdempotencyKey req)) lock_ttl (w_redis w) = (None, r1)"
      "write_transaction F E tenantID req (w_db w) = (Inr t, w_db w')"
      "res = Inr (make_response t (fetch_postings (ce_fault E AtFetchPostings) tenantID (tx_ID t)
        (w_db w')))"
      "rd_Set R (idempotency_key F tenantID (ctr_IdempotencyKey req))
        (Doc (encode_TransactionResponse F (projr res))) ttl r1 = (setErr, r2)"
      "w_redis w' = snd (lk_Release R (lock_key F tenantID (ctr_IdempotencyKey req)) r2)"
proof (cases "check_request req")
  case (Some err)
  with assms invalid show ?thesis by (simp add: CreateTransaction_def)
next
  case None
  obtain lerr r1 where lk: "lk_Obtain R (lock_key F tenantID (ctr_IdempotencyKey req)) lock_ttl
      (w_redis w) = (lerr, r1)" by fastforce
  show ?thesis
  proof (cases lerr)
    case (Some e)
    with None lk assms show ?thesis by (intro locked) (auto simp: CreateTransaction_def)
  next
    case unlocked: None
    show ?thesis
    proof (cases "cached_replay F R (idempotency_key F tenantID (ctr_IdempotencyKey req)) r1")
      case (Some resp)
      with None unlocked lk assms show ?thesis
        by (intro replay) (auto simp: CreateTransaction_def under_lock_def Let_def split: prod.splits)
    next
      case miss: None
      obtain r d where wr: "write_transaction F E tenantID req (w_db w) = (r, d)" by fastforce
      show ?thesis
      proof (cases r)
        case (Inl err)
        with None unlocked lk miss wr assms show ?thesis
          by (intro failed) (auto simp: CreateTransaction_def under_lock_def Let_def
              split: prod.splits)
      next
        case (Inr t)
        let ?resp = "make_response t (fetch_postings (ce_fault E AtFetchPostings) tenantID
          (tx_ID t) d)"
        obtain setErr r2 where st: "rd_Set R (idempotency_key F tenantID (ctr_IdempotencyKey req))
          (Doc (encode_TransactionResponse F ?resp)) ttl r1 = (setErr, r2)" by fastforce
        show ?thesis
          by (rule created [of r1 t setErr r2])
             (use None unlocked lk miss wr st Inr assms in
               \<open>auto simp: CreateTransaction_def under_lock_def Let_def split: prod.splits\<close>)
      qed
    qed
  qed
qed

lemma CreateTransaction_db:
  assumes "CreateTransaction F R ttl E tenantID req w = (res, w')"
  shows "w_db w' = w_db w \<or>
    (\<exists>r. check_request req = None \<and> write_transaction F E tenantID req (w_db w) = (r, w_db w'))"
  using assms by (rule CreateTransaction_cases) auto

section \<open>The ledger invariant\<close>

text \<open>
  Beyond the schema: every transaction has at least two postings, all of its tenant and in balance,
  and the outbox holds exactly one event per transaction, in the same order.
\<close>

fun json_field :: "string \<Rightarrow> json \<Rightarrow> json option" where
  "json_field k (JObj kvs) = map_of kvs k"
| "json_field k _ = None"

definition event_ids :: "db \<Rightarrow> json option list" where
  "event_ids d = map (\<lambda>e. json_field ''transaction_id'' (ob_Payload e)) (db_outbox d)"

definition entries_ok :: "db \<Rightarrow> Transaction \<Rightarrow> bool" where
  "entries_ok d t \<longleftrightarrow>
     2 \<le> length (postings_of (tx_ID t) (db_postings d))
   \<and> (\<forall>p \<in> set (postings_of (tx_ID t) (db_postings d)). pst_TenantID p = tx_TenantID t)
   \<and> balanced (tx_ID t) d"

definition ledger_ok :: "formats \<Rightarrow> db \<Rightarrow> bool" where
  "ledger_ok F d \<longleftrightarrow> committed_ok d
   \<and> (\<forall>t \<in> set (db_transactions d). entries_ok d t)
   \<and> event_ids d = map (\<lambda>t. Some (encode_uuid F (tx_ID t))) (db_transactions d)"

lemma ledger_ok_initial: "ledger_ok F (initial_db now)"
  by (simp add: ledger_ok_def initial_db_def committed_ok_def tx_ok_def schema_ok_def schema_defs
      exists_defs event_ids_def balanced_def debits_of_def credits_of_def postings_of_def)

lemma ledger_ok_unchanged:
  assumes "ledger_ok F d" and "committed_ok d'" and "unchanged d d'"
  shows "ledger_ok F d'"
proof -
  have d': "db_postings d' = db_postings d" "db_transactions d' = db_transactions d"
      "db_outbox d' = db_outbox d"
    by (subst assms(3) [unfolded unchanged_def rollback_db_def]; simp)+
  then show ?thesis
    using assms(1,2) balanced_cong [OF d'(1)]
    by (simp add: ledger_ok_def entries_ok_def event_ids_def)
qed

lemma check_request_None:
  "check_request req = None \<Longrightarrow> ctr_IdempotencyKey req \<noteq> '''' \<and> 2 \<le> length (ctr_Postings req)"
  by (auto simp: check_request_def split: if_splits)

lemma posted_fresh_tx:
  assumes "committed_ok d'" and "posted F E tenantID req d d'"
  shows "ce_tx_id E \<notin> tx_ID ` set (db_transactions d)"
  using assms
  by (auto simp: committed_ok_def tx_ok_def schema_ok_def keys_ok_def posted_def new_transaction_def)

lemma postings_fresh:
  assumes "committed_ok d" and "i \<notin> tx_ID ` set (db_transactions d)"
  shows "\<forall>p \<in> set (db_postings d). pst_TransactionID p \<noteq> i"
proof -
  have "refs_ok d" using assms(1) by (simp add: committed_ok_def tx_ok_def schema_ok_def)
  then have "pst_TransactionID p \<in> tx_ID ` set (db_transactions d)"
    if "p \<in> set (db_postings d)" for p
    using that by (simp add: refs_ok_def transaction_exists_def image_iff) (metis (no_types))
  with assms(2) show ?thesis by metis
qed

lemma posted_fresh:
  assumes "committed_ok d" and "committed_ok d'" and "posted F E tenantID req d d'"
  shows "\<forall>p \<in> set (db_postings d). pst_TransactionID p \<noteq> ce_tx_id E"
  using postings_fresh [OF assms(1) posted_fresh_tx [OF assms(2,3)]] .

lemma ledger_ok_posted:
  assumes ok: "ledger_ok F d" and "committed_ok d'" and post: "posted F E tenantID req d d'"
    and "check_request req = None"
  shows "ledger_ok F d'"
proof -
  let ?t = "new_transaction E tenantID req"
  from post obtain ps e where
    txs: "db_transactions d' = db_transactions d @ [?t]" and
    ps: "db_postings d' = db_postings d @ ps"
      "list_all2 (posting_of_entry tenantID (ce_tx_id E) (ce_now E)) (ctr_Postings req) ps" and
    e: "db_outbox d' = db_outbox d @ [e]" "event_row F E tenantID req e"
    by (auto simp: posted_def)
  have new: "\<forall>p \<in> set ps. pst_TransactionID p = ce_tx_id E \<and> pst_TenantID p = tenantID"
    using ps(2) by (auto simp: list_all2_conv_all_nth posting_of_entry_def in_set_conv_nth)
  have fresh: "tx_ID t \<noteq> ce_tx_id E" if "t \<in> set (db_transactions d)" for t
    using posted_fresh_tx [OF assms(2) post] that by (metis imageI)
  have old: "pst_TransactionID p \<noteq> ce_tx_id E" if "p \<in> set (db_postings d)" for p
    using ok posted_fresh [OF _ assms(2) post] that by (simp add: ledger_ok_def)
  have own: "postings_of (ce_tx_id E) (db_postings d') = ps"
    using new old by (simp add: ps(1) postings_of_def filter_none)
  have others: "postings_of (tx_ID t) (db_postings d') = postings_of (tx_ID t) (db_postings d)"
    if "t \<in> set (db_transactions d)" for t
    using fresh [OF that] new by (auto simp: ps(1) postings_of_def intro!: filter_none)
  have "length ps = length (ctr_Postings req)" using ps(2) by (simp add: list_all2_lengthD)
  with check_request_None [OF assms(4)] new have "entries_ok d' ?t"
    by (simp add: entries_ok_def new_transaction_def own committed_balanced [OF assms(2)])
  moreover have "entries_ok d' t" if "t \<in> set (db_transactions d)" for t
    using ok that committed_balanced [OF assms(2)]
    by (simp add: ledger_ok_def entries_ok_def others [OF that])
  moreover have "event_ids d' = map (\<lambda>t. Some (encode_uuid F (tx_ID t))) (db_transactions d')"
    using ok e(2)
    by (simp add: ledger_ok_def event_ids_def e(1) txs event_row_def new_transaction_def
        created_event_def encode_TransactionCreatedEvent_def)
  ultimately show ?thesis using assms(2) by (auto simp: ledger_ok_def txs)
qed

lemma write_transaction_ledger_ok:
  assumes "ledger_ok F d" and "check_request req = None"
    and "write_transaction F E tenantID req d = (r, d')"
  shows "ledger_ok F d'"
proof -
  have com: "committed_ok d'"
    using write_transaction_committed [OF _ assms(3)] assms(1) by (simp add: ledger_ok_def)
  show ?thesis
  proof (cases r)
    case (Inl e)
    then have "write_transaction F E tenantID req d = (Inl e, d')" using assms(3) by simp
    from write_transaction_Inl [OF this] show ?thesis
      using ledger_ok_unchanged [OF assms(1) com] ledger_ok_posted [OF assms(1) com _ assms(2)]
      by blast
  next
    case (Inr t)
    then have "write_transaction F E tenantID req d = (Inr t, d')" using assms(3) by simp
    from write_transaction_Inr(2) [OF this] show ?thesis
      by (rule ledger_ok_posted [OF assms(1) com _ assms(2)])
  qed
qed

section \<open>Statements that leave the bookkeeping alone\<close>

lemma autocommit_field:
  assumes "f (snd (q d)) = f d"
    and "\<And>x y. f (d\<lparr>db_account_seq := x, db_posting_seq := y\<rparr>) = f d"
    and "\<And>d'. f (d'\<lparr>db_deferred := []\<rparr>) = f d'"
  shows "f (snd (autocommit flt q d)) = f d"
  using assms
  by (auto simp: autocommit_def rollback_db_def commit_db_Inr
      split: option.splits sum.splits prod.splits)

text \<open>The parts of the state the ledger invariant speaks of.\<close>

definition books :: "db \<Rightarrow> Transaction list \<times> Posting list \<times> json list" where
  "books d = (db_transactions d, db_postings d, map ob_Payload (db_outbox d))"

lemma books_simps [simp]:
  "books (d\<lparr>db_account_seq := x\<rparr>) = books d" "books (d\<lparr>db_posting_seq := y\<rparr>) = books d"
  "books (d\<lparr>db_deferred := q\<rparr>) = books d"
  by (simp_all add: books_def)

lemma ledger_ok_books:
  assumes "ledger_ok F d" and "committed_ok d'" and "books d' = books d"
  shows "ledger_ok F d'"
proof -
  have d': "db_postings d' = db_postings d" "db_transactions d' = db_transactions d"
      "map ob_Payload (db_outbox d') = map ob_Payload (db_outbox d)"
    using assms(3) by (simp_all add: books_def)
  have "event_ids d' = event_ids d"
    using arg_cong [OF d'(3), of "map (json_field ''transaction_id'')"]
    by (simp add: event_ids_def comp_def)
  then show ?thesis
    using assms(1,2) balanced_cong [OF d'(1)] by (simp add: ledger_ok_def entries_ok_def d')
qed

context statement
begin

lemma autocommit_ledger_ok:
  assumes "ledger_ok F d" and "books (snd (q d)) = books d"
  shows "ledger_ok F (snd (autocommit flt q d))"
proof (rule ledger_ok_books [OF assms(1)])
  show "committed_ok (snd (autocommit flt q d))"
    using assms(1) by (intro autocommit_committed) (simp add: ledger_ok_def)
  show "books (snd (autocommit flt q d)) = books d"
    by (rule autocommit_field) (simp_all add: assms(2))
qed

end

lemma books_inserts:
  "books (snd (q_CreateTenant i now name d)) = books d"
  "books (snd (q_CreateUser i now uarg d)) = books d"
  "books (snd (q_CreateAccount now aarg d)) = books d"
  "books (snd (q_CreateDocument i now darg d)) = books d"
  by (auto simp: books_def q_CreateTenant_def q_CreateUser_def q_CreateAccount_def
      q_CreateDocument_def insert_row_def put_defs split: sum.splits)

lemma books_update_outbox:
  "(\<And>r. ob_Payload (f r) = ob_Payload r) \<Longrightarrow> books (update_outbox sel f d) = books d"
  by (simp add: books_def update_outbox_def)

lemma CreateAccount_ledger_ok:
  assumes "ledger_ok F d"
  shows "ledger_ok F (snd (CreateAccount flt now tenantID req d))"
  using CreateAccount.autocommit_ledger_ok [OF assms books_inserts(3)]
  by (auto simp: CreateAccount_def split: prod.splits sum.splits)
     (metis snd_conv)+

end
