(* ===== verification/Sample.thy ===== *)
theory Sample
  imports Bookkeeping
begin

text \<open>
  A small ledger, built with the service's own operations, on which the properties are evaluated:
  two accounts of the default tenant, one of a second tenant, and a request that moves 500 between
  the first two. No call fails unless a property says so.
\<close>

definition sample_tenant :: uuid where
  "sample_tenant = uuid_Nil"

definition other_tenant :: uuid where
  "other_tenant = 9"

definition account_request :: "string \<Rightarrow> string \<Rightarrow> CreateAccountRequest" where
  "account_request name type =
     \<lparr>car_AccountName = name, car_AccountType = type, car_Currency = ''USD'', car_Metadata = None\<rparr>"

definition sample_db :: db where
  "sample_db =
     (let d0 = snd (autocommit None (q_CreateTenant other_tenant 1 ''Other'') (initial_db 0));
          d1 = snd (CreateAccount None 2 sample_tenant (account_request ''cash'' ''asset'') d0);
          d2 = snd (CreateAccount None 3 sample_tenant (account_request ''sales'' ''revenue'') d1)
      in snd (CreateAccount None 4 other_tenant (account_request ''salaries'' ''expense'') d2))"

definition sample_world :: "(string \<Rightarrow> payload option) world" where
  "sample_world = \<lparr>w_db = sample_db, w_redis = (\<lambda>_. None)\<rparr>"

definition sample_postings :: "PostingEntry list" where
  "sample_postings =
     [\<lparr>pe_AccountID = 1, pe_Amount = 500, pe_Direction = ''debit''\<rparr>,
      \<lparr>pe_AccountID = 2, pe_Amount = 500, pe_Direction = ''credit''\<rparr>]"

definition sample_request :: CreateTransactionRequest where
  "sample_request =
     \<lparr>ctr_IdempotencyKey = ''order-1'', ctr_Description = ''First sale'', ctr_Metadata = None,
      ctr_Postings = sample_postings\<rparr>"

text \<open>A request whose sums agree only modulo \<open>2 ^ 64\<close>.\<close>

definition wrapping_request :: CreateTransactionRequest where
  "wrapping_request =
     sample_request\<lparr>ctr_Postings :=
       [\<lparr>pe_AccountID = 1, pe_Amount = 9223372036854775807, pe_Direction = ''debit''\<rparr>,
        \<lparr>pe_AccountID = 1, pe_Amount = 9223372036854775807, pe_Direction = ''debit''\<rparr>,
        \<lparr>pe_AccountID = 1, pe_Amount = 3, pe_Direction = ''debit''\<rparr>,
        \<lparr>pe_AccountID = 2, pe_Amount = 1, pe_Direction = ''credit''\<rparr>]\<rparr>"

definition sample_env :: call_env where
  "sample_env =
     \<lparr>ce_now = 7, ce_tx_id = 101, ce_event_id = 102, ce_outbox_id = 103, ce_fault = (\<lambda>_. None),
      ce_commit_lost = None\<rparr>"

definition sample_env2 :: call_env where
  "sample_env2 = sample_env\<lparr>ce_now := 8, ce_tx_id := 201, ce_event_id := 202, ce_outbox_id := 203\<rparr>"

definition sample_create ::
  "call_env \<Rightarrow> CreateTransactionRequest \<Rightarrow> (string \<Rightarrow> payload option) world
    \<Rightarrow> (svc_error + TransactionResponse) \<times> (string \<Rightarrow> payload option) world" where
  "sample_create E req w = CreateTransaction plain_formats map_redis 1 E sample_tenant req w"

definition posted_world :: "(string \<Rightarrow> payload option) world" where
  "posted_world = snd (sample_create sample_env sample_request sample_world)"

definition posted_db :: db where
  "posted_db = w_db posted_world"

text \<open>The two states, written out; evaluation starts from these.\<close>

lemma sample_db_eq [code]:
  "sample_db =
     \<lparr>db_tenants =
        [\<lparr>tn_ID = 0, tn_Name = ''Default Tenant'', tn_CreatedAt = Some 0\<rparr>,
         \<lparr>tn_ID = 9, tn_Name = ''Other'', tn_CreatedAt = Some 1\<rparr>],
      db_users = [],
      db_accounts =
        [\<lparr>acc_ID = 1, acc_AccountName = ''cash'', acc_AccountType = ''asset'',
          acc_Currency = ''USD'', acc_Metadata = Some (JObj []), acc_CreatedAt = Some 2,
          acc_TenantID = 0\<rparr>,
         \<lparr>acc_ID = 2, acc_AccountName = ''sales'', acc_AccountType = ''revenue'',
          acc_Currency = ''USD'', acc_Metadata = Some (JObj []), acc_CreatedAt = Some 3,
          acc_TenantID = 0\<rparr>,
         \<lparr>acc_ID = 3, acc_AccountName = ''salaries'', acc_AccountType = ''expense'',
          acc_Currency = ''USD'', acc_Metadata = Some (JObj []), acc_CreatedAt = Some 4,
          acc_TenantID = 9\<rparr>],
      db_transactions = [], db_postings = [], db_documents = [], db_outbox = [],
      db_account_seq = 3, db_posting_seq = 0, db_deferred = []\<rparr>"
  by code_simp

lemma posted_db_eq [code]:
  "posted_db =
     \<lparr>db_tenants = db_tenants sample_db, db_users = [], db_accounts = db_accounts sample_db,
      db_transactions =
        [\<lparr>tx_ID = 101, tx_IdempotencyKey = ''order-1'', tx_Description = ''First sale'',
          tx_Metadata = Some (JObj []), tx_CreatedAt = Some 7, tx_TenantID = 0\<rparr>],
      db_postings =
        [\<lparr>pst_ID = 1, pst_TransactionID = 101, pst_AccountID = 1, pst_Amount = 500,
          pst_Direction = ''debit'', pst_CreatedAt = Some 7, pst_TenantID = 0\<rparr>,
         \<lparr>pst_ID = 2, pst_TransactionID = 101, pst_AccountID = 2, pst_Amount = 500,
          pst_Direction = ''credit'', pst_CreatedAt = Some 7, pst_TenantID = 0\<rparr>],
      db_documents = [],
      db_outbox =
        [\<lparr>ob_ID = 103, ob_EventType = ''transaction.created'',
          ob_RoutingKey = ''transaction.created'',
          ob_Payload = JObj
            [(''event_id'', JStr ''00000000-0000-0000-0000-000000000066''),
             (''event_type'', JStr ''transaction.created''),
             (''tenant_id'', JStr ''00000000-0000-0000-0000-000000000000''),
             (''transaction_id'', JStr ''00000000-0000-0000-0000-000000000065''),
             (''idempotency_key'', JStr ''order-1''),
             (''description'', JStr ''First sale''),
             (''postings'', JArr
               [JObj [(''account_id'', JInt 1), (''amount'', JInt 500),
                      (''direction'', JStr ''debit'')],
                JObj [(''account_id'', JInt 2), (''amount'', JInt 500),
                      (''direction'', JStr ''credit'')]]),
             (''metadata'', JObj []), (''created_at'', JStr ''7'')],
          ob_Status = ''pending'', ob_RetryCount = 0, ob_MaxRetries = 5, ob_LastError = Some '''',
          ob_CreatedAt = Some 7, ob_ProcessedAt = None, ob_TenantID = 0\<rparr>],
      db_account_seq = 3, db_posting_seq = 2, db_deferred = []\<rparr>"
  by code_simp

lemma sample_posts: "is_ok (fst (sample_create sample_env sample_request sample_world))"
  by code_simp

lemma sample_posted:
  obtains resp where "sample_create sample_env sample_request sample_world = (Inr resp, posted_world)"
    "fst (sample_create sample_env sample_request sample_world) = Inr resp"
  using sample_posts unfolding posted_world_def by (metis is_ok.elims(2) prod.collapse)

lemma sample_ledger_ok: "ledger_ok F sample_db"
  unfolding sample_db_def Let_def
  by (intro CreateAccount_ledger_ok CreateTenant.autocommit_ledger_ok books_inserts
      ledger_ok_initial)

lemma posted_ledger_ok: "ledger_ok plain_formats posted_db"
proof -
  obtain res where c: "CreateTransaction plain_formats map_redis 1 sample_env sample_tenant
      sample_request sample_world = (res, posted_world)"
    unfolding posted_world_def sample_create_def by (metis prod.collapse)
  from CreateTransaction_db [OF this] show ?thesis
    using sample_ledger_ok write_transaction_ledger_ok
    by (metis posted_db_def sample_world_def world.select_convs(1))
qed

end
