(* ===== verification/Problem.thy ===== *)
theory Problem
  imports Messages
begin

text \<open>
  RFC 7807 problem details (\<^verbatim>\<open>internal/api/problem.go\<close>): the record every error response is built
  from, its constructors, and \<^verbatim>\<open>WriteProblem\<close> as the response it produces.
\<close>

record InvalidParam =
  ip_Name :: string
  ip_Reason :: string

record ProblemDetail =
  pd_Type :: string
  pd_Title :: string
  pd_Status :: nat
  pd_Detail :: string
  pd_Instance :: string
  pd_TraceID :: string
  pd_InvalidParams :: "InvalidParam list"

definition problemBaseURI :: string where
  "problemBaseURI = ''https://ledgerpro.dev/errors''"

datatype problem_type =
    ProblemTypeValidation | ProblemTypeBadRequest | ProblemTypeUnbalancedTx
  | ProblemTypeDuplicateIdemKey | ProblemTypeAccountNotFound | ProblemTypeTxNotFound
  | ProblemTypeLockFailed | ProblemTypeInternalError | ProblemTypeUnauthorized
  | ProblemTypeForbidden | ProblemTypeRateLimitExceeded | ProblemTypeInvalidCurrency
  | ProblemTypeServiceUnavail

fun problem_uri :: "problem_type \<Rightarrow> string" where
  "problem_uri ProblemTypeValidation = problemBaseURI @ ''/validation-error''"
| "problem_uri ProblemTypeBadRequest = problemBaseURI @ ''/bad-request''"
| "problem_uri ProblemTypeUnbalancedTx = problemBaseURI @ ''/unbalanced-transaction''"
| "problem_uri ProblemTypeDuplicateIdemKey = problemBaseURI @ ''/duplicate-idempotency-key''"
| "problem_uri ProblemTypeAccountNotFound = problemBaseURI @ ''/account-not-found''"
| "problem_uri ProblemTypeTxNotFound = problemBaseURI @ ''/transaction-not-found''"
| "problem_uri ProblemTypeLockFailed = problemBaseURI @ ''/lock-acquisition-failed''"
| "problem_uri ProblemTypeInternalError = problemBaseURI @ ''/internal-error''"
| "problem_uri ProblemTypeUnauthorized = problemBaseURI @ ''/unauthorized''"
| "problem_uri ProblemTypeForbidden = problemBaseURI @ ''/forbidden''"
| "problem_uri ProblemTypeRateLimitExceeded = problemBaseURI @ ''/rate-limit-exceeded''"
| "problem_uri ProblemTypeInvalidCurrency = problemBaseURI @ ''/invalid-currency''"
| "problem_uri ProblemTypeServiceUnavail = problemBaseURI @ ''/service-unavailable''"

section \<open>Builders\<close>

definition NewProblem :: "string \<Rightarrow> string \<Rightarrow> nat \<Rightarrow> string \<Rightarrow> ProblemDetail" where
  "NewProblem problemType title status detail =
     \<lparr>pd_Type = problemType, pd_Title = title, pd_Status = status, pd_Detail = detail,
      pd_Instance = '''', pd_TraceID = '''', pd_InvalidParams = []\<rparr>"

definition WithInstance :: "ProblemDetail \<Rightarrow> string \<Rightarrow> ProblemDetail" where
  "WithInstance p inst = p\<lparr>pd_Instance := inst\<rparr>"

definition WithTraceID :: "ProblemDetail \<Rightarrow> string \<Rightarrow> ProblemDetail" where
  "WithTraceID p traceID = p\<lparr>pd_TraceID := traceID\<rparr>"

definition WithInvalidParams :: "ProblemDetail \<Rightarrow> InvalidParam list \<Rightarrow> ProblemDetail" where
  "WithInvalidParams p params = p\<lparr>pd_InvalidParams := params\<rparr>"

definition BadRequest :: "string \<Rightarrow> ProblemDetail" where
  "BadRequest detail = NewProblem (problem_uri ProblemTypeBadRequest) ''Bad Request'' 400 detail"

definition ValidationError :: "string \<Rightarrow> InvalidParam list \<Rightarrow> ProblemDetail" where
  "ValidationError detail params =
     WithInvalidParams
       (NewProblem (problem_uri ProblemTypeValidation) ''Validation Error'' 422 detail) params"

definition UnbalancedTransaction :: "string \<Rightarrow> InvalidParam list \<Rightarrow> ProblemDetail" where
  "UnbalancedTransaction detail params =
     WithInvalidParams
       (NewProblem (problem_uri ProblemTypeUnbalancedTx) ''Unbalanced Bookkeeping Entries'' 422
          detail) params"

definition NotFound :: "string \<Rightarrow> string \<Rightarrow> string \<Rightarrow> ProblemDetail" where
  "NotFound problemType title detail = NewProblem problemType title 404 detail"

definition AccountNotFound :: "string \<Rightarrow> ProblemDetail" where
  "AccountNotFound detail =
     NotFound (problem_uri ProblemTypeAccountNotFound) ''Account Not Found'' detail"

definition TransactionNotFound :: "string \<Rightarrow> ProblemDetail" where
  "TransactionNotFound detail =
     NotFound (problem_uri ProblemTypeTxNotFound) ''Transaction Not Found'' detail"

definition DuplicateIdempotencyKey :: "string \<Rightarrow> ProblemDetail" where
  "DuplicateIdempotencyKey detail =
     NewProblem (problem_uri ProblemTypeDuplicateIdemKey) ''Duplicate Idempotency Key'' 409 detail"

definition LockAcquisitionFailed :: "string \<Rightarrow> ProblemDetail" where
  "LockAcquisitionFailed detail =
     NewProblem (problem_uri ProblemTypeLockFailed) ''Lock Acquisition Failed'' 503 detail"

definition InternalError :: "string \<Rightarrow> ProblemDetail" where
  "InternalError detail =
     NewProblem (problem_uri ProblemTypeInternalError) ''Internal Server Error'' 500 detail"

definition Unauthorized :: "string \<Rightarrow> ProblemDetail" where
  "Unauthorized detail =
     NewProblem (problem_uri ProblemTypeUnauthorized) ''Unauthorized'' 401 detail"

definition Forbidden :: "string \<Rightarrow> ProblemDetail" where
  "Forbidden detail = NewProblem (problem_uri ProblemTypeForbidden) ''Forbidden'' 403 detail"

definition RateLimitExceeded :: "string \<Rightarrow> ProblemDetail" where
  "RateLimitExceeded detail =
     NewProblem (problem_uri ProblemTypeRateLimitExceeded) ''Rate Limit Exceeded'' 429 detail"

definition ServiceUnavailable :: "string \<Rightarrow> ProblemDetail" where
  "ServiceUnavailable detail =
     NewProblem (problem_uri ProblemTypeServiceUnavail) ''Service Unavailable'' 503 detail"

lemmas problem_defs [ledger_defs] =
  NewProblem_def WithInstance_def WithTraceID_def WithInvalidParams_def BadRequest_def
  ValidationError_def UnbalancedTransaction_def NotFound_def AccountNotFound_def
  TransactionNotFound_def DuplicateIdempotencyKey_def LockAcquisitionFailed_def InternalError_def
  Unauthorized_def Forbidden_def RateLimitExceeded_def ServiceUnavailable_def

end
