(* ===== verification/Validation.thy ===== *)
theory Validation
  imports Problem
begin

text \<open>
  Request validation (\<^verbatim>\<open>internal/api/validation.go\<close>): every rule reports its own \<open>InvalidParam\<close>, in the
  order of the code; a request passes when the list is empty.
\<close>

section \<open>Currencies and account types\<close>

definition validCurrencies :: "string list" where
  "validCurrencies =
    [''AED'', ''AFN'', ''ALL'', ''AMD'', ''ANG'', ''AOA'', ''ARS'', ''AUD'', ''AWG'', ''AZN'',
     ''BAM'', ''BBD'', ''BDT'', ''BGN'', ''BHD'', ''BIF'', ''BMD'', ''BND'', ''BOB'', ''BRL'',
     ''BSD'', ''BTN'', ''BWP'', ''BYN'', ''BZD'', ''CAD'', ''CDF'', ''CHF'', ''CLP'', ''CNY'',
     ''COP'', ''CRC'', ''CUP'', ''CVE'', ''CZK'', ''DJF'', ''DKK'', ''DOP'', ''DZD'', ''EGP'',
     ''ERN'', ''ETB'', ''EUR'', ''FJD'', ''FKP'', ''GBP'', ''GEL'', ''GHS'', ''GIP'', ''GMD'',
     ''GNF'', ''GTQ'', ''GYD'', ''HKD'', ''HNL'', ''HRK'', ''HTG'', ''HUF'', ''IDR'', ''ILS'',
     ''INR'', ''IQD'', ''IRR'', ''ISK'', ''JMD'', ''JOD'', ''JPY'', ''KES'', ''KGS'', ''KHR'',
     ''KMF'', ''KPW'', ''KRW'', ''KWD'', ''KYD'', ''KZT'', ''LAK'', ''LBP'', ''LKR'', ''LRD'',
     ''LSL'', ''LYD'', ''MAD'', ''MDL'', ''MGA'', ''MKD'', ''MMK'', ''MNT'', ''MOP'', ''MRU'',
     ''MUR'', ''MVR'', ''MWK'', ''MXN'', ''MYR'', ''MZN'', ''NAD'', ''NGN'', ''NIO'', ''NOK'',
     ''NPR'', ''NZD'', ''OMR'', ''PAB'', ''PEN'', ''PGK'', ''PHP'', ''PKR'', ''PLN'', ''PYG'',
     ''QAR'', ''RON'', ''RSD'', ''RUB'', ''RWF'', ''SAR'', ''SBD'', ''SCR'', ''SDG'', ''SEK'',
     ''SGD'', ''SHP'', ''SLE'', ''SOS'', ''SRD'', ''SSP'', ''STN'', ''SYP'', ''SZL'', ''THB'',
     ''TJS'', ''TMT'', ''TND'', ''TOP'', ''TRY'', ''TTD'', ''TWD'', ''TZS'', ''UAH'', ''UGX'',
     ''USD'', ''UYU'', ''UZS'', ''VES'', ''VND'', ''VUV'', ''WST'', ''XAF'', ''XCD'', ''XOF'',
     ''XPF'', ''YER'', ''ZAR'', ''ZMW'', ''ZWL'']"

definition IsValidCurrency :: "string \<Rightarrow> bool" where
  "IsValidCurrency code \<longleftrightarrow> ToUpper code \<in> set validCurrencies"

definition validAccountTypes :: "AccountType list" where
  "validAccountTypes =
     [AccountTypeAsset, AccountTypeLiability, AccountTypeEquity, AccountTypeRevenue,
      AccountTypeExpense]"

definition IsValidAccountType :: "AccountType \<Rightarrow> bool" where
  "IsValidAccountType at \<longleftrightarrow> at \<in> set validAccountTypes"

section \<open>Validators\<close>

definition maxAccountNameLen :: nat where "maxAccountNameLen = 255"
definition minAccountNameLen :: nat where "minAccountNameLen = 1"
definition maxDescriptionLen :: nat where "maxDescriptionLen = 1000"
definition maxIdempotencyKeyLen :: nat where "maxIdempotencyKeyLen = 255"
definition minIdempotencyKeyLen :: nat where "minIdempotencyKeyLen = 1"
definition maxPostingsPerTx :: nat where "maxPostingsPerTx = 100"
definition minPostingsPerTx :: nat where "minPostingsPerTx = 2"

lemmas limit_defs =
  maxAccountNameLen_def minAccountNameLen_def maxDescriptionLen_def maxIdempotencyKeyLen_def
  minIdempotencyKeyLen_def maxPostingsPerTx_def minPostingsPerTx_def

type_synonym ValidationResult = "InvalidParam list"

definition AddError :: "string \<Rightarrow> string \<Rightarrow> ValidationResult \<Rightarrow> ValidationResult" where
  "AddError name reason v = v @ [\<lparr>ip_Name = name, ip_Reason = reason\<rparr>]"

definition HasErrors :: "ValidationResult \<Rightarrow> bool" where
  "HasErrors v \<longleftrightarrow> 0 < length v"

definition ToProblem :: "ValidationResult \<Rightarrow> ProblemDetail" where
  "ToProblem v = ValidationError (show_nat (length v) @ '' validation error(s) found'') v"

definition ValidateCreateAccountRequest :: "CreateAccountRequest \<Rightarrow> ValidationResult" where
  "ValidateCreateAccountRequest req =
     (let v0 = [];
          nameLen = RuneCountInString (car_AccountName req);
          v1 = (if nameLen < minAccountNameLen
                then AddError ''account_name'' ''account_name is required'' v0
                else if maxAccountNameLen < nameLen
                then AddError ''account_name''
                       (''account_name must be at most '' @ show_nat maxAccountNameLen
                        @ '' characters'') v0
                else v0);
          v2 = (if car_AccountType req = ''''
                then AddError ''account_type''
                       ''account_type is required (asset, liability, equity, revenue, expense)'' v1
                else if \<not> IsValidAccountType (car_AccountType req)
                then AddError ''account_type''
                       (''invalid account_type '' @ quote (car_AccountType req) @ '' '' @ em_dash
                        @ '' must be one of: asset, liability, equity, revenue, expense'') v1
                else v1);
          v3 = (if car_Currency req \<noteq> '''' \<and> \<not> IsValidCurrency (car_Currency req)
                then AddError ''currency''
                       (''invalid ISO 4217 currency code '' @ quote (car_Currency req)) v2
                else v2)
      in v3)"

text \<open>
  The loop over the postings: the index, the two running sums (\<^verbatim>\<open>int64\<close>, so they wrap around) and the
  result so far. A posting with an unknown direction counts for neither sum.
\<close>

definition posting_field :: "nat \<Rightarrow> string" where
  "posting_field i = ''postings['' @ show_nat i @ '']''"

fun validate_postings ::
  "nat \<Rightarrow> PostingEntry list \<Rightarrow> int64 \<Rightarrow> int64 \<Rightarrow> ValidationResult
    \<Rightarrow> int64 \<times> int64 \<times> ValidationResult" where
  "validate_postings i [] debitSum creditSum v = (debitSum, creditSum, v)"
| "validate_postings i (p # ps) debitSum creditSum v =
     (let field = posting_field i;
          v1 = (if sint (pe_Amount p) \<le> 0
                then AddError (field @ ''.amount'')
                  ''posting amount must be a positive integer (in smallest currency unit)'' v
                else v);
          v2 = (if sint (pe_AccountID p) \<le> 0
                then AddError (field @ ''.account_id'') ''account_id must be a positive integer'' v1
                else v1)
      in if pe_Direction p = PostingDirectionDebit
         then validate_postings (Suc i) ps (debitSum + pe_Amount p) creditSum v2
         else if pe_Direction p = PostingDirectionCredit
         then validate_postings (Suc i) ps debitSum (creditSum + pe_Amount p) v2
         else validate_postings (Suc i) ps debitSum creditSum
                (AddError (field @ ''.direction'')
                   (''invalid direction '' @ quote (pe_Direction p) @ '' '' @ em_dash
                    @ '' must be '' @ quote ''debit'' @ '' or '' @ quote ''credit'') v2))"

definition ValidateCreateTransactionRequest ::
  "CreateTransactionRequest \<Rightarrow> ValidationResult" where
  "ValidateCreateTransactionRequest req =
     (let v0 = [];
          keyLen = RuneCountInString (ctr_IdempotencyKey req);
          v1 = (if keyLen < minIdempotencyKeyLen
                then AddError ''idempotency_key'' ''Idempotency-Key header is required'' v0
                else if maxIdempotencyKeyLen < keyLen
                then AddError ''idempotency_key''
                       (''Idempotency-Key must be at most '' @ show_nat maxIdempotencyKeyLen
                        @ '' characters'') v0
                else v0);
          v2 = (if maxDescriptionLen < RuneCountInString (ctr_Description req)
                then AddError ''description''
                       (''description must be at most '' @ show_nat maxDescriptionLen
                        @ '' characters'') v1
                else v1);
          postingCount = length (ctr_Postings req);
          v3 = (if postingCount < minPostingsPerTx
                then AddError ''postings''
                       (''transaction must have at least '' @ show_nat minPostingsPerTx
                        @ '' postings (one debit, one credit)'') v2
                else if maxPostingsPerTx < postingCount
                then AddError ''postings''
                       (''transaction must have at most '' @ show_nat maxPostingsPerTx
                        @ '' postings'') v2
                else v2);
          (debitSum, creditSum, v4) = validate_postings 0 (ctr_Postings req) 0 0 v3
      in if minPostingsPerTx \<le> postingCount \<and> debitSum \<noteq> creditSum
         then AddError ''postings''
                (''debit and credit legs must balance: total debits='' @ show_int (sint debitSum)
                 @ '', total credits='' @ show_int (sint creditSum)
                 @ '' (difference='' @ show_int (sint (debitSum - creditSum)) @ '')'') v4
         else v4)"

section \<open>Sums of the entries of a request\<close>

text \<open>The sum as the code computes it, on 64 bits, and the exact sum.\<close>

definition wrapped_sum :: "PostingDirection \<Rightarrow> PostingEntry list \<Rightarrow> int64" where
  "wrapped_sum dir ps = (\<Sum>p\<leftarrow>ps. if pe_Direction p = dir then pe_Amount p else 0)"

definition exact_sum :: "PostingDirection \<Rightarrow> PostingEntry list \<Rightarrow> int" where
  "exact_sum dir ps = (\<Sum>p\<leftarrow>ps. if pe_Direction p = dir then sint (pe_Amount p) else 0)"

lemma wrapped_sum_simps [simp]:
  "wrapped_sum dir [] = 0"
  "wrapped_sum dir (p # ps) =
     (if pe_Direction p = dir then pe_Amount p else 0) + wrapped_sum dir ps"
  by (simp_all add: wrapped_sum_def)

lemma exact_sum_simps [simp]:
  "exact_sum dir [] = 0"
  "exact_sum dir (p # ps) =
     (if pe_Direction p = dir then sint (pe_Amount p) else 0) + exact_sum dir ps"
  by (simp_all add: exact_sum_def)

lemma wrapped_sum_of_int: "wrapped_sum dir ps = word_of_int (exact_sum dir ps)"
  by (induction ps) (auto simp flip: wi_hom_add)

lemma wrapped_sum_exact: "fits64 (exact_sum dir ps) \<Longrightarrow> sint (wrapped_sum dir ps) = exact_sum dir ps"
  by (simp add: wrapped_sum_of_int sint64_of_int)

lemma exact_sum_bounds:
  assumes "\<forall>p \<in> set ps. 0 < sint (pe_Amount p) \<and> sint (pe_Amount p) \<le> b"
  shows "0 \<le> exact_sum dir ps \<and> exact_sum dir ps \<le> int (length ps) * b"
  using assms
proof (induction ps)
  case (Cons p ps)
  then have "0 \<le> b" by force
  with Cons show ?case by (auto simp: algebra_simps)
qed simp

section \<open>What the validators accept\<close>

definition entry_ok :: "PostingEntry \<Rightarrow> bool" where
  "entry_ok p \<longleftrightarrow> 0 < sint (pe_Amount p) \<and> 0 < sint (pe_AccountID p)
     \<and> pe_Direction p \<in> {PostingDirectionDebit, PostingDirectionCredit}"

lemma AddError_nonempty [simp]: "AddError n r v \<noteq> []" "[] \<noteq> AddError n r v"
  by (simp_all add: AddError_def)

lemma validate_postings_eq:
  "validate_postings i ps ds cs v = (d, c, v') \<Longrightarrow>
     d = ds + wrapped_sum PostingDirectionDebit ps
   \<and> c = cs + wrapped_sum PostingDirectionCredit ps
   \<and> (v' = [] \<longleftrightarrow> v = [] \<and> (\<forall>p \<in> set ps. entry_ok p))"
proof (induction ps arbitrary: i ds cs v)
  case (Cons p ps)
  show ?case
  proof (cases "pe_Direction p = PostingDirectionDebit")
    case True
    with Cons show ?thesis
      by (fastforce simp: Let_def entry_ok_def not_less add.assoc split: if_splits)
  next
    case False
    with Cons show ?thesis
      by (fastforce simp: Let_def entry_ok_def not_less add.assoc split: if_splits)
  qed
qed auto

lemma validate_postings_split:
  "validate_postings i ps ds cs v =
     (ds + wrapped_sum PostingDirectionDebit ps, cs + wrapped_sum PostingDirectionCredit ps,
      snd (snd (validate_postings i ps ds cs v)))"
  using validate_postings_eq by (metis prod.collapse)

lemma validate_postings_errors:
  "snd (snd (validate_postings i ps ds cs v)) = [] \<longleftrightarrow> v = [] \<and> (\<forall>p \<in> set ps. entry_ok p)"
  using validate_postings_eq by (metis prod.collapse)

lemma AddError_if:
  "(if b then AddError n r v else w) = [] \<longleftrightarrow> \<not> b \<and> w = []"
  by simp

definition accepted_transaction :: "CreateTransactionRequest \<Rightarrow> bool" where
  "accepted_transaction req \<longleftrightarrow>
     1 \<le> RuneCountInString (ctr_IdempotencyKey req)
   \<and> RuneCountInString (ctr_IdempotencyKey req) \<le> 255
   \<and> RuneCountInString (ctr_Description req) \<le> 1000
   \<and> 2 \<le> length (ctr_Postings req) \<and> length (ctr_Postings req) \<le> 100
   \<and> (\<forall>p \<in> set (ctr_Postings req). entry_ok p)
   \<and> wrapped_sum PostingDirectionDebit (ctr_Postings req)
       = wrapped_sum PostingDirectionCredit (ctr_Postings req)"

lemma ValidateCreateTransactionRequest_iff:
  "ValidateCreateTransactionRequest req = [] \<longleftrightarrow> accepted_transaction req"
  unfolding ValidateCreateTransactionRequest_def Let_def
  by (subst validate_postings_split)
     (auto simp: validate_postings_errors AddError_if limit_defs accepted_transaction_def)

definition accepted_account :: "CreateAccountRequest \<Rightarrow> bool" where
  "accepted_account req \<longleftrightarrow>
     1 \<le> RuneCountInString (car_AccountName req)
   \<and> RuneCountInString (car_AccountName req) \<le> 255
   \<and> car_AccountType req \<in> set account_type_enum
   \<and> (car_Currency req = '''' \<or> IsValidCurrency (car_Currency req))"

lemma validAccountTypes_enum: "set validAccountTypes = set account_type_enum"
  by (simp add: validAccountTypes_def account_type_enum_def enum_defs)

lemma ValidateCreateAccountRequest_iff:
  "ValidateCreateAccountRequest req = [] \<longleftrightarrow> accepted_account req"
proof -
  have "'''' \<notin> set account_type_enum" by (simp add: account_type_enum_def)
  then show ?thesis
    by (auto simp: ValidateCreateAccountRequest_def Let_def limit_defs accepted_account_def
        IsValidAccountType_def validAccountTypes_enum)
qed

lemma HasErrors_iff: "HasErrors v \<longleftrightarrow> v \<noteq> []"
  by (simp add: HasErrors_def)

text \<open>
  With at most a hundred postings no sum can wrap around when every amount is at most a hundredth of
  the \<^verbatim>\<open>int64\<close> range: the check is then exact.
\<close>

lemma accepted_exact:
  assumes "accepted_transaction req"
    and "\<forall>p \<in> set (ctr_Postings req). sint (pe_Amount p) \<le> 92233720368547758"
  shows "exact_sum PostingDirectionDebit (ctr_Postings req)
    = exact_sum PostingDirectionCredit (ctr_Postings req)"
proof -
  let ?ps = "ctr_Postings req"
  have len: "int (length ?ps) * 92233720368547758 \<le> 9223372036854775800"
    using assms(1) by (simp add: accepted_transaction_def)
  have pos: "\<forall>p \<in> set ?ps. 0 < sint (pe_Amount p) \<and> sint (pe_Amount p) \<le> 92233720368547758"
    using assms by (simp add: accepted_transaction_def entry_ok_def)
  have "sint (wrapped_sum dir ?ps) = exact_sum dir ?ps" for dir
    using exact_sum_bounds [OF pos, of dir] len by (intro wrapped_sum_exact) simp
  then show ?thesis using assms(1) by (metis accepted_transaction_def)
qed

end
