(* ===== verification/Posting.thy ===== *)
theory Posting
  imports Sample Validation
begin

text \<open>
  The properties of \<^verbatim>\<open>CreateTransaction\<close>: what it posts, what it refuses, what it leaves when it
  fails, and that the books stay in balance.
\<close>

section \<open>The invariant\<close>

text \<open>
  C1: \<^verbatim>\<open>CreateTransaction\<close> keeps the ledger invariant, whatever the request, whichever database
  or Redis call fails and wherever it fails, also when the reply to COMMIT is lost. The invariant:
  keys are unique, references resolve, amounts are positive, every stored transaction has at least
  two postings, all of its own tenant and exactly in balance, and the outbox holds one event for each
  transaction, in the same order.
\<close>

theorem CreateTransaction_keeps_ledger:
  assumes "ledger_ok F (w_db w)"
    and "CreateTransaction F R ttl E tenantID req w = (res, w')"
  shows "ledger_ok F (w_db w')"
  using CreateTransaction_db [OF assms(2)] assms(1) write_transaction_ledger_ok by metis

theorem CreateTransaction_keeps_ledger_witness:
  "ledger_ok plain_formats (w_db (snd (CreateTransaction plain_formats map_redis 1
     (sample_env\<lparr>ce_commit_lost := Some ''connection reset''\<rparr>) sample_tenant sample_request
     sample_world)))"
  by (rule CreateTransaction_keeps_ledger [OF _ surjective_pairing])
     (simp add: sample_world_def sample_ledger_ok)

section \<open>Success\<close>

text \<open>The rows \<^verbatim>\<open>GetPostingsByTransactionID\<close> returns for a new transaction.\<close>

definition row_of_entry :: "uuid \<Rightarrow> uuid \<Rightarrow> int \<Rightarrow> PostingEntry \<Rightarrow> GetPostingsByTransactionIDRow \<Rightarrow> bool"
  where
  "row_of_entry tenantID txID now e r \<longleftrightarrow>
     row_TransactionID r = txID \<and> row_TenantID r = tenantID \<and> row_AccountID r = pe_AccountID e
   \<and> row_Amount r = pe_Amount e \<and> row_Direction r = pe_Direction e \<and> row_CreatedAt r = Some now"

definition join_row :: "db \<Rightarrow> Posting \<Rightarrow> GetPostingsByTransactionIDRow list" where
  "join_row d p =
     [\<lparr>row_ID = pst_ID p, row_TenantID = pst_TenantID p, row_TransactionID = pst_TransactionID p,
       row_AccountID = pst_AccountID p, row_AccountName = acc_AccountName a,
       row_Amount = pst_Amount p, row_Direction = pst_Direction p,
       row_CreatedAt = pst_CreatedAt p\<rparr>. a \<leftarrow> db_accounts d, acc_ID a = pst_AccountID p]"

lemma concat_if_none: "\<forall>x \<in> set xs. \<not> P x \<Longrightarrow> concat (map (\<lambda>x. if P x then [f x] else []) xs) = []"
  by (induction xs) auto

lemma join_row_one:
  assumes "distinct (map acc_ID (db_accounts d))" and "a \<in> set (db_accounts d)"
    and "acc_ID a = pst_AccountID p"
  shows "join_row d p =
     [\<lparr>row_ID = pst_ID p, row_TenantID = pst_TenantID p, row_TransactionID = pst_TransactionID p,
       row_AccountID = pst_AccountID p, row_AccountName = acc_AccountName a,
       row_Amount = pst_Amount p, row_Direction = pst_Direction p,
       row_CreatedAt = pst_CreatedAt p\<rparr>]"
proof -
  obtain xs ys where s: "db_accounts d = xs @ a # ys" using assms(2) by (meson split_list)
  have "\<forall>b \<in> set xs \<union> set ys. acc_ID b \<noteq> pst_AccountID p"
    using assms(1,3) by (auto simp: s image_iff)
  then show ?thesis using assms(3) by (simp add: join_row_def s concat_if_none)
qed

lemma q_GetPostings_join:
  "q_GetPostingsByTransactionID \<lparr>gpt_TransactionID = t, gpt_TenantID = T\<rparr> d =
     Inr (sort_key (\<lambda>r. sint (row_ID r)) (concat (map (join_row d)
       (filter (\<lambda>p. pst_TransactionID p = t \<and> pst_TenantID p = T) (db_postings d)))))"
proof -
  have "concat (map (\<lambda>p. [\<lparr>row_ID = pst_ID p, row_TenantID = pst_TenantID p,
       row_TransactionID = pst_TransactionID p, row_AccountID = pst_AccountID p,
       row_AccountName = acc_AccountName a, row_Amount = pst_Amount p,
       row_Direction = pst_Direction p, row_CreatedAt = pst_CreatedAt p\<rparr>.
       a \<leftarrow> db_accounts d,
       acc_ID a = pst_AccountID p \<and> pst_TransactionID p = t \<and> pst_TenantID p = T]) ps)
    = concat (map (join_row d) (filter (\<lambda>p. pst_TransactionID p = t \<and> pst_TenantID p = T) ps))"
    for ps
    by (induction ps) (auto simp: join_row_def)
  then show ?thesis by (simp add: q_GetPostingsByTransactionID_def)
qed

lemma rows_of_postings:
  assumes "keys_ok d" and "\<forall>p \<in> set ps. account_exists (pst_AccountID p) d"
    and "list_all2 (posting_of_entry T t now) es ps"
    and "sorted_wrt (<) (map (\<lambda>p. sint (pst_ID p)) ps)"
  shows "list_all2 (row_of_entry T t now) es (concat (map (join_row d) ps))
    \<and> map row_ID (concat (map (join_row d) ps)) = map pst_ID ps"
  using assms(2-4)
proof (induction ps arbitrary: es)
  case (Cons p ps)
  then obtain e es' where es: "es = e # es'" "posting_of_entry T t now e p"
    "list_all2 (posting_of_entry T t now) es' ps" by (auto simp: list_all2_Cons2)
  from Cons.prems(1) obtain a where a: "a \<in> set (db_accounts d)" "acc_ID a = pst_AccountID p"
    by (auto simp: account_exists_def)
  have "distinct (map acc_ID (db_accounts d))" using assms(1) by (simp add: keys_ok_def)
  note row = join_row_one [OF this a]
  have "row_of_entry T t now e (hd (join_row d p))"
    using es(2) by (simp add: row row_of_entry_def posting_of_entry_def)
  with Cons.IH [of es'] Cons.prems(1,3) es(1,3) show ?case
    by (simp add: row)
qed simp

lemma sort_key_increasing: "sorted_wrt (<) (map f xs) \<Longrightarrow> sort_key f xs = xs"
  by (rule sort_key_id_if_sorted) (simp add: strict_sorted_imp_sorted)

lemma rows_of_posted:
  assumes "committed_ok d" and ok: "committed_ok d'" and post: "posted F E T req d d'"
  obtains rows where
    "q_GetPostingsByTransactionID \<lparr>gpt_TransactionID = ce_tx_id E, gpt_TenantID = T\<rparr> d' = Inr rows"
    "list_all2 (row_of_entry T (ce_tx_id E) (ce_now E)) (ctr_Postings req) rows"
proof -
  from post obtain ps where
    ps: "db_postings d' = db_postings d @ ps"
      "list_all2 (posting_of_entry T (ce_tx_id E) (ce_now E)) (ctr_Postings req) ps"
      "sorted_wrt (<) (map (\<lambda>p. sint (pst_ID p)) ps)"
    by (auto simp: posted_def)
  have new: "\<forall>p \<in> set ps. pst_TransactionID p = ce_tx_id E \<and> pst_TenantID p = T"
    using ps(2) by (auto simp: list_all2_conv_all_nth posting_of_entry_def in_set_conv_nth)
  have old: "\<forall>p \<in> set (db_postings d). pst_TransactionID p \<noteq> ce_tx_id E"
    using posted_fresh [OF assms] .
  have sel: "filter (\<lambda>p. pst_TransactionID p = ce_tx_id E \<and> pst_TenantID p = T) (db_postings d') = ps"
    using new old by (simp add: ps(1) filter_none)
  have ok': "keys_ok d'" "refs_ok d'"
    using ok by (simp_all add: committed_ok_def tx_ok_def schema_ok_def)
  then have "\<forall>p \<in> set ps. account_exists (pst_AccountID p) d'"
    by (simp add: refs_ok_def ps(1))
  note rows = rows_of_postings [OF ok'(1) this ps(2,3)]
  let ?rows = "concat (map (join_row d') ps)"
  have "map (\<lambda>r. sint (row_ID r)) ?rows = map sint (map row_ID ?rows)" by simp
  also have "\<dots> = map (\<lambda>p. sint (pst_ID p)) ps" using rows by simp
  finally have "sort_key (\<lambda>r. sint (row_ID r)) ?rows = ?rows"
    by (intro sort_key_increasing) (simp add: ps(3))
  with rows show ?thesis
    by (intro that [of ?rows]) (simp_all add: q_GetPostings_join sel)
qed

text \<open>
  C7: A call that returns a response has either replayed the cached one, with the database as it was,
  or posted: it has added exactly one transaction, one posting for each entry of the request (same
  account, amount and direction), one pending outbox event with the transaction's data, and nothing
  else. The response carries the new transaction and, unless the final read failed, one row for each
  entry, in the order of the request.
\<close>

theorem CreateTransaction_success:
  assumes "ledger_ok F (w_db w)"
    and "CreateTransaction F R ttl E tenantID req w = (Inr resp, w')"
  shows "w_db w' = w_db w
       \<and> cached_replay F R (idempotency_key F tenantID (ctr_IdempotencyKey req))
           (snd (lk_Obtain R (lock_key F tenantID (ctr_IdempotencyKey req)) lock_ttl (w_redis w)))
         = Some resp
     \<or> posted F E tenantID req (w_db w) (w_db w')
       \<and> tr_ID resp = ce_tx_id E \<and> tr_IdempotencyKey resp = ctr_IdempotencyKey req
       \<and> tr_Description resp = ctr_Description req
       \<and> tr_Metadata resp = metadata_or_empty (ctr_Metadata req)
       \<and> tr_CreatedAt resp = Some (ce_now E)
       \<and> (if ce_fault E AtFetchPostings = None
          then \<exists>rows. tr_Postings resp = Some rows
             \<and> list_all2 (row_of_entry tenantID (ce_tx_id E) (ce_now E)) (ctr_Postings req) rows
          else tr_Postings resp = None)"
  using assms(2)
proof (cases rule: CreateTransaction_cases)
  case (created t r1 setErr r2)
  have com: "committed_ok (w_db w)" using assms(1) by (simp add: ledger_ok_def)
  note t = write_transaction_Inr [OF created(3)]
  have com': "committed_ok (w_db w')" using write_transaction_committed [OF com created(3)] by simp
  obtain rows where rows: "q_GetPostingsByTransactionID
        \<lparr>gpt_TransactionID = ce_tx_id E, gpt_TenantID = tenantID\<rparr> (w_db w') = Inr rows"
      "list_all2 (row_of_entry tenantID (ce_tx_id E) (ce_now E)) (ctr_Postings req) rows"
    by (rule rows_of_posted [OF com com' t(2)])
  have "tx_ID t = ce_tx_id E" by (simp add: t(1) new_transaction_def)
  with created(4) t rows show ?thesis
    by (simp add: make_response_def new_transaction_def fetch_postings_def read_query_def
        split: option.splits)
qed simp_all

theorem CreateTransaction_success_witness:
  "\<exists>resp w'. sample_create sample_env sample_request sample_world = (Inr resp, w')
     \<and> length (db_transactions (w_db w')) = 1 \<and> length (db_postings (w_db w')) = 2
     \<and> posted plain_formats sample_env sample_tenant sample_request sample_db (w_db w')
     \<and> tr_ID resp = 101"
proof -
  obtain resp where c: "sample_create sample_env sample_request sample_world = (Inr resp, posted_world)"
    by (rule sample_posted)
  have n: "length (db_transactions (w_db posted_world)) = 1" "length (db_postings (w_db posted_world)) = 2"
    "length (db_transactions (w_db sample_world)) = 0"
    by (simp_all add: posted_db_def [symmetric] posted_db_eq sample_world_def sample_db_eq)
  from CreateTransaction_success [OF _ c [unfolded sample_create_def]] n c sample_ledger_ok
  show ?thesis by (auto simp: sample_world_def sample_env_def)
qed

section \<open>Failure\<close>

text \<open>
  C8: Atomicity. A call that returns an error has changed no table: only the sequences of the id
  columns may have moved on. The one exception is a COMMIT that took effect although its reply was
  lost.
\<close>

theorem CreateTransaction_error_unchanged:
  assumes "CreateTransaction F R ttl E tenantID req w = (Inl err, w')"
    and "ce_commit_lost E = None"
  shows "unchanged (w_db w) (w_db w')"
  using assms(1)
proof (cases rule: CreateTransaction_cases)
  case (failed e)
  with write_transaction_Inl [OF failed(2)] assms(2) show ?thesis by simp
qed simp_all

theorem CreateTransaction_error_unchanged_witness:
  "\<exists>err w'. sample_create
       (sample_env\<lparr>ce_fault := (\<lambda>s. if s = AtInsertOutbox then Some ''timeout'' else None)\<rparr>)
       sample_request sample_world = (Inl err, w')
     \<and> unchanged sample_db (w_db w') \<and> db_posting_seq (w_db w') = 2"
proof -
  let ?E = "sample_env\<lparr>ce_fault := (\<lambda>s. if s = AtInsertOutbox then Some ''timeout'' else None)\<rparr>"
  have "\<not> is_ok (fst (sample_create ?E sample_request sample_world))"
    "db_posting_seq (w_db (snd (sample_create ?E sample_request sample_world))) = 2"
    by code_simp+
  then obtain err w' where c: "sample_create ?E sample_request sample_world = (Inl err, w')"
    "db_posting_seq (w_db w') = 2"
    by (metis eq_fst_iff is_ok.elims(3) snd_conv)
  from CreateTransaction_error_unchanged [OF c(1) [unfolded sample_create_def]] c
  show ?thesis by (auto simp: sample_world_def sample_env_def)
qed

lemma sum_of_entries:
  "list_all2 (posting_of_entry T t now) es ps \<Longrightarrow> sum_direction dir ps = exact_sum dir es"
  by (induction rule: list_all2_induct) (simp_all add: posting_of_entry_def)

lemma posted_sums:
  assumes "committed_ok d" and "committed_ok d'" and "posted F E T req d d'"
  shows "exact_sum PostingDirectionDebit (ctr_Postings req)
    = exact_sum PostingDirectionCredit (ctr_Postings req)"
proof -
  from assms(3) obtain ps where ps: "db_postings d' = db_postings d @ ps"
      "list_all2 (posting_of_entry T (ce_tx_id E) (ce_now E)) (ctr_Postings req) ps"
    by (auto simp: posted_def)
  have "\<forall>p \<in> set ps. pst_TransactionID p = ce_tx_id E"
    using ps(2) by (auto simp: list_all2_conv_all_nth posting_of_entry_def in_set_conv_nth)
  then have "postings_of (ce_tx_id E) (db_postings d') = ps"
    using posted_fresh [OF assms] by (simp add: ps(1) postings_of_def filter_none)
  with committed_balanced [OF assms(2), of "ce_tx_id E"] sum_of_entries [OF ps(2)] show ?thesis
    by (simp add: balanced_def debits_of_def credits_of_def)
qed

text \<open>
  C10: A request whose debits and credits differ as integers is never posted, although the service
  compares sums that wrap around at 64 bits: the deferred trigger sums exactly.
\<close>

theorem unbalanced_never_posted:
  assumes "ledger_ok F (w_db w)"
    and "exact_sum PostingDirectionDebit (ctr_Postings req)
       \<noteq> exact_sum PostingDirectionCredit (ctr_Postings req)"
    and "CreateTransaction F R ttl E tenantID req w = (res, w')"
  shows "unchanged (w_db w) (w_db w')"
proof -
  have com: "committed_ok (w_db w)" using assms(1) by (simp add: ledger_ok_def)
  have "unchanged (w_db w) (w_db w')"
    if wr: "write_transaction F E tenantID req (w_db w) = (r, w_db w')" for r
  proof -
    have "\<not> posted F E tenantID req (w_db w) (w_db w')"
      using posted_sums [OF com] write_transaction_committed [OF com wr] assms(2) by blast
    with wr write_transaction_Inl [of F E tenantID req "w_db w" _ "w_db w'"]
      write_transaction_Inr(2) [of F E tenantID req "w_db w" _ "w_db w'"]
    show ?thesis by (cases r) auto
  qed
  with CreateTransaction_db [OF assms(3)] show ?thesis by auto
qed

theorem unbalanced_never_posted_witness:
  "unchanged sample_db (w_db (snd (sample_create sample_env wrapping_request sample_world)))"
proof -
  have "exact_sum PostingDirectionDebit (ctr_Postings wrapping_request)
      \<noteq> exact_sum PostingDirectionCredit (ctr_Postings wrapping_request)"
    by code_simp
  from unbalanced_never_posted [OF _ this surjective_pairing, of plain_formats sample_world]
  show ?thesis using sample_ledger_ok by (simp add: sample_create_def sample_world_def)
qed

text \<open>
  The checks before the transaction do wrap around. Debits of \<open>2 ^ 64 + 1\<close> against a credit of 1
  pass \<^verbatim>\<open>ValidateCreateTransactionRequest\<close> and the service's own check; the request gets as far
  as COMMIT and fails there with an error that is none of the service's sentinels.
\<close>

theorem unbalanced_passes_validation:
  "ValidateCreateTransactionRequest wrapping_request = []
   \<and> check_request wrapping_request = None
   \<and> exact_sum PostingDirectionDebit (ctr_Postings wrapping_request) = 2 ^ 64 + 1
   \<and> exact_sum PostingDirectionCredit (ctr_Postings wrapping_request) = 1
   \<and> fst (sample_create sample_env wrapping_request sample_world)
       = Inl (DbError ''commit transaction'' NumericOutOfRange)"
  by (intro conjI; code_simp)

end
