(* ===== verification/Acceptance.thy ===== *)
theory Acceptance
  imports Posting
begin

text \<open>
  Liveness of \<^verbatim>\<open>CreateTransaction\<close>: a valid, balanced request on existing accounts under a new
  idempotency key goes through when no call fails. And what the service's own check adds to the
  validators of the HTTP layer: nothing.
\<close>

section \<open>When a request can be posted\<close>

definition postable :: "call_env \<Rightarrow> uuid \<Rightarrow> CreateTransactionRequest \<Rightarrow> db \<Rightarrow> bool" where
  "postable E tenantID req d \<longleftrightarrow>
     tenant_exists tenantID d
   \<and> ce_tx_id E \<notin> tx_ID ` set (db_transactions d)
   \<and> ce_outbox_id E \<notin> ob_ID ` set (db_outbox d)
   \<and> (tenantID, ctr_IdempotencyKey req)
       \<notin> (\<lambda>t. (tx_TenantID t, tx_IdempotencyKey t)) ` set (db_transactions d)
   \<and> (\<forall>p \<in> set (ctr_Postings req). account_exists (pe_AccountID p) d)
   \<and> sint (db_posting_seq d) + int (length (ctr_Postings req)) < 2 ^ 63"

definition in_balance :: "CreateTransactionRequest \<Rightarrow> bool" where
  "in_balance req \<longleftrightarrow>
     exact_sum PostingDirectionDebit (ctr_Postings req)
       = exact_sum PostingDirectionCredit (ctr_Postings req)
   \<and> exact_sum PostingDirectionDebit (ctr_Postings req) < 2 ^ 63"

definition no_faults :: "call_env \<Rightarrow> bool" where
  "no_faults E \<longleftrightarrow> (\<forall>s. ce_fault E s = None) \<and> ce_commit_lost E = None"

section \<open>The service's check after the validators\<close>

lemma sum_entries_accepted:
  "\<forall>p \<in> set ps. entry_ok p \<Longrightarrow>
     sum_entries ps ds cs = Inr (ds + wrapped_sum PostingDirectionDebit ps,
                                 cs + wrapped_sum PostingDirectionCredit ps)"
  by (induction ps arbitrary: ds cs) (auto simp: entry_ok_def add.assoc)

lemma accepted_check: "accepted_transaction req \<Longrightarrow> check_request req = None"
  by (auto simp: check_request_def accepted_transaction_def sum_entries_accepted
      RuneCountInString_def)

text \<open>
  A request that passes the HTTP layer's validation passes the service's own check: the errors
  \<^verbatim>\<open>ErrIdempotencyKeyRequired\<close>, \<^verbatim>\<open>ErrEmptyPostings\<close>, \<^verbatim>\<open>ErrInvalidAmount\<close>,
  \<^verbatim>\<open>ErrInvalidDirection\<close> and \<^verbatim>\<open>ErrUnbalancedTransaction\<close> are never the outcome of a validated
  request.
\<close>

theorem validated_passes_check:
  assumes "ValidateCreateTransactionRequest req = []"
  shows "check_request req = None"
  using assms accepted_check by (simp add: ValidateCreateTransactionRequest_iff)

theorem validated_passes_check_witness: "check_request sample_request = None"
  by (rule validated_passes_check) code_simp

section \<open>The statements succeed\<close>

lemma q_CreatePosting_succeeds:
  assumes "schema_ok d" and "entry_ok e" and "account_exists (pe_AccountID e) d"
    and "tenant_exists T d" and "transaction_exists t d" and "sint (db_posting_seq d) < 2 ^ 63 - 1"
  obtains p where "q_CreatePosting now \<lparr>cpp_TenantID = T, cpp_TransactionID = t,
      cpp_AccountID = pe_AccountID e, cpp_Amount = pe_Amount e, cpp_Direction = pe_Direction e\<rparr> d
    = (Inr p, put_posting p (d\<lparr>db_posting_seq := db_posting_seq d + 1\<rparr>))"
    "pst_TransactionID p = t"
proof -
  have "\<forall>r \<in> set (db_postings d). pst_ID r \<noteq> db_posting_seq d + 1"
    using assms(1) sint64_succ [of "db_posting_seq d"] assms(6)
    by (fastforce simp: schema_ok_def seqs_ok_def)
  then show ?thesis
    using assms(2-6)
    by (intro that, simp add: q_CreatePosting_def insert_row_def nextval_def entry_ok_def
        posting_direction_enum_def enum_defs account_exists_def tenant_exists_def
        transaction_exists_def, simp)
qed

lemma insert_postings_succeeds:
  assumes "\<forall>s. ce_fault E s = None"
  shows "tx_ok d \<Longrightarrow> \<forall>e \<in> set es. entry_ok e \<and> account_exists (pe_AccountID e) d \<Longrightarrow>
    tenant_exists T d \<Longrightarrow> transaction_exists t d \<Longrightarrow>
    sint (db_posting_seq d) + int (length es) < 2 ^ 63 \<Longrightarrow>
    \<exists>d'. insert_postings E T t i es d = (None, d')
       \<and> db_deferred d' = db_deferred d @ replicate (length es) t"
proof (induction es arbitrary: i d)
  case (Cons e es)
  from Cons.prems obtain p d1 where q: "q_CreatePosting (ce_now E) \<lparr>cpp_TenantID = T,
      cpp_TransactionID = t, cpp_AccountID = pe_AccountID e, cpp_Amount = pe_Amount e,
      cpp_Direction = pe_Direction e\<rparr> d = (Inr p, d1)"
    and d1: "d1 = put_posting p (d\<lparr>db_posting_seq := db_posting_seq d + 1\<rparr>)"
      "pst_TransactionID p = t"
    by (auto simp: tx_ok_def intro: q_CreatePosting_succeeds [of d e T t "ce_now E"])
  have "tx_ok d1" using CreatePosting.keeps [OF Cons.prems(1) q] .
  moreover have "sint (db_posting_seq d1) = sint (db_posting_seq d) + 1"
    using sint64_succ [of "db_posting_seq d"] Cons.prems(5) by (simp add: d1 put_posting_def)
  moreover have "account_exists a d1 = account_exists a d" "tenant_exists T d1 = tenant_exists T d"
    "transaction_exists t d1 = transaction_exists t d" for a
    by (simp_all add: d1 put_posting_def exists_defs)
  ultimately obtain d' where "insert_postings E T t (Suc i) es d1 = (None, d')"
      "db_deferred d' = db_deferred d1 @ replicate (length es) t"
    using Cons.IH [of d1 "Suc i"] Cons.prems by auto
  then show ?case by (simp add: run_stmt_def assms q d1 replicate_app_Cons_same)
qed auto

lemma new_transaction_succeeds:
  assumes "postable E T req d"
  shows "q_CreateTransaction (ce_tx_id E) (ce_now E)
      \<lparr>ctp_TenantID = T, ctp_IdempotencyKey = ctr_IdempotencyKey req,
       ctp_Description = ctr_Description req,
       ctp_Metadata = metadata_or_empty (ctr_Metadata req)\<rparr> d
    = (Inr (new_transaction E T req), put_transaction (new_transaction E T req) d)"
proof -
  have "\<forall>r \<in> set (db_transactions d). tx_ID r \<noteq> ce_tx_id E"
    "\<forall>r \<in> set (db_transactions d).
      \<not> (tx_TenantID r = T \<and> tx_IdempotencyKey r = ctr_IdempotencyKey req)"
    using assms by (simp_all add: postable_def image_iff) metis+
  then show ?thesis
    using assms by (simp add: q_CreateTransaction_def insert_row_def new_transaction_def postable_def)
qed

lemma tx_body_succeeds:
  assumes ok: "committed_ok d" and post: "postable E T req d" and faults: "no_faults E"
    and entries: "\<forall>p \<in> set (ctr_Postings req). entry_ok p"
  obtains d' where "tx_body F E T req d = (Inr (new_transaction E T req), d')"
    "db_deferred d' = replicate (length (ctr_Postings req)) (ce_tx_id E)"
proof -
  let ?t = "new_transaction E T req" and ?d1 = "put_transaction (new_transaction E T req) d"
  have nf: "\<forall>s. ce_fault E s = None" using faults by (simp add: no_faults_def)
  have "tx_ok ?d1"
    using CreateTransaction.keeps [OF committed_tx_ok [OF ok] new_transaction_succeeds [OF post]] .
  moreover have "transaction_exists (tx_ID ?t) ?d1" "tenant_exists T ?d1"
    "\<forall>e \<in> set (ctr_Postings req). entry_ok e \<and> account_exists (pe_AccountID e) ?d1"
    "sint (db_posting_seq ?d1) + int (length (ctr_Postings req)) < 2 ^ 63"
    using post entries by (simp_all add: postable_def put_transaction_def exists_defs)
  ultimately obtain d2 where d2: "insert_postings E T (tx_ID ?t) 0 (ctr_Postings req) ?d1 = (None, d2)"
      "db_deferred d2 = db_deferred ?d1 @ replicate (length (ctr_Postings req)) (tx_ID ?t)"
    using insert_postings_succeeds [OF nf] by blast
  have same: "same_but_postings ?d1 d2" using insert_postings_None [OF d2(1)] by blast
  have "db_outbox d2 = db_outbox d" "db_tenants d2 = db_tenants d"
    by (subst same [unfolded same_but_postings_def]; simp add: put_transaction_def)+
  then have ob: "\<exists>e. q_CreateOutboxEvent (ce_outbox_id E) (ce_now E)
      \<lparr>cop_TenantID = T, cop_EventType = ''transaction.created'',
       cop_RoutingKey = ''transaction.created'', cop_Payload = Some pl\<rparr> d2 = (Inr e, put_outbox e d2)"
    for pl
    using post
    by (auto simp: q_CreateOutboxEvent_def insert_row_def postable_def tenant_exists_def image_iff)
  have "\<exists>e. tx_body F E T req d = (Inr ?t, put_outbox e d2)"
    using ob [of "encode_TransactionCreatedEvent F (created_event F E T req ?t)"]
    by (auto simp: tx_body_def run_stmt_def nf new_transaction_succeeds [OF post] d2(1)
        BuildOutboxPayload_def)
  then obtain e where "tx_body F E T req d = (Inr ?t, put_outbox e d2)" by blast
  moreover have "db_deferred (put_outbox e d2) = replicate (length (ctr_Postings req)) (ce_tx_id E)"
    using ok by (simp add: put_outbox_def d2(2) put_transaction_def committed_ok_def
        new_transaction_def)
  ultimately show ?thesis by (rule that)
qed

lemma posted_own_sums:
  assumes "committed_ok d" and "posted F E T req d d'" and "ce_tx_id E \<notin> tx_ID ` set (db_transactions d)"
  shows "debits_of (ce_tx_id E) d' = exact_sum PostingDirectionDebit (ctr_Postings req)"
    and "credits_of (ce_tx_id E) d' = exact_sum PostingDirectionCredit (ctr_Postings req)"
proof -
  from assms(2) obtain ps where ps: "db_postings d' = db_postings d @ ps"
      "list_all2 (posting_of_entry T (ce_tx_id E) (ce_now E)) (ctr_Postings req) ps"
    by (auto simp: posted_def)
  have "\<forall>p \<in> set ps. pst_TransactionID p = ce_tx_id E"
    using ps(2) by (auto simp: list_all2_conv_all_nth posting_of_entry_def in_set_conv_nth)
  then have "postings_of (ce_tx_id E) (db_postings d') = ps"
    using postings_fresh [OF assms(1,3)] by (simp add: ps(1) postings_of_def filter_none)
  with sum_of_entries [OF ps(2)]
  show "debits_of (ce_tx_id E) d' = exact_sum PostingDirectionDebit (ctr_Postings req)"
    "credits_of (ce_tx_id E) d' = exact_sum PostingDirectionCredit (ctr_Postings req)"
    by (simp_all add: debits_of_def credits_of_def)
qed

lemma write_transaction_succeeds:
  assumes "committed_ok d" and "postable E T req d" and "no_faults E"
    and "\<forall>p \<in> set (ctr_Postings req). entry_ok p" and "in_balance req"
  shows "\<exists>d'. write_transaction F E T req d = (Inr (new_transaction E T req), d')"
proof -
  obtain d1 where b: "tx_body F E T req d = (Inr (new_transaction E T req), d1)"
    and def: "db_deferred d1 = replicate (length (ctr_Postings req)) (ce_tx_id E)"
    by (rule tx_body_succeeds [OF assms(1-4)])
  have "0 \<le> exact_sum PostingDirectionDebit (ctr_Postings req)"
    using assms(4) exact_sum_bounds [of "ctr_Postings req" "2 ^ 63"] sint64_fits
    by (fastforce simp: entry_ok_def intro: less_imp_le)
  moreover have "ce_tx_id E \<notin> tx_ID ` set (db_transactions d)"
    using assms(2) by (simp add: postable_def)
  note own = posted_own_sums [OF assms(1) tx_body_Inr(2) [OF b] this]
  ultimately have "commit_db d1 = Inr (d1\<lparr>db_deferred := []\<rparr>)"
    using assms(5) by (auto simp: commit_db_Inr def own in_balance_def)
  with assms(3) b show ?thesis by (simp add: write_transaction_def no_faults_def)
qed

text \<open>
  C12: Liveness. A request that passes validation and is in balance is posted and answered with a
  response when its accounts exist, its idempotency key is new for the tenant, the lock is
  granted, the cache has no entry and no database call fails.
\<close>

theorem CreateTransaction_accepts:
  assumes "ledger_ok F (w_db w)"
    and "ValidateCreateTransactionRequest req = []" and "in_balance req"
    and "postable E tenantID req (w_db w)" and "no_faults E"
    and "lk_Obtain R (lock_key F tenantID (ctr_IdempotencyKey req)) lock_ttl (w_redis w) = (None, r)"
    and "cached_replay F R (idempotency_key F tenantID (ctr_IdempotencyKey req)) r = None"
  shows "\<exists>resp w'. CreateTransaction F R ttl E tenantID req w = (Inr resp, w')
     \<and> posted F E tenantID req (w_db w) (w_db w')"
proof -
  have acc: "accepted_transaction req"
    using assms(2) by (simp add: ValidateCreateTransactionRequest_iff)
  then have entries: "\<forall>p \<in> set (ctr_Postings req). entry_ok p"
    by (simp add: accepted_transaction_def)
  have "committed_ok (w_db w)" using assms(1) by (simp add: ledger_ok_def)
  then obtain d' where wr: "write_transaction F E tenantID req (w_db w)
      = (Inr (new_transaction E tenantID req), d')"
    using write_transaction_succeeds [OF _ assms(4,5) entries assms(3)] by blast
  with write_transaction_Inr(2) [OF wr] show ?thesis
    by (simp add: CreateTransaction_def accepted_check [OF acc] assms(6,7) under_lock_def Let_def
        split: prod.split)
qed

theorem CreateTransaction_accepts_witness:
  "\<exists>resp w'. CreateTransaction plain_formats map_redis 1 sample_env sample_tenant sample_request
       sample_world = (Inr resp, w')
     \<and> posted plain_formats sample_env sample_tenant sample_request sample_db (w_db w')"
proof -
  have "\<forall>s. ce_fault sample_env s = None" by (simp add: sample_env_def)
  then have nf: "no_faults sample_env" by (simp add: no_faults_def sample_env_def)
  have v: "ValidateCreateTransactionRequest sample_request = []" by code_simp
  have b: "in_balance sample_request" "postable sample_env sample_tenant sample_request sample_db"
    by code_simp+
  from CreateTransaction_accepts [where w = sample_world and F = plain_formats and R = map_redis
      and ttl = 1, OF _ v b(1) _ nf] b(2) sample_ledger_ok
  show ?thesis by (simp add: sample_world_def map_redis_def cached_replay_def)
qed

end
