(* ===== verification/Replay.thy ===== *)
theory Replay
  imports Sample
begin

text \<open>
  Idempotency of \<^verbatim>\<open>CreateTransaction\<close>: what a second request under the same key gets, with the cached
  response and without it.
\<close>

section \<open>The two Redis keys\<close>

lemma lock_key_not_idempotency_key [simp]:
  "idempotency_key F T k \<noteq> lock_key F T' k'" "lock_key F T' k' \<noteq> idempotency_key F T k"
  by (simp_all add: lock_key_def idempotency_key_def)

lemma idempotency_key_inj:
  assumes "formats_ok F"
  shows "idempotency_key F T k = idempotency_key F T' k' \<longleftrightarrow> T = T' \<and> k = k'"
proof -
  have "length (uuid_String F T) = length (uuid_String F T')" using assms by (simp add: formats_ok_def)
  then show ?thesis
    using uuid_String_inj [OF assms, of T T'] by (auto simp: idempotency_key_def)
qed

lemma lock_key_inj:
  assumes "formats_ok F"
  shows "lock_key F T k = lock_key F T' k' \<longleftrightarrow> T = T' \<and> k = k'"
  using idempotency_key_inj [OF assms, of T k T' k'] by (simp add: lock_key_def idempotency_key_def)

section \<open>What the cache holds\<close>

lemma lock_keeps_others:
  assumes "redis_ok R" and "k' \<noteq> k"
  shows "rd_store R (snd (lk_Obtain R k ttl r)) k' \<in> {rd_store R r k', None}"
    and "rd_store R (snd (lk_Release R k r)) k' \<in> {rd_store R r k', None}"
  using assms by (simp_all add: redis_ok_def lock_law_def) (metis prod.collapse)+

lemma Get_stored:
  assumes "redis_ok R"
  shows "rd_Get R k r = RVal v \<Longrightarrow> rd_store R r k = Some v"
    and "rd_Get R k r = RNil \<Longrightarrow> rd_store R r k = None"
proof -
  have "case rd_Get R k r of RNil \<Rightarrow> rd_store R r k = None | RErr _ \<Rightarrow> True
      | RVal v \<Rightarrow> rd_store R r k = Some v"
    using assms unfolding redis_ok_def get_law_def by blast
  then show "rd_Get R k r = RVal v \<Longrightarrow> rd_store R r k = Some v"
    and "rd_Get R k r = RNil \<Longrightarrow> rd_store R r k = None" by simp_all
qed

lemma cached_replay_Some:
  "cached_replay F R k r = Some resp \<Longrightarrow>
     \<exists>v. rd_Get R k r = RVal v \<and> unmarshal_TransactionResponse F v = Some resp"
  by (auto simp: cached_replay_def split: redis_reply.splits if_splits)

lemma Set_stored:
  assumes "redis_ok R" and "rd_Set R k v ttl r = (e, r')"
  shows "rd_store R r' k \<in> {Some v, rd_store R r k, None}"
  using assms unfolding redis_ok_def set_law_def may_expire_def map_le_def
  by (metis domIff fun_upd_same insertCI)

lemma Obtain_keeps_cache:
  assumes "redis_ok R" and "lk_Obtain R (lock_key F T k) ttl r = (e, r')"
  shows "rd_store R r' (idempotency_key F T' k') \<in> {rd_store R r (idempotency_key F T' k'), None}"
  using lock_keeps_others(1) [OF assms(1) lock_key_not_idempotency_key(1)] assms(2)
  by (metis snd_conv)

text \<open>After a call that found no entry, the key holds the response or nothing.\<close>

lemma cache_after_create:
  assumes ok: "redis_ok R" and call: "CreateTransaction F R ttl E T req w = (Inr resp, w1)"
    and empty: "rd_store R (w_redis w) (idempotency_key F T (ctr_IdempotencyKey req)) = None"
  shows "rd_store R (w_redis w1) (idempotency_key F T (ctr_IdempotencyKey req))
      \<in> {Some (Doc (encode_TransactionResponse F resp)), None}
    \<and> tr_Metadata resp \<noteq> None"
  using call
proof (cases rule: CreateTransaction_cases)
  case (replay r1 rp)
  let ?k = "idempotency_key F T (ctr_IdempotencyKey req)"
  have "rd_store R r1 ?k = None"
    using Obtain_keeps_cache [OF ok replay(2), of T "ctr_IdempotencyKey req"] empty by simp
  with replay(3) show ?thesis
    using cached_replay_Some Get_stored(1) [OF ok] by fastforce
next
  case (created t r1 setErr r2)
  let ?k = "idempotency_key F T (ctr_IdempotencyKey req)"
  let ?l = "lock_key F T (ctr_IdempotencyKey req)"
  have "rd_store R r1 ?k = None"
    using Obtain_keeps_cache [OF ok created(2), of T "ctr_IdempotencyKey req"] empty by simp
  moreover have "rd_store R r2 ?k
      \<in> {Some (Doc (encode_TransactionResponse F resp)), rd_store R r1 ?k, None}"
    using Set_stored [OF ok created(5)] by simp
  moreover have "rd_store R (snd (lk_Release R ?l r2)) ?k \<in> {rd_store R r2 ?k, None}"
    by (rule lock_keeps_others(2) [OF ok lock_key_not_idempotency_key(1)])
  moreover have "tr_Metadata resp \<noteq> None"
    using created(4) write_transaction_Inr(1) [OF created(3)]
    by (simp add: make_response_def new_transaction_def metadata_or_empty_def)
  ultimately show ?thesis by (auto simp: created(6))
qed simp_all

section \<open>Replay\<close>

lemma replay_response:
  assumes "formats_ok F" and "redis_ok R"
    and "CreateTransaction F R ttl E tenantID req w = (Inr resp, w1)"
    and "rd_store R (w_redis w) (idempotency_key F tenantID (ctr_IdempotencyKey req)) = None"
    and "rd_store R (w_redis w2) (idempotency_key F tenantID (ctr_IdempotencyKey req))
       = rd_store R (w_redis w1) (idempotency_key F tenantID (ctr_IdempotencyKey req))"
    and "ctr_IdempotencyKey req2 = ctr_IdempotencyKey req" and "check_request req2 = None"
    and "lk_Obtain R (lock_key F tenantID (ctr_IdempotencyKey req)) lock_ttl (w_redis w2) = (None, r)"
    and "rd_Get R (idempotency_key F tenantID (ctr_IdempotencyKey req)) r = RVal v"
  shows "\<exists>w3. CreateTransaction F R ttl2 E2 tenantID req2 w2 = (Inr resp, w3) \<and> w_db w3 = w_db w2"
proof -
  let ?k = "idempotency_key F tenantID (ctr_IdempotencyKey req)"
  note cache = cache_after_create [OF assms(2,3,4)]
  have "rd_store R r ?k \<in> {rd_store R (w_redis w2) ?k, None}"
    by (rule Obtain_keeps_cache [OF assms(2,8)])
  with Get_stored(1) [OF assms(2,9)] cache assms(5)
  have v: "v = Doc (encode_TransactionResponse F resp)" by auto
  have "cached_replay F R ?k r = Some resp"
    using unmarshal_encode_response [OF assms(1)] cache by (simp add: cached_replay_def assms(9) v)
  then show ?thesis
    by (simp add: CreateTransaction_def assms(6-8) under_lock_def Let_def split: prod.split)
qed

lemma posted_world_cached:
  obtains r v where "lk_Obtain map_redis (lock_key plain_formats sample_tenant ''order-1'')
      lock_ttl (w_redis posted_world) = (None, r)"
    "rd_Get map_redis (idempotency_key plain_formats sample_tenant ''order-1'') r = RVal v"
proof -
  have "(case lk_Obtain map_redis (lock_key plain_formats sample_tenant ''order-1'') lock_ttl
      (w_redis posted_world) of (Some _, _) \<Rightarrow> False
      | (None, r) \<Rightarrow> (case rd_Get map_redis
          (idempotency_key plain_formats sample_tenant ''order-1'') r of RVal v \<Rightarrow> True | _ \<Rightarrow> False))"
    by code_simp
  then show ?thesis using that by (auto split: prod.splits option.splits redis_reply.splits)
qed

lemma sample_replay:
  assumes "fst (sample_create sample_env sample_request sample_world) = Inr resp"
    and "ctr_IdempotencyKey req2 = ''order-1''" and "check_request req2 = None"
  shows "\<exists>w3. CreateTransaction plain_formats map_redis 1 E2 sample_tenant req2 posted_world
      = (Inr resp, w3) \<and> w_db w3 = posted_db"
proof -
  let ?k = "idempotency_key plain_formats sample_tenant ''order-1''"
  have c: "CreateTransaction plain_formats map_redis 1 sample_env sample_tenant sample_request
      sample_world = (Inr resp, posted_world)"
    using assms(1) unfolding posted_world_def sample_create_def by (metis prod.collapse)
  have miss: "rd_store map_redis (w_redis sample_world)
      (idempotency_key plain_formats sample_tenant (ctr_IdempotencyKey sample_request)) = None"
    by (simp add: map_redis_def sample_world_def)
  obtain r v where "lk_Obtain map_redis (lock_key plain_formats sample_tenant ''order-1'')
      lock_ttl (w_redis posted_world) = (None, r)" "rd_Get map_redis ?k r = RVal v"
    by (rule posted_world_cached)
  then show ?thesis
    unfolding posted_db_def using assms(2)
    by (intro replay_response [OF plain_formats_ok map_redis_ok c miss refl _ assms(3)])
       (simp_all add: sample_request_def)
qed

text \<open>
  C13: Idempotency. Once a request has been answered, a later request of the tenant under the same key
  (whatever its body, as long as the service's check passes) that gets the lock and finds an entry
  in the cache receives the very same response, and the database is not touched. In between, any
  other calls may have run and keys may have expired.
\<close>

theorem replay_same_response:
  assumes "formats_ok F" and "redis_ok R"
    and "CreateTransaction F R ttl E tenantID req w = (Inr resp, w1)"
    and "rd_store R (w_redis w) (idempotency_key F tenantID (ctr_IdempotencyKey req)) = None"
    and "rd_store R (w_redis w2) (idempotency_key F tenantID (ctr_IdempotencyKey req))
       = rd_store R (w_redis w1) (idempotency_key F tenantID (ctr_IdempotencyKey req))"
    and "ctr_IdempotencyKey req2 = ctr_IdempotencyKey req" and "check_request req2 = None"
    and "lk_Obtain R (lock_key F tenantID (ctr_IdempotencyKey req)) lock_ttl (w_redis w2) = (None, r)"
    and "rd_Get R (idempotency_key F tenantID (ctr_IdempotencyKey req)) r = RVal v"
  shows "\<exists>w3. CreateTransaction F R ttl2 E2 tenantID req2 w2 = (Inr resp, w3) \<and> w_db w3 = w_db w2"
  using assms by (rule replay_response)

theorem replay_same_response_witness:
  "\<exists>resp w3. fst (sample_create sample_env sample_request sample_world) = Inr resp
     \<and> CreateTransaction plain_formats map_redis 1 sample_env2 sample_tenant
         (sample_request\<lparr>ctr_Description := ''again''\<rparr>) posted_world = (Inr resp, w3)
     \<and> w_db w3 = posted_db"
proof -
  let ?k = "idempotency_key plain_formats sample_tenant ''order-1''"
  obtain resp where r: "fst (sample_create sample_env sample_request sample_world) = Inr resp"
    using sample_posts by (metis is_ok.elims(2))
  then have c: "CreateTransaction plain_formats map_redis 1 sample_env sample_tenant sample_request
      sample_world = (Inr resp, posted_world)"
    unfolding posted_world_def sample_create_def by (metis prod.collapse)
  have miss: "rd_store map_redis (w_redis sample_world)
      (idempotency_key plain_formats sample_tenant (ctr_IdempotencyKey sample_request)) = None"
    by (simp add: map_redis_def sample_world_def)
  have chk: "check_request (sample_request\<lparr>ctr_Description := ''again''\<rparr>) = None" by code_simp
  obtain r v where "lk_Obtain map_redis (lock_key plain_formats sample_tenant ''order-1'')
      lock_ttl (w_redis posted_world) = (None, r)" "rd_Get map_redis ?k r = RVal v"
    by (rule posted_world_cached)
  then have "\<exists>w3. CreateTransaction plain_formats map_redis 1 sample_env2 sample_tenant
      (sample_request\<lparr>ctr_Description := ''again''\<rparr>) posted_world = (Inr resp, w3)
      \<and> w_db w3 = w_db posted_world"
    by (intro replay_same_response [OF plain_formats_ok map_redis_ok c miss refl _ chk])
       (simp_all add: sample_request_def)
  with r show ?thesis by (auto simp: posted_db_def)
qed

text \<open>
  C40: Without the cache (entry expired, lost or not readable) a request under a key that is already
  in the database is refused by the unique index. Nothing is posted twice; but the caller gets a
  wrapped database error, which is not \<^verbatim>\<open>ErrIdempotencyKeyConflict\<close>, and no response is replayed.
\<close>

theorem duplicate_key_without_cache:
  assumes "check_request req = None"
    and "lk_Obtain R (lock_key F tenantID (ctr_IdempotencyKey req)) lock_ttl (w_redis w) = (None, r)"
    and "cached_replay F R (idempotency_key F tenantID (ctr_IdempotencyKey req)) r = None"
    and "\<exists>t \<in> set (db_transactions (w_db w)).
           tx_TenantID t = tenantID \<and> tx_IdempotencyKey t = ctr_IdempotencyKey req"
    and "\<forall>t \<in> set (db_transactions (w_db w)). tx_ID t \<noteq> ce_tx_id E"
    and "ce_fault E AtBeginTx = None" and "ce_fault E AtInsertTransaction = None"
  shows "\<exists>w'. CreateTransaction F R ttl E tenantID req w
      = (Inl (DbError ''insert transaction''
           (UniqueViolation ''transactions_tenant_idempotency_key_key'')), w')
    \<and> w_db w' = w_db w"
proof -
  have "q_CreateTransaction (ce_tx_id E) (ce_now E)
      \<lparr>ctp_TenantID = tenantID, ctp_IdempotencyKey = ctr_IdempotencyKey req,
       ctp_Description = ctr_Description req,
       ctp_Metadata = metadata_or_empty (ctr_Metadata req)\<rparr> (w_db w)
    = (Inl (UniqueViolation ''transactions_tenant_idempotency_key_key''), w_db w)"
    using assms(4,5) by (auto simp: q_CreateTransaction_def insert_row_def)
  then have "write_transaction F E tenantID req (w_db w)
    = (Inl (DbError ''insert transaction''
         (UniqueViolation ''transactions_tenant_idempotency_key_key'')), w_db w)"
    by (simp add: write_transaction_def assms(6,7) tx_body_def run_stmt_def rollback_db_def)
  then show ?thesis
    by (simp add: CreateTransaction_def assms(1-3) under_lock_def Let_def split: prod.split)
qed

theorem duplicate_key_without_cache_witness:
  "\<exists>w'. CreateTransaction plain_formats map_redis 1 sample_env2 sample_tenant sample_request
      \<lparr>w_db = posted_db, w_redis = (\<lambda>_. None)\<rparr>
    = (Inl (DbError ''insert transaction''
         (UniqueViolation ''transactions_tenant_idempotency_key_key'')), w')
    \<and> w_db w' = posted_db"
proof -
  let ?w = "\<lparr>w_db = posted_db, w_redis = (\<lambda>_. None)\<rparr> :: (string \<Rightarrow> payload option) world"
  have e: "\<exists>t \<in> set (db_transactions posted_db).
      tx_TenantID t = sample_tenant \<and> tx_IdempotencyKey t = ctr_IdempotencyKey sample_request"
    "\<forall>t \<in> set (db_transactions posted_db). tx_ID t \<noteq> ce_tx_id sample_env2"
    "check_request sample_request = None"
    by code_simp+
  have "\<exists>w'. CreateTransaction plain_formats map_redis 1 sample_env2 sample_tenant sample_request ?w
    = (Inl (DbError ''insert transaction''
         (UniqueViolation ''transactions_tenant_idempotency_key_key'')), w') \<and> w_db w' = w_db ?w"
    by (rule duplicate_key_without_cache)
       (use e in \<open>(simp add: map_redis_def cached_replay_def sample_env2_def sample_env_def)+\<close>)
  then show ?thesis by simp
qed

end
