(* ===== verification/Accounts.thy ===== *)
theory Accounts
  imports Posting
begin

text \<open>
  Balances and lists: the trial balance, what \<^verbatim>\<open>GetAccountBalance\<close> returns, how a posting changes
  balances, that following the cursor of \<^verbatim>\<open>ListAccounts\<close> and \<^verbatim>\<open>ListTransactions\<close> finds every row,
  and how far one tenant's data stays with that tenant.
\<close>

section \<open>Sums over groups of postings\<close>

definition tenant_postings :: "uuid \<Rightarrow> db \<Rightarrow> Posting list" where
  "tenant_postings T d = filter (\<lambda>p. pst_TenantID p = T) (db_postings d)"

definition debit_credit_net :: "Posting list \<Rightarrow> int" where
  "debit_credit_net ps =
     sum_direction PostingDirectionDebit ps - sum_direction PostingDirectionCredit ps"

lemma net_simps [simp]:
  "debit_credit_net [] = 0"
  "debit_credit_net (ps @ qs) = debit_credit_net ps + debit_credit_net qs"
  by (simp_all add: debit_credit_net_def)

lemma sum_list_one_group:
  "distinct ks \<Longrightarrow> k \<in> set ks \<Longrightarrow> (\<Sum>j\<leftarrow>ks. if k = j then (x :: int) else 0) = x"
proof (induction ks)
  case (Cons a ks)
  have "(\<Sum>j\<leftarrow>ks. if k = j then x else 0) = 0" if "k \<notin> set ks"
    using that by (induction ks) auto
  with Cons show ?case by auto
qed simp

text \<open>The sum over a list of postings is the sum over its groups.\<close>

lemma net_by_group:
  assumes "distinct ks"
  shows "\<forall>p \<in> set ps. key p \<in> set ks \<Longrightarrow>
    debit_credit_net ps = (\<Sum>k\<leftarrow>ks. debit_credit_net (filter (\<lambda>p. key p = k) ps))"
proof (induction ps)
  case Nil
  show ?case by (simp add: sum_list_0)
next
  case (Cons p ps)
  have "debit_credit_net (filter (\<lambda>q. key q = k) (p # ps))
      = (if key p = k then debit_credit_net [p] else 0)
        + debit_credit_net (filter (\<lambda>q. key q = k) ps)" for k
    by (simp add: debit_credit_net_def)
  then have "(\<Sum>k\<leftarrow>ks. debit_credit_net (filter (\<lambda>q. key q = k) (p # ps)))
      = debit_credit_net [p] + (\<Sum>k\<leftarrow>ks. debit_credit_net (filter (\<lambda>q. key q = k) ps))"
    using assms Cons.prems by (simp add: sum_list_addf sum_list_one_group)
  moreover have "debit_credit_net (p # ps) = debit_credit_net [p] + debit_credit_net ps"
    by (simp add: debit_credit_net_def)
  ultimately show ?case using Cons by simp
qed

lemma entries_net:
  "entries_ok d t \<Longrightarrow> debit_credit_net (postings_of (tx_ID t) (db_postings d)) = 0"
  by (simp add: entries_ok_def balanced_def debits_of_def credits_of_def debit_credit_net_def)

lemma tenant_net:
  assumes "ledger_ok F d"
  shows "debit_credit_net (tenant_postings T d) = 0"
proof -
  let ?txs = "filter (\<lambda>t. tx_TenantID t = T) (db_transactions d)"
  have ok: "keys_ok d" "refs_ok d" and entries: "\<forall>t \<in> set (db_transactions d). entries_ok d t"
    using assms by (simp_all add: ledger_ok_def committed_ok_def tx_ok_def schema_ok_def)
  have "distinct (map tx_ID ?txs)" using ok(1) by (simp add: keys_ok_def distinct_map_filter)
  moreover have "\<forall>p \<in> set (tenant_postings T d). pst_TransactionID p \<in> set (map tx_ID ?txs)"
  proof
    fix p assume p: "p \<in> set (tenant_postings T d)"
    then obtain t where t: "t \<in> set (db_transactions d)" "tx_ID t = pst_TransactionID p"
      using ok(2) by (auto simp: tenant_postings_def refs_ok_def transaction_exists_def)
    with p entries have "tx_TenantID t = T"
      by (auto simp: tenant_postings_def entries_ok_def postings_of_def)
    with t show "pst_TransactionID p \<in> set (map tx_ID ?txs)" by force
  qed
  ultimately have "debit_credit_net (tenant_postings T d) = (\<Sum>i\<leftarrow>map tx_ID ?txs.
      debit_credit_net (filter (\<lambda>p. pst_TransactionID p = i) (tenant_postings T d)))"
    by (rule net_by_group)
  also have "\<dots> = (\<Sum>t\<leftarrow>?txs. 0)"
  proof (simp only: map_map comp_def, rule arg_cong [where f = sum_list], rule map_cong [OF refl])
    fix t assume t: "t \<in> set ?txs"
    then have "filter (\<lambda>p. pst_TransactionID p = tx_ID t) (tenant_postings T d)
        = postings_of (tx_ID t) (db_postings d)"
      using entries by (auto simp: tenant_postings_def postings_of_def entries_ok_def
          intro!: filter_cong)
    with entries t show "debit_credit_net (filter (\<lambda>p. pst_TransactionID p = tx_ID t)
        (tenant_postings T d)) = 0"
      by (simp add: entries_net)
  qed
  finally show ?thesis by (simp add: sum_list_0)
qed



section \<open>Balances\<close>

lemma query_one_filter: "query_one (filter P xs)
    = (case List.find P xs of None \<Rightarrow> Inl NoRows | Some x \<Rightarrow> Inr x)"
  by (induction xs) auto

definition own_account :: "uuid \<Rightarrow> int64 \<Rightarrow> db \<Rightarrow> Account option" where
  "own_account T i d = List.find (\<lambda>a. acc_ID a = i \<and> acc_TenantID a = T) (db_accounts d)"

lemma sums_nonneg:
  assumes "committed_ok d"
  shows "0 \<le> sum_direction dir (postings_at i T d)"
  using assms
  by (intro sum_direction_nonneg)
     (auto simp: committed_ok_def tx_ok_def schema_ok_def values_ok_def postings_at_def less_imp_le)

text \<open>
  C20: \<^verbatim>\<open>GetAccountBalance\<close>, on every branch, when the database answers. An account that is not the
  tenant's is \<^verbatim>\<open>ErrAccountNotFound\<close>. Otherwise the totals are the exact sums of the tenant's
  postings on the account and the net balance is their difference, without wrap-around; the only
  other outcome is an error when a total does not fit into 64 bits.
\<close>

theorem GetAccountBalance_spec:
  assumes "committed_ok d"
  shows "let debits = sum_direction PostingDirectionDebit (postings_at i T d);
             credits = sum_direction PostingDirectionCredit (postings_at i T d)
         in case own_account T i d of
              None \<Rightarrow> GetAccountBalance None None T i d = Inl (Sentinel ErrAccountNotFound)
            | Some a \<Rightarrow>
                if debits < 2 ^ 63 \<and> credits < 2 ^ 63
                then \<exists>b. GetAccountBalance None None T i d = Inr b
                   \<and> br_AccountID b = i \<and> br_Currency b = acc_Currency a
                   \<and> sint (br_TotalDebits b) = debits \<and> sint (br_TotalCredits b) = credits
                   \<and> sint (br_NetBalance b) = debits - credits
                else GetAccountBalance None None T i d
                   = Inl (DbError ''get account balance'' NumericOutOfRange)"
proof -
  let ?d = "sum_direction PostingDirectionDebit (postings_at i T d)"
    and ?c = "sum_direction PostingDirectionCredit (postings_at i T d)"
  have pos: "0 \<le> ?d" "0 \<le> ?c" using sums_nonneg [OF assms] by simp_all
  show ?thesis
  proof (cases "own_account T i d")
    case None
    then show ?thesis
      by (simp add: GetAccountBalance_def q_GetAccountByID_def query_one_filter own_account_def
          read_query_def Let_def)
  next
    case (Some a)
    with pos show ?thesis
      by (auto simp: GetAccountBalance_def q_GetAccountByID_def query_one_filter own_account_def
          read_query_def Let_def q_GetAccountBalance_def to_bigint_def sint64_of_int
          simp del: of_int_diff)
  qed
qed

theorem GetAccountBalance_spec_witness:
  "\<exists>b. GetAccountBalance None None sample_tenant 1 posted_db = Inr b \<and> sint (br_NetBalance b) = 500"
proof -
  have v: "sum_direction PostingDirectionDebit (postings_at 1 sample_tenant posted_db) = 500"
    "sum_direction PostingDirectionCredit (postings_at 1 sample_tenant posted_db) = 0"
    "own_account sample_tenant 1 posted_db \<noteq> None"
    by code_simp+
  have "committed_ok posted_db" using posted_ledger_ok by (simp add: ledger_ok_def)
  from GetAccountBalance_spec [OF this, of 1 sample_tenant] v show ?thesis
    by (auto simp: Let_def)
qed

text \<open>The change a request makes to the balance of an account.\<close>

definition entry_net :: "int64 \<Rightarrow> PostingEntry list \<Rightarrow> int" where
  "entry_net i es =
     (let own = filter (\<lambda>e. pe_AccountID e = i) es in
      exact_sum PostingDirectionDebit own - exact_sum PostingDirectionCredit own)"

definition account_net :: "int64 \<Rightarrow> uuid \<Rightarrow> db \<Rightarrow> int" where
  "account_net i T d = debit_credit_net (postings_at i T d)"

lemma entries_account_net:
  assumes "list_all2 (posting_of_entry T t now) es ps"
  shows "debit_credit_net (filter (\<lambda>p. pst_AccountID p = i \<and> pst_TenantID p = T') ps)
    = (if T' = T then entry_net i es else 0)"
  using assms
  by (induction rule: list_all2_induct)
     (auto simp: posting_of_entry_def entry_net_def debit_credit_net_def Let_def)

text \<open>
  C19: A call that posts moves the balance of each account of the tenant by exactly the request's
  debits minus its credits on that account, and no balance of another tenant.
\<close>

theorem CreateTransaction_moves_balances:
  assumes "CreateTransaction F R ttl E T req w = (Inr resp, w')" and "w_db w' \<noteq> w_db w"
  shows "account_net i T' (w_db w')
    = account_net i T' (w_db w) + (if T' = T then entry_net i (ctr_Postings req) else 0)"
  using assms(1)
proof (cases rule: CreateTransaction_cases)
  case (created t r1 setErr r2)
  from write_transaction_Inr(2) [OF created(3)] obtain ps where
    ps: "db_postings (w_db w') = db_postings (w_db w) @ ps"
      "list_all2 (posting_of_entry T (ce_tx_id E) (ce_now E)) (ctr_Postings req) ps"
    by (auto simp: posted_def)
  show ?thesis
    by (simp add: account_net_def postings_at_def ps(1) entries_account_net [OF ps(2)])
qed (use assms(2) in simp_all)

theorem CreateTransaction_moves_balances_witness:
  "account_net 2 sample_tenant posted_db = account_net 2 sample_tenant sample_db - 500"
proof -
  obtain resp where c: "CreateTransaction plain_formats map_redis 1 sample_env sample_tenant
      sample_request sample_world = (Inr resp, posted_world)"
    using sample_posted unfolding sample_create_def by metis
  have "length (db_postings (w_db posted_world)) = 2" "length (db_postings (w_db sample_world)) = 0"
    by (simp_all add: posted_db_def [symmetric] posted_db_eq sample_world_def sample_db_eq)
  then have "w_db posted_world \<noteq> w_db sample_world" by auto
  from CreateTransaction_moves_balances [OF c this, of 2 sample_tenant] show ?thesis
    by (simp add: posted_db_def sample_world_def entry_net_def sample_request_def
        sample_postings_def enum_defs)
qed

section \<open>The sum of a tenant's balances\<close>

definition own_accounts :: "uuid \<Rightarrow> db \<Rightarrow> Account list" where
  "own_accounts T d = filter (\<lambda>a. acc_TenantID a = T) (db_accounts d)"

definition posts_to_own_accounts :: "uuid \<Rightarrow> db \<Rightarrow> bool" where
  "posts_to_own_accounts T d \<longleftrightarrow>
     (\<forall>p \<in> set (tenant_postings T d). pst_AccountID p \<in> acc_ID ` set (own_accounts T d))"

lemma own_account_own:
  assumes "keys_ok d" and "a \<in> set (own_accounts T d)"
  shows "own_account T (acc_ID a) d = Some a"
  using assms unfolding own_account_def
  by (intro find_unique [where k = acc_ID]) (auto simp: own_accounts_def keys_ok_def)

lemma balance_net:
  assumes "committed_ok d" and "GetAccountBalance None None T i d = Inr b"
  shows "sint (br_NetBalance b) = account_net i T d"
proof -
  have "0 \<le> sum_direction PostingDirectionDebit (postings_at i T d)"
    "0 \<le> sum_direction PostingDirectionCredit (postings_at i T d)"
    using sums_nonneg [OF assms(1)] by simp_all
  with assms(2) show ?thesis
    by (auto simp: GetAccountBalance_def q_GetAccountByID_def query_one_filter read_query_def
        q_GetAccountBalance_def Let_def to_bigint_def sint64_of_int account_net_def
        debit_credit_net_def simp del: of_int_diff
        split: option.splits if_splits sum.splits)
qed

text \<open>
  The balances the API reports for all accounts of a tenant add up to zero, provided the tenant
  has only posted to its own accounts. Nothing enforces that proviso (see the next property).
\<close>

theorem balances_sum_to_zero:
  assumes "ledger_ok F d" and "posts_to_own_accounts T d"
    and "\<forall>a \<in> set (own_accounts T d). GetAccountBalance None None T (acc_ID a) d = Inr (bal a)"
  shows "(\<Sum>a\<leftarrow>own_accounts T d. sint (br_NetBalance (bal a))) = 0"
proof -
  have com: "committed_ok d" using assms(1) by (simp add: ledger_ok_def)
  then have "distinct (map acc_ID (own_accounts T d))"
    by (simp add: committed_ok_def tx_ok_def schema_ok_def keys_ok_def own_accounts_def
        distinct_map_filter)
  moreover have "\<forall>p \<in> set (tenant_postings T d). pst_AccountID p \<in> set (map acc_ID (own_accounts T d))"
    using assms(2) by (simp add: posts_to_own_accounts_def)
  ultimately have "debit_credit_net (tenant_postings T d) = (\<Sum>i\<leftarrow>map acc_ID (own_accounts T d).
      debit_credit_net (filter (\<lambda>p. pst_AccountID p = i) (tenant_postings T d)))"
    by (rule net_by_group)
  moreover have "filter (\<lambda>p. pst_AccountID p = i) (tenant_postings T d) = postings_at i T d" for i
    by (simp add: tenant_postings_def postings_at_def conj_commute)
  ultimately have "(\<Sum>a\<leftarrow>own_accounts T d. account_net (acc_ID a) T d) = 0"
    using tenant_net [OF assms(1), of T] by (simp add: account_net_def comp_def)
  moreover have "map (\<lambda>a. sint (br_NetBalance (bal a))) (own_accounts T d)
      = map (\<lambda>a. account_net (acc_ID a) T d) (own_accounts T d)"
    using assms(3) balance_net [OF com] by (intro map_cong refl) blast
  ultimately show ?thesis by (simp only:)
qed

theorem balances_sum_to_zero_witness:
  "(\<Sum>a\<leftarrow>own_accounts sample_tenant posted_db. sint (br_NetBalance
      (projr (GetAccountBalance None None sample_tenant (acc_ID a) posted_db)))) = 0
   \<and> length (own_accounts sample_tenant posted_db) = 2"
proof
  have "posts_to_own_accounts sample_tenant posted_db"
    "\<forall>a \<in> set (own_accounts sample_tenant posted_db).
       is_ok (GetAccountBalance None None sample_tenant (acc_ID a) posted_db)"
    by code_simp+
  then show "(\<Sum>a\<leftarrow>own_accounts sample_tenant posted_db. sint (br_NetBalance
      (projr (GetAccountBalance None None sample_tenant (acc_ID a) posted_db)))) = 0"
    by (intro balances_sum_to_zero [OF posted_ledger_ok]) (simp_all add: is_ok_projr)
  show "length (own_accounts sample_tenant posted_db) = 2" by code_simp
qed

text \<open>
  A request of the sample tenant that credits an account of the other tenant.
\<close>

definition crossing_request :: CreateTransactionRequest where
  "crossing_request =
     sample_request\<lparr>ctr_Postings :=
       [\<lparr>pe_AccountID = 1, pe_Amount = 500, pe_Direction = ''debit''\<rparr>,
        \<lparr>pe_AccountID = 3, pe_Amount = 500, pe_Direction = ''credit''\<rparr>]\<rparr>"

definition crossing_db :: db where
  "crossing_db = w_db (snd (sample_create sample_env crossing_request sample_world))"

text \<open>The same rows as \<open>posted_db\<close>, but for the second posting.\<close>

lemma crossing_db_eq [code]:
  "crossing_db = posted_db
     \<lparr>db_postings :=
        [\<lparr>pst_ID = 1, pst_TransactionID = 101, pst_AccountID = 1, pst_Amount = 500,
          pst_Direction = ''debit'', pst_CreatedAt = Some 7, pst_TenantID = 0\<rparr>,
         \<lparr>pst_ID = 2, pst_TransactionID = 101, pst_AccountID = 3, pst_Amount = 500,
          pst_Direction = ''credit'', pst_CreatedAt = Some 7, pst_TenantID = 0\<rparr>],
      db_outbox := map (\<lambda>e. e\<lparr>ob_Payload := encode_TransactionCreatedEvent plain_formats
        (created_event plain_formats sample_env sample_tenant crossing_request
          (new_transaction sample_env sample_tenant crossing_request))\<rparr>) (db_outbox posted_db)\<rparr>"
  by code_simp

text \<open>
  The tenants are not separated on writing: the foreign key of a posting is on the account's id
  alone. A tenant can post to another tenant's account by its id; the request is accepted, the
  response (and \<^verbatim>\<open>GetTransaction\<close>) shows it the name of that account, and the balances of its own
  accounts no longer add up to zero.
\<close>

theorem posting_to_foreign_account:
  "own_account sample_tenant 3 sample_db = None
   \<and> is_ok (fst (sample_create sample_env crossing_request sample_world))
   \<and> map_option (map row_AccountName)
       (tr_Postings (projr (GetTransaction None None sample_tenant 101 crossing_db)))
     = Some [''cash'', ''salaries'']
   \<and> (\<Sum>a\<leftarrow>own_accounts sample_tenant crossing_db. sint (br_NetBalance
        (projr (GetAccountBalance None None sample_tenant (acc_ID a) crossing_db)))) = 500
   \<and> account_net 3 other_tenant crossing_db = 0"
  by (intro conjI; code_simp)

end
