(* ===== verification/Isolation.thy ===== *)
theory Isolation
  imports Accounts
begin

text \<open>
  Tenants and each other's data: reads depend on the tenant's own rows, and a transaction of one
  tenant changes nothing that another one reads. The limits of this are in \<open>Accounts\<close>: a posting may
  name a foreign account.
\<close>

section \<open>Reads\<close>

definition tenant_view :: "uuid \<Rightarrow> db \<Rightarrow> Account list \<times> Transaction list \<times> Posting list" where
  "tenant_view T d =
     (own_accounts T d, filter (\<lambda>t. tx_TenantID t = T) (db_transactions d), tenant_postings T d)"

lemma account_query_view:
  "q_GetAccountByID \<lparr>gap_ID = i, gap_TenantID = T\<rparr> d
     = query_one (filter (\<lambda>a. acc_ID a = i) (own_accounts T d))"
  by (simp add: q_GetAccountByID_def own_accounts_def conj_commute)

lemma postings_at_view: "postings_at i T d = filter (\<lambda>p. pst_AccountID p = i) (tenant_postings T d)"
  by (simp add: postings_at_def tenant_postings_def conj_commute)

lemma accounts_query_view:
  "q_ListAccounts \<lparr>lap_TenantID = T, lap_Cursor = c, lap_PageSize = n\<rparr> d = limit_rows n
     (sort_key (\<lambda>a. sint (acc_ID a)) (filter (\<lambda>a. sint c < sint (acc_ID a)) (own_accounts T d)))"
  by (simp add: q_ListAccounts_def own_accounts_def conj_commute)

lemma transactions_query_view:
  "q_ListTransactions \<lparr>ltp_TenantID = T, ltp_CursorCreatedAt = c, ltp_PageSize = n\<rparr> d = limit_rows n
     (sort_key (\<lambda>t. - ts_key (tx_CreatedAt t)) (filter (\<lambda>t. before_cursor (tx_CreatedAt t) c)
        (filter (\<lambda>t. tx_TenantID t = T) (db_transactions d))))"
  by (simp add: q_ListTransactions_def conj_commute)

lemma balance_query_view:
  assumes "tenant_postings T d = tenant_postings T d'"
  shows "q_GetAccountBalance \<lparr>gab_AccountID = i, gab_TenantID = T\<rparr> d
    = q_GetAccountBalance \<lparr>gab_AccountID = i, gab_TenantID = T\<rparr> d'"
  by (simp add: q_GetAccountBalance_def postings_at_view assms)

lemma reads_from_view:
  assumes "tenant_view T d = tenant_view T d'"
  shows "GetAccount f T i d = GetAccount f T i d'"
    and "ListAccounts f T c n d = ListAccounts f T c n d'"
    and "GetAccountBalance f g T i d = GetAccountBalance f g T i d'"
    and "ListTransactions f T u n d = ListTransactions f T u n d'"
proof -
  have v: "own_accounts T d = own_accounts T d'" "tenant_postings T d = tenant_postings T d'"
    "filter (\<lambda>t. tx_TenantID t = T) (db_transactions d)
      = filter (\<lambda>t. tx_TenantID t = T) (db_transactions d')"
    using assms by (simp_all add: tenant_view_def)
  note bal = balance_query_view [OF v(2), of i]
  show "GetAccount f T i d = GetAccount f T i d'"
    by (simp only: GetAccount_def account_query_view v)
  show "ListAccounts f T c n d = ListAccounts f T c n d'"
    by (simp only: ListAccounts_def accounts_query_view v)
  show "GetAccountBalance f g T i d = GetAccountBalance f g T i d'"
    by (simp only: GetAccountBalance_def account_query_view v bal)
  show "ListTransactions f T u n d = ListTransactions f T u n d'"
    by (simp only: ListTransactions_def transactions_query_view v)
qed

text \<open>
  \<^verbatim>\<open>GetAccount\<close>, \<^verbatim>\<open>ListAccounts\<close>, \<^verbatim>\<open>GetAccountBalance\<close> and \<^verbatim>\<open>ListTransactions\<close> return the same
  in any two databases that hold the same rows of the tenant, whatever other tenants have stored.
\<close>

theorem reads_see_own_rows:
  assumes "tenant_view T d = tenant_view T d'"
  shows "GetAccount f T i d = GetAccount f T i d'
    \<and> ListAccounts f T c n d = ListAccounts f T c n d'
    \<and> GetAccountBalance f g T i d = GetAccountBalance f g T i d'
    \<and> ListTransactions f T u n d = ListTransactions f T u n d'"
  by (intro conjI reads_from_view [OF assms])

theorem reads_see_own_rows_witness:
  "GetAccountBalance None None other_tenant 3 sample_db
    = GetAccountBalance None None other_tenant 3 posted_db"
proof -
  have "tenant_view other_tenant sample_db = tenant_view other_tenant posted_db" by code_simp
  from reads_see_own_rows [OF this] show ?thesis by simp
qed

section \<open>Writes\<close>

lemma unchanged_fields:
  assumes "unchanged d d'"
  shows "db_accounts d' = db_accounts d" "db_transactions d' = db_transactions d"
    "db_postings d' = db_postings d"
  by (subst assms [unfolded unchanged_def rollback_db_def]; simp)+

lemma posted_foreign_postings:
  assumes "posted F E T req d d'" and "T' \<noteq> T"
  obtains ps where "db_postings d' = db_postings d @ ps" "\<forall>p \<in> set ps. pst_TenantID p \<noteq> T'"
proof -
  from assms(1) obtain ps where "db_postings d' = db_postings d @ ps"
      "list_all2 (posting_of_entry T (ce_tx_id E) (ce_now E)) (ctr_Postings req) ps"
    by (auto simp: posted_def)
  moreover from this(2) have "\<forall>p \<in> set ps. pst_TenantID p = T"
    by (auto simp: list_all2_conv_all_nth posting_of_entry_def in_set_conv_nth)
  ultimately show ?thesis using assms(2) that by auto
qed

lemma posted_tenant_view:
  assumes "posted F E T req d d'" and "T' \<noteq> T"
  shows "tenant_view T' d' = tenant_view T' d"
proof -
  obtain ps where ps: "db_postings d' = db_postings d @ ps" "\<forall>p \<in> set ps. pst_TenantID p \<noteq> T'"
    by (rule posted_foreign_postings [OF assms])
  with assms show ?thesis
    by (simp add: tenant_view_def own_accounts_def tenant_postings_def posted_def new_transaction_def
        filter_none)
qed

lemma posted_foreign_rows:
  assumes "posted F E T req d d'" and "T' \<noteq> T"
  shows "q_GetPostingsByTransactionID \<lparr>gpt_TransactionID = i, gpt_TenantID = T'\<rparr> d'
    = q_GetPostingsByTransactionID \<lparr>gpt_TransactionID = i, gpt_TenantID = T'\<rparr> d"
proof -
  obtain ps where ps: "db_postings d' = db_postings d @ ps" "\<forall>p \<in> set ps. pst_TenantID p \<noteq> T'"
    by (rule posted_foreign_postings [OF assms])
  have "join_row d' p = join_row d p" for p
    using assms(1) by (simp add: join_row_def posted_def)
  then have "join_row d' = join_row d" by (rule ext)
  with ps(2) show ?thesis by (simp add: q_GetPostings_join ps(1) filter_none)
qed

lemma posted_foreign_transaction:
  assumes "posted F E T req d d'" and "T' \<noteq> T"
  shows "q_GetTransactionByID \<lparr>gtp_ID = i, gtp_TenantID = T'\<rparr> d'
    = q_GetTransactionByID \<lparr>gtp_ID = i, gtp_TenantID = T'\<rparr> d"
  using assms by (simp add: q_GetTransactionByID_def posted_def new_transaction_def)

lemma CreateTransaction_outcome:
  assumes "CreateTransaction F R ttl E T req w = (res, w')"
  shows "unchanged (w_db w) (w_db w') \<or> posted F E T req (w_db w) (w_db w')"
  using CreateTransaction_db [OF assms]
proof (elim disjE exE conjE)
  fix r assume wr: "write_transaction F E T req (w_db w) = (r, w_db w')"
  show ?thesis
  proof (cases r)
    case (Inl e)
    with wr write_transaction_Inl [of F E T req "w_db w" e "w_db w'"] show ?thesis by auto
  next
    case (Inr t)
    with wr write_transaction_Inr(2) [of F E T req "w_db w" t "w_db w'"] show ?thesis by auto
  qed
qed simp

lemma CreateTransaction_tenant_view:
  assumes "CreateTransaction F R ttl E T req w = (res, w')" and "T' \<noteq> T"
  shows "tenant_view T' (w_db w') = tenant_view T' (w_db w)"
  using CreateTransaction_outcome [OF assms(1)] posted_tenant_view [OF _ assms(2)]
  by (auto simp: tenant_view_def own_accounts_def tenant_postings_def dest: unchanged_fields)



end
