(* ===== verification/Pages.thy ===== *)
theory Pages
  imports Sample
begin

text \<open>
  Keyset pagination: a client of \<^verbatim>\<open>ListAccounts\<close> or \<^verbatim>\<open>ListTransactions\<close> asks for a page after a
  cursor, takes the key of the last row as the next cursor and stops at an empty page.
\<close>

section \<open>Following the cursor\<close>

text \<open>At most \<open>n\<close> pages are asked for; \<open>None\<close> when that was not enough.\<close>

fun follow_pages :: "nat \<Rightarrow> ('c \<Rightarrow> 'a list) \<Rightarrow> ('a \<Rightarrow> 'c) \<Rightarrow> 'c \<Rightarrow> 'a list option" where
  "follow_pages 0 fetch key c = None"
| "follow_pages (Suc n) fetch key c =
     (case fetch c of
        [] \<Rightarrow> Some []
      | page \<Rightarrow> map_option (append page) (follow_pages n fetch key (key (last page))))"

text \<open>
  What a paginated query promises: in the states of interest the rows have different keys, in
  increasing order of \<open>ord\<close>, and a page is the first \<open>size\<close> rows after the cursor.
\<close>

locale keyset_pages =
  fixes ok :: "'d \<Rightarrow> bool"
    and rows :: "'d \<Rightarrow> 'a list"
    and fetch :: "'d \<Rightarrow> 'c \<Rightarrow> 'a list"
    and key :: "'a \<Rightarrow> 'c"
    and ord :: "'c \<Rightarrow> int"
    and size :: nat
  assumes rows_sorted: "ok d \<Longrightarrow> sorted_wrt (<) (map (\<lambda>x. ord (key x)) (rows d))"
    and fetch_page: "ok d \<Longrightarrow> fetch d c = take size (filter (\<lambda>x. ord c < ord (key x)) (rows d))"
    and size_pos: "0 < size"
begin

definition after :: "'d \<Rightarrow> 'c \<Rightarrow> 'a list" where
  "after d c = filter (\<lambda>x. ord c < ord (key x)) (rows d)"

lemma fetch_empty: "ok d \<Longrightarrow> fetch d c = [] \<longleftrightarrow> after d c = []"
  using size_pos by (simp add: fetch_page after_def)

lemma sorted_after: "ok d \<Longrightarrow> sorted_wrt (<) (map (\<lambda>x. ord (key x)) (after d c))"
  using rows_sorted [of d] by (simp add: after_def sorted_wrt_map sorted_wrt_filter)

lemma filter_greater_last:
  "sorted_wrt (<) (map f (xs @ [x] @ ys)) \<Longrightarrow> filter (\<lambda>y. f x < (f y :: int)) (xs @ [x] @ ys) = ys"
  by (auto simp: sorted_wrt_append filter_empty_conv intro!: filter_True)

lemma after_step:
  assumes "ok d" and "after d c \<noteq> []"
  shows "after d c = fetch d c @ after d (key (last (fetch d c)))"
    and "length (after d (key (last (fetch d c)))) < length (after d c)"
proof -
  let ?p = "take size (after d c)" and ?q = "drop size (after d c)"
  have p: "fetch d c = ?p" using assms(1) by (simp add: fetch_page after_def)
  have ne: "?p \<noteq> []" using assms(2) size_pos by simp
  let ?x = "last ?p"
  have split: "after d c = butlast ?p @ [?x] @ ?q"
    by (metis append_assoc append_butlast_last_id append_take_drop_id ne)
  have "?x \<in> set (after d c)" using ne by (meson in_set_takeD last_in_set)
  then have "ord c < ord (key ?x)" by (simp add: after_def)
  then have "after d (key ?x) = filter (\<lambda>y. ord (key ?x) < ord (key y)) (after d c)"
    by (auto simp: after_def intro: filter_cong)
  also have "\<dots> = ?q"
    using filter_greater_last [of "\<lambda>x. ord (key x)" "butlast ?p" ?x ?q]
      sorted_after [OF assms(1), of c]
    unfolding split [symmetric] .
  finally have q: "after d (key (last (fetch d c))) = ?q" by (simp add: p)
  then show "after d c = fetch d c @ after d (key (last (fetch d c)))" by (simp add: p)
  show "length (after d (key (last (fetch d c)))) < length (after d c)"
    using assms(2) size_pos by (simp add: q)
qed

text \<open>Every row after the cursor is returned, once and in order, and the client stops.\<close>

lemma follow_all:
  assumes "ok d"
  shows "length (after d c) < n \<Longrightarrow> follow_pages n (fetch d) key c = Some (after d c)"
proof (induction n arbitrary: c)
  case (Suc n)
  show ?case
  proof (cases "after d c = []")
    case True
    with fetch_empty [OF assms, of c] show ?thesis by simp
  next
    case False
    with fetch_empty [OF assms] obtain x xs where p: "fetch d c = x # xs"
      by (metis neq_Nil_conv)
    have "follow_pages n (fetch d) key (key (last (fetch d c)))
        = Some (after d (key (last (fetch d c))))"
      using Suc after_step(2) [OF assms False] by simp
    then show ?thesis using after_step(1) [OF assms False] by (simp add: p)
  qed
qed simp

end

section \<open>Accounts\<close>

definition accounts_by_id :: "uuid \<Rightarrow> db \<Rightarrow> Account list" where
  "accounts_by_id T d =
     sort_key (\<lambda>a. sint (acc_ID a)) (filter (\<lambda>a. acc_TenantID a = T) (db_accounts d))"

lemma clamp_page_range: "0 < sint (clamp_page n) \<and> sint (clamp_page n) \<le> 100"
  by (simp add: clamp_page_def not_less not_le)

lemma sort_key_filter: "sort_key f (filter P xs) = filter P (sort_key f xs)"
  by (rule filter_sort [symmetric])

lemma sorted_distinct_strict:
  "distinct (map f xs) \<Longrightarrow> sorted_wrt (<) (map f (sort_key f xs :: 'a list))" for f :: "'a \<Rightarrow> int"
  by (simp add: strict_sorted_iff distinct_map)

definition accounts_page :: "uuid \<Rightarrow> int32 \<Rightarrow> db \<Rightarrow> int64 \<Rightarrow> Account list" where
  "accounts_page T n d c = projr (ListAccounts None T c n d)"

lemma ListAccounts_page:
  "ListAccounts None T c n d =
     Inr (take (nat (sint (clamp_page n)))
       (filter (\<lambda>a. sint c < sint (acc_ID a)) (accounts_by_id T d)))"
  using clamp_page_range [of n]
  by (simp add: ListAccounts_def read_query_def q_ListAccounts_def limit_rows_def accounts_by_id_def
      sort_key_filter conj_commute flip: filter_filter)

interpretation account_pages: keyset_pages keys_ok "accounts_by_id T" "accounts_page T n" acc_ID sint
    "nat (sint (clamp_page n))" for T n
proof unfold_locales
  fix d :: db assume "keys_ok d"
  then have "distinct (map acc_ID (filter (\<lambda>a. acc_TenantID a = T) (db_accounts d)))"
    by (simp add: keys_ok_def distinct_map_filter)
  then have "distinct (map (\<lambda>a. sint (acc_ID a)) (filter (\<lambda>a. acc_TenantID a = T) (db_accounts d)))"
    by (simp add: distinct_map inj_on_def sint_eq_iff)
  then show "sorted_wrt (<) (map (\<lambda>a. sint (acc_ID a)) (accounts_by_id T d))"
    unfolding accounts_by_id_def by (rule sorted_distinct_strict)
next
  show "accounts_page T n d c = take (nat (sint (clamp_page n)))
      (filter (\<lambda>a. sint c < sint (acc_ID a)) (accounts_by_id T d))" for d c
    by (simp add: accounts_page_def ListAccounts_page)
qed (use clamp_page_range [of n] in simp)

text \<open>
  C35: Pagination of accounts is complete. Starting from cursor 0 and passing on the last id, with
  any page size, a client gets every account of the tenant exactly once, in the order of the ids, and
  comes to an empty page after at most one request per account plus one.
\<close>

theorem ListAccounts_complete:
  assumes "committed_ok d"
  shows "follow_pages (Suc (length (db_accounts d))) (accounts_page T n d) acc_ID 0
    = Some (accounts_by_id T d)"
proof -
  have ok: "keys_ok d" "seqs_ok d"
    using assms by (simp_all add: committed_ok_def tx_ok_def schema_ok_def)
  have all: "account_pages.after T d 0 = accounts_by_id T d"
    using ok(2) by (auto simp: account_pages.after_def accounts_by_id_def seqs_ok_def
        intro!: filter_True)
  have "length (accounts_by_id T d) \<le> length (db_accounts d)"
    by (simp add: accounts_by_id_def)
  with account_pages.follow_all [OF ok(1), of T 0 "Suc (length (db_accounts d))" n] all
  show ?thesis by simp
qed

theorem ListAccounts_complete_witness:
  "map_option (map acc_AccountName)
     (follow_pages (Suc (length (db_accounts sample_db))) (accounts_page sample_tenant 1 sample_db)
        acc_ID 0) = Some [''cash'', ''sales'']"
proof -
  have "committed_ok sample_db" using sample_ledger_ok by (simp add: ledger_ok_def)
  moreover have "map acc_AccountName (accounts_by_id sample_tenant sample_db) = [''cash'', ''sales'']"
    by code_simp
  ultimately show ?thesis by (simp only: ListAccounts_complete option.map)
qed

section \<open>Transactions\<close>

text \<open>Newest first; the cursor is the creation time of the last row.\<close>

definition transactions_by_time :: "uuid \<Rightarrow> db \<Rightarrow> Transaction list" where
  "transactions_by_time T d =
     sort_key (\<lambda>t. - ts_key (tx_CreatedAt t)) (filter (\<lambda>t. tx_TenantID t = T) (db_transactions d))"

definition transactions_page :: "uuid \<Rightarrow> int32 \<Rightarrow> db \<Rightarrow> int \<Rightarrow> Transaction list" where
  "transactions_page T n d c = projr (ListTransactions None T c n d)"

definition created_key :: "Transaction \<Rightarrow> int" where
  "created_key t = ts_key (tx_CreatedAt t)"

definition different_times :: "uuid \<Rightarrow> db \<Rightarrow> bool" where
  "different_times T d \<longleftrightarrow>
     distinct (map created_key (filter (\<lambda>t. tx_TenantID t = T) (db_transactions d)))
   \<and> (\<forall>t \<in> set (db_transactions d). tx_CreatedAt t \<noteq> None)"

lemma ListTransactions_page:
  assumes "\<forall>t \<in> set (db_transactions d). tx_CreatedAt t \<noteq> None"
  shows "ListTransactions None T c n d =
     Inr (take (nat (sint (clamp_page n)))
       (filter (\<lambda>t. created_key t < c) (transactions_by_time T d)))"
proof -
  have "filter (\<lambda>t. tx_TenantID t = T \<and> before_cursor (tx_CreatedAt t) (Some c)) (db_transactions d)
      = filter (\<lambda>t. created_key t < c) (filter (\<lambda>t. tx_TenantID t = T) (db_transactions d))"
    using assms by (auto simp: before_cursor_def created_key_def intro!: filter_cong
        split: option.splits)
  then show ?thesis
    using clamp_page_range [of n]
    by (simp add: ListTransactions_def read_query_def q_ListTransactions_def limit_rows_def
        transactions_by_time_def sort_key_filter del: filter_filter)
qed

interpretation transaction_pages: keyset_pages "different_times T" "transactions_by_time T"
    "transactions_page T n" created_key uminus "nat (sint (clamp_page n))" for T n
proof unfold_locales
  fix d :: db assume "different_times T d"
  then have "distinct (map (\<lambda>t. - created_key t) (filter (\<lambda>t. tx_TenantID t = T) (db_transactions d)))"
    by (simp add: different_times_def distinct_map inj_on_def)
  then show "sorted_wrt (<) (map (\<lambda>t. - created_key t) (transactions_by_time T d))"
    unfolding transactions_by_time_def created_key_def by (rule sorted_distinct_strict)
next
  show "transactions_page T n d c = take (nat (sint (clamp_page n)))
      (filter (\<lambda>t. - c < - created_key t) (transactions_by_time T d))"
    if "different_times T d" for d c
    using that by (simp add: transactions_page_def different_times_def ListTransactions_page)
qed (use clamp_page_range [of n] in simp)

text \<open>
  C36: Pagination of transactions is complete when no two transactions of the tenant carry the same
  creation time: from a cursor later than all of them, a client gets every transaction exactly once,
  newest first.
\<close>

theorem ListTransactions_complete:
  assumes "different_times T d"
    and "\<forall>t \<in> set (db_transactions d). tx_TenantID t = T \<longrightarrow> created_key t < c"
  shows "follow_pages (Suc (length (db_transactions d))) (transactions_page T n d) created_key c
    = Some (transactions_by_time T d)"
proof -
  have all: "transaction_pages.after T d c = transactions_by_time T d"
    using assms(2) by (auto simp: transaction_pages.after_def transactions_by_time_def
        intro!: filter_True)
  have "length (transactions_by_time T d) \<le> length (db_transactions d)"
    by (simp add: transactions_by_time_def)
  with transaction_pages.follow_all [OF assms(1), of c "Suc (length (db_transactions d))" n] all
  show ?thesis by simp
qed

definition two_transactions_db :: "int \<Rightarrow> int \<Rightarrow> db" where
  "two_transactions_db t1 t2 = sample_db\<lparr>db_transactions :=
     [\<lparr>tx_ID = 101, tx_IdempotencyKey = ''a'', tx_Description = '''', tx_Metadata = Some (JObj []),
       tx_CreatedAt = Some t1, tx_TenantID = sample_tenant\<rparr>,
      \<lparr>tx_ID = 102, tx_IdempotencyKey = ''b'', tx_Description = '''', tx_Metadata = Some (JObj []),
       tx_CreatedAt = Some t2, tx_TenantID = sample_tenant\<rparr>]\<rparr>"

theorem ListTransactions_complete_witness:
  "map_option (map tx_ID) (follow_pages (Suc (length (db_transactions (two_transactions_db 10 20))))
     (transactions_page sample_tenant 1 (two_transactions_db 10 20)) created_key 30) = Some [102, 101]"
proof -
  have h: "different_times sample_tenant (two_transactions_db 10 20)"
    "\<forall>t \<in> set (db_transactions (two_transactions_db 10 20)).
       tx_TenantID t = sample_tenant \<longrightarrow> created_key t < 30"
    "map tx_ID (transactions_by_time sample_tenant (two_transactions_db 10 20)) = [102, 101]"
    by code_simp+
  show ?thesis by (simp only: ListTransactions_complete [OF h(1,2)] option.map h(3))
qed

text \<open>
  With equal creation times it is not complete. The cursor is the time alone, and the next page
  starts strictly before it: a transaction with the same time as the last row of a full page is on
  no page.
\<close>

theorem ListTransactions_skips_ties:
  "map_option (map tx_ID) (follow_pages 9
     (transactions_page sample_tenant 1 (two_transactions_db 10 10)) created_key 30) = Some [101]
   \<and> map tx_ID (transactions_by_time sample_tenant (two_transactions_db 10 10)) = [101, 102]"
  by (intro conjI; code_simp)

end
