(* ===== verification/Outbox.thy ===== *)
theory Outbox
  imports Sample
begin

text \<open>
  The outbox worker (\<^verbatim>\<open>internal/service/outbox.go\<close>): the batch of pending events, the call of the
  broker, the bookkeeping of success and failure, and the polling loop. \<^verbatim>\<open>BuildOutboxPayload\<close>, the
  producer's side, is in \<open>Ledger\<close>. The backoff computed on a failure only goes to the log, which is
  left out.
\<close>

section \<open>Configuration\<close>

record OutboxWorkerConfig =
  owc_PollInterval :: int          \<comment> \<open>nanoseconds\<close>
  owc_BatchSize :: int32
  owc_MaxRetries :: int32
  owc_ExchangeName :: string

definition DefaultOutboxWorkerConfig :: OutboxWorkerConfig where
  "DefaultOutboxWorkerConfig =
     \<lparr>owc_PollInterval = 200 * 10 ^ 6, owc_BatchSize = 50, owc_MaxRetries = 5,
      owc_ExchangeName = ''ledger.events''\<rparr>"

record OutboxWorker =
  ow_exchangeName :: string
  ow_pollInterval :: int
  ow_batchSize :: int32
  ow_maxRetries :: int32

definition NewOutboxWorker :: "OutboxWorkerConfig \<Rightarrow> OutboxWorker" where
  "NewOutboxWorker cfg =
     \<lparr>ow_exchangeName = owc_ExchangeName cfg, ow_pollInterval = owc_PollInterval cfg,
      ow_batchSize = owc_BatchSize cfg, ow_maxRetries = owc_MaxRetries cfg\<rparr>"

section \<open>The broker\<close>

text \<open>
  \<^verbatim>\<open>amqp091-go\<close>: a message as the worker builds it, and a channel, whose state \<open>'b\<close> includes the
  messages written to it. \<^verbatim>\<open>PublishWithContext\<close> without confirm mode reports only whether the message
  was written.
\<close>

record publishing =
  pub_Exchange :: string
  pub_RoutingKey :: string
  pub_Mandatory :: bool
  pub_Immediate :: bool
  pub_ContentType :: string
  pub_Persistent :: bool
  pub_MessageId :: string
  pub_Timestamp :: int
  pub_Body :: json
  pub_EventType :: string
  pub_RetryCount :: int32

record 'b broker =
  bk_Publish :: "publishing \<Rightarrow> 'b \<Rightarrow> string option \<times> 'b"
  bk_written :: "'b \<Rightarrow> publishing list"

definition broker_ok :: "'b broker \<Rightarrow> bool" where
  "broker_ok B \<longleftrightarrow> (\<forall>m b e b'. bk_Publish B m b = (e, b') \<longrightarrow>
     set (bk_written B b) \<subseteq> set (bk_written B b') \<and> (e = None \<longrightarrow> m \<in> set (bk_written B b')))"

text \<open>A broker on a list of messages, with a script of failures, for the witnesses.\<close>

definition script_broker :: "(string option list \<times> publishing list) broker" where
  "script_broker =
     \<lparr>bk_Publish = (\<lambda>m (script, ms).
        case script of
          Some e # rest \<Rightarrow> (Some e, (rest, ms))
        | _ \<Rightarrow> (None, (tl script, ms @ [m]))),
      bk_written = snd\<rparr>"

lemma script_broker_ok: "broker_ok script_broker"
  by (auto simp: broker_ok_def script_broker_def split: list.splits option.splits)

section \<open>One event\<close>

text \<open>What an update or a fetch of a poll meets: the time, and whether the call fails.\<close>

record poll_env =
  po_now :: int
  po_fetch_fault :: "string option"
  po_mark_fault :: "uuid \<Rightarrow> string option"

definition event_message :: "formats \<Rightarrow> OutboxWorker \<Rightarrow> LedgerOutbox \<Rightarrow> publishing" where
  "event_message F w event =
     \<lparr>pub_Exchange = ow_exchangeName w, pub_RoutingKey = ob_RoutingKey event,
      pub_Mandatory = False, pub_Immediate = False, pub_ContentType = ''application/json'',
      pub_Persistent = True, pub_MessageId = uuid_String F (ob_ID event),
      pub_Timestamp = ts_key (ob_CreatedAt event), pub_Body = ob_Payload event,
      pub_EventType = ob_EventType event, pub_RetryCount = ob_RetryCount event\<rparr>"

definition publishEvent ::
  "formats \<Rightarrow> 'b broker \<Rightarrow> OutboxWorker \<Rightarrow> LedgerOutbox \<Rightarrow> 'b \<Rightarrow> string option \<times> 'b" where
  "publishEvent F B w event b = bk_Publish B (event_message F w event) b"

definition handlePublishSuccess :: "poll_env \<Rightarrow> LedgerOutbox \<Rightarrow> db \<Rightarrow> db" where
  "handlePublishSuccess P event d =
     snd (autocommit (po_mark_fault P (ob_ID event))
       (q_MarkOutboxEventPublished (po_now P) (ob_ID event)) d)"

definition handlePublishFailure ::
  "poll_env \<Rightarrow> OutboxWorker \<Rightarrow> LedgerOutbox \<Rightarrow> string \<Rightarrow> db \<Rightarrow> db" where
  "handlePublishFailure P w event errMsg d =
     (let newRetryCount = ob_RetryCount event + 1;
          errText = Some errMsg;
          flt = po_mark_fault P (ob_ID event) in
      if sint (ow_maxRetries w) \<le> sint newRetryCount
      then snd (autocommit flt (q_MarkOutboxEventFailed (po_now P)
             \<lparr>mof_ID = ob_ID event, mof_LastError = errText\<rparr>) d)
      else snd (autocommit flt (q_IncrementOutboxRetry
             \<lparr>ior_ID = ob_ID event, ior_LastError = errText\<rparr>) d))"

section \<open>A batch and the polling loop\<close>

fun process_events ::
  "formats \<Rightarrow> 'b broker \<Rightarrow> OutboxWorker \<Rightarrow> poll_env \<Rightarrow> LedgerOutbox list \<Rightarrow> 'b \<times> db \<Rightarrow> 'b \<times> db" where
  "process_events F B w P [] s = s"
| "process_events F B w P (event # events) (b, d) =
     (case publishEvent F B w event b of
        (Some err, b') \<Rightarrow>
          process_events F B w P events (b', handlePublishFailure P w event err d)
      | (None, b') \<Rightarrow> process_events F B w P events (b', handlePublishSuccess P event d))"

definition processBatch ::
  "formats \<Rightarrow> 'b broker \<Rightarrow> OutboxWorker \<Rightarrow> poll_env \<Rightarrow> 'b \<times> db \<Rightarrow> 'b \<times> db" where
  "processBatch F B w P s =
     (case read_query (po_fetch_fault P) (q_GetPendingOutboxEvents (ow_batchSize w) (snd s)) of
        Inl _ \<Rightarrow> s
      | Inr events \<Rightarrow> process_events F B w P events s)"

text \<open>
  What the \<^verbatim>\<open>select\<close> of the loop receives: the stop channel, the end of the context, or a tick,
  whose poll meets the given environment.
\<close>

datatype signal = StopCh | CtxDone | Tick poll_env

fun run_worker ::
  "formats \<Rightarrow> 'b broker \<Rightarrow> OutboxWorker \<Rightarrow> signal list \<Rightarrow> 'b \<times> db \<Rightarrow> 'b \<times> db" where
  "run_worker F B w [] s = s"
| "run_worker F B w (StopCh # _) s = s"
| "run_worker F B w (CtxDone # _) s = s"
| "run_worker F B w (Tick P # signals) s = run_worker F B w signals (processBatch F B w P s)"

section \<open>What happens to an event\<close>

text \<open>The ways a poll can leave an event that was pending when it was fetched.\<close>

inductive event_outcome ::
  "formats \<Rightarrow> OutboxWorker \<Rightarrow> poll_env \<Rightarrow> publishing set \<Rightarrow> LedgerOutbox \<Rightarrow> LedgerOutbox \<Rightarrow> bool"
  for F w P written r where
  published: "event_message F w r \<in> written \<Longrightarrow>
     event_outcome F w P written r
       (r\<lparr>ob_Status := OutboxStatusPublished, ob_ProcessedAt := Some (po_now P)\<rparr>)"
| retried: "sint (ob_RetryCount r + 1) < sint (ow_maxRetries w) \<Longrightarrow>
     sint (ob_RetryCount r) \<noteq> 2 ^ 31 - 1 \<Longrightarrow>
     event_outcome F w P written r
       (r\<lparr>ob_RetryCount := ob_RetryCount r + 1, ob_LastError := Some m\<rparr>)"
| gave_up: "sint (ow_maxRetries w) \<le> sint (ob_RetryCount r + 1) \<Longrightarrow>
     event_outcome F w P written r
       (r\<lparr>ob_Status := OutboxStatusFailed, ob_LastError := Some m,
          ob_ProcessedAt := Some (po_now P)\<rparr>)"
| not_recorded: "po_mark_fault P (ob_ID r) \<noteq> None \<or> sint (ob_RetryCount r) = 2 ^ 31 - 1 \<Longrightarrow>
     event_outcome F w P written r r"

inductive_cases event_outcomeE: "event_outcome F w P written r r'"

lemma event_outcome_id: "event_outcome F w P W r r' \<Longrightarrow> ob_ID r' = ob_ID r"
  by (erule event_outcomeE) auto

lemma event_outcome_mono: "event_outcome F w P W r r' \<Longrightarrow> W \<subseteq> W' \<Longrightarrow> event_outcome F w P W' r r'"
  by (erule event_outcomeE) (auto intro: event_outcome.intros)

lemma autocommit_update:
  assumes "db_deferred d = []" and "q d = (Inr r, update_outbox sel f d)"
  shows "snd (autocommit flt q d) = (if flt = None then update_outbox sel f d else d)"
  using assms by (auto simp: autocommit_def commit_db_def split: option.splits)

lemma update_one:
  assumes "distinct (map ob_ID (db_outbox d))" and "r \<in> set (db_outbox d)" and "sel r"
    and "\<And>x. sel x \<Longrightarrow> ob_ID x = ob_ID r"
  shows "update_outbox sel f d = d\<lparr>db_outbox := map (\<lambda>x. if x = r then f r else x) (db_outbox d)\<rparr>"
proof -
  have "sel x \<longleftrightarrow> x = r" if "x \<in> set (db_outbox d)" for x
    using that assms distinct_map_unique [of ob_ID "db_outbox d"] by blast
  then show ?thesis by (auto simp: update_outbox_def intro!: arg_cong [where f = "\<lambda>x. d\<lparr>db_outbox := x\<rparr>"])
qed

lemma handlers_outcome:
  assumes d: "db_deferred d = []" "distinct (map ob_ID (db_outbox d))"
    and r: "r \<in> set (db_outbox d)" "ob_Status r = OutboxStatusPending"
    and pub: "publishEvent F B w r b = (e, b')" and B: "broker_ok B"
  obtains r' where "event_outcome F w P (set (bk_written B b')) r r'"
    "(case e of Some err \<Rightarrow> handlePublishFailure P w r err d | None \<Rightarrow> handlePublishSuccess P r d)
     = d\<lparr>db_outbox := map (\<lambda>x. if x = r then r' else x) (db_outbox d)\<rparr>"
proof -
  have same: "d = d\<lparr>db_outbox := map (\<lambda>x. if x = r then r else x) (db_outbox d)\<rparr>" by simp
  show ?thesis
  proof (cases "po_mark_fault P (ob_ID r)")
    case (Some m)
    have "(case e of Some err \<Rightarrow> handlePublishFailure P w r err d | None \<Rightarrow> handlePublishSuccess P r d) = d"
      by (auto simp: handlePublishFailure_def handlePublishSuccess_def Some autocommit_def Let_def
          split: option.split)
    then show ?thesis using Some same by (intro that [of r]) (auto intro: not_recorded)
  next
    case None
    show ?thesis
    proof (cases e)
      case None
      have "event_message F w r \<in> set (bk_written B b')"
        using pub B unfolding None publishEvent_def broker_ok_def by blast
      moreover have "handlePublishSuccess P r d = d\<lparr>db_outbox := map (\<lambda>x. if x = r then
          r\<lparr>ob_Status := OutboxStatusPublished, ob_ProcessedAt := Some (po_now P)\<rparr> else x) (db_outbox d)\<rparr>"
        unfolding handlePublishSuccess_def \<open>po_mark_fault P (ob_ID r) = None\<close>
        by (subst autocommit_update [where q = "q_MarkOutboxEventPublished (po_now P) (ob_ID r)",
                OF d(1) q_MarkOutboxEventPublished_def])
           (simp, subst update_one [OF d(2) r(1)], simp_all add: r(2))
      ultimately show ?thesis using None by (intro that) (auto intro: published)
    next
      case (Some m)
      consider (give_up) "sint (ow_maxRetries w) \<le> sint (ob_RetryCount r + 1)"
        | (overflow) "sint (ob_RetryCount r + 1) < sint (ow_maxRetries w)"
            "sint (ob_RetryCount r) = 2 ^ 31 - 1"
        | (retry) "sint (ob_RetryCount r + 1) < sint (ow_maxRetries w)"
            "sint (ob_RetryCount r) \<noteq> 2 ^ 31 - 1" by linarith
      then show ?thesis
      proof cases
        case give_up
        have "handlePublishFailure P w r m d = d\<lparr>db_outbox := map (\<lambda>x. if x = r then
            r\<lparr>ob_Status := OutboxStatusFailed, ob_LastError := Some m,
              ob_ProcessedAt := Some (po_now P)\<rparr> else x) (db_outbox d)\<rparr>"
          unfolding handlePublishFailure_def Let_def \<open>po_mark_fault P (ob_ID r) = None\<close>
          by (subst autocommit_update [where q = "q_MarkOutboxEventFailed (po_now P)
                \<lparr>mof_ID = ob_ID r, mof_LastError = Some m\<rparr>", OF d(1) q_MarkOutboxEventFailed_def])
             (simp add: give_up, subst update_one [OF d(2) r(1)], simp_all)
        then show ?thesis using give_up Some by (intro that) (auto intro: gave_up)
      next
        case overflow
        then have "handlePublishFailure P w r m d = d"
          using r by (auto simp: handlePublishFailure_def Let_def q_IncrementOutboxRetry_def
              autocommit_def rollback_db_def \<open>po_mark_fault P (ob_ID r) = None\<close>)
        then show ?thesis using overflow(2) Some same by (intro that [of r]) (auto intro: not_recorded)
      next
        case retry
        have "\<not> (\<exists>x \<in> set (db_outbox d). (ob_ID x = ob_ID r \<and> ob_Status x = OutboxStatusPending)
            \<and> sint (ob_RetryCount x) = 2 ^ 31 - 1)"
          using retry(2) r(1) distinct_map_unique [OF d(2)] by blast
        then have q: "q_IncrementOutboxRetry \<lparr>ior_ID = ob_ID r, ior_LastError = Some m\<rparr> d
            = (Inr (), update_outbox (\<lambda>x. ob_ID x = ob_ID r \<and> ob_Status x = OutboxStatusPending)
                 (\<lambda>x. x\<lparr>ob_RetryCount := ob_RetryCount x + 1, ob_LastError := Some m\<rparr>) d)"
          by (simp add: q_IncrementOutboxRetry_def Let_def)
        have "handlePublishFailure P w r m d = d\<lparr>db_outbox := map (\<lambda>x. if x = r then
            r\<lparr>ob_RetryCount := ob_RetryCount r + 1, ob_LastError := Some m\<rparr> else x) (db_outbox d)\<rparr>"
          unfolding handlePublishFailure_def Let_def \<open>po_mark_fault P (ob_ID r) = None\<close>
          using retry(1)
          by (simp add: autocommit_update [where q = "q_IncrementOutboxRetry _", OF d(1) q],
              subst update_one [OF d(2) r(1)], simp_all add: r(2))
        then show ?thesis using retry Some by (intro that) (auto intro: retried)
      qed
    qed
  qed
qed

section \<open>What happens in a batch\<close>

lemma process_events_effect:
  assumes B: "broker_ok B"
  shows "db_deferred d = [] \<Longrightarrow> distinct (map ob_ID (db_outbox d)) \<Longrightarrow> distinct es \<Longrightarrow>
    \<forall>e \<in> set es. e \<in> set (db_outbox d) \<and> ob_Status e = OutboxStatusPending \<Longrightarrow>
    process_events F B w P es (b, d) = (b', d') \<Longrightarrow>
    \<exists>g. d' = d\<lparr>db_outbox := map g (db_outbox d)\<rparr> \<and> set (bk_written B b) \<subseteq> set (bk_written B b')
      \<and> (\<forall>r \<in> set (db_outbox d).
           if r \<in> set es then event_outcome F w P (set (bk_written B b')) r (g r) else g r = r)"
proof (induction es arbitrary: b d)
  case Nil
  then show ?case by (intro exI [of _ "\<lambda>r. r"]) simp
next
  case (Cons e es)
  obtain err b1 where pub: "publishEvent F B w e b = (err, b1)" by fastforce
  let ?d1 = "case err of Some m \<Rightarrow> handlePublishFailure P w e m d | None \<Rightarrow> handlePublishSuccess P e d"
  have e: "e \<in> set (db_outbox d)" "ob_Status e = OutboxStatusPending" using Cons.prems(4) by auto
  obtain e' where out: "event_outcome F w P (set (bk_written B b1)) e e'"
    and d1: "?d1 = d\<lparr>db_outbox := map (\<lambda>x. if x = e then e' else x) (db_outbox d)\<rparr>"
    by (rule handlers_outcome [OF Cons.prems(1,2) e pub B])
  have id: "ob_ID e' = ob_ID e" using event_outcome_id [OF out] .
  have "map ob_ID (db_outbox ?d1) = map ob_ID (db_outbox d)" by (simp add: d1 id)
  then have dist: "distinct (map ob_ID (db_outbox ?d1))" using Cons.prems(2) by (simp only:)
  have "e' \<notin> set es"
    using Cons.prems(2-4) e(1) id distinct_map_unique [of ob_ID "db_outbox d" e' e] by auto
  have "\<forall>x \<in> set es. x \<in> set (db_outbox ?d1) \<and> ob_Status x = OutboxStatusPending"
    using Cons.prems(3,4) by (force simp: d1)
  moreover have "process_events F B w P es (b1, ?d1) = (b', d')"
    using Cons.prems(5) pub by (auto split: option.splits)
  moreover have "db_deferred ?d1 = []" "distinct es" using Cons.prems(1,3) by (simp_all add: d1)
  ultimately obtain g where g: "d' = ?d1\<lparr>db_outbox := map g (db_outbox ?d1)\<rparr>"
      "set (bk_written B b1) \<subseteq> set (bk_written B b')"
      "\<forall>r \<in> set (db_outbox ?d1). if r \<in> set es
         then event_outcome F w P (set (bk_written B b')) r (g r) else g r = r"
    using Cons.IH [of ?d1 b1] dist by blast
  have "e' \<in> set (db_outbox ?d1)" using e(1) by (simp add: d1)
  with g(3) \<open>e' \<notin> set es\<close> have ge': "g e' = e'" by auto
  have w1: "set (bk_written B b) \<subseteq> set (bk_written B b1)"
    using B pub unfolding broker_ok_def publishEvent_def by blast
  let ?g = "\<lambda>x. if x = e then e' else g x"
  have "d' = d\<lparr>db_outbox := map ?g (db_outbox d)\<rparr>"
    using ge' by (simp add: g(1) d1)
  moreover have "if r \<in> set (e # es) then event_outcome F w P (set (bk_written B b')) r (?g r)
      else ?g r = r" if "r \<in> set (db_outbox d)" for r
  proof (cases "r = e")
    case True
    then show ?thesis using event_outcome_mono [OF out g(2)] by simp
  next
    case False
    then have "r \<in> set (db_outbox ?d1)" using that by (simp add: d1)
    with g(3) False show ?thesis by auto
  qed
  ultimately show ?case using w1 g(2) by blast
qed

definition batch :: "OutboxWorker \<Rightarrow> db \<Rightarrow> LedgerOutbox list" where
  "batch w d = take (nat (sint (ow_batchSize w))) (sort_key (\<lambda>r. ts_key (ob_CreatedAt r))
     (filter (\<lambda>r. ob_Status r = OutboxStatusPending) (db_outbox d)))"

lemma batch_pending: "e \<in> set (batch w d) \<Longrightarrow> e \<in> set (db_outbox d) \<and> ob_Status e = OutboxStatusPending"
  by (auto simp: batch_def dest: in_set_takeD)

lemma batch_distinct: "distinct (map ob_ID (db_outbox d)) \<Longrightarrow> distinct (batch w d)"
  by (simp add: batch_def distinct_map)

lemma processBatch_effect:
  assumes "committed_ok d" and "broker_ok B" and "processBatch F B w P (b, d) = (b', d')"
  obtains g where "d' = d\<lparr>db_outbox := map g (db_outbox d)\<rparr>"
    "set (bk_written B b) \<subseteq> set (bk_written B b')"
    "\<forall>r \<in> set (db_outbox d). g r = r \<or> r \<in> set (batch w d)
       \<and> event_outcome F w P (set (bk_written B b')) r (g r)"
    "po_fetch_fault P = None \<and> 0 \<le> sint (ow_batchSize w) \<longrightarrow>
       (\<forall>r \<in> set (batch w d). event_outcome F w P (set (bk_written B b')) r (g r))"
proof (cases "po_fetch_fault P = None \<and> 0 \<le> sint (ow_batchSize w)")
  case True
  then have "process_events F B w P (batch w d) (b, d) = (b', d')"
    using assms(3) by (simp add: processBatch_def read_query_def q_GetPendingOutboxEvents_def
        limit_rows_def batch_def)
  moreover have "db_deferred d = []" "distinct (map ob_ID (db_outbox d))"
    using assms(1) by (simp_all add: committed_ok_def tx_ok_def schema_ok_def keys_ok_def)
  ultimately obtain g where g: "d' = d\<lparr>db_outbox := map g (db_outbox d)\<rparr>"
      "set (bk_written B b) \<subseteq> set (bk_written B b')"
      "\<forall>r \<in> set (db_outbox d). if r \<in> set (batch w d)
         then event_outcome F w P (set (bk_written B b')) r (g r) else g r = r"
    using process_events_effect [OF assms(2)] batch_distinct batch_pending by metis
  have eff: "event_outcome F w P (set (bk_written B b')) r (g r)" if "r \<in> set (batch w d)" for r
    using g(3) that batch_pending by (metis (full_types))
  have "g r = r" if "r \<in> set (db_outbox d)" "r \<notin> set (batch w d)" for r
    using g(3) that by (metis (full_types))
  with eff g(1,2) show ?thesis by (intro that [of g]) blast+
next
  case False
  then have "(b', d') = (b, d)"
    using assms(3) by (auto simp: processBatch_def read_query_def q_GetPendingOutboxEvents_def
        limit_rows_def split: option.splits)
  then show ?thesis using False by (intro that [of "\<lambda>r. r"]) auto
qed

lemma committed_ok_outbox:
  assumes "committed_ok d" and "\<forall>r \<in> set (db_outbox d). ob_ID (g r) = ob_ID r
      \<and> ob_TenantID (g r) = ob_TenantID r \<and> ob_Status (g r)
        \<in> {OutboxStatusPending, OutboxStatusPublished, OutboxStatusFailed}"
  shows "committed_ok (d\<lparr>db_outbox := map g (db_outbox d)\<rparr>)"
proof -
  let ?d = "d\<lparr>db_outbox := map g (db_outbox d)\<rparr>"
  have ok: "schema_ok d" using assms(1) by (simp add: committed_ok_def tx_ok_def)
  have "map (ob_ID \<circ> g) (db_outbox d) = map ob_ID (db_outbox d)" using assms(2) by simp
  moreover have "distinct (map ob_ID (db_outbox d))" using ok by (simp add: schema_ok_def keys_ok_def)
  ultimately have "distinct (map (ob_ID \<circ> g) (db_outbox d))" by (simp only:)
  with ok have "keys_ok ?d" by (simp add: schema_ok_def keys_ok_def)
  moreover have "refs_ok ?d" "values_ok ?d" "seqs_ok ?d"
    using ok assms(2) by (simp_all add: schema_ok_def refs_ok_def values_ok_def seqs_ok_def exists_defs)
  ultimately have "schema_ok ?d" by (simp add: schema_ok_def)
  with assms(1) show ?thesis
    by (simp add: committed_ok_def tx_ok_def balanced_def debits_of_def credits_of_def)
qed

lemma event_outcome_row:
  "event_outcome F w P W r r' \<Longrightarrow> ob_Status r = OutboxStatusPending \<Longrightarrow>
     ob_ID r' = ob_ID r \<and> ob_TenantID r' = ob_TenantID r \<and> ob_Payload r' = ob_Payload r
     \<and> ob_RoutingKey r' = ob_RoutingKey r \<and> ob_CreatedAt r' = ob_CreatedAt r
     \<and> ob_Status r' \<in> {OutboxStatusPending, OutboxStatusPublished, OutboxStatusFailed}"
  by (erule event_outcomeE) auto

lemma processBatch_committed:
  assumes "committed_ok d" and "broker_ok B" and "processBatch F B w P (b, d) = (b', d')"
  shows "committed_ok d'"
proof -
  obtain g where g: "d' = d\<lparr>db_outbox := map g (db_outbox d)\<rparr>"
      "\<forall>r \<in> set (db_outbox d). g r = r \<or> r \<in> set (batch w d)
         \<and> event_outcome F w P (set (bk_written B b')) r (g r)"
    by (rule processBatch_effect [OF assms])
  have "\<forall>r \<in> set (db_outbox d). ob_ID (g r) = ob_ID r
      \<and> ob_TenantID (g r) = ob_TenantID r \<and> ob_Status (g r)
        \<in> {OutboxStatusPending, OutboxStatusPublished, OutboxStatusFailed}"
  proof
    fix r assume r: "r \<in> set (db_outbox d)"
    have "ob_Status r \<in> {OutboxStatusPending, OutboxStatusPublished, OutboxStatusFailed}"
      using assms(1) r by (simp add: committed_ok_def tx_ok_def schema_ok_def values_ok_def)
    with g(2) r batch_pending event_outcome_row
    show "ob_ID (g r) = ob_ID r \<and> ob_TenantID (g r) = ob_TenantID r \<and> ob_Status (g r)
        \<in> {OutboxStatusPending, OutboxStatusPublished, OutboxStatusFailed}" by metis
  qed
  then show ?thesis unfolding g(1) by (rule committed_ok_outbox [OF assms(1)])
qed

section \<open>Transitions\<close>

text \<open>
  C21: The states of an event. A poll changes nothing but outbox rows, and a row only when it was
  pending and in the batch. It then becomes published, if its message was written to the channel;
  or stays pending with one more attempt counted, while that is below the limit; or becomes failed,
  when the limit is reached. Published and failed events are final, also when database calls fail.
\<close>

theorem processBatch_transitions:
  assumes "committed_ok d" and "broker_ok B" and "processBatch F B w P (b, d) = (b', d')"
  shows "d' = d\<lparr>db_outbox := db_outbox d'\<rparr>
    \<and> list_all2 (\<lambda>r r'. r' = r \<or> r \<in> set (batch w d) \<and> ob_Status r = OutboxStatusPending
         \<and> event_outcome F w P (set (bk_written B b')) r r') (db_outbox d) (db_outbox d')"
proof -
  obtain g where g: "d' = d\<lparr>db_outbox := map g (db_outbox d)\<rparr>"
      "\<forall>r \<in> set (db_outbox d). g r = r \<or> r \<in> set (batch w d)
         \<and> event_outcome F w P (set (bk_written B b')) r (g r)"
    by (rule processBatch_effect [OF assms])
  then show ?thesis using batch_pending by (auto simp: list_all2_map2 list_all2_same)
qed

definition sample_worker :: OutboxWorker where
  "sample_worker = NewOutboxWorker DefaultOutboxWorkerConfig"

definition sample_poll :: poll_env where
  "sample_poll = \<lparr>po_now = 50, po_fetch_fault = None, po_mark_fault = (\<lambda>_. None)\<rparr>"

lemma posted_committed: "committed_ok posted_db"
  using posted_ledger_ok by (simp add: ledger_ok_def)

theorem processBatch_transitions_witness:
  "list_all2 (\<lambda>r r'. r' = r \<or> r \<in> set (batch sample_worker posted_db)
       \<and> ob_Status r = OutboxStatusPending
       \<and> event_outcome plain_formats sample_worker sample_poll
           (set (bk_written script_broker (fst (processBatch plain_formats script_broker sample_worker
              sample_poll (([], []), posted_db))))) r r')
     (db_outbox posted_db)
     (db_outbox (snd (processBatch plain_formats script_broker sample_worker sample_poll
        (([], []), posted_db))))
   \<and> map ob_Status (db_outbox (snd (processBatch plain_formats script_broker sample_worker sample_poll
        (([], []), posted_db)))) = [''published'']"
proof
  show "map ob_Status (db_outbox (snd (processBatch plain_formats script_broker sample_worker
      sample_poll (([], []), posted_db)))) = [''published'']" by code_simp
qed (rule conjunct2 [OF processBatch_transitions [OF posted_committed script_broker_ok
      prod.collapse [symmetric]]])

section \<open>No event is lost\<close>

text \<open>Every event marked as published has been written to the channel, with its own payload.\<close>

definition delivered :: "formats \<Rightarrow> publishing set \<Rightarrow> db \<Rightarrow> bool" where
  "delivered F written d \<longleftrightarrow> (\<forall>e \<in> set (db_outbox d). ob_Status e = OutboxStatusPublished \<longrightarrow>
     (\<exists>m \<in> written. pub_MessageId m = uuid_String F (ob_ID e) \<and> pub_Body m = ob_Payload e
        \<and> pub_RoutingKey m = ob_RoutingKey e \<and> pub_Persistent m))"

lemma event_outcome_delivered:
  assumes "event_outcome F w P W r r'" and "ob_Status r = OutboxStatusPending"
    and "ob_Status r' = OutboxStatusPublished"
  shows "event_message F w r \<in> W"
  using assms by - (erule event_outcomeE, auto)

text \<open>
  Of the messages, only those that satisfy \<open>Q\<close> need to count, if all the worker writes do: the ones
  sent to its exchange, for example.
\<close>

lemma processBatch_delivered_where:
  assumes "committed_ok d" and "broker_ok B" and "processBatch F B w P (b, d) = (b', d')"
    and "delivered F {m \<in> set (bk_written B b). Q m} d" and "\<And>r. Q (event_message F w r)"
  shows "delivered F {m \<in> set (bk_written B b'). Q m} d'"
  unfolding delivered_def
proof (intro ballI impI)
  obtain g where g: "d' = d\<lparr>db_outbox := map g (db_outbox d)\<rparr>"
      "set (bk_written B b) \<subseteq> set (bk_written B b')"
      "\<forall>r \<in> set (db_outbox d). g r = r \<or> r \<in> set (batch w d)
         \<and> event_outcome F w P (set (bk_written B b')) r (g r)"
    by (rule processBatch_effect [OF assms(1-3)])
  fix e assume e: "e \<in> set (db_outbox d')" "ob_Status e = OutboxStatusPublished"
  then obtain r where r: "r \<in> set (db_outbox d)" "e = g r" by (auto simp: g(1))
  show "\<exists>m \<in> {m \<in> set (bk_written B b'). Q m}. pub_MessageId m = uuid_String F (ob_ID e)
      \<and> pub_Body m = ob_Payload e \<and> pub_RoutingKey m = ob_RoutingKey e \<and> pub_Persistent m"
  proof (cases "g r = r")
    case True
    with assms(4) r e(2) obtain m where "m \<in> {m \<in> set (bk_written B b). Q m}"
        "pub_MessageId m = uuid_String F (ob_ID e)" "pub_Body m = ob_Payload e"
        "pub_RoutingKey m = ob_RoutingKey e" "pub_Persistent m"
      unfolding delivered_def by metis
    then show ?thesis using g(2) by (intro bexI [of _ m]) auto
  next
    case False
    with g(3) r have out: "r \<in> set (batch w d)"
        "event_outcome F w P (set (bk_written B b')) r e" by auto
    have pend: "ob_Status r = OutboxStatusPending" using batch_pending [OF out(1)] by simp
    have "event_message F w r \<in> {m \<in> set (bk_written B b'). Q m}"
      using event_outcome_delivered [OF out(2) pend e(2)] assms(5) by simp
    then show ?thesis
      using event_outcome_row [OF out(2) pend]
      by (intro bexI [of _ "event_message F w r"]) (simp_all add: event_message_def)
  qed
qed

lemmas processBatch_delivered = processBatch_delivered_where [where Q = "\<lambda>_. True", simplified]

text \<open>
  At least once, as far as the channel goes. Over any run of the worker, whatever calls fail and
  whenever it is stopped, every event that is marked as published has been written to the broker's
  channel, as a persistent message with the event's id, routing key and payload.
\<close>

theorem run_worker_delivered:
  assumes "broker_ok B" and "committed_ok (snd s)"
    and "delivered F (set (bk_written B (fst s))) (snd s)"
  shows "delivered F (set (bk_written B (fst (run_worker F B w signals s))))
           (snd (run_worker F B w signals s))
       \<and> committed_ok (snd (run_worker F B w signals s))"
  using assms
proof (induction F B w signals s rule: run_worker.induct)
  case (4 F B w P signals s)
  obtain b' d' where p: "processBatch F B w P (fst s, snd s) = (b', d')" by fastforce
  with processBatch_delivered [OF 4(3,2) p 4(4)] processBatch_committed [OF 4(3,2) p] 4(1,2)
  show ?case by simp
qed simp_all

theorem run_worker_delivered_witness:
  "let s = run_worker plain_formats script_broker sample_worker
       [Tick sample_poll, Tick sample_poll, StopCh, Tick sample_poll]
       (([Some ''channel closed''], []), posted_db)
   in delivered plain_formats (set (bk_written script_broker (fst s))) (snd s)
      \<and> length (bk_written script_broker (fst s)) = 1
      \<and> map ob_RetryCount (db_outbox (snd s)) = [1]"
proof -
  let ?s = "run_worker plain_formats script_broker sample_worker
       [Tick sample_poll, Tick sample_poll, StopCh, Tick sample_poll]
       (([Some ''channel closed''], []), posted_db)"
  have "\<forall>e \<in> set (db_outbox posted_db). ob_Status e \<noteq> OutboxStatusPublished" by code_simp
  then have "delivered plain_formats (set (bk_written script_broker ([Some ''channel closed''], [])))
      posted_db" by (simp add: delivered_def)
  then have "delivered plain_formats (set (bk_written script_broker (fst ?s))) (snd ?s)"
    by (intro conjunct1 [OF run_worker_delivered [OF script_broker_ok]]) (simp_all add: posted_committed)
  moreover have "length (bk_written script_broker (fst ?s)) = 1
      \<and> map ob_RetryCount (db_outbox (snd ?s)) = [1]" by code_simp
  ultimately show ?thesis by (simp add: Let_def)
qed

section \<open>The outbox drains\<close>

definition pending :: "db \<Rightarrow> LedgerOutbox list" where
  "pending d = filter (\<lambda>r. ob_Status r = OutboxStatusPending) (db_outbox d)"

text \<open>The attempts a pending event has left, and their sum.\<close>

definition attempts_left :: "OutboxWorker \<Rightarrow> LedgerOutbox \<Rightarrow> nat" where
  "attempts_left w r = (if ob_Status r = OutboxStatusPending
     then nat (sint (ow_maxRetries w) - sint (ob_RetryCount r)) else 0)"

definition work_left :: "OutboxWorker \<Rightarrow> db \<Rightarrow> nat" where
  "work_left w d = (\<Sum>r\<leftarrow>db_outbox d. attempts_left w r)"

text \<open>The attempts counted of a pending event stay below the limit.\<close>

definition retries_ok :: "OutboxWorker \<Rightarrow> db \<Rightarrow> bool" where
  "retries_ok w d \<longleftrightarrow> (\<forall>r \<in> set (pending d). sint (ob_RetryCount r) < sint (ow_maxRetries w))"

definition calls_succeed :: "poll_env \<Rightarrow> bool" where
  "calls_succeed P \<longleftrightarrow> po_fetch_fault P = None \<and> (\<forall>i. po_mark_fault P i = None)"

lemma event_outcome_retries:
  assumes "event_outcome F w P W r r'" and "sint (ob_RetryCount r) < sint (ow_maxRetries w)"
  shows "ob_Status r' = OutboxStatusPending \<Longrightarrow> sint (ob_RetryCount r') < sint (ow_maxRetries w)"
  using assms by - (erule event_outcomeE, auto)

lemma processBatch_retries_ok:
  assumes "committed_ok d" and "broker_ok B" and "processBatch F B w P (b, d) = (b', d')"
    and "retries_ok w d"
  shows "retries_ok w d'"
  unfolding retries_ok_def
proof
  obtain g where g: "d' = d\<lparr>db_outbox := map g (db_outbox d)\<rparr>"
      "\<forall>r \<in> set (db_outbox d). g r = r \<or> r \<in> set (batch w d)
         \<and> event_outcome F w P (set (bk_written B b')) r (g r)"
    by (rule processBatch_effect [OF assms(1-3)])
  fix e assume "e \<in> set (pending d')"
  then obtain r where r: "r \<in> set (db_outbox d)" "e = g r" "ob_Status e = OutboxStatusPending"
    by (auto simp: g(1) pending_def)
  show "sint (ob_RetryCount e) < sint (ow_maxRetries w)"
  proof (cases "g r = r")
    case True
    with r assms(4) show ?thesis by (simp add: retries_ok_def pending_def)
  next
    case False
    with g(2) r have out: "r \<in> set (batch w d)"
        "event_outcome F w P (set (bk_written B b')) r e" by auto
    have "sint (ob_RetryCount r) < sint (ow_maxRetries w)"
      using assms(4) batch_pending [OF out(1)] by (simp add: retries_ok_def pending_def)
    from event_outcome_retries [OF out(2) this r(3)] show ?thesis .
  qed
qed

lemma event_outcome_progress:
  assumes "event_outcome F w P W r r'" and "ob_Status r = OutboxStatusPending"
    and "sint (ob_RetryCount r) < sint (ow_maxRetries w)" and "calls_succeed P"
  shows "attempts_left w r' < attempts_left w r"
proof -
  have lt: "sint (ob_RetryCount r) < 2 ^ 31 - 1"
    using assms(3) sint32_fits [of "ow_maxRetries w"] by simp
  show ?thesis
    using assms(1)
  proof (cases rule: event_outcome.cases)
    case (retried m)
    then show ?thesis using assms(2,3) sint32_succ [OF lt] by (simp add: attempts_left_def)
  next
    case not_recorded
    with assms(4) lt show ?thesis by (simp add: calls_succeed_def)
  qed (use assms(2,3) in \<open>simp_all add: attempts_left_def\<close>)
qed

lemma batch_nonempty:
  assumes "pending d \<noteq> []" and "0 < sint (ow_batchSize w)"
  shows "batch w d \<noteq> []"
proof -
  have "length (sort_key (\<lambda>r. ts_key (ob_CreatedAt r)) (pending d)) = length (pending d)" by simp
  with assms have "sort_key (\<lambda>r. ts_key (ob_CreatedAt r)) (pending d) \<noteq> []"
    by (metis length_0_conv)
  with assms(2) show ?thesis by (simp add: batch_def flip: pending_def)
qed

lemma processBatch_progress:
  assumes "committed_ok d" and "broker_ok B" and "processBatch F B w P (b, d) = (b', d')"
    and "retries_ok w d" and "calls_succeed P" and "0 < sint (ow_batchSize w)" and "pending d \<noteq> []"
  shows "work_left w d' < work_left w d"
proof -
  obtain g where g: "d' = d\<lparr>db_outbox := map g (db_outbox d)\<rparr>"
      "\<forall>r \<in> set (db_outbox d). g r = r \<or> r \<in> set (batch w d)
         \<and> event_outcome F w P (set (bk_written B b')) r (g r)"
      "po_fetch_fault P = None \<and> 0 \<le> sint (ow_batchSize w) \<longrightarrow>
         (\<forall>r \<in> set (batch w d). event_outcome F w P (set (bk_written B b')) r (g r))"
    by (rule processBatch_effect [OF assms(1-3)])
  have less: "attempts_left w (g r) < attempts_left w r" if "r \<in> set (batch w d)" for r
    using that g(3) assms(4-6) batch_pending [OF that]
    by (intro event_outcome_progress [of F w P "set (bk_written B b')"])
       (simp_all add: calls_succeed_def retries_ok_def pending_def)
  then have le: "attempts_left w (g r) \<le> attempts_left w r" if "r \<in> set (db_outbox d)" for r
    using g(2) that by (metis less_imp_le order_refl)
  obtain r where "r \<in> set (batch w d)"
    using batch_nonempty [OF assms(7,6)] by (meson last_in_set)
  with less [of r] batch_pending have ex: "\<exists>r \<in> set (db_outbox d). attempts_left w (g r) < attempts_left w r"
    by blast
  have "(\<Sum>r\<leftarrow>xs. attempts_left w (g r)) < (\<Sum>r\<leftarrow>xs. attempts_left w r)"
    if "\<forall>r \<in> set xs. attempts_left w (g r) \<le> attempts_left w r"
      "\<exists>r \<in> set xs. attempts_left w (g r) < attempts_left w r" for xs
    using that
  proof (induction xs)
    case (Cons x xs)
    have "(\<Sum>r\<leftarrow>xs. attempts_left w (g r)) \<le> (\<Sum>r\<leftarrow>xs. attempts_left w r)"
      using Cons.prems(1) by (intro sum_list_mono) simp
    with Cons show ?case by (cases "attempts_left w (g x) < attempts_left w x") (auto intro: add_less_le_mono add_le_less_mono)
  qed simp
  with le ex show ?thesis by (simp add: g(1) work_left_def comp_def)
qed

lemma processBatch_idle: "pending d = [] \<Longrightarrow> processBatch F B w P (b, d) = (b, d)"
  by (auto simp: processBatch_def read_query_def q_GetPendingOutboxEvents_def limit_rows_def
      split: option.splits simp flip: pending_def)

text \<open>
  C22: Liveness. Whatever the broker does, the worker is done with every event after finitely many
  polls whose database calls succeed: when there are as many polls as attempts left over all pending
  events, nothing is pending any more.
\<close>

theorem outbox_drains:
  assumes "broker_ok B" and "committed_ok (snd s)" and "retries_ok w (snd s)"
    and "0 < sint (ow_batchSize w)" and "\<forall>P \<in> set polls. calls_succeed P"
    and "work_left w (snd s) \<le> length polls"
  shows "pending (snd (run_worker F B w (map Tick polls) s)) = []"
  using assms(2,3,5,6)
proof (induction polls arbitrary: s)
  case Nil
  have "attempts_left w r = 0" if "r \<in> set (db_outbox (snd s))" for r
    using Nil.prems(4) that member_le_sum_list by (fastforce simp: work_left_def)
  with Nil.prems(2) show ?case
    by (fastforce simp: attempts_left_def retries_ok_def pending_def filter_empty_conv)
next
  case (Cons P polls)
  obtain b' d' where p: "processBatch F B w P (fst s, snd s) = (b', d')" by fastforce
  note ok = processBatch_committed [OF Cons.prems(1) assms(1) p]
    processBatch_retries_ok [OF Cons.prems(1) assms(1) p Cons.prems(2)]
  have "work_left w d' \<le> length polls"
  proof (cases "pending (snd s) = []")
    case False
    with processBatch_progress [OF Cons.prems(1) assms(1) p Cons.prems(2) _ assms(4)] Cons.prems(3,4)
    show ?thesis by simp
  next
    case True
    then have "d' = snd s" using p processBatch_idle [of "snd s" F B w P "fst s"] by (metis prod.inject)
    moreover have "work_left w (snd s) = 0"
      using True by (simp add: work_left_def attempts_left_def pending_def filter_empty_conv
          sum_list_eq_0_iff)
    ultimately show ?thesis by simp
  qed
  with Cons.IH [of "(b', d')"] ok Cons.prems(3) p show ?case by simp
qed

theorem outbox_drains_witness:
  "pending (snd (run_worker plain_formats script_broker sample_worker
     (map Tick (replicate 5 sample_poll)) ((replicate 9 (Some ''channel closed''), []), posted_db))) = []
   \<and> map ob_Status (db_outbox (snd (run_worker plain_formats script_broker sample_worker
     (map Tick (replicate 5 sample_poll)) ((replicate 9 (Some ''channel closed''), []), posted_db))))
     = [''failed'']"
proof
  have h: "retries_ok sample_worker posted_db" "0 < sint (ow_batchSize sample_worker)"
    "work_left sample_worker posted_db = 5"
    by code_simp+
  have c: "calls_succeed sample_poll" by (simp add: calls_succeed_def sample_poll_def)
  show "pending (snd (run_worker plain_formats script_broker sample_worker
     (map Tick (replicate 5 sample_poll)) ((replicate 9 (Some ''channel closed''), []), posted_db))) = []"
    by (rule outbox_drains [OF script_broker_ok]) (simp_all add: posted_committed h c)
  show "map ob_Status (db_outbox (snd (run_worker plain_formats script_broker sample_worker
     (map Tick (replicate 5 sample_poll)) ((replicate 9 (Some ''channel closed''), []), posted_db))))
     = [''failed'']" by code_simp
qed

section \<open>A second worker\<close>

text \<open>The pending event of the sample ledger, after four failed attempts.\<close>

definition tried_db :: db where
  "tried_db = update_outbox (\<lambda>_. True) (\<lambda>r. r\<lparr>ob_RetryCount := 4\<rparr>) posted_db"

text \<open>
  With two workers a published event can be lost again. Both fetch the event while it is pending;
  the first publishes it and marks it, the second fails its last attempt and marks it as failed,
  because \<^verbatim>\<open>MarkOutboxEventFailed\<close> does not ask for the pending state as
  \<^verbatim>\<open>MarkOutboxEventPublished\<close> does. \<^verbatim>\<open>RequeueFailedOutboxEvents\<close> then makes it pending once more,
  to be published a second time.
\<close>

theorem second_worker_unpublishes:
  "let e = hd (batch sample_worker tried_db);
       d1 = handlePublishSuccess sample_poll e tried_db;
       d2 = handlePublishFailure sample_poll sample_worker e ''timeout'' d1;
       d3 = snd (autocommit None q_RequeueFailedOutboxEvents d2)
   in map ob_Status (db_outbox d1) = [OutboxStatusPublished]
    \<and> map ob_Status (db_outbox d2) = [OutboxStatusFailed]
    \<and> map ob_RetryCount (db_outbox d2) = [4]
    \<and> map ob_Status (db_outbox d3) = [OutboxStatusPending]"
  by code_simp

end
