(* ===== verification/Concurrency.thy ===== *)
theory Concurrency
  imports Replay
begin

text \<open>
  Many calls of \<^verbatim>\<open>CreateTransaction\<close> at the same time. Each call is cut where the program talks to
  Redis or to the database, and the pieces of different calls interleave in any order; locks and
  cache entries may expire between any two steps, Redis commands may fail, and the rest of the
  service may change the database. The database transaction is one step, as the SERIALIZABLE level
  makes it.
\<close>

section \<open>Reachable states\<close>

inductive reachable :: "('s \<Rightarrow> bool) \<Rightarrow> ('s \<Rightarrow> 's \<Rightarrow> bool) \<Rightarrow> 's \<Rightarrow> bool" for init step where
  reach_init: "init s \<Longrightarrow> reachable init step s"
| reach_step: "reachable init step s \<Longrightarrow> step s s' \<Longrightarrow> reachable init step s'"

lemma reachable_invariant:
  assumes "reachable init step s" and "\<And>s. init s \<Longrightarrow> I s"
    and "\<And>s s'. I s \<Longrightarrow> step s s' \<Longrightarrow> I s'"
  shows "I s"
  using assms(1) by (induction) (use assms(2,3) in blast)+

section \<open>Calls in progress\<close>

record call =
  cl_tenant :: uuid
  cl_request :: CreateTransactionRequest
  cl_env :: call_env

datatype phase =
    Called
  | Locked                                      \<comment> \<open>the lock was granted\<close>
  | Missed                                      \<comment> \<open>the cache gave no response\<close>
  | Committed Transaction
  | Fetched TransactionResponse
  | Answered "svc_error + TransactionResponse"  \<comment> \<open>the deferred release is left\<close>
  | Returned "svc_error + TransactionResponse"

record system =
  sy_db :: db
  sy_locks :: "string \<Rightarrow> nat option"           \<comment> \<open>the call that holds the lock\<close>
  sy_cache :: "string \<Rightarrow> payload option"
  sy_phase :: "nat \<Rightarrow> phase"

definition call_lock :: "formats \<Rightarrow> call \<Rightarrow> string" where
  "call_lock F c = lock_key F (cl_tenant c) (ctr_IdempotencyKey (cl_request c))"

definition call_key :: "formats \<Rightarrow> call \<Rightarrow> string" where
  "call_key F c = idempotency_key F (cl_tenant c) (ctr_IdempotencyKey (cl_request c))"

definition enter :: "nat \<Rightarrow> phase \<Rightarrow> system \<Rightarrow> system" where
  "enter i p s = s\<lparr>sy_phase := (sy_phase s)(i := p)\<rparr>"

lemma enter_simps [simp]:
  "sy_db (enter i p s) = sy_db s" "sy_locks (enter i p s) = sy_locks s"
  "sy_cache (enter i p s) = sy_cache s" "sy_phase (enter i p s) = (sy_phase s)(i := p)"
  by (simp_all add: enter_def)

inductive call_step :: "formats \<Rightarrow> (nat \<Rightarrow> call) \<Rightarrow> system \<Rightarrow> system \<Rightarrow> bool" for F C where
  refuse: "sy_phase s i = Called \<Longrightarrow> check_request (cl_request (C i)) = Some err \<Longrightarrow>
     call_step F C s (enter i (Returned (Inl err)) s)"
| obtain_lock: "sy_phase s i = Called \<Longrightarrow> check_request (cl_request (C i)) = None \<Longrightarrow>
     sy_locks s (call_lock F (C i)) = None \<Longrightarrow>
     call_step F C s (enter i Locked (s\<lparr>sy_locks := (sy_locks s)(call_lock F (C i) \<mapsto> i)\<rparr>))"
| lock_fails: "sy_phase s i = Called \<Longrightarrow> check_request (cl_request (C i)) = None \<Longrightarrow>
     call_step F C s (enter i (Returned (Inl (Sentinel ErrLockAcquisitionFailed))) s)"
| hit: "sy_phase s i = Locked \<Longrightarrow> sy_cache s (call_key F (C i)) = Some v \<Longrightarrow>
     unmarshal_TransactionResponse F v = Some resp \<Longrightarrow>
     call_step F C s (enter i (Answered (Inr resp)) s)"
| miss: "sy_phase s i = Locked \<Longrightarrow> call_step F C s (enter i Missed s)"
| write_error: "sy_phase s i = Missed \<Longrightarrow>
     write_transaction F (cl_env (C i)) (cl_tenant (C i)) (cl_request (C i)) (sy_db s) = (Inl err, d) \<Longrightarrow>
     call_step F C s (enter i (Answered (Inl err)) (s\<lparr>sy_db := d\<rparr>))"
| write_done: "sy_phase s i = Missed \<Longrightarrow>
     write_transaction F (cl_env (C i)) (cl_tenant (C i)) (cl_request (C i)) (sy_db s) = (Inr t, d) \<Longrightarrow>
     call_step F C s (enter i (Committed t) (s\<lparr>sy_db := d\<rparr>))"
| fetch: "sy_phase s i = Committed t \<Longrightarrow>
     call_step F C s (enter i (Fetched (make_response t (fetch_postings
       (ce_fault (cl_env (C i)) AtFetchPostings) (cl_tenant (C i)) (tx_ID t) (sy_db s)))) s)"
| cache_set: "sy_phase s i = Fetched resp \<Longrightarrow>
     call_step F C s (enter i (Answered (Inr resp)) (s\<lparr>sy_cache :=
       (sy_cache s)(call_key F (C i) \<mapsto> Doc (encode_TransactionResponse F resp))\<rparr>))"
| cache_set_fails: "sy_phase s i = Fetched resp \<Longrightarrow>
     call_step F C s (enter i (Answered (Inr resp)) s)"
| release: "sy_phase s i = Answered res \<Longrightarrow>
     call_step F C s (enter i (Returned res) (s\<lparr>sy_locks := (sy_locks s)(call_lock F (C i) :=
       (if sy_locks s (call_lock F (C i)) = Some i then None
        else sy_locks s (call_lock F (C i))))\<rparr>))"
| release_fails: "sy_phase s i = Answered res \<Longrightarrow> call_step F C s (enter i (Returned res) s)"
| lock_expires: "call_step F C s (s\<lparr>sy_locks := (sy_locks s)(k := None)\<rparr>)"
| cache_expires: "call_step F C s (s\<lparr>sy_cache := (sy_cache s)(k := None)\<rparr>)"
| rest_of_service: "committed_ok d \<Longrightarrow> evolves (sy_db s) d \<Longrightarrow> call_step F C s (s\<lparr>sy_db := d\<rparr>)"

definition calls_begin :: "system \<Rightarrow> bool" where
  "calls_begin s \<longleftrightarrow> committed_ok (sy_db s) \<and> sy_locks s = (\<lambda>_. None) \<and> sy_cache s = (\<lambda>_. None)
     \<and> sy_phase s = (\<lambda>_. Called)"

section \<open>The invariant\<close>

text \<open>The transaction of a tenant under a key, by id.\<close>

definition has_tx :: "db \<Rightarrow> uuid \<Rightarrow> string \<Rightarrow> uuid \<Rightarrow> bool" where
  "has_tx d T k i \<longleftrightarrow> (\<exists>t \<in> set (db_transactions d).
     tx_TenantID t = T \<and> tx_IdempotencyKey t = k \<and> tx_ID t = i)"

lemma has_tx_evolves: "evolves d d' \<Longrightarrow> has_tx d T k i \<Longrightarrow> has_tx d' T k i"
  by (auto simp: has_tx_def evolves_def dest: set_mono_prefix)

lemma has_tx_unique:
  assumes "committed_ok d" and "has_tx d T k i" and "has_tx d T k j"
  shows "i = j"
proof -
  have "distinct (map (\<lambda>t. (tx_TenantID t, tx_IdempotencyKey t)) (db_transactions d))"
    using assms(1) by (simp add: committed_ok_def tx_ok_def schema_ok_def keys_ok_def)
  from distinct_map_unique [OF this] assms(2,3) show ?thesis by (auto simp: has_tx_def)
qed

fun phase_ok :: "db \<Rightarrow> call \<Rightarrow> phase \<Rightarrow> bool" where
  "phase_ok d c (Committed t) \<longleftrightarrow>
     has_tx d (cl_tenant c) (ctr_IdempotencyKey (cl_request c)) (tx_ID t) \<and> tx_Metadata t \<noteq> None"
| "phase_ok d c (Fetched r) \<longleftrightarrow>
     has_tx d (cl_tenant c) (ctr_IdempotencyKey (cl_request c)) (tr_ID r) \<and> tr_Metadata r \<noteq> None"
| "phase_ok d c (Answered (Inr r)) \<longleftrightarrow>
     has_tx d (cl_tenant c) (ctr_IdempotencyKey (cl_request c)) (tr_ID r)"
| "phase_ok d c (Returned (Inr r)) \<longleftrightarrow>
     has_tx d (cl_tenant c) (ctr_IdempotencyKey (cl_request c)) (tr_ID r)"
| "phase_ok d c _ \<longleftrightarrow> True"

definition cache_ok :: "formats \<Rightarrow> db \<Rightarrow> (string \<Rightarrow> payload option) \<Rightarrow> bool" where
  "cache_ok F d m \<longleftrightarrow> (\<forall>T k v r. m (idempotency_key F T k) = Some v \<longrightarrow>
     unmarshal_TransactionResponse F v = Some r \<longrightarrow> has_tx d T k (tr_ID r))"

definition system_ok :: "formats \<Rightarrow> (nat \<Rightarrow> call) \<Rightarrow> system \<Rightarrow> bool" where
  "system_ok F C s \<longleftrightarrow> committed_ok (sy_db s) \<and> cache_ok F (sy_db s) (sy_cache s)
     \<and> (\<forall>i. phase_ok (sy_db s) (C i) (sy_phase s i))"

lemma phase_ok_evolves: "evolves d d' \<Longrightarrow> phase_ok d c p \<Longrightarrow> phase_ok d' c p"
  by (induction d c p rule: phase_ok.induct) (auto intro: has_tx_evolves)

lemma cache_ok_evolves: "evolves d d' \<Longrightarrow> cache_ok F d m \<Longrightarrow> cache_ok F d' m"
  unfolding cache_ok_def by (meson has_tx_evolves)

lemma system_ok_db:
  "system_ok F C s \<Longrightarrow> committed_ok d \<Longrightarrow> evolves (sy_db s) d \<Longrightarrow> system_ok F C (s\<lparr>sy_db := d\<rparr>)"
  by (auto simp: system_ok_def intro: phase_ok_evolves cache_ok_evolves)

lemma system_ok_enter:
  "system_ok F C s \<Longrightarrow> phase_ok (sy_db s) (C i) p \<Longrightarrow> system_ok F C (enter i p s)"
  by (simp add: system_ok_def)

lemma system_ok_step:
  assumes F: "formats_ok F" and ok: "system_ok F C s" and step: "call_step F C s s'"
  shows "system_ok F C s'"
  using step
proof (cases rule: call_step.cases)
  case (hit i v resp)
  then have "has_tx (sy_db s) (cl_tenant (C i)) (ctr_IdempotencyKey (cl_request (C i))) (tr_ID resp)"
    using ok by (auto simp: system_ok_def cache_ok_def call_key_def)
  with hit(1) ok show ?thesis by (simp add: system_ok_enter)
next
  case (write_error i err d)
  have "committed_ok d \<and> evolves (sy_db s) d"
    using write_transaction_committed [OF _ write_error(3)] ok by (simp add: system_ok_def)
  with system_ok_db [OF ok] write_error(1) show ?thesis by (simp add: system_ok_enter)
next
  case (write_done i t d)
  have d: "committed_ok d \<and> evolves (sy_db s) d"
    using write_transaction_committed [OF _ write_done(3)] ok by (simp add: system_ok_def)
  have "has_tx d (cl_tenant (C i)) (ctr_IdempotencyKey (cl_request (C i))) (tx_ID t)
      \<and> tx_Metadata t \<noteq> None"
    using write_transaction_Inr(1,2) [OF write_done(3)]
    by (simp add: has_tx_def posted_def new_transaction_def metadata_or_empty_def)
  with system_ok_db [OF ok] d write_done(1) show ?thesis by (simp add: system_ok_enter)
next
  case (fetch i t)
  have "phase_ok (sy_db s) (C i) (Committed t)" using ok fetch(2) by (metis system_ok_def)
  with fetch(1) ok show ?thesis by (simp add: system_ok_enter make_response_def)
next
  case (cache_set i resp)
  have r: "phase_ok (sy_db s) (C i) (Fetched resp)" using ok cache_set(2) by (metis system_ok_def)
  then have "unmarshal_TransactionResponse F (Doc (encode_TransactionResponse F resp)) = Some resp"
    by (intro unmarshal_encode_response [OF F]) simp
  with r ok have "cache_ok F (sy_db s) ((sy_cache s)(call_key F (C i) \<mapsto>
      Doc (encode_TransactionResponse F resp)))"
    by (auto simp: cache_ok_def call_key_def system_ok_def idempotency_key_inj [OF F])
  with ok have "system_ok F C (s\<lparr>sy_cache := (sy_cache s)(call_key F (C i) \<mapsto>
      Doc (encode_TransactionResponse F resp))\<rparr>)"
    by (simp add: system_ok_def)
  with cache_set(1) r show ?thesis by (simp add: system_ok_enter)
next
  case (cache_set_fails i resp)
  have "phase_ok (sy_db s) (C i) (Fetched resp)" using ok cache_set_fails(2) by (metis system_ok_def)
  with cache_set_fails(1) ok show ?thesis by (simp add: system_ok_enter)
next
  case (release i res)
  have "phase_ok (sy_db s) (C i) (Answered res)" using ok release(2) by (metis system_ok_def)
  then have "phase_ok (sy_db s) (C i) (Returned res)" by (cases res) simp_all
  with ok show ?thesis unfolding release(1) by (intro system_ok_enter) (simp_all add: system_ok_def)
next
  case (release_fails i res)
  have "phase_ok (sy_db s) (C i) (Answered res)" using ok release_fails(2) by (metis system_ok_def)
  then have "phase_ok (sy_db s) (C i) (Returned res)" by (cases res) simp_all
  with ok show ?thesis unfolding release_fails(1) by (intro system_ok_enter)
next
  case (cache_expires k)
  with ok show ?thesis by (auto simp: system_ok_def cache_ok_def)
next
  case (rest_of_service d)
  with system_ok_db [OF ok] show ?thesis by simp
qed (use ok in \<open>simp_all add: system_ok_enter\<close>, simp_all add: system_ok_def)

text \<open>
  C5: Exactly one effect. However many calls run at the same time, in whatever interleaving, and
  although locks and cache entries may expire under them: all calls of a tenant under one idempotency
  key that return a response return the same transaction, which is in the database, and the database
  never holds two transactions of the tenant under that key.
\<close>

theorem one_transaction_per_key:
  assumes "formats_ok F" and "reachable calls_begin (call_step F C) s"
    and "sy_phase s i = Returned (Inr ri)" and "sy_phase s j = Returned (Inr rj)"
    and "cl_tenant (C i) = cl_tenant (C j)"
    and "ctr_IdempotencyKey (cl_request (C i)) = ctr_IdempotencyKey (cl_request (C j))"
  shows "tr_ID ri = tr_ID rj
    \<and> map tx_ID (filter (\<lambda>t. tx_TenantID t = cl_tenant (C i)
         \<and> tx_IdempotencyKey t = ctr_IdempotencyKey (cl_request (C i))) (db_transactions (sy_db s)))
      = [tr_ID ri]"
proof -
  have ok: "system_ok F C s"
    using assms(2)
  proof (rule reachable_invariant)
    show "system_ok F C s" if "calls_begin s" for s
      using that by (simp add: calls_begin_def system_ok_def cache_ok_def)
  qed (rule system_ok_step [OF assms(1)])
  let ?T = "cl_tenant (C i)" and ?k = "ctr_IdempotencyKey (cl_request (C i))"
  have com: "committed_ok (sy_db s)" using ok by (simp add: system_ok_def)
  have "phase_ok (sy_db s) (C i) (Returned (Inr ri))" "phase_ok (sy_db s) (C j) (Returned (Inr rj))"
    using ok assms(3,4) by (metis system_ok_def)+
  then have tx: "has_tx (sy_db s) ?T ?k (tr_ID ri)" "has_tx (sy_db s) ?T ?k (tr_ID rj)"
    using assms(5,6) by simp_all
  let ?P = "\<lambda>t. tx_TenantID t = ?T \<and> tx_IdempotencyKey t = ?k"
  obtain t where t: "t \<in> set (db_transactions (sy_db s))" "?P t" "tx_ID t = tr_ID ri"
    using tx(1) by (auto simp: has_tx_def)
  obtain xs ys where split: "db_transactions (sy_db s) = xs @ t # ys" using t(1) by (meson split_list)
  have dist: "distinct (map (\<lambda>t. (tx_TenantID t, tx_IdempotencyKey t)) (db_transactions (sy_db s)))"
    using com by (simp add: committed_ok_def tx_ok_def schema_ok_def keys_ok_def)
  have "x = t" if "x \<in> set (db_transactions (sy_db s))" "?P x" for x
    using distinct_map_unique [OF dist that(1) t(1)] that(2) t(2) by simp
  moreover have "t \<notin> set xs \<union> set ys" using dist by (auto simp: split distinct_map)
  ultimately have "\<forall>x \<in> set xs \<union> set ys. \<not> ?P x" by (auto simp: split)
  then have "filter ?P (db_transactions (sy_db s)) = [t]" using t(2) by (simp add: split filter_none)
  with t(3) has_tx_unique [OF com tx] show ?thesis by simp
qed

section \<open>A call on its own\<close>

text \<open>
  The steps of one call, taken without interruption on a Redis that does not fail, are the call as
  \<open>CreateTransaction\<close> defines it.
\<close>

definition same_state :: "formats \<Rightarrow> system \<Rightarrow> (string \<Rightarrow> payload option) world \<Rightarrow> bool" where
  "same_state F s w \<longleftrightarrow> sy_db s = w_db w
   \<and> (\<forall>T k. sy_cache s (idempotency_key F T k) = w_redis w (idempotency_key F T k))
   \<and> (\<forall>T k. sy_locks s (lock_key F T k) = None \<longleftrightarrow> w_redis w (lock_key F T k) = None)"

lemma replay_map_redis:
  "cached_replay F map_redis k r =
     (case r k of None \<Rightarrow> None | Some v \<Rightarrow> unmarshal_TransactionResponse F v)"
  by (auto simp: cached_replay_def map_redis_def split: option.splits payload.splits)

lemma released [simp]:
  "sy_locks s k = Some i \<Longrightarrow> (sy_locks s)(k := if sy_locks s k = Some i then None else sy_locks s k)
     = (sy_locks s)(k := None)"
  by simp

text \<open>What follows once the lock is granted and the call has answered.\<close>

lemma answered_returns:
  assumes "sy_phase s i = Answered res" and "sy_locks s (call_lock F (C i)) = Some i"
  shows "call_step F C s (enter i (Returned res)
    (s\<lparr>sy_locks := (sy_locks s)(call_lock F (C i) := None)\<rparr>))"
  using release [OF assms(1), of F C] assms(2) by simp

lemma locked_call_answers:
  assumes Ci: "C i = \<lparr>cl_tenant = T, cl_request = req, cl_env = E\<rparr>"
    and s: "sy_phase s i = Locked" "sy_db s = w_db w"
      "sy_cache s (call_key F (C i)) = w_redis w (call_key F (C i))"
    and under: "under_lock F map_redis ttl E T req w = (res, w1)"
  shows "\<exists>s2. (call_step F C)\<^sup>*\<^sup>* s s2 \<and> sy_phase s2 = (sy_phase s)(i := Answered res)
    \<and> sy_locks s2 = sy_locks s \<and> sy_db s2 = w_db w1
    \<and> (\<exists>v. sy_cache s2 = (sy_cache s)(call_key F (C i) := v)
         \<and> w_redis w1 = (w_redis w)(call_key F (C i) := v))"
proof (cases "cached_replay F map_redis (call_key F (C i)) (w_redis w)")
  case (Some resp)
  then obtain v where v: "w_redis w (call_key F (C i)) = Some v"
      "unmarshal_TransactionResponse F v = Some resp"
    by (auto simp: replay_map_redis split: option.splits)
  have "res = Inr resp" "w1 = w"
    using under Some by (simp_all add: under_lock_def Let_def call_key_def Ci)
  moreover have "call_step F C s (enter i (Answered (Inr resp)) s)"
    using s v by (intro hit [of _ _ _ _ v]) simp_all
  moreover have "sy_cache s = (sy_cache s)(call_key F (C i) := Some v)"
    "w_redis w = (w_redis w)(call_key F (C i) := Some v)"
    using s(3) v(1) by (metis fun_upd_triv)+
  ultimately show ?thesis
    using s(2) by (intro exI [of _ "enter i (Answered res) s"]) auto
next
  case None
  let ?s2 = "enter i Missed s"
  have st2: "call_step F C s ?s2" using s(1) by (rule miss)
  obtain wr d where wr: "write_transaction F E T req (w_db w) = (wr, d)" by fastforce
  show ?thesis
  proof (cases wr)
    case (Inl err)
    let ?s3 = "enter i (Answered (Inl err)) (?s2\<lparr>sy_db := d\<rparr>)"
    have "call_step F C ?s2 ?s3" using s wr Inl by (intro write_error) (simp_all add: Ci)
    with st2 have "(call_step F C)\<^sup>*\<^sup>* s ?s3" by (meson r_into_rtranclp rtranclp.rtrancl_into_rtrancl)
    moreover have "res = Inl err" "w1 = w\<lparr>w_db := d\<rparr>"
      using under None wr Inl by (simp_all add: under_lock_def Let_def call_key_def Ci)
    ultimately show ?thesis
      using s(3) by (intro exI [of _ ?s3]) (auto intro!: exI [of _ "w_redis w (call_key F (C i))"])
  next
    case (Inr t)
    let ?resp = "make_response t (fetch_postings (ce_fault E AtFetchPostings) T (tx_ID t) d)"
    let ?v = "Doc (encode_TransactionResponse F ?resp)"
    let ?s3 = "enter i (Committed t) (?s2\<lparr>sy_db := d\<rparr>)"
    let ?s4 = "enter i (Fetched ?resp) ?s3"
    let ?s5 = "enter i (Answered (Inr ?resp)) (?s4\<lparr>sy_cache := (sy_cache ?s4)(call_key F (C i) \<mapsto> ?v)\<rparr>)"
    have "call_step F C ?s2 ?s3" using s wr Inr by (intro write_done) (simp_all add: Ci)
    moreover have "call_step F C ?s3 ?s4" using fetch [of ?s3 i t F C] by (simp add: Ci)
    moreover have "call_step F C ?s4 ?s5" by (rule cache_set) simp
    ultimately have "(call_step F C)\<^sup>*\<^sup>* s ?s5"
      using st2 by (meson r_into_rtranclp rtranclp.rtrancl_into_rtrancl)
    moreover have "res = Inr ?resp"
      "w1 = w\<lparr>w_db := d, w_redis := (w_redis w)(call_key F (C i) \<mapsto> ?v)\<rparr>"
      using under None wr Inr
      by (simp_all add: under_lock_def Let_def call_key_def Ci map_redis_def)
    ultimately show ?thesis by (intro exI [of _ ?s5]) auto
  qed
qed

lemma CreateTransaction_runs:
  assumes "CreateTransaction F map_redis ttl E T req w = (res, w')"
    and "C i = \<lparr>cl_tenant = T, cl_request = req, cl_env = E\<rparr>"
    and "same_state F s w" and "sy_phase s i = Called"
  shows "\<exists>s'. (call_step F C)\<^sup>*\<^sup>* s s' \<and> same_state F s' w'
    \<and> sy_phase s' = (sy_phase s)(i := Returned res)"
proof (cases "check_request req")
  case (Some err)
  then have "res = Inl err" "w' = w" using assms(1) by (simp_all add: CreateTransaction_def)
  moreover have "call_step F C s (enter i (Returned (Inl err)) s)"
    using Some assms(2,4) by (intro refuse) simp_all
  ultimately show ?thesis
    using assms(3) by (intro exI [of _ "enter i (Returned res) s"]) (auto simp: same_state_def)
next
  case check: None
  let ?l = "call_lock F (C i)"
  have l: "?l = lock_key F T (ctr_IdempotencyKey req)" by (simp add: call_lock_def assms(2))
  show ?thesis
  proof (cases "w_redis w ?l")
    case (Some x)
    then have "res = Inl (Sentinel ErrLockAcquisitionFailed)" "w' = w"
      using assms(1) check by (simp_all add: CreateTransaction_def map_redis_def Let_def l)
    moreover have "call_step F C s (enter i (Returned (Inl (Sentinel ErrLockAcquisitionFailed))) s)"
      using check assms(2,4) by (intro lock_fails) simp_all
    ultimately show ?thesis
      using assms(3) by (intro exI [of _ "enter i (Returned res) s"]) (auto simp: same_state_def)
  next
    case None
    let ?s1 = "enter i Locked (s\<lparr>sy_locks := (sy_locks s)(?l \<mapsto> i)\<rparr>)"
    let ?w0 = "w\<lparr>w_redis := (w_redis w)(?l \<mapsto> Raw ''lock'')\<rparr>"
    obtain w1 where under: "under_lock F map_redis ttl E T req ?w0 = (res, w1)"
      and w': "w' = w1\<lparr>w_redis := (w_redis w1)(?l := None)\<rparr>"
      using assms(1) check None
      by (auto simp: CreateTransaction_def map_redis_def Let_def l split: prod.splits)
    have "sy_locks s ?l = None" using assms(3) None by (simp add: same_state_def l)
    then have st1: "call_step F C s ?s1"
      using check assms(4) by (intro obtain_lock) (simp_all add: assms(2))
    have "sy_db ?s1 = w_db ?w0" "sy_cache ?s1 (call_key F (C i)) = w_redis ?w0 (call_key F (C i))"
      using assms(3) by (simp_all add: same_state_def call_key_def l)
    then obtain s2 v where s2: "(call_step F C)\<^sup>*\<^sup>* ?s1 s2"
        "sy_phase s2 = (sy_phase s)(i := Answered res)" "sy_locks s2 = (sy_locks s)(?l \<mapsto> i)"
        "sy_db s2 = w_db w1" "sy_cache s2 = (sy_cache s)(call_key F (C i) := v)"
        "w_redis w1 = (w_redis ?w0)(call_key F (C i) := v)"
      using locked_call_answers [where C = C and i = i and s = ?s1 and w = ?w0, OF assms(2) _ _ _ under] by auto
    let ?s3 = "enter i (Returned res) (s2\<lparr>sy_locks := (sy_locks s2)(?l := None)\<rparr>)"
    have "call_step F C s2 ?s3" by (rule answered_returns) (simp_all add: s2)
    with st1 s2(1) have "(call_step F C)\<^sup>*\<^sup>* s ?s3"
      by (meson converse_rtranclp_into_rtranclp rtranclp.rtrancl_into_rtrancl)
    moreover have "same_state F ?s3 w'"
      using assms(3) None by (auto simp: same_state_def s2 w' l call_key_def)
    ultimately show ?thesis by (intro exI [of _ ?s3]) (simp add: s2(2))
  qed
qed


section \<open>Two calls under one key\<close>

text \<open>Two calls of the sample request; the second comes after the first has returned.\<close>

definition sample_calls :: "nat \<Rightarrow> call" where
  "sample_calls i = \<lparr>cl_tenant = sample_tenant, cl_request = sample_request,
     cl_env = (if i = 0 then sample_env else sample_env2)\<rparr>"

definition sample_system :: system where
  "sample_system = \<lparr>sy_db = sample_db, sy_locks = (\<lambda>_. None), sy_cache = (\<lambda>_. None),
     sy_phase = (\<lambda>_. Called)\<rparr>"

lemma sample_system_same: "same_state F sample_system sample_world"
  by (simp add: same_state_def sample_system_def sample_world_def)

lemma reachable_steps: "step\<^sup>*\<^sup>* s s' \<Longrightarrow> reachable init step s \<Longrightarrow> reachable init step s'"
  by (induction rule: rtranclp_induct) (auto intro: reach_step)

lemma sample_system_reachable: "reachable calls_begin (call_step F C) sample_system"
  using sample_ledger_ok
  by (intro reach_init) (simp add: calls_begin_def sample_system_def ledger_ok_def)

lemma sample_calls_eq:
  "sample_calls 0 = \<lparr>cl_tenant = sample_tenant, cl_request = sample_request, cl_env = sample_env\<rparr>"
  "sample_calls 1 = \<lparr>cl_tenant = sample_tenant, cl_request = sample_request, cl_env = sample_env2\<rparr>"
  by (simp_all add: sample_calls_def)

lemma first_sample_call:
  "CreateTransaction plain_formats map_redis 1 sample_env sample_tenant sample_request sample_world
     = (fst (sample_create sample_env sample_request sample_world), posted_world)"
  by (simp add: sample_create_def posted_world_def)


theorem one_transaction_per_key_witness:
  "\<exists>s r. reachable calls_begin (call_step plain_formats sample_calls) s
     \<and> sy_phase s 0 = Returned (Inr r) \<and> sy_phase s 1 = Returned (Inr r)
     \<and> map tx_ID (filter (\<lambda>t. tx_TenantID t = sample_tenant
          \<and> tx_IdempotencyKey t = ''order-1'') (db_transactions (sy_db s))) = [tr_ID r]"
proof -
  let ?F = plain_formats and ?step = "call_step plain_formats sample_calls"
  obtain r where r: "fst (sample_create sample_env sample_request sample_world) = Inr r"
    using sample_posts by (metis is_ok.elims(2))
  have "check_request sample_request = None" by code_simp
  with sample_replay [OF r] obtain w2 where c2: "CreateTransaction ?F map_redis 1 sample_env2
      sample_tenant sample_request posted_world = (Inr r, w2)"
    by (force simp: sample_request_def)
  have "sy_phase sample_system 0 = Called" by (simp add: sample_system_def)
  from CreateTransaction_runs [where C = sample_calls and i = 0, OF first_sample_call
      sample_calls_eq(1) sample_system_same this]
  obtain s1 where s1: "?step\<^sup>*\<^sup>* sample_system s1" "same_state ?F s1 posted_world"
      "sy_phase s1 = (sy_phase sample_system)(0 := Returned (Inr r))"
    unfolding r by blast
  have "sy_phase s1 1 = Called" by (simp add: s1(3) sample_system_def)
  from CreateTransaction_runs [where C = sample_calls and i = 1, OF c2 sample_calls_eq(2) s1(2) this]
  obtain s2 where s2: "?step\<^sup>*\<^sup>* s1 s2" "sy_phase s2 = (sy_phase s1)(1 := Returned (Inr r))"
    by blast
  have reach: "reachable calls_begin ?step s2"
    by (rule reachable_steps [OF s2(1) reachable_steps [OF s1(1) sample_system_reachable]])
  have ph: "sy_phase s2 0 = Returned (Inr r)" "sy_phase s2 1 = Returned (Inr r)"
    by (simp_all add: s2(2) s1(3))
  from one_transaction_per_key [OF plain_formats_ok reach ph] have
    "map tx_ID (filter (\<lambda>t. tx_TenantID t = sample_tenant
      \<and> tx_IdempotencyKey t = ''order-1'') (db_transactions (sy_db s2))) = [tr_ID r]"
    by (simp add: sample_calls_def sample_request_def)
  with reach ph show ?thesis by (intro exI [of _ s2] exI [of _ r] conjI)
qed

end
