(* ===== verification/Requests.thy ===== *)
theory Requests
  imports Sample Validation
begin

text \<open>
  Properties of what crosses the program's borders: which rules the validators report, the JSON form
  of a response in the cache, and the nullable enum columns.
\<close>

section \<open>What the validators report\<close>

definition bad :: "bool \<Rightarrow> string \<Rightarrow> string list" where
  "bad violated field = (if violated then [field] else [])"

definition entry_faults :: "nat \<Rightarrow> PostingEntry \<Rightarrow> string list" where
  "entry_faults i p =
     bad (sint (pe_Amount p) \<le> 0) (posting_field i @ ''.amount'')
   @ bad (sint (pe_AccountID p) \<le> 0) (posting_field i @ ''.account_id'')
   @ bad (pe_Direction p \<notin> {PostingDirectionDebit, PostingDirectionCredit})
       (posting_field i @ ''.direction'')"

fun entries_faults :: "nat \<Rightarrow> PostingEntry list \<Rightarrow> string list" where
  "entries_faults i [] = []"
| "entries_faults i (p # ps) = entry_faults i p @ entries_faults (Suc i) ps"

lemma AddError_names: "map ip_Name (AddError n r v) = map ip_Name v @ [n]"
  by (simp add: AddError_def)

lemma names_if: "map ip_Name (if b then AddError n r v else v) = map ip_Name v @ bad b n"
  by (simp add: AddError_names bad_def)

lemma names_if2: "map ip_Name (if b then AddError n r v else if c then AddError n r' v else v)
    = map ip_Name v @ bad (b \<or> c) n"
  by (simp add: AddError_names bad_def)

lemma validate_postings_names:
  "map ip_Name (snd (snd (validate_postings i ps ds cs v))) = map ip_Name v @ entries_faults i ps"
proof (induction ps arbitrary: i ds cs v)
  case (Cons p ps)
  then show ?case
    by (simp add: Let_def entry_faults_def names_if) (simp add: AddError_names bad_def names_if)
qed simp

text \<open>
  \<^verbatim>\<open>ValidateCreateTransactionRequest\<close> reports every rule that is violated, each once and in the
  order of the code, and nothing else: the length of the idempotency key and of the description in
  characters, the number of postings, amount, account id and direction of each posting, and the
  balance of the 64-bit sums, which is only looked at from two postings on.
\<close>

theorem ValidateCreateTransactionRequest_reports:
  "map ip_Name (ValidateCreateTransactionRequest req) =
     bad (RuneCountInString (ctr_IdempotencyKey req) \<notin> {1..255}) ''idempotency_key''
   @ bad (1000 < RuneCountInString (ctr_Description req)) ''description''
   @ bad (length (ctr_Postings req) \<notin> {2..100}) ''postings''
   @ entries_faults 0 (ctr_Postings req)
   @ bad (2 \<le> length (ctr_Postings req)
       \<and> wrapped_sum PostingDirectionDebit (ctr_Postings req)
         \<noteq> wrapped_sum PostingDirectionCredit (ctr_Postings req)) ''postings''"
  unfolding ValidateCreateTransactionRequest_def Let_def
  by (subst validate_postings_split)
     (auto simp: names_if names_if2 validate_postings_names limit_defs bad_def)

text \<open>
  \<^verbatim>\<open>ValidateCreateAccountRequest\<close> accepts exactly the requests with a name of 1 to 255
  characters, one of the five account types of the database's enum, and no currency or one that is,
  in upper case, among the 155 codes of the list.
\<close>

theorem ValidateCreateAccountRequest_accepts:
  "ValidateCreateAccountRequest req = [] \<longleftrightarrow>
     RuneCountInString (car_AccountName req) \<in> {1..255}
   \<and> car_AccountType req \<in> {''asset'', ''liability'', ''equity'', ''revenue'', ''expense''}
   \<and> (car_Currency req = '''' \<or> ToUpper (car_Currency req) \<in> set validCurrencies)
   \<and> length validCurrencies = 155 \<and> distinct validCurrencies"
proof -
  have "length validCurrencies = 155 \<and> distinct validCurrencies" by code_simp
  then show ?thesis
    unfolding ValidateCreateAccountRequest_iff accepted_account_def IsValidCurrency_def
    by (auto simp: account_type_enum_def)
qed

text \<open>
  The wrap-around is out of reach for requests of ordinary size: when no amount exceeds a
  hundredth of the 64-bit range, a request that passes validation has equal debits and credits.
\<close>

theorem validated_in_balance:
  assumes "ValidateCreateTransactionRequest req = []"
    and "\<forall>p \<in> set (ctr_Postings req). sint (pe_Amount p) \<le> 92233720368547758"
  shows "exact_sum PostingDirectionDebit (ctr_Postings req)
    = exact_sum PostingDirectionCredit (ctr_Postings req)"
  using assms accepted_exact by (simp add: ValidateCreateTransactionRequest_iff)

theorem validated_in_balance_witness:
  "exact_sum PostingDirectionDebit (ctr_Postings sample_request)
    = exact_sum PostingDirectionCredit (ctr_Postings sample_request)"
  by (rule validated_in_balance; code_simp)

section \<open>Cached responses\<close>

text \<open>
  C38: A response survives the cache. Decoding its JSON form gives the response back, field by field
  and row by row, except that nil metadata come back as the JSON value null.
\<close>

theorem TransactionResponse_roundtrip:
  assumes "formats_ok F"
  shows "unmarshal_TransactionResponse F (Doc (encode_TransactionResponse F r))
    = Some (r\<lparr>tr_Metadata := Some (encode_raw (tr_Metadata r))\<rparr>)"
proof (cases "tr_Metadata r")
  case (Some m)
  then have "r\<lparr>tr_Metadata := Some (encode_raw (tr_Metadata r))\<rparr> = r" by simp
  with unmarshal_encode_response [OF assms, of r] Some show ?thesis by simp
next
  case None
  have "encode_TransactionResponse F r = encode_TransactionResponse F (r\<lparr>tr_Metadata := Some JNull\<rparr>)"
    by (simp add: encode_TransactionResponse_def None)
  with unmarshal_encode_response [OF assms, of "r\<lparr>tr_Metadata := Some JNull\<rparr>"] None
  show ?thesis by simp
qed

theorem TransactionResponse_roundtrip_witness:
  "unmarshal_TransactionResponse plain_formats (Doc (encode_TransactionResponse plain_formats
     \<lparr>tr_ID = 101, tr_IdempotencyKey = ''order-1'', tr_Description = '''', tr_Metadata = None,
      tr_Postings = Some [], tr_CreatedAt = Some 7\<rparr>))
   = Some \<lparr>tr_ID = 101, tr_IdempotencyKey = ''order-1'', tr_Description = '''',
       tr_Metadata = Some JNull, tr_Postings = Some [], tr_CreatedAt = Some 7\<rparr>"
  using TransactionResponse_roundtrip [OF plain_formats_ok] by simp

section \<open>Nullable enum columns\<close>

text \<open>
  What the three generated \<^verbatim>\<open>Null...\<close> types promise \<^verbatim>\<open>database/sql\<close>: \<^verbatim>\<open>Value\<close> is nil or the
  string, and \<^verbatim>\<open>Scan\<close> reads it back.
\<close>

locale nullable_enum =
  fixes mk :: "string \<Rightarrow> bool \<Rightarrow> 'n"
    and scan :: "'n \<Rightarrow> driver_value \<Rightarrow> string option \<times> 'n"
    and driver :: "'n \<Rightarrow> driver_value"
  assumes driver_mk: "driver (mk s valid) = (if valid then DString s else DNil)"
    and scan_nil: "scan ns DNil = (None, mk '''' False)"
    and scan_text: "scan ns (DString s) = (None, mk s True)" "scan ns (DBytes s) = (None, mk s True)"
    and scan_other: "fst (scan ns (DOther t)) \<noteq> None"
begin

lemma scan_driver: "scan ns (driver (mk s valid)) = (None, if valid then mk s True else mk '''' False)"
  by (simp add: driver_mk scan_nil scan_text)

lemma scan_error_iff: "fst (scan ns v) = None \<longleftrightarrow> (\<forall>t. v \<noteq> DOther t)"
  by (cases v) (simp_all add: scan_nil scan_text scan_other)

end

definition null_account_type :: "string \<Rightarrow> bool \<Rightarrow> NullAccountType" where
  "null_account_type s valid = \<lparr>nat_AccountType = s, nat_Valid = valid\<rparr>"

definition null_outbox_status :: "string \<Rightarrow> bool \<Rightarrow> NullOutboxStatus" where
  "null_outbox_status s valid = \<lparr>nos_OutboxStatus = s, nos_Valid = valid\<rparr>"

definition null_posting_direction :: "string \<Rightarrow> bool \<Rightarrow> NullPostingDirection" where
  "null_posting_direction s valid = \<lparr>npd_PostingDirection = s, npd_Valid = valid\<rparr>"

interpretation account_type: nullable_enum null_account_type NullAccountType_Scan NullAccountType_Value
  by unfold_locales (simp_all add: null_account_type_def NullAccountType_Value_def)

interpretation outbox_status: nullable_enum null_outbox_status NullOutboxStatus_Scan NullOutboxStatus_Value
  by unfold_locales (simp_all add: null_outbox_status_def NullOutboxStatus_Value_def)

interpretation posting_direction: nullable_enum null_posting_direction NullPostingDirection_Scan
    NullPostingDirection_Value
  by unfold_locales (simp_all add: null_posting_direction_def NullPostingDirection_Value_def)

text \<open>
  For each of the three nullable enum types, scanning the driver value of a value gives that
  value back (a NULL as the empty, invalid one) whatever the receiver held, and \<^verbatim>\<open>Scan\<close> fails exactly
  on values that are neither nil, bytes nor a string.
\<close>

theorem nullable_enums_roundtrip:
  "NullAccountType_Scan ns1 (NullAccountType_Value (null_account_type s valid))
     = (None, if valid then null_account_type s True else null_account_type '''' False)
   \<and> NullOutboxStatus_Scan ns2 (NullOutboxStatus_Value (null_outbox_status s valid))
     = (None, if valid then null_outbox_status s True else null_outbox_status '''' False)
   \<and> NullPostingDirection_Scan ns3 (NullPostingDirection_Value (null_posting_direction s valid))
     = (None, if valid then null_posting_direction s True else null_posting_direction '''' False)
   \<and> (fst (NullAccountType_Scan ns1 v) = None \<longleftrightarrow> (\<forall>t. v \<noteq> DOther t))
   \<and> (fst (NullOutboxStatus_Scan ns2 v) = None \<longleftrightarrow> (\<forall>t. v \<noteq> DOther t))
   \<and> (fst (NullPostingDirection_Scan ns3 v) = None \<longleftrightarrow> (\<forall>t. v \<noteq> DOther t))"
  by (intro conjI account_type.scan_driver outbox_status.scan_driver posting_direction.scan_driver
      account_type.scan_error_iff outbox_status.scan_error_iff posting_direction.scan_error_iff)

end
