(* ===== verification/Sessions.thy ===== *)
theory Sessions
  imports Messages
begin

text \<open>
  Browser sessions (\<^verbatim>\<open>internal/service/auth.go\<close>): random tokens, the session data in Redis under
  \<^verbatim>\<open>session:<token>\<close>, validation with the renewal of the expiry, and logout.
\<close>

section \<open>Tokens\<close>

text \<open>\<^verbatim>\<open>base64.URLEncoding\<close>, with padding.\<close>

definition base64_alphabet :: string where
  "base64_alphabet =
     ''ABCDEFGHIJKLMNOPQRSTUVWXYZabcdefghijklmnopqrstuvwxyz0123456789-_''"

definition base64_char :: "nat \<Rightarrow> char" where
  "base64_char n = base64_alphabet ! n"

fun base64_encode :: "nat list \<Rightarrow> string" where
  "base64_encode [] = []"
| "base64_encode [a] = [base64_char (a div 4), base64_char (a mod 4 * 16), CHR ''='', CHR ''='']"
| "base64_encode [a, b] =
     [base64_char (a div 4), base64_char (a mod 4 * 16 + b div 16), base64_char (b mod 16 * 4),
      CHR ''='']"
| "base64_encode (a # b # c # bs) =
     base64_char (a div 4) # base64_char (a mod 4 * 16 + b div 16)
       # base64_char (b mod 16 * 4 + c div 64) # base64_char (c mod 64) # base64_encode bs"

lemma base64_char_inj: "m < 64 \<Longrightarrow> n < 64 \<Longrightarrow> base64_char m = base64_char n \<longleftrightarrow> m = n"
proof -
  have "distinct base64_alphabet" "length base64_alphabet = 64" by code_simp+
  then show "m < 64 \<Longrightarrow> n < 64 \<Longrightarrow> base64_char m = base64_char n \<longleftrightarrow> m = n"
    by (simp add: base64_char_def nth_eq_iff_index_eq)
qed

lemma digits_eq: "m < (k :: nat) \<Longrightarrow> n < k \<Longrightarrow> a * k + m = b * k + n \<longleftrightarrow> a = b \<and> m = n"
  by (metis Euclidean_Rings.div_eq_0_iff add_cancel_right_right div_mult_self3 mod_less mod_mult_self3
      not_less_zero)

lemma div_mod_eq: "a div k = b div k \<Longrightarrow> a mod k = b mod k \<Longrightarrow> a = (b :: nat)"
  by (metis div_mod_decomp)

text \<open>The four 6-bit groups of three bytes, and that they determine the bytes.\<close>

lemma base64_groups_less:
  assumes "a < 256" "b < 256" "c < (256 :: nat)"
  shows "a div 4 < 64" "a mod 4 * 16 + b div 16 < 64" "b mod 16 * 4 + c div 64 < 64" "c mod 64 < 64"
    "a mod 4 * 16 < 64" "b mod 16 * 4 < 64"
proof -
  have "a mod 4 < 4" "b mod 16 < 16" "b div 16 < 16" "c div 64 < 4" using assms by auto
  then show "a mod 4 * 16 + b div 16 < 64" "b mod 16 * 4 + c div 64 < 64" "a mod 4 * 16 < 64"
    "b mod 16 * 4 < 64" by linarith+
qed (use assms in auto)

lemma base64_group:
  assumes "b < 256" "c < 256" "b' < 256" "c' < (256 :: nat)"
    and "a div 4 = a' div 4" and "a mod 4 * 16 + b div 16 = a' mod 4 * 16 + b' div 16"
    and "b mod 16 * 4 + c div 64 = b' mod 16 * 4 + c' div 64" and "c mod 64 = c' mod 64"
  shows "a = a' \<and> b = b' \<and> c = c'"
proof -
  have "b div 16 < 16" "b' div 16 < 16" "c div 64 < 4" "c' div 64 < 4" using assms(1-4) by auto
  with assms(6,7) have "a mod 4 = a' mod 4" "b div 16 = b' div 16" "b mod 16 = b' mod 16"
    "c div 64 = c' div 64"
    by (simp_all add: digits_eq)
  with assms(5,8) show ?thesis using div_mod_eq by metis
qed

text \<open>Two byte strings of the same length, a multiple of three or not, have different encodings.\<close>

lemma base64_encode_inj:
  "length xs = length ys \<Longrightarrow> \<forall>b \<in> set xs \<union> set ys. b < 256 \<Longrightarrow>
     base64_encode xs = base64_encode ys \<Longrightarrow> xs = ys"
proof (induction xs arbitrary: ys rule: base64_encode.induct)
  case (2 a)
  then obtain a' where ys: "ys = [a']" by (cases ys) auto
  have r: "a < 256" "a' < 256" using 2(2) by (auto simp: ys)
  have "a div 4 = a' div 4" "a mod 4 = a' mod 4"
    using 2(3) base64_groups_less [of a 0 0] base64_groups_less [of a' 0 0] r
    by (simp_all add: ys base64_char_inj)
  then show ?case using div_mod_eq ys by metis
next
  case (3 a b)
  then have "length ys = Suc (Suc 0)" by simp
  then obtain a' b' where ys: "ys = [a', b']" by (metis length_0_conv length_Suc_conv)
  have r: "a < 256" "b < 256" "a' < 256" "b' < 256" using 3(2) by (auto simp: ys)
  have "a div 4 = a' div 4" "a mod 4 * 16 + b div 16 = a' mod 4 * 16 + b' div 16"
    "b mod 16 * 4 + 0 div 64 = b' mod 16 * 4 + 0 div 64"
    using 3(3) base64_groups_less [of a b 0] base64_groups_less [of a' b' 0] r
    by (simp_all add: ys base64_char_inj)
  with base64_group [of b 0 b' 0 a a'] r have "a = a' \<and> b = b'" by simp
  then show ?case by (simp add: ys)
next
  case (4 a b c bs)
  then have "length ys = Suc (Suc (Suc (length bs)))" by simp
  then obtain a' b' c' ys' where ys: "ys = a' # b' # c' # ys'" by (metis length_Suc_conv)
  have r: "a < 256" "b < 256" "c < 256" "a' < 256" "b' < 256" "c' < 256"
    using 4(3) by (auto simp: ys)
  have "a div 4 = a' div 4" "a mod 4 * 16 + b div 16 = a' mod 4 * 16 + b' div 16"
    "b mod 16 * 4 + c div 64 = b' mod 16 * 4 + c' div 64" "c mod 64 = c' mod 64"
    "base64_encode bs = base64_encode ys'"
    using 4(4) base64_groups_less [of a b c] base64_groups_less [of a' b' c'] r
    by (simp_all add: ys base64_char_inj)
  moreover from this have "a = a' \<and> b = b' \<and> c = c'" by (intro base64_group) (rule r)+
  moreover have "bs = ys'" by (rule 4(1)) (use 4(2,3) calculation(5) in \<open>auto simp: ys\<close>)
  ultimately show ?case by (simp add: ys)
qed simp

section \<open>Session data\<close>

record SessionData =
  sd_Role :: string
  sd_TenantID :: uuid

definition encode_SessionData :: "formats \<Rightarrow> SessionData \<Rightarrow> json" where
  "encode_SessionData F s =
     JObj [(''role'', JStr (sd_Role s)), (''tenant_id'', encode_uuid F (sd_TenantID s))]"

definition session_field :: "formats \<Rightarrow> string \<Rightarrow> json \<Rightarrow> SessionData \<Rightarrow> SessionData option" where
  "session_field F k v s =
     (if key_is k ''role'' then map_option (\<lambda>x. s\<lparr>sd_Role := x\<rparr>) (decode_string v (sd_Role s))
      else if key_is k ''tenant_id''
        then map_option (\<lambda>x. s\<lparr>sd_TenantID := x\<rparr>) (decode_uuid F v (sd_TenantID s))
      else Some s)"

fun unmarshal_SessionData :: "formats \<Rightarrow> payload \<Rightarrow> SessionData option" where
  "unmarshal_SessionData F (Raw s) = None"
| "unmarshal_SessionData F (Doc j) =
     decode_struct (session_field F) j \<lparr>sd_Role = '''', sd_TenantID = uuid_Nil\<rparr>"

lemma unmarshal_encode_session:
  assumes "formats_ok F"
  shows "unmarshal_SessionData F (Doc (encode_SessionData F s)) = Some s"
  by (simp add: encode_SessionData_def session_field_def key_is_def ascii_lower_def
      decode_encode_uuid [OF assms])

section \<open>Operations\<close>

datatype auth_error =
    ErrInvalidSession
  | AuthError string string        \<comment> \<open>\<^verbatim>\<open>fmt.Errorf("context: %w", err)\<close>\<close>

definition sessionKeyPrefix :: string where
  "sessionKeyPrefix = ''session:''"

text \<open>\<open>rnd\<close> is what \<^verbatim>\<open>crypto/rand\<close> returns: an error or 32 bytes.\<close>

definition CreateSession ::
  "formats \<Rightarrow> 'r redis \<Rightarrow> int \<Rightarrow> string + nat list \<Rightarrow> string \<Rightarrow> uuid \<Rightarrow> 'r
    \<Rightarrow> (auth_error + string) \<times> 'r" where
  "CreateSession F R sessionTTL rnd role tenantID r =
     (case rnd of
        Inl e \<Rightarrow> (Inl (AuthError ''generate random token'' e), r)
      | Inr b \<Rightarrow>
          (let token = base64_encode b;
               data = Doc (encode_SessionData F \<lparr>sd_Role = role, sd_TenantID = tenantID\<rparr>);
               key = sessionKeyPrefix @ token in
           case rd_Set R key data sessionTTL r of
             (Some e, r') \<Rightarrow> (Inl (AuthError ''store session in redis'' e), r')
           | (None, r') \<Rightarrow> (Inr token, r')))"

text \<open>The value of an old session is a bare role, which is not JSON.\<close>

definition legacy_session :: "payload \<Rightarrow> SessionData option" where
  "legacy_session data =
     (if data = Raw ''admin'' then Some \<lparr>sd_Role = ''admin'', sd_TenantID = uuid_Nil\<rparr>
      else if data = Raw ''write'' then Some \<lparr>sd_Role = ''write'', sd_TenantID = uuid_Nil\<rparr>
      else if data = Raw ''read'' then Some \<lparr>sd_Role = ''read'', sd_TenantID = uuid_Nil\<rparr>
      else None)"

definition ValidateSession ::
  "formats \<Rightarrow> 'r redis \<Rightarrow> int \<Rightarrow> string \<Rightarrow> 'r \<Rightarrow> (auth_error + SessionData) \<times> 'r" where
  "ValidateSession F R sessionTTL token r =
     (let key = sessionKeyPrefix @ token in
      case rd_GetExpire R key sessionTTL r of
        (RNil, r') \<Rightarrow> (Inl ErrInvalidSession, r')
      | (RErr e, r') \<Rightarrow> (Inl (AuthError ''pipeline exec'' e), r')
      | (RVal data, r') \<Rightarrow>
          (case unmarshal_SessionData F data of
             Some sessionData \<Rightarrow> (Inr sessionData, r')
           | None \<Rightarrow>
               (case legacy_session data of
                  Some sessionData \<Rightarrow> (Inr sessionData, r')
                | None \<Rightarrow> (Inl (AuthError ''unmarshal session'' ''''), r'))))"

definition RevokeSession :: "'r redis \<Rightarrow> string \<Rightarrow> 'r \<Rightarrow> auth_error option \<times> 'r" where
  "RevokeSession R token r =
     (case rd_Del R (sessionKeyPrefix @ token) r of
        (Some e, r') \<Rightarrow> (Some (AuthError ''delete session'' e), r')
      | (None, r') \<Rightarrow> (None, r'))"

section \<open>What a session is\<close>

text \<open>The value under a token's key, and how \<^verbatim>\<open>ValidateSession\<close> reads it.\<close>

definition session_value :: "'r redis \<Rightarrow> 'r \<Rightarrow> string \<Rightarrow> payload option" where
  "session_value R r token = rd_store R r (sessionKeyPrefix @ token)"

definition read_session :: "formats \<Rightarrow> payload \<Rightarrow> SessionData option" where
  "read_session F data =
     (case unmarshal_SessionData F data of Some s \<Rightarrow> Some s | None \<Rightarrow> legacy_session data)"

text \<open>What may happen to the sessions, one call at a time.\<close>

datatype session_op =
    OpCreate "string + nat list" string uuid
  | OpValidate string
  | OpRevoke string

fun session_exec :: "formats \<Rightarrow> 'r redis \<Rightarrow> int \<Rightarrow> session_op \<Rightarrow> 'r \<Rightarrow> 'r" where
  "session_exec F R ttl (OpCreate rnd role tid) r = snd (CreateSession F R ttl rnd role tid r)"
| "session_exec F R ttl (OpValidate t) r = snd (ValidateSession F R ttl t r)"
| "session_exec F R ttl (OpRevoke t) r = snd (RevokeSession R t r)"

fun op_token :: "session_op \<Rightarrow> string option" where
  "op_token (OpCreate (Inr b) _ _) = Some (base64_encode b)"
| "op_token _ = None"

text \<open>
  The contract of a session store, as the authentication middleware relies on it: a session that
  validates is stored, and a call that does not create a token leaves its session or loses it.
\<close>

locale session_store =
  fixes stored :: "'s \<Rightarrow> string \<Rightarrow> 'v option"
    and parse :: "'v \<Rightarrow> 'd option"
    and exec :: "'op \<Rightarrow> 's \<Rightarrow> 's"
    and token_of :: "'op \<Rightarrow> string option"
    and validate :: "string \<Rightarrow> 's \<Rightarrow> 'e + 'd"
    and rejection :: "'e \<Rightarrow> bool"
  assumes exec_keeps: "token_of op \<noteq> Some t \<Longrightarrow> stored (exec op s) t \<in> {stored s t, None}"
    and validate_ok: "validate t s = Inr d \<Longrightarrow> \<exists>v. stored s t = Some v \<and> parse v = Some d"
    and validate_err: "validate t s = Inl e \<Longrightarrow>
      rejection e \<or> (\<exists>v. stored s t = Some v \<and> parse v = None)"
begin

lemma run_keeps:
  assumes "\<forall>op \<in> set ops. token_of op \<noteq> Some t"
  shows "stored (fold exec ops s) t \<in> {stored s t, None}"
  using assms
proof (induction ops arbitrary: s)
  case (Cons op ops)
  have "stored (fold exec ops (exec op s)) t \<in> {stored (exec op s) t, None}"
    using Cons by simp
  moreover have "stored (exec op s) t \<in> {stored s t, None}"
    using Cons.prems exec_keeps by simp
  ultimately show ?case by auto
qed simp

lemma created_validates:
  assumes "stored s t \<in> {Some v, None}" and "parse v = Some d"
    and "\<forall>op \<in> set ops. token_of op \<noteq> Some t"
  shows "case validate t (fold exec ops s) of Inr d' \<Rightarrow> d' = d | Inl e \<Rightarrow> rejection e"
proof -
  let ?s = "fold exec ops s"
  have v: "stored ?s t \<in> {Some v, None}" using run_keeps [OF assms(3), of s] assms(1) by auto
  show ?thesis
  proof (cases "validate t ?s")
    case (Inl e)
    with validate_err [OF Inl] v assms(2) show ?thesis by auto
  next
    case (Inr d')
    with validate_ok [OF Inr] v assms(2) show ?thesis by auto
  qed
qed

lemma gone_never_validates:
  assumes "stored s t = None" and "\<forall>op \<in> set ops. token_of op \<noteq> Some t"
  shows "\<exists>e. validate t (fold exec ops s) = Inl e \<and> rejection e"
proof -
  let ?s = "fold exec ops s"
  have "stored ?s t = None" using run_keeps [OF assms(2), of s] assms(1) by auto
  then show ?thesis
    using validate_ok [of t ?s] validate_err [of t ?s] by (cases "validate t ?s") auto
qed

end

section \<open>The sessions keep the contract\<close>

lemma session_key [simp]: "sessionKeyPrefix @ a = sessionKeyPrefix @ b \<longleftrightarrow> a = b"
  by simp

lemma may_expire_in: "may_expire m m' \<Longrightarrow> m' k \<in> {m k, None}"
  using may_expire_Some [of m m' k] by (cases "m' k") auto

lemma CreateSession_value:
  assumes "redis_ok R" and "CreateSession F R ttl (Inr b) role tid r = (res, r')"
  shows "session_value R r' (base64_encode b)
      \<in> {Some (Doc (encode_SessionData F \<lparr>sd_Role = role, sd_TenantID = tid\<rparr>)), None,
         if is_ok res then None else session_value R r (base64_encode b)}"
    and "t \<noteq> base64_encode b \<Longrightarrow> session_value R r' t \<in> {session_value R r t, None}"
    and "is_ok res \<Longrightarrow> res = Inr (base64_encode b)"
proof -
  let ?k = "sessionKeyPrefix @ base64_encode b"
  let ?v = "Doc (encode_SessionData F \<lparr>sd_Role = role, sd_TenantID = tid\<rparr>)"
  obtain e where e: "rd_Set R ?k ?v ttl r = (e, r')"
      "res = (case e of None \<Rightarrow> Inr (base64_encode b)
                      | Some e' \<Rightarrow> Inl (AuthError ''store session in redis'' e'))"
    using assms(2)
    by (auto simp: CreateSession_def Let_def split: prod.splits option.splits)
  have "may_expire ((rd_store R r)(?k \<mapsto> ?v)) (rd_store R r')
      \<or> e \<noteq> None \<and> may_expire (rd_store R r) (rd_store R r')"
    using assms(1) e(1) unfolding redis_ok_def set_law_def by blast
  then have law: "rd_store R r' k \<in> {((rd_store R r)(?k \<mapsto> ?v)) k, None}
      \<or> e \<noteq> None \<and> rd_store R r' k \<in> {rd_store R r k, None}" for k
    using may_expire_in by metis
  show "session_value R r' (base64_encode b)
      \<in> {Some ?v, None, if is_ok res then None else session_value R r (base64_encode b)}"
    using law [of ?k] e(2) by (auto simp: session_value_def)
  show "session_value R r' t \<in> {session_value R r t, None}" if "t \<noteq> base64_encode b"
    using law [of "sessionKeyPrefix @ t"] that by (auto simp: session_value_def)
  show "res = Inr (base64_encode b)" if "is_ok res"
    using that e(2) by (auto split: option.splits)
qed

lemma ValidateSession_keeps:
  assumes "redis_ok R" and "ValidateSession F R ttl t r = (res, r')"
  shows "session_value R r' u \<in> {session_value R r u, None}"
proof -
  obtain rep where "rd_GetExpire R (sessionKeyPrefix @ t) ttl r = (rep, r')"
    using assms(2)
    by (auto simp: ValidateSession_def Let_def split: prod.splits option.splits redis_reply.splits)
  then have "may_expire (rd_store R r) (rd_store R r')"
    using assms(1) unfolding redis_ok_def get_expire_law_def by blast
  then show ?thesis using may_expire_in unfolding session_value_def by metis
qed

lemma RevokeSession_keeps:
  assumes "redis_ok R" and "RevokeSession R t r = (e, r')"
  shows "session_value R r' u \<in> {session_value R r u, None}"
    and "e = None \<Longrightarrow> session_value R r' t = None"
proof -
  obtain e' where d: "rd_Del R (sessionKeyPrefix @ t) r = (e', r')" "e = None \<longleftrightarrow> e' = None"
    using assms(2) by (auto simp: RevokeSession_def split: prod.splits option.splits)
  then have l: "may_expire (rd_store R r) (rd_store R r')"
      "e' = None \<longrightarrow> rd_store R r' (sessionKeyPrefix @ t) = None"
    using assms(1) unfolding redis_ok_def del_law_def by blast+
  then show "session_value R r' u \<in> {session_value R r u, None}"
    using may_expire_in unfolding session_value_def by metis
  show "e = None \<Longrightarrow> session_value R r' t = None"
    using l(2) d(2) by (simp add: session_value_def)
qed

text \<open>A rejection is the error for an unknown session, or a failed command.\<close>

fun session_rejection :: "auth_error \<Rightarrow> bool" where
  "session_rejection ErrInvalidSession = True"
| "session_rejection (AuthError c e) = (c = ''pipeline exec'')"

lemma ValidateSession_result:
  assumes "redis_ok R"
  shows "fst (ValidateSession F R ttl t r) = Inr d \<Longrightarrow>
      \<exists>v. session_value R r t = Some v \<and> read_session F v = Some d"
    and "fst (ValidateSession F R ttl t r) = Inl e \<Longrightarrow>
      session_rejection e \<or> (\<exists>v. session_value R r t = Some v \<and> read_session F v = None)"
proof -
  obtain rep r' where g: "rd_GetExpire R (sessionKeyPrefix @ t) ttl r = (rep, r')"
    by (cases "rd_GetExpire R (sessionKeyPrefix @ t) ttl r")
  have law: "case rep of RNil \<Rightarrow> rd_store R r' (sessionKeyPrefix @ t) = None | RErr _ \<Rightarrow> True
      | RVal v \<Rightarrow> rd_store R r (sessionKeyPrefix @ t) = Some v
          \<and> (0 < ttl \<longrightarrow> rd_store R r' (sessionKeyPrefix @ t) = Some v)"
    using assms g unfolding redis_ok_def get_expire_law_def by blast
  show "fst (ValidateSession F R ttl t r) = Inr d \<Longrightarrow>
      \<exists>v. session_value R r t = Some v \<and> read_session F v = Some d"
    using law by (auto simp: ValidateSession_def Let_def g session_value_def read_session_def
        split: redis_reply.splits option.splits)
  show "fst (ValidateSession F R ttl t r) = Inl e \<Longrightarrow>
      session_rejection e \<or> (\<exists>v. session_value R r t = Some v \<and> read_session F v = None)"
    using law by (auto simp: ValidateSession_def Let_def g session_value_def read_session_def
        split: redis_reply.splits option.splits)
qed

lemma session_exec_keeps:
  assumes "redis_ok R" and "op_token op \<noteq> Some t"
  shows "session_value R (session_exec F R ttl op r) t \<in> {session_value R r t, None}"
proof (cases op)
  case (OpCreate rnd role tid)
  show ?thesis
  proof (cases rnd)
    case (Inl e)
    then show ?thesis by (simp add: OpCreate CreateSession_def)
  next
    case (Inr b)
    with assms(2) OpCreate have "t \<noteq> base64_encode b" by auto
    then show ?thesis
      using CreateSession_value(2) [OF assms(1) surjective_pairing] by (simp add: OpCreate Inr)
  qed
next
  case (OpValidate u)
  then show ?thesis using ValidateSession_keeps [OF assms(1) surjective_pairing] by simp
next
  case (OpRevoke u)
  then show ?thesis using RevokeSession_keeps(1) [OF assms(1) surjective_pairing] by simp
qed

text \<open>Every Redis that keeps its laws makes the sessions a session store.\<close>

lemma sessions_ok:
  assumes "redis_ok R"
  shows "session_store (session_value R) (read_session F) (session_exec F R ttl) op_token
    (\<lambda>t r. fst (ValidateSession F R ttl t r)) session_rejection"
  by unfold_locales
    (use session_exec_keeps [OF assms] ValidateSession_result [OF assms] in blast)+

interpretation memory_sessions:
  session_store "session_value map_redis" "read_session plain_formats"
    "session_exec plain_formats map_redis ttl" op_token
    "\<lambda>t r. fst (ValidateSession plain_formats map_redis ttl t r)" session_rejection
  for ttl
  by (rule sessions_ok [OF map_redis_ok])

section \<open>Properties\<close>

text \<open>Every token created in between is drawn from other random bytes, as many as those of \<open>b\<close>.\<close>

fun draws_other :: "nat list \<Rightarrow> session_op \<Rightarrow> bool" where
  "draws_other b (OpCreate (Inr b') _ _) \<longleftrightarrow>
     b' \<noteq> b \<and> length b' = length b \<and> (\<forall>x \<in> set b' \<union> set b. x < 256)"
| "draws_other b op \<longleftrightarrow> True"

lemma draws_other_token: "draws_other b op \<Longrightarrow> op_token op \<noteq> Some (base64_encode b)"
  using base64_encode_inj by (cases "(b, op)" rule: draws_other.cases) force+

text \<open>
  C30: The session a login creates is the one its token is validated to, whatever happens to other
  sessions in between, whoever revokes what, and whether entries expire or calls to Redis fail: the
  answer is the role and the tenant given to \<^verbatim>\<open>CreateSession\<close>, or else a rejection, never another
  user's session and never a decoding error. Tokens are Base64 texts of random bytes, so other bytes
  give another token.
\<close>

theorem created_session_validates:
  assumes "redis_ok R" and "formats_ok F"
    and "CreateSession F R ttl (Inr b) role tenantID r = (Inr t, r1)"
    and "\<forall>op \<in> set ops. draws_other b op"
  shows "case fst (ValidateSession F R ttl t (fold (session_exec F R ttl) ops r1)) of
      Inr s \<Rightarrow> s = \<lparr>sd_Role = role, sd_TenantID = tenantID\<rparr>
    | Inl e \<Rightarrow> session_rejection e"
proof -
  have t: "t = base64_encode b" using CreateSession_value(3) [OF assms(1,3)] by simp
  let ?v = "Doc (encode_SessionData F \<lparr>sd_Role = role, sd_TenantID = tenantID\<rparr>)"
  have "session_value R r1 t \<in> {Some ?v, None}"
    using CreateSession_value(1) [OF assms(1,3)] by (simp add: t)
  moreover have "read_session F ?v = Some \<lparr>sd_Role = role, sd_TenantID = tenantID\<rparr>"
    unfolding read_session_def unmarshal_encode_session [OF assms(2)] by simp
  moreover have "\<forall>op \<in> set ops. op_token op \<noteq> Some t"
    using assms(4) draws_other_token t by blast
  ultimately show ?thesis
    by (rule session_store.created_validates [OF sessions_ok [OF assms(1)]])
qed

definition sample_bytes :: "nat list" where
  "sample_bytes = replicate 32 7"

lemma sample_tokens_differ:
  "base64_encode (replicate 32 n) = base64_encode sample_bytes \<longleftrightarrow> n = 7" if "n < 256"
proof -
  have "replicate 32 n = sample_bytes" if "base64_encode (replicate 32 n) = base64_encode sample_bytes"
    by (rule base64_encode_inj [OF _ _ that]) (use \<open>n < 256\<close> in \<open>auto simp: sample_bytes_def\<close>)
  then show ?thesis by (auto simp: sample_bytes_def)
qed

lemma ok_case: "(case x of Inr s \<Rightarrow> s = d | Inl e \<Rightarrow> P e) \<Longrightarrow> is_ok x \<Longrightarrow> x = Inr d"
  by (cases x) auto

lemma sample_session_alive:
  "is_ok (fst (ValidateSession plain_formats map_redis 1 (base64_encode sample_bytes)
      (fold (session_exec plain_formats map_redis 1)
        [OpCreate (Inr (replicate 32 1)) ''read'' 0, OpRevoke (base64_encode (replicate 32 2))]
        (snd (CreateSession plain_formats map_redis 1 (Inr sample_bytes) ''write'' 9 Map.empty)))))"
  using sample_tokens_differ [of 1] sample_tokens_differ [of 2]
  by (simp add: CreateSession_def RevokeSession_def ValidateSession_def Let_def map_redis_def
      unmarshal_encode_session [OF plain_formats_ok] del: unmarshal_SessionData.simps)

theorem created_session_validates_witness:
  "fst (ValidateSession plain_formats map_redis 1 (base64_encode sample_bytes)
      (fold (session_exec plain_formats map_redis 1)
        [OpCreate (Inr (replicate 32 1)) ''read'' 0, OpRevoke (base64_encode (replicate 32 2))]
        (snd (CreateSession plain_formats map_redis 1 (Inr sample_bytes) ''write'' 9 Map.empty))))
    = Inr \<lparr>sd_Role = ''write'', sd_TenantID = 9\<rparr>"
proof -
  let ?b = sample_bytes
  let ?ops = "[OpCreate (Inr (replicate 32 1)) ''read'' 0, OpRevoke (base64_encode (replicate 32 2))]"
  let ?res = "fst (ValidateSession plain_formats map_redis 1 (base64_encode ?b)
      (fold (session_exec plain_formats map_redis 1) ?ops
        (snd (CreateSession plain_formats map_redis 1 (Inr ?b) ''write'' 9 Map.empty))))"
  have c: "CreateSession plain_formats map_redis 1 (Inr ?b) ''write'' 9 Map.empty =
      (Inr (base64_encode ?b),
       snd (CreateSession plain_formats map_redis 1 (Inr ?b) ''write'' 9 Map.empty))"
    by (simp add: CreateSession_def map_redis_def Let_def)
  have "\<forall>op \<in> set ?ops. draws_other ?b op"
    by (simp add: sample_bytes_def)
  from created_session_validates [OF map_redis_ok plain_formats_ok c this]
  have "case ?res of Inr s \<Rightarrow> s = \<lparr>sd_Role = ''write'', sd_TenantID = 9\<rparr>
    | Inl e \<Rightarrow> session_rejection e" .
  moreover have "is_ok ?res" by (rule sample_session_alive)
  ultimately show ?thesis by (rule ok_case)
qed

text \<open>
  C31: After a logout that reached Redis the token is never accepted again, whatever else happens to
  other sessions, as long as no new session draws the same random bytes: every validation is rejected.
\<close>

theorem revoked_session_rejected:
  assumes "redis_ok R" and "RevokeSession R (base64_encode b) r = (None, r1)"
    and "\<forall>op \<in> set ops. draws_other b op"
  shows "\<exists>e. fst (ValidateSession F R ttl (base64_encode b)
      (fold (session_exec F R ttl) ops r1)) = Inl e \<and> session_rejection e"
proof (rule session_store.gone_never_validates [OF sessions_ok [OF assms(1)]])
  show "session_value R r1 (base64_encode b) = None"
    using RevokeSession_keeps(2) [OF assms(1,2)] by simp
  show "\<forall>op \<in> set ops. op_token op \<noteq> Some (base64_encode b)"
    using assms(3) draws_other_token by blast
qed

theorem revoked_session_rejected_witness:
  "\<exists>e. fst (ValidateSession plain_formats map_redis 1 (base64_encode sample_bytes)
      (snd (RevokeSession map_redis (base64_encode sample_bytes)
        (snd (CreateSession plain_formats map_redis 1 (Inr sample_bytes) ''write'' 9 Map.empty)))))
    = Inl e \<and> session_rejection e"
  using revoked_session_rejected [OF map_redis_ok, where ops = "[]" and b = sample_bytes]
  by (simp add: RevokeSession_def map_redis_def)

end
