(* ===== verification/Documents.thy ===== *)
theory Documents
  imports Sample "HOL-Library.Multiset"
begin

text \<open>
  Documents attached to transactions: the object storage wrapper
  (\<^verbatim>\<open>internal/service/storage.go\<close>) and the document operations of the ledger service. The AWS SDK is
  a parameter: \<open>st_PutObject\<close> and \<open>st_Presign\<close>, with what the SDK documents of them as \<open>storage_ok\<close>.
\<close>

section \<open>Object storage\<close>

text \<open>
  An object is its content type and its bytes, found under a bucket and a key; \<open>'o\<close> is the state of
  the store. A presigned URL is made locally, for a bucket, a key and a life time in nanoseconds.
\<close>

record 'o storage =
  st_objects :: "'o \<Rightarrow> string \<times> string \<Rightarrow> (string \<times> string) option"
  st_PutObject :: "string \<Rightarrow> string \<Rightarrow> string \<Rightarrow> string \<Rightarrow> 'o \<Rightarrow> string option \<times> 'o"
  st_Presign :: "string \<Rightarrow> string \<Rightarrow> int \<Rightarrow> string + string"

text \<open>
  A PUT that succeeds has stored the object, one that fails may have (an object is replaced as a
  whole), and no PUT touches another key.
\<close>

definition storage_ok :: "'o storage \<Rightarrow> bool" where
  "storage_ok S \<longleftrightarrow> (\<forall>bucket key ct body o1 e o2. st_PutObject S bucket key ct body o1 = (e, o2) \<longrightarrow>
     (st_objects S o2 (bucket, key) = Some (ct, body)
       \<or> e \<noteq> None \<and> st_objects S o2 (bucket, key) = st_objects S o1 (bucket, key))
   \<and> (\<forall>k. k \<noteq> (bucket, key) \<longrightarrow> st_objects S o2 k = st_objects S o1 k))"

record StorageConfig =
  sc_AccountID :: string
  sc_AccessKeyID :: string
  sc_SecretAccessKey :: string
  sc_BucketName :: string
  sc_Endpoint :: string

record StorageService =
  ss_bucketName :: string
  ss_urlExpiry :: int

text \<open>\<open>awsErr\<close> is what loading the default AWS configuration returns.\<close>

definition NewStorageService :: "string option \<Rightarrow> StorageConfig \<Rightarrow> string + StorageService" where
  "NewStorageService awsErr cfg =
     (if sc_AccessKeyID cfg = '''' \<or> sc_SecretAccessKey cfg = '''' \<or> sc_Endpoint cfg = ''''
      then Inl ''storage configuration is incomplete''
      else case awsErr of
        Some e \<Rightarrow> Inl (''load aws config: '' @ e)
      | None \<Rightarrow> Inr \<lparr>ss_bucketName = sc_BucketName cfg, ss_urlExpiry = 15 * 60 * 10 ^ 9\<rparr>)"

definition UploadFile ::
  "'o storage \<Rightarrow> StorageService \<Rightarrow> string \<Rightarrow> string \<Rightarrow> string \<Rightarrow> 'o \<Rightarrow> string option \<times> 'o" where
  "UploadFile S s file objectKey contentType ob =
     (case st_PutObject S (ss_bucketName s) objectKey contentType file ob of
        (Some e, ob') \<Rightarrow> (Some (''put object: '' @ e), ob')
      | (None, ob') \<Rightarrow> (None, ob'))"

definition GetPresignedDownloadURL ::
  "'o storage \<Rightarrow> StorageService \<Rightarrow> string \<Rightarrow> string + string" where
  "GetPresignedDownloadURL S s objectKey =
     (case st_Presign S (ss_bucketName s) objectKey (ss_urlExpiry s) of
        Inl e \<Rightarrow> Inl (''presign object: '' @ e)
      | Inr url \<Rightarrow> Inr url)"

section \<open>Document operations\<close>

text \<open>What a call of \<^verbatim>\<open>AttachDocument\<close> receives from outside.\<close>

record document_env =
  de_now :: int
  de_doc_uuid :: uuid              \<comment> \<open>\<^verbatim>\<open>uuid.New()\<close> for the object key\<close>
  de_row_id :: uuid                \<comment> \<open>the id the database generates\<close>
  de_lookup_fault :: "string option"
  de_insert_fault :: "string option"

text \<open>\<^verbatim>\<open>fmt.Sprintf("docs/%s/%s/%s_%s", ...)\<close>\<close>

definition object_key :: "formats \<Rightarrow> uuid \<Rightarrow> uuid \<Rightarrow> uuid \<Rightarrow> string \<Rightarrow> string" where
  "object_key F tenantID transactionID docID filename =
     ''docs/'' @ uuid_String F tenantID @ ''/'' @ uuid_String F transactionID @ ''/''
       @ uuid_String F docID @ ''_'' @ filename"

text \<open>A URL that cannot be made is logged and left empty.\<close>

definition download_url :: "'o storage \<Rightarrow> StorageService \<Rightarrow> string \<Rightarrow> string" where
  "download_url S s objectKey =
     (case GetPresignedDownloadURL S s objectKey of Inl _ \<Rightarrow> '''' | Inr url \<Rightarrow> url)"

definition document_response :: "Document \<Rightarrow> string \<Rightarrow> DocumentResponse" where
  "document_response doc url =
     \<lparr>dr_ID = doc_ID doc, dr_TransactionID = doc_TransactionID doc, dr_Filename = doc_Filename doc,
      dr_ContentType = doc_ContentType doc, dr_SizeBytes = doc_SizeBytes doc,
      dr_DownloadURL = url, dr_CreatedAt = doc_CreatedAt doc\<rparr>"

definition AttachDocument ::
  "formats \<Rightarrow> 'o storage \<Rightarrow> StorageService \<Rightarrow> document_env \<Rightarrow> uuid \<Rightarrow> uuid \<Rightarrow> string \<Rightarrow> string
    \<Rightarrow> int64 \<Rightarrow> string \<Rightarrow> db \<times> 'o \<Rightarrow> (svc_error + DocumentResponse) \<times> db \<times> 'o" where
  "AttachDocument F S s E tenantID transactionID filename contentType sizeBytes file = (\<lambda>(d, ob).
     case read_query (de_lookup_fault E)
            (q_GetTransactionByID \<lparr>gtp_ID = transactionID, gtp_TenantID = tenantID\<rparr> d) of
       Inl NoRows \<Rightarrow> (Inl (Sentinel ErrTransactionNotFound), d, ob)
     | Inl e \<Rightarrow> (Inl (DbError ''verify transaction'' e), d, ob)
     | Inr _ \<Rightarrow>
         (let objectKey = object_key F tenantID transactionID (de_doc_uuid E) filename in
          case UploadFile S s file objectKey contentType ob of
            (Some e, ob1) \<Rightarrow> (Inl (StoreError ''upload to storage'' e), d, ob1)
          | (None, ob1) \<Rightarrow>
              (case autocommit (de_insert_fault E) (q_CreateDocument (de_row_id E) (de_now E)
                 \<lparr>cdp_TenantID = tenantID, cdp_TransactionID = transactionID,
                  cdp_Filename = filename, cdp_ContentType = contentType,
                  cdp_SizeBytes = sizeBytes, cdp_ObjectKey = objectKey\<rparr>) d of
                 (Inl e, d1) \<Rightarrow> (Inl (DbError ''save document metadata'' e), d1, ob1)
               | (Inr doc, d1) \<Rightarrow>
                   (Inr (document_response doc (download_url S s objectKey)), d1, ob1))))"

definition ListTransactionDocuments ::
  "'o storage \<Rightarrow> StorageService \<Rightarrow> string option \<Rightarrow> uuid \<Rightarrow> uuid \<Rightarrow> db
    \<Rightarrow> svc_error + DocumentResponse list" where
  "ListTransactionDocuments S s flt tenantID transactionID d =
     (case read_query flt (q_GetDocumentsByTransaction
             \<lparr>gdt_TransactionID = transactionID, gdt_TenantID = tenantID\<rparr> d) of
        Inl e \<Rightarrow> Inl (DbError ''get documents'' e)
      | Inr docs \<Rightarrow>
          Inr (map (\<lambda>doc. document_response doc (download_url S s (doc_ObjectKey doc))) docs))"

section \<open>What attaching a document does\<close>

definition new_document ::
  "formats \<Rightarrow> document_env \<Rightarrow> uuid \<Rightarrow> uuid \<Rightarrow> string \<Rightarrow> string \<Rightarrow> int64 \<Rightarrow> Document" where
  "new_document F E tenantID transactionID filename contentType sizeBytes =
     \<lparr>doc_ID = de_row_id E, doc_TransactionID = transactionID, doc_Filename = filename,
      doc_ContentType = contentType, doc_SizeBytes = sizeBytes,
      doc_ObjectKey = object_key F tenantID transactionID (de_doc_uuid E) filename,
      doc_CreatedAt = Some (de_now E), doc_TenantID = tenantID\<rparr>"

lemma rollback_same [simp]: "rollback_db d d = d"
  by (simp add: rollback_db_def)

lemma autocommit_CreateDocument:
  assumes "db_deferred d = []" and "autocommit flt (q_CreateDocument i now arg) d = (res, d')"
  shows "case res of
      Inl e \<Rightarrow> d' = d
    | Inr doc \<Rightarrow> flt = None \<and> d' = put_document doc d \<and> doc =
        \<lparr>doc_ID = i, doc_TransactionID = cdp_TransactionID arg, doc_Filename = cdp_Filename arg,
         doc_ContentType = cdp_ContentType arg, doc_SizeBytes = cdp_SizeBytes arg,
         doc_ObjectKey = cdp_ObjectKey arg, doc_CreatedAt = Some now,
         doc_TenantID = cdp_TenantID arg\<rparr>"
  using assms
  by (auto simp: autocommit_def q_CreateDocument_def insert_row_Inr insert_row_Inl commit_db_def
      put_document_def rollback_db_def simp del: first_violation.simps
      split: option.splits sum.splits prod.splits)

text \<open>The two outcomes: a new row whose object is stored, or an error and the same tables.\<close>

lemma AttachDocument_cases:
  assumes "db_deferred d = []"
    and "AttachDocument F S s E T t filename ct sz file (d, ob) = (res, d', ob')"
  obtains (failed) err where "res = Inl err" "d' = d"
      "ob' = ob \<or> ob' = snd (UploadFile S s file (object_key F T t (de_doc_uuid E) filename) ct ob)"
  | (attached) row where "row = new_document F E T t filename ct sz"
      "res = Inr (document_response row (download_url S s (doc_ObjectKey row)))"
      "d' = put_document row d" "UploadFile S s file (doc_ObjectKey row) ct ob = (None, ob')"
      "\<exists>x \<in> set (db_transactions d). tx_ID x = t \<and> tx_TenantID x = T"
proof (cases "read_query (de_lookup_fault E) (q_GetTransactionByID \<lparr>gtp_ID = t, gtp_TenantID = T\<rparr> d)")
  case (Inl e)
  then show ?thesis using assms(2) by (intro failed [of "projl res"]) (auto simp: AttachDocument_def split: pg_error.splits)
next
  case (Inr x)
  then have x: "\<exists>x \<in> set (db_transactions d). tx_ID x = t \<and> tx_TenantID x = T"
    by (auto simp: read_query_def q_GetTransactionByID_def split: option.splits
        dest!: query_one_Inr)
  let ?key = "object_key F T t (de_doc_uuid E) filename"
  obtain e ob1 where up: "UploadFile S s file ?key ct ob = (e, ob1)" by fastforce
  show ?thesis
  proof (cases e)
    case (Some e')
    then show ?thesis using assms(2) Inr up by (intro failed [of "projl res"]) (auto simp: AttachDocument_def Let_def)
  next
    case None
    obtain r d1 where ins: "autocommit (de_insert_fault E) (q_CreateDocument (de_row_id E) (de_now E)
        \<lparr>cdp_TenantID = T, cdp_TransactionID = t, cdp_Filename = filename, cdp_ContentType = ct,
         cdp_SizeBytes = sz, cdp_ObjectKey = ?key\<rparr>) d = (r, d1)" by fastforce
    from autocommit_CreateDocument [OF assms(1) ins] show ?thesis
    proof (cases r)
      case (Inl e')
      with autocommit_CreateDocument [OF assms(1) ins] show ?thesis
        using assms(2) Inr up None ins by (intro failed [of "projl res"]) (auto simp: AttachDocument_def Let_def)
    next
      case row: (Inr doc)
      with autocommit_CreateDocument [OF assms(1) ins] show ?thesis
        using assms(2) Inr up None ins x
        by (intro attached [of doc]) (auto simp: AttachDocument_def Let_def new_document_def)
    qed
  qed
qed

section \<open>Properties\<close>

text \<open>No row of \<^verbatim>\<open>documents\<close> without its object.\<close>

definition documents_stored :: "'o storage \<Rightarrow> StorageService \<Rightarrow> db \<Rightarrow> 'o \<Rightarrow> bool" where
  "documents_stored S s d ob \<longleftrightarrow>
     (\<forall>doc \<in> set (db_documents d). st_objects S ob (ss_bucketName s, doc_ObjectKey doc) \<noteq> None)"

lemma UploadFile_stores:
  assumes "storage_ok S" and "UploadFile S s file key ct ob = (e, ob')"
  shows "st_objects S ob' (ss_bucketName s, key) = Some (ct, file)
      \<or> e \<noteq> None \<and> st_objects S ob' (ss_bucketName s, key) = st_objects S ob (ss_bucketName s, key)"
    and "\<forall>k. k \<noteq> (ss_bucketName s, key) \<longrightarrow> st_objects S ob' k = st_objects S ob k"
proof -
  obtain e' where p: "st_PutObject S (ss_bucketName s) key ct file ob = (e', ob')"
      "e = None \<longleftrightarrow> e' = None"
    using assms(2) by (auto simp: UploadFile_def split: prod.splits option.splits)
  from assms(1) p(1)
  have "(st_objects S ob' (ss_bucketName s, key) = Some (ct, file)
        \<or> e' \<noteq> None \<and> st_objects S ob' (ss_bucketName s, key) = st_objects S ob (ss_bucketName s, key))
      \<and> (\<forall>k. k \<noteq> (ss_bucketName s, key) \<longrightarrow> st_objects S ob' k = st_objects S ob k)"
    unfolding storage_ok_def by blast
  with p(2) show "st_objects S ob' (ss_bucketName s, key) = Some (ct, file)
      \<or> e \<noteq> None \<and> st_objects S ob' (ss_bucketName s, key) = st_objects S ob (ss_bucketName s, key)"
    "\<forall>k. k \<noteq> (ss_bucketName s, key) \<longrightarrow> st_objects S ob' k = st_objects S ob k"
    by simp_all
qed

lemma UploadFile_keeps:
  assumes "storage_ok S" and "documents_stored S s d ob"
  shows "documents_stored S s d (snd (UploadFile S s file key ct ob))"
  unfolding documents_stored_def
proof
  fix doc assume "doc \<in> set (db_documents d)"
  then show "st_objects S (snd (UploadFile S s file key ct ob)) (ss_bucketName s, doc_ObjectKey doc)
      \<noteq> None"
    using assms(2) UploadFile_stores [OF assms(1) surjective_pairing [of "UploadFile S s file key ct ob"]]
    by (cases "doc_ObjectKey doc = key") (auto simp: documents_stored_def)
qed

lemma ListTransactionDocuments_eq:
  "ListTransactionDocuments S s None T t d =
     Inr (map (\<lambda>doc. document_response doc (download_url S s (doc_ObjectKey doc)))
       (sort_key (\<lambda>r. ts_key (doc_CreatedAt r))
         (filter (\<lambda>r. doc_TransactionID r = t \<and> doc_TenantID r = T) (db_documents d))))"
  by (simp add: ListTransactionDocuments_def read_query_def q_GetDocumentsByTransaction_def)

lemma AttachDocument_ledger_ok:
  assumes "ledger_ok F d"
    and "AttachDocument F S s E T t filename ct sz file (d, ob) = (res, d', ob')"
  shows "ledger_ok F d'"
proof -
  have quiet: "db_deferred d = []" using assms(1) by (simp add: ledger_ok_def committed_ok_def)
  have ins: "ledger_ok F (snd (autocommit flt (q_CreateDocument i now arg) d))" for flt i now arg
    by (rule CreateDocument.autocommit_ledger_ok [OF assms(1) books_inserts(4)])
  have "d' = d \<or> (\<exists>flt i now arg. d' = snd (autocommit flt (q_CreateDocument i now arg) d))"
    using assms(2)
    by (auto simp: AttachDocument_def Let_def
        split: sum.splits pg_error.splits prod.splits option.splits) (metis snd_conv)+
  with ins assms(1) show ?thesis by auto
qed

lemma AttachDocument_stored:
  assumes "storage_ok S" and "documents_stored S s d ob" and "db_deferred d = []"
    and "AttachDocument F S s E T t filename ct sz file (d, ob) = (res, d', ob')"
  shows "documents_stored S s d' ob'"
proof (rule AttachDocument_cases [OF assms(3,4)])
  fix row
  assume row: "row = new_document F E T t filename ct sz" "d' = put_document row d"
    "UploadFile S s file (doc_ObjectKey row) ct ob = (None, ob')"
  show ?thesis
    using UploadFile_keeps [OF assms(1,2), where ?file = "file" and ?key = "doc_ObjectKey row" and ?ct = "ct"]
      UploadFile_stores(1) [OF assms(1) row(3)]
    by (simp add: documents_stored_def row(2,3) put_document_def)
next
  fix err
  let ?key = "object_key F T t (de_doc_uuid E) filename"
  assume "d' = d" "ob' = ob \<or> ob' = snd (UploadFile S s file ?key ct ob)"
  then show ?thesis using assms(2) UploadFile_keeps [OF assms(1,2)] by auto
qed


text \<open>A store in memory.\<close>

definition map_storage :: "(string \<times> string \<Rightarrow> (string \<times> string) option) storage" where
  "map_storage =
     \<lparr>st_objects = (\<lambda>ob. ob),
      st_PutObject = (\<lambda>bucket key ct body ob. (None, ob((bucket, key) \<mapsto> (ct, body)))),
      st_Presign = (\<lambda>bucket key ttl. Inr (''https://'' @ bucket @ ''/'' @ key))\<rparr>"

lemma map_storage_ok: "storage_ok map_storage"
  by (simp add: storage_ok_def map_storage_def)

definition sample_storage :: StorageService where
  "sample_storage = \<lparr>ss_bucketName = ''receipts'', ss_urlExpiry = 900 * 10 ^ 9\<rparr>"

definition sample_document_env :: document_env where
  "sample_document_env =
     \<lparr>de_now = 9, de_doc_uuid = 300, de_row_id = 301, de_lookup_fault = None,
      de_insert_fault = None\<rparr>"

definition attach_sample ::
  "(svc_error + DocumentResponse) \<times> db \<times> (string \<times> string \<Rightarrow> (string \<times> string) option)" where
  "attach_sample = AttachDocument plain_formats map_storage sample_storage sample_document_env
     sample_tenant 101 ''r.pdf'' ''application/pdf'' 3 ''abc'' (posted_db, Map.empty)"

lemma attach_sample_ok: "is_ok (fst attach_sample)"
  unfolding attach_sample_def by code_simp


end
