(* ===== verification/Http.thy ===== *)
theory Http
  imports Problem Sessions Documents
begin

text \<open>
  The HTTP side of the program: requests with their context, the response writer, the JSON bodies
  and the error responses of \<^verbatim>\<open>internal/api\<close>, and the server a handler runs on. What \<^verbatim>\<open>net/http\<close> parses
  (headers, cookies, query, multipart form) is given as functions of the request.
\<close>

section \<open>Requests\<close>

text \<open>The values the middleware puts into the request context, and the deadline of the context.\<close>

record request_context =
  cx_TraceID :: "string option"
  cx_Role :: "string option"
  cx_TenantID :: "uuid option"
  cx_Deadline :: "int option"

definition GetTraceID :: "request_context \<Rightarrow> string" where
  "GetTraceID ctx = (case cx_TraceID ctx of Some i \<Rightarrow> i | None \<Rightarrow> '''')"

definition GetAPIKeyRole :: "request_context \<Rightarrow> string" where
  "GetAPIKeyRole ctx = (case cx_Role ctx of Some role \<Rightarrow> role | None \<Rightarrow> '''')"

definition GetTenantID :: "request_context \<Rightarrow> uuid" where
  "GetTenantID ctx = (case cx_TenantID ctx of Some i \<Rightarrow> i | None \<Rightarrow> uuid_Nil)"

text \<open>A file part of a multipart form: its name, its Content-Type header, its size, its bytes.\<close>

record form_file =
  ff_Filename :: string
  ff_ContentType :: string
  ff_Size :: int64
  ff_Content :: string

text \<open>
  \<open>rq_Header\<close> and \<open>rq_Query\<close> are \<^verbatim>\<open>Header.Get\<close> and \<^verbatim>\<open>URL.Query().Get\<close> (empty when absent), \<open>rq_Cookie\<close> is
  \<^verbatim>\<open>r.Cookie\<close>, \<open>rq_URLParam\<close> is \<^verbatim>\<open>chi.URLParam\<close>. \<open>rq_Body\<close> is the first JSON value of the body, or the
  bytes of a body that starts with none. \<open>rq_Form\<close> is the result of \<^verbatim>\<open>ParseMultipartForm\<close>: an error, or
  the file parts by field name.
\<close>

record request =
  rq_Method :: string
  rq_Path :: string
  rq_Header :: "string \<Rightarrow> string"
  rq_Cookie :: "string \<Rightarrow> string option"
  rq_Query :: "string \<Rightarrow> string"
  rq_URLParam :: "string \<Rightarrow> string"
  rq_RemoteAddr :: string
  rq_Body :: payload
  rq_Form :: "string + (string \<Rightarrow> form_file option)"
  rq_Context :: request_context

section \<open>The response writer\<close>

record cookie =
  ck_Name :: string
  ck_Value :: string
  ck_Path :: string
  ck_HttpOnly :: bool
  ck_Secure :: bool
  ck_SameSite :: string
  ck_MaxAge :: int
  ck_Expires :: "int option"

text \<open>
  What a client will see: headers, cookies, status, and the JSON values written as the body. After
  \<^verbatim>\<open>WriteHeader\<close> a change of the headers has no effect, nor has a second status.
\<close>

record writer =
  wr_Header :: "string \<Rightarrow> string option"
  wr_Cookies :: "cookie list"
  wr_Status :: "nat option"
  wr_Body :: "json list"

definition new_writer :: writer where
  "new_writer = \<lparr>wr_Header = Map.empty, wr_Cookies = [], wr_Status = None, wr_Body = []\<rparr>"

definition SetHeader :: "string \<Rightarrow> string \<Rightarrow> writer \<Rightarrow> writer" where
  "SetHeader k v w = (if wr_Status w = None then w\<lparr>wr_Header := (wr_Header w)(k \<mapsto> v)\<rparr> else w)"

definition SetCookie :: "cookie \<Rightarrow> writer \<Rightarrow> writer" where
  "SetCookie c w = (if wr_Status w = None then w\<lparr>wr_Cookies := wr_Cookies w @ [c]\<rparr> else w)"

definition WriteHeader :: "nat \<Rightarrow> writer \<Rightarrow> writer" where
  "WriteHeader status w = (if wr_Status w = None then w\<lparr>wr_Status := Some status\<rparr> else w)"

definition write_body :: "json \<Rightarrow> writer \<Rightarrow> writer" where
  "write_body j w = (WriteHeader 200 w)\<lparr>wr_Body := wr_Body w @ [j]\<rparr>"

definition writeJSON :: "nat \<Rightarrow> json \<Rightarrow> writer \<Rightarrow> writer" where
  "writeJSON status data w =
     write_body data
       (WriteHeader status (SetHeader ''Content-Type'' ''application/json; charset=utf-8'' w))"

text \<open>A string or list member with \<^verbatim>\<open>omitempty\<close>.\<close>

definition omit_empty :: "'a list \<Rightarrow> string \<times> json \<Rightarrow> (string \<times> json) list" where
  "omit_empty x m = (if x = [] then [] else [m])"

definition encode_InvalidParam :: "InvalidParam \<Rightarrow> json" where
  "encode_InvalidParam p = JObj [(''name'', JStr (ip_Name p)), (''reason'', JStr (ip_Reason p))]"

definition encode_ProblemDetail :: "ProblemDetail \<Rightarrow> json" where
  "encode_ProblemDetail p =
     JObj ([(''type'', JStr (pd_Type p)), (''title'', JStr (pd_Title p)),
            (''status'', JInt (int (pd_Status p))), (''detail'', JStr (pd_Detail p))]
       @ omit_empty (pd_Instance p) (''instance'', JStr (pd_Instance p))
       @ omit_empty (pd_TraceID p) (''trace_id'', JStr (pd_TraceID p))
       @ omit_empty (pd_InvalidParams p)
           (''invalid_params'', JArr (map encode_InvalidParam (pd_InvalidParams p))))"

definition completed_problem :: "request \<Rightarrow> ProblemDetail \<Rightarrow> ProblemDetail" where
  "completed_problem r problem =
     (let p1 = (if pd_TraceID problem = ''''
                then problem\<lparr>pd_TraceID := GetTraceID (rq_Context r)\<rparr> else problem) in
      if pd_Instance p1 = '''' then p1\<lparr>pd_Instance := rq_Path r\<rparr> else p1)"

definition WriteProblem :: "request \<Rightarrow> ProblemDetail \<Rightarrow> writer \<Rightarrow> writer" where
  "WriteProblem r problem w =
     (let p = completed_problem r problem in
      write_body (encode_ProblemDetail p)
        (WriteHeader (pd_Status p)
          (SetHeader ''Content-Type'' ''application/problem+json; charset=utf-8'' w)))"

section \<open>The server\<close>

record APIKeyEntry =
  ke_Role :: string

text \<open>
  What the handlers are built on: the text forms, Redis, the object storage, bcrypt (a hash is made
  with some salt), the texts of JSON errors, the text of a JSONB value, and the configured life times
  and API keys.
\<close>

record ('r, 'o) app =
  ap_F :: formats
  ap_R :: "'r redis"
  ap_storage :: "'o storage"
  ap_storageService :: StorageService
  ap_bcrypt_Generate :: "nat \<Rightarrow> string \<Rightarrow> string + string"
  ap_bcrypt_Compare :: "string \<Rightarrow> string \<Rightarrow> bool"
  ap_json_error :: "payload \<Rightarrow> string"
  ap_jsonb_text :: "json \<Rightarrow> string"
  ap_idempotencyTTL :: int
  ap_sessionTTL :: int
  ap_keys :: "(string \<times> APIKeyEntry) list"   \<comment> \<open>the map of API keys, each once\<close>

text \<open>
  The state: database and Redis, the object store, and the sorted sets of the rate limiter in Redis.
\<close>

type_synonym zset = "(string \<times> int) list"

record ('r, 'o) server =
  sv_world :: "'r world"
  sv_objects :: 'o
  sv_limits :: "string \<Rightarrow> zset"

text \<open>
  What one request receives from outside: the clock (\<open>re_now\<close> as \<^verbatim>\<open>time.Now\<close> in nanoseconds), the
  generated UUIDs, random bytes and salt, which database calls fail, and the environment of a call of
  \<^verbatim>\<open>CreateTransaction\<close> and of \<^verbatim>\<open>AttachDocument\<close>. \<open>re_limit_error\<close>, \<open>re_limit_expired\<close> and
  \<open>re_limit_rnd\<close> are the outcome of the rate limiter's script on the side of Redis.
\<close>

record request_env =
  re_now :: int
  re_db_now :: int
  re_trace :: uuid
  re_tenant_id :: uuid
  re_user_id :: uuid
  re_rand :: "string + nat list"
  re_salt :: nat
  re_fault1 :: "string option"
  re_fault2 :: "string option"
  re_call :: call_env
  re_document :: document_env
  re_pg_ping :: "string option"
  re_redis_ping :: "string option"
  re_latency :: "string \<Rightarrow> string"
  re_limit_error :: "string option"
  re_limit_expired :: bool
  re_limit_rnd :: int

type_synonym ('r, 'o) handler =
  "request_env \<Rightarrow> request \<Rightarrow> writer \<times> ('r, 'o) server \<Rightarrow> writer \<times> ('r, 'o) server"

abbreviation sv_db :: "('r, 'o) server \<Rightarrow> db" where
  "sv_db s \<equiv> w_db (sv_world s)"

abbreviation sv_redis :: "('r, 'o) server \<Rightarrow> 'r" where
  "sv_redis s \<equiv> w_redis (sv_world s)"

definition set_db :: "db \<Rightarrow> ('r, 'o) server \<Rightarrow> ('r, 'o) server" where
  "set_db d s = s\<lparr>sv_world := (sv_world s)\<lparr>w_db := d\<rparr>\<rparr>"

definition set_redis :: "'r \<Rightarrow> ('r, 'o) server \<Rightarrow> ('r, 'o) server" where
  "set_redis r s = s\<lparr>sv_world := (sv_world s)\<lparr>w_redis := r\<rparr>\<rparr>"

lemma set_db_simps [simp]:
  "sv_db (set_db d s) = d" "sv_redis (set_db d s) = sv_redis s"
  "sv_objects (set_db d s) = sv_objects s" "sv_limits (set_db d s) = sv_limits s"
  by (simp_all add: set_db_def)

lemma set_redis_simps [simp]:
  "sv_db (set_redis r s) = sv_db s" "sv_redis (set_redis r s) = r"
  "sv_objects (set_redis r s) = sv_objects s" "sv_limits (set_redis r s) = sv_limits s"
  by (simp_all add: set_redis_def)

section \<open>Bodies of responses\<close>

text \<open>
  A \<^verbatim>\<open>[]byte\<close> is encoded as standard Base64, whose alphabet differs from the URL alphabet in two
  characters; the metadata of \<^verbatim>\<open>db.Account\<close> and \<^verbatim>\<open>db.Transaction\<close> is such a field.
\<close>

definition base64_std :: "string \<Rightarrow> string" where
  "base64_std s =
     map (\<lambda>c. if c = CHR ''-'' then CHR ''+'' else if c = CHR ''_'' then CHR ''/'' else c)
       (base64_encode (map byte s))"

fun encode_bytes :: "(json \<Rightarrow> string) \<Rightarrow> RawMessage \<Rightarrow> json" where
  "encode_bytes txt None = JNull"
| "encode_bytes txt (Some j) = JStr (base64_std (txt j))"

definition encode_Account :: "formats \<Rightarrow> (json \<Rightarrow> string) \<Rightarrow> Account \<Rightarrow> json" where
  "encode_Account F txt a =
     JObj [(''id'', encode_int64 (acc_ID a)), (''account_name'', JStr (acc_AccountName a)),
           (''account_type'', JStr (acc_AccountType a)), (''currency'', JStr (acc_Currency a)),
           (''metadata'', encode_bytes txt (acc_Metadata a)),
           (''created_at'', encode_ts F (acc_CreatedAt a)),
           (''tenant_id'', encode_uuid F (acc_TenantID a))]"

definition encode_Transaction :: "formats \<Rightarrow> (json \<Rightarrow> string) \<Rightarrow> Transaction \<Rightarrow> json" where
  "encode_Transaction F txt t =
     JObj [(''id'', encode_uuid F (tx_ID t)), (''idempotency_key'', JStr (tx_IdempotencyKey t)),
           (''description'', JStr (tx_Description t)),
           (''metadata'', encode_bytes txt (tx_Metadata t)),
           (''created_at'', encode_ts F (tx_CreatedAt t)),
           (''tenant_id'', encode_uuid F (tx_TenantID t))]"

definition encode_BalanceResponse :: "BalanceResponse \<Rightarrow> json" where
  "encode_BalanceResponse b =
     JObj [(''account_id'', encode_int64 (br_AccountID b)),
           (''total_debits'', encode_int64 (br_TotalDebits b)),
           (''total_credits'', encode_int64 (br_TotalCredits b)),
           (''net_balance'', encode_int64 (br_NetBalance b)), (''currency'', JStr (br_Currency b))]"

definition encode_account_posting :: "formats \<Rightarrow> GetPostingsByAccountIDRow \<Rightarrow> json" where
  "encode_account_posting F r =
     JObj [(''id'', encode_int64 (arow_ID r)), (''tenant_id'', encode_uuid F (arow_TenantID r)),
           (''transaction_id'', encode_uuid F (arow_TransactionID r)),
           (''transaction_description'', JStr (arow_TransactionDescription r)),
           (''account_id'', encode_int64 (arow_AccountID r)),
           (''account_name'', JStr (arow_AccountName r)),
           (''amount'', encode_int64 (arow_Amount r)), (''direction'', JStr (arow_Direction r)),
           (''created_at'', encode_ts F (arow_CreatedAt r))]"

definition encode_DocumentResponse :: "formats \<Rightarrow> DocumentResponse \<Rightarrow> json" where
  "encode_DocumentResponse F r =
     JObj [(''id'', encode_uuid F (dr_ID r)),
           (''transaction_id'', encode_uuid F (dr_TransactionID r)),
           (''filename'', JStr (dr_Filename r)), (''content_type'', JStr (dr_ContentType r)),
           (''size_bytes'', encode_int64 (dr_SizeBytes r)),
           (''download_url'', JStr (dr_DownloadURL r)),
           (''created_at'', encode_ts F (dr_CreatedAt r))]"

section \<open>Bodies of requests\<close>

definition account_request_field ::
  "string \<Rightarrow> json \<Rightarrow> CreateAccountRequest \<Rightarrow> CreateAccountRequest option" where
  "account_request_field k v r =
     (if key_is k ''account_name''
        then map_option (\<lambda>x. r\<lparr>car_AccountName := x\<rparr>) (decode_string v (car_AccountName r))
      else if key_is k ''account_type''
        then map_option (\<lambda>x. r\<lparr>car_AccountType := x\<rparr>) (decode_string v (car_AccountType r))
      else if key_is k ''currency''
        then map_option (\<lambda>x. r\<lparr>car_Currency := x\<rparr>) (decode_string v (car_Currency r))
      else if key_is k ''metadata'' then Some (r\<lparr>car_Metadata := Some v\<rparr>)
      else Some r)"

text \<open>\<^verbatim>\<open>json.NewDecoder(r.Body).Decode\<close>: \<open>None\<close> is any of its errors.\<close>

fun decode_body :: "(string \<Rightarrow> json \<Rightarrow> 's \<Rightarrow> 's option) \<Rightarrow> 's \<Rightarrow> payload \<Rightarrow> 's option" where
  "decode_body f zero (Raw _) = None"
| "decode_body f zero (Doc j) = decode_struct f j zero"

definition unmarshal_CreateAccountRequest :: "payload \<Rightarrow> CreateAccountRequest option" where
  "unmarshal_CreateAccountRequest =
     decode_body account_request_field
       \<lparr>car_AccountName = '''', car_AccountType = '''', car_Currency = '''', car_Metadata = None\<rparr>"

definition posting_entry_field :: "string \<Rightarrow> json \<Rightarrow> PostingEntry \<Rightarrow> PostingEntry option" where
  "posting_entry_field k v p =
     (if key_is k ''account_id''
        then map_option (\<lambda>x. p\<lparr>pe_AccountID := x\<rparr>) (decode_int64 v (pe_AccountID p))
      else if key_is k ''amount''
        then map_option (\<lambda>x. p\<lparr>pe_Amount := x\<rparr>) (decode_int64 v (pe_Amount p))
      else if key_is k ''direction''
        then map_option (\<lambda>x. p\<lparr>pe_Direction := x\<rparr>) (decode_string v (pe_Direction p))
      else Some p)"

text \<open>
  Into a slice: an element is decoded into the one already at its index, as a repeated key leaves it.
\<close>

fun decode_entries :: "json list \<Rightarrow> PostingEntry list \<Rightarrow> PostingEntry list option" where
  "decode_entries [] old = Some []"
| "decode_entries (j # js) old =
     (let start = (case old of p # _ \<Rightarrow> p
                   | [] \<Rightarrow> \<lparr>pe_AccountID = 0, pe_Amount = 0, pe_Direction = ''''\<rparr>) in
      case decode_struct posting_entry_field j start of
        None \<Rightarrow> None
      | Some p \<Rightarrow> map_option (Cons p) (decode_entries js (tl old)))"

fun decode_postings :: "json \<Rightarrow> PostingEntry list \<Rightarrow> PostingEntry list option" where
  "decode_postings (JArr js) old = decode_entries js old"
| "decode_postings JNull old = Some []"
| "decode_postings _ old = None"

definition transaction_request_field ::
  "string \<Rightarrow> json \<Rightarrow> CreateTransactionRequest \<Rightarrow> CreateTransactionRequest option" where
  "transaction_request_field k v r =
     (if key_is k ''idempotency_key''
        then map_option (\<lambda>x. r\<lparr>ctr_IdempotencyKey := x\<rparr>) (decode_string v (ctr_IdempotencyKey r))
      else if key_is k ''description''
        then map_option (\<lambda>x. r\<lparr>ctr_Description := x\<rparr>) (decode_string v (ctr_Description r))
      else if key_is k ''metadata'' then Some (r\<lparr>ctr_Metadata := Some v\<rparr>)
      else if key_is k ''postings''
        then map_option (\<lambda>x. r\<lparr>ctr_Postings := x\<rparr>) (decode_postings v (ctr_Postings r))
      else Some r)"

definition unmarshal_CreateTransactionRequest :: "payload \<Rightarrow> CreateTransactionRequest option" where
  "unmarshal_CreateTransactionRequest =
     decode_body transaction_request_field
       \<lparr>ctr_IdempotencyKey = '''', ctr_Description = '''', ctr_Metadata = None, ctr_Postings = []\<rparr>"

record LoginRequest =
  lr_APIKey :: string
  lr_Email :: string
  lr_Password :: string

definition login_request_field :: "string \<Rightarrow> json \<Rightarrow> LoginRequest \<Rightarrow> LoginRequest option" where
  "login_request_field k v r =
     (if key_is k ''api_key'' then map_option (\<lambda>x. r\<lparr>lr_APIKey := x\<rparr>) (decode_string v (lr_APIKey r))
      else if key_is k ''email'' then map_option (\<lambda>x. r\<lparr>lr_Email := x\<rparr>) (decode_string v (lr_Email r))
      else if key_is k ''password''
        then map_option (\<lambda>x. r\<lparr>lr_Password := x\<rparr>) (decode_string v (lr_Password r))
      else Some r)"

definition unmarshal_LoginRequest :: "payload \<Rightarrow> LoginRequest option" where
  "unmarshal_LoginRequest =
     decode_body login_request_field \<lparr>lr_APIKey = '''', lr_Email = '''', lr_Password = ''''\<rparr>"

record SignupRequest =
  sr_Email :: string
  sr_Password :: string

definition signup_request_field :: "string \<Rightarrow> json \<Rightarrow> SignupRequest \<Rightarrow> SignupRequest option" where
  "signup_request_field k v r =
     (if key_is k ''email'' then map_option (\<lambda>x. r\<lparr>sr_Email := x\<rparr>) (decode_string v (sr_Email r))
      else if key_is k ''password''
        then map_option (\<lambda>x. r\<lparr>sr_Password := x\<rparr>) (decode_string v (sr_Password r))
      else Some r)"

definition unmarshal_SignupRequest :: "payload \<Rightarrow> SignupRequest option" where
  "unmarshal_SignupRequest =
     decode_body signup_request_field \<lparr>sr_Email = '''', sr_Password = ''''\<rparr>"

end
