(* ===== verification/RateLimit.thy ===== *)
theory RateLimit
  imports Http
begin

text \<open>
  The sliding-window rate limiter of \<^verbatim>\<open>internal/api/middleware.go\<close>: the Lua script that runs in Redis
  on one sorted set per client, the middleware around it, and what the sequence of its answers
  promises.
\<close>

section \<open>Times as \<open>float64\<close>\<close>

text \<open>
  Conversion of an integer to \<^verbatim>\<open>float64\<close>: 53 bits, rounded to nearest, ties to even. Its results are
  integers again, so a \<^verbatim>\<open>float64\<close> time stays an \<open>int\<close> in the model.
\<close>

fun bit_length :: "nat \<Rightarrow> nat" where
  "bit_length n = (if n = 0 then 0 else Suc (bit_length (n div 2)))"

declare bit_length.simps [simp del]

definition round53 :: "nat \<Rightarrow> nat" where
  "round53 n =
     (let e = bit_length n - 53; q = n div 2 ^ e; r = n mod 2 ^ e; h = 2 ^ e div 2 in
      if e = 0 then n else (if h < r \<or> r = h \<and> odd q then q + 1 else q) * 2 ^ e)"

definition float64 :: "int \<Rightarrow> int" where
  "float64 i = (if i < 0 then - int (round53 (nat (- i))) else int (round53 (nat i)))"

lemma bit_length_Suc: "0 < n \<Longrightarrow> bit_length n = Suc (bit_length (n div 2))"
  by (subst bit_length.simps) simp

lemma bit_length_0 [simp]: "bit_length 0 = 0"
  by (subst bit_length.simps) simp

lemma bit_length_upper: "n < 2 ^ bit_length n"
proof (induction n rule: less_induct)
  case (less n)
  show ?case
  proof (cases "n = 0")
    case False
    then have "n div 2 < 2 ^ bit_length (n div 2)" by (intro less) simp
    then have "n < 2 * 2 ^ bit_length (n div 2)" by linarith
    with False show ?thesis by (simp add: bit_length_Suc)
  qed simp
qed

lemma bit_length_lower: "bit_length n = Suc k \<Longrightarrow> 2 ^ k \<le> n"
proof (induction k arbitrary: n)
  case 0
  then show ?case by (cases "n = 0") auto
next
  case (Suc k)
  then have "0 < n" by (cases "n = 0") auto
  with Suc.prems have "bit_length (n div 2) = Suc k" by (simp add: bit_length_Suc)
  from Suc.IH [OF this] show ?case by simp
qed

lemma round53_between:
  assumes "e = bit_length n - 53" and "e \<noteq> 0"
  shows "n div 2 ^ e * 2 ^ e \<le> round53 n" and "round53 n \<le> (n div 2 ^ e + 1) * 2 ^ e"
    and "2 ^ 52 \<le> n div 2 ^ e" and "n div 2 ^ e < 2 ^ 53"
proof -
  show "n div 2 ^ e * 2 ^ e \<le> round53 n" "round53 n \<le> (n div 2 ^ e + 1) * 2 ^ e"
    unfolding round53_def Let_def assms(1) [symmetric] using assms(2) by simp_all
  have b: "bit_length n = 53 + e" "bit_length n = Suc (52 + e)" using assms by simp_all
  have "n < 2 ^ (53 + e)" using bit_length_upper [of n] by (simp only: b(1))
  then have "n < 2 ^ 53 * 2 ^ e" by (simp only: power_add)
  then show "n div 2 ^ e < 2 ^ 53" by (simp only: less_mult_imp_div_less)
  have "2 ^ (52 + e) \<le> n" by (rule bit_length_lower [OF b(2)])
  then have "2 ^ 52 * 2 ^ e \<le> n" by (simp only: power_add)
  then have "2 ^ 52 * 2 ^ e div 2 ^ e \<le> n div 2 ^ e" by (rule div_le_mono)
  then show "2 ^ 52 \<le> n div 2 ^ e"
    by (simp only: nonzero_mult_div_cancel_right power_not_zero zero_neq_numeral [symmetric] not_False_eq_True)
qed

lemma round53_small: "bit_length n \<le> 53 \<Longrightarrow> round53 n = n"
  by (simp add: round53_def)

lemma bit_length_mono: "m \<le> n \<Longrightarrow> bit_length m \<le> bit_length n"
proof (induction m arbitrary: n rule: less_induct)
  case (less m)
  show ?case
  proof (cases "m = 0")
    case False
    then have "bit_length (m div 2) \<le> bit_length (n div 2)"
      using less.prems by (intro less) (simp_all add: div_le_mono)
    with False less.prems show ?thesis by (simp add: bit_length_Suc)
  qed simp
qed

lemma round53_mono: "m \<le> n \<Longrightarrow> round53 m \<le> round53 n"
proof -
  assume le: "m \<le> n"
  define e where "e = bit_length m - 53"
  define f where "f = bit_length n - 53"
  have "e \<le> f" using bit_length_mono [OF le] by (simp add: e_def f_def)
  consider "f = 0" | "e = 0" "f \<noteq> 0" | "e \<noteq> 0" "e = f" | "e \<noteq> 0" "e < f"
    using \<open>e \<le> f\<close> by linarith
  then show ?thesis
  proof cases
    case 1
    then show ?thesis using le \<open>e \<le> f\<close> by (simp add: round53_small e_def f_def)
  next
    case 2
    then have "bit_length m \<le> 53" by (simp add: e_def)
    then have "(2 :: nat) ^ bit_length m \<le> 2 ^ 53" by (intro power_increasing) simp_all
    with bit_length_upper [of m] have "m < 2 ^ 53" by linarith
    also have "(2 :: nat) ^ 53 \<le> 2 ^ 52 * 2 ^ f" using 2(2) by (cases f) auto
    also have "\<dots> \<le> n div 2 ^ f * 2 ^ f" using round53_between(3) [OF f_def 2(2)] by simp
    finally show ?thesis using round53_between(1) [OF f_def 2(2)] 2(1)
      by (simp add: round53_small e_def)
  next
    case 3
    have q: "m div 2 ^ f \<le> n div 2 ^ f" using le by (rule div_le_mono)
    show ?thesis
    proof (cases "m div 2 ^ f = n div 2 ^ f")
      case True
      then have "m mod 2 ^ f \<le> n mod 2 ^ f"
        using le by (metis div_mult_mod_eq add_le_cancel_left)
      then show ?thesis using True 3 by (auto simp: round53_def Let_def e_def f_def)
    next
      case False
      with q have "(m div 2 ^ f + 1) * 2 ^ f \<le> n div 2 ^ f * 2 ^ f" by (intro mult_right_mono) auto
      then show ?thesis
        using round53_between(2) [OF e_def 3(1)] round53_between(1) [OF f_def] 3 by simp
    qed
  next
    case 4
    have "round53 m \<le> (m div 2 ^ e + 1) * 2 ^ e" by (rule round53_between(2) [OF e_def 4(1)])
    also have "\<dots> \<le> 2 ^ 53 * 2 ^ e"
      using round53_between(4) [OF e_def 4(1)] by (intro mult_right_mono) auto
    also have "\<dots> = (2 :: nat) ^ 52 * 2 ^ Suc e" by simp
    also have "\<dots> \<le> 2 ^ 52 * 2 ^ f" using 4(2) by (intro mult_left_mono power_increasing) auto
    also have "\<dots> \<le> n div 2 ^ f * 2 ^ f" using round53_between(3) [OF f_def] 4 by simp
    finally show ?thesis using round53_between(1) [OF f_def] 4 by linarith
  qed
qed

lemma float64_mono: "i \<le> j \<Longrightarrow> float64 i \<le> float64 j"
  using round53_mono [of "nat i" "nat j"] round53_mono [of "nat (- j)" "nat (- i)"]
  by (auto simp: float64_def)

section \<open>The script\<close>

text \<open>
  The sorted set holds one member per accepted request, with the time as its score. \<open>txt\<close> is Lua's
  text of a number, \<open>rnd\<close> what \<^verbatim>\<open>math.random\<close> returns. ZADD of a member that is already in the set only
  changes its score. \<open>expired\<close> says that the key had run out before the call.
\<close>

definition zadd :: "string \<Rightarrow> int \<Rightarrow> zset \<Rightarrow> zset" where
  "zadd m score z =
     (if m \<in> fst ` set z then map (\<lambda>(n, s). (n, if n = m then score else s)) z
      else z @ [(m, score)])"

definition zremrangebyscore :: "int \<Rightarrow> zset \<Rightarrow> zset" where
  "zremrangebyscore limit z = filter (\<lambda>(m, s). \<not> s \<le> limit) z"

definition limit_member :: "(int \<Rightarrow> string) \<Rightarrow> int \<Rightarrow> int \<Rightarrow> string" where
  "limit_member txt now rnd = txt now @ '':'' @ show_int rnd"

definition luaScript ::
  "(int \<Rightarrow> string) \<Rightarrow> bool \<Rightarrow> int \<Rightarrow> int \<Rightarrow> int \<Rightarrow> int \<Rightarrow> zset \<Rightarrow> (int \<times> int \<times> int) \<times> zset" where
  "luaScript txt expired rnd window_start now max_requests z0 =
     (let z = zremrangebyscore window_start (if expired then [] else z0);
          current = int (length z) in
      if max_requests \<le> current then ((0, current, max_requests), z)
      else ((1, current + 1, max_requests), zadd (limit_member txt now rnd) now z))"

record RateLimitConfig =
  rl_RequestsPerWindow :: int
  rl_WindowDuration :: int        \<comment> \<open>nanoseconds\<close>

text \<open>One run of the script as the middleware starts it at time \<open>now\<close>.\<close>

definition limit_check ::
  "(int \<Rightarrow> string) \<Rightarrow> RateLimitConfig \<Rightarrow> bool \<Rightarrow> int \<Rightarrow> int \<Rightarrow> zset \<Rightarrow> (int \<times> int \<times> int) \<times> zset" where
  "limit_check txt cfg expired rnd now z =
     luaScript txt expired rnd (float64 (now - rl_WindowDuration cfg)) (float64 now)
       (rl_RequestsPerWindow cfg) z"

section \<open>A sequence of requests of one client\<close>

record limit_event =
  le_now :: int
  le_rnd :: int
  le_expired :: bool

text \<open>Which requests are allowed, in order.\<close>

fun run_limiter ::
  "(int \<Rightarrow> string) \<Rightarrow> RateLimitConfig \<Rightarrow> zset \<Rightarrow> limit_event list \<Rightarrow> bool list" where
  "run_limiter txt cfg z [] = []"
| "run_limiter txt cfg z (e # es) =
     (case limit_check txt cfg (le_expired e) (le_rnd e) (le_now e) z of
        ((allowed, current, limit), z') \<Rightarrow> (allowed = 1) # run_limiter txt cfg z' es)"

text \<open>
  The reference: a request is allowed when fewer than the maximum of the requests allowed so far lie
  in the window that ends with it. \<open>acc\<close> holds their times.
\<close>

definition in_window :: "RateLimitConfig \<Rightarrow> int \<Rightarrow> int list \<Rightarrow> int list" where
  "in_window cfg now acc = filter (\<lambda>s. float64 (now - rl_WindowDuration cfg) < float64 s) acc"

fun window_log :: "RateLimitConfig \<Rightarrow> int list \<Rightarrow> limit_event list \<Rightarrow> bool list" where
  "window_log cfg acc [] = []"
| "window_log cfg acc (e # es) =
     (if int (length (in_window cfg (le_now e) acc)) < rl_RequestsPerWindow cfg
      then True # window_log cfg (acc @ [le_now e]) es
      else False # window_log cfg acc es)"

text \<open>
  What the sequence must satisfy: times do not go back, members are new, and the key expires only when
  all its entries, the requests allowed so far, have left the window.
\<close>

definition event_member :: "(int \<Rightarrow> string) \<Rightarrow> limit_event \<Rightarrow> string" where
  "event_member txt e = limit_member txt (float64 (le_now e)) (le_rnd e)"

fun events_ok ::
  "(int \<Rightarrow> string) \<Rightarrow> RateLimitConfig \<Rightarrow> (string \<times> int) list \<Rightarrow> int \<Rightarrow> limit_event list \<Rightarrow> bool" where
  "events_ok txt cfg acc prev [] = True"
| "events_ok txt cfg acc prev (e # es) \<longleftrightarrow>
     prev \<le> le_now e \<and> event_member txt e \<notin> fst ` set acc
   \<and> (le_expired e \<longrightarrow> (\<forall>(m, s) \<in> set acc. s + rl_WindowDuration cfg \<le> le_now e))
   \<and> events_ok txt cfg
       (if int (length (in_window cfg (le_now e) (map snd acc))) < rl_RequestsPerWindow cfg
        then acc @ [(event_member txt e, le_now e)] else acc) (le_now e) es"

text \<open>The set holds the members of the allowed requests that are still in the window.\<close>

definition live_set :: "RateLimitConfig \<Rightarrow> int \<Rightarrow> (string \<times> int) list \<Rightarrow> zset" where
  "live_set cfg now acc =
     map (\<lambda>(m, s). (m, float64 s))
       (filter (\<lambda>(m, s). float64 (now - rl_WindowDuration cfg) < float64 s) acc)"

lemma zremrangebyscore_live:
  "prev \<le> now \<Longrightarrow>
     zremrangebyscore (float64 (now - rl_WindowDuration cfg)) (live_set cfg prev acc)
       = live_set cfg now acc"
  using float64_mono [of "prev - rl_WindowDuration cfg" "now - rl_WindowDuration cfg"]
  by (auto simp: zremrangebyscore_def live_set_def filter_map comp_def case_prod_beta not_le
      intro!: arg_cong [where f = "map _"] filter_cong)

lemma live_set_expired:
  "\<forall>(m, s) \<in> set acc. s + rl_WindowDuration cfg \<le> now \<Longrightarrow> live_set cfg now acc = []"
proof -
  assume gone: "\<forall>(m, s) \<in> set acc. s + rl_WindowDuration cfg \<le> now"
  have "float64 s \<le> float64 (now - rl_WindowDuration cfg)" if "(m, s) \<in> set acc" for m s
    using gone that by (intro float64_mono) auto
  then show ?thesis by (fastforce simp: live_set_def filter_empty_conv not_less)
qed

lemma live_set_window: "length (live_set cfg now acc) = length (in_window cfg now (map snd acc))"
  by (simp add: live_set_def in_window_def filter_map comp_def case_prod_unfold)

lemma limit_check_live:
  assumes "prev \<le> now" and "expired \<longrightarrow> (\<forall>(m, s) \<in> set acc. s + rl_WindowDuration cfg \<le> now)"
    and "limit_member txt (float64 now) rnd \<notin> fst ` set acc"
  shows "limit_check txt cfg expired rnd now (live_set cfg prev acc) =
    (let current = int (length (in_window cfg now (map snd acc))) in
     if rl_RequestsPerWindow cfg \<le> current
     then ((0, current, rl_RequestsPerWindow cfg), live_set cfg now acc)
     else ((1, current + 1, rl_RequestsPerWindow cfg),
           live_set cfg now acc @ [(limit_member txt (float64 now) rnd, float64 now)]))"
proof -
  have z: "zremrangebyscore (float64 (now - rl_WindowDuration cfg))
      (if expired then [] else live_set cfg prev acc) = live_set cfg now acc"
    using zremrangebyscore_live [OF assms(1), of cfg acc] live_set_expired assms(2)
    by (auto simp: zremrangebyscore_def)
  have "limit_member txt (float64 now) rnd \<notin> fst ` set (live_set cfg now acc)"
    using assms(3) by (force simp: live_set_def)
  then show ?thesis
    by (simp add: limit_check_def luaScript_def Let_def z live_set_window zadd_def)
qed

lemma live_set_new:
  "0 < rl_WindowDuration cfg \<Longrightarrow> float64 (now - rl_WindowDuration cfg) < float64 now \<Longrightarrow>
     live_set cfg now (acc @ [(m, now)]) = live_set cfg now acc @ [(m, float64 now)]"
  by (simp add: live_set_def)

text \<open>
  The window is long enough to be told from nothing in \<^verbatim>\<open>float64\<close>; for the times of this century a
  window of a microsecond is.
\<close>

definition window_visible :: "RateLimitConfig \<Rightarrow> limit_event list \<Rightarrow> bool" where
  "window_visible cfg es \<longleftrightarrow> 0 < rl_WindowDuration cfg
     \<and> (\<forall>e \<in> set es. float64 (le_now e - rl_WindowDuration cfg) < float64 (le_now e))"

lemma run_limiter_window:
  assumes "window_visible cfg es" and "events_ok txt cfg acc prev es"
  shows "run_limiter txt cfg (live_set cfg prev acc) es = window_log cfg (map snd acc) es"
  using assms
proof (induction es arbitrary: acc prev)
  case (Cons e es)
  let ?n = "length (in_window cfg (le_now e) (map snd acc))"
  let ?acc = "if int ?n < rl_RequestsPerWindow cfg then acc @ [(event_member txt e, le_now e)] else acc"
  from Cons.prems have ok: "prev \<le> le_now e" "event_member txt e \<notin> fst ` set acc"
    "le_expired e \<longrightarrow> (\<forall>(m, s) \<in> set acc. s + rl_WindowDuration cfg \<le> le_now e)"
    "events_ok txt cfg ?acc (le_now e) es" "window_visible cfg es"
    by (simp_all add: window_visible_def)
  note step = limit_check_live [OF ok(1,3) ok(2) [unfolded event_member_def]]
  have "live_set cfg (le_now e) (acc @ [(event_member txt e, le_now e)]) =
      live_set cfg (le_now e) acc @ [(event_member txt e, float64 (le_now e))]"
    using Cons.prems(1) by (intro live_set_new) (simp_all add: window_visible_def)
  with Cons.IH [OF ok(5,4)] show ?case
    by (auto simp: step Let_def event_member_def split: if_splits)
qed simp

section \<open>The bound\<close>

text \<open>The times of the allowed requests.\<close>

definition allowed_times :: "bool list \<Rightarrow> limit_event list \<Rightarrow> int list" where
  "allowed_times bs es = map (\<lambda>(b, e). le_now e) (filter fst (zip bs es))"

lemma allowed_times_simps [simp]:
  "allowed_times [] [] = []"
  "allowed_times (b # bs) (e # es) = (if b then [le_now e] else []) @ allowed_times bs es"
  by (simp_all add: allowed_times_def)

lemma length_window_log [simp]: "length (window_log cfg acc es) = length es"
  by (induction es arbitrary: acc) auto

text \<open>Every window that ends with an allowed request holds at most the maximum of them.\<close>

lemma in_window_append [simp]: "in_window cfg t (xs @ ys) = in_window cfg t xs @ in_window cfg t ys"
  by (simp add: in_window_def)

lemma window_log_bound:
  assumes "0 \<le> rl_RequestsPerWindow cfg"
    and "\<forall>t. int (length (in_window cfg t (filter (\<lambda>s. s \<le> t) acc))) \<le> rl_RequestsPerWindow cfg"
    and "sorted (map le_now es)" and "\<forall>s \<in> set acc. \<forall>e \<in> set es. s \<le> le_now e"
  shows "int (length (in_window cfg t (filter (\<lambda>s. s \<le> t)
      (acc @ allowed_times (window_log cfg acc es) es)))) \<le> rl_RequestsPerWindow cfg"
  using assms
proof (induction es arbitrary: acc)
  case (Cons e es)
  let ?max = "rl_RequestsPerWindow cfg" and ?now = "le_now e"
  show ?case
  proof (cases "int (length (in_window cfg ?now acc)) < ?max")
    case False
    with Cons show ?thesis by simp
  next
    case True
    have mono: "length (in_window cfg u xs) \<le> length (in_window cfg ?now xs)" if "?now \<le> u" for u xs
      using float64_mono [of "?now - rl_WindowDuration cfg" "u - rl_WindowDuration cfg"] that
      unfolding in_window_def by (induction xs) auto
    have "int (length (in_window cfg u (filter (\<lambda>s. s \<le> u) (acc @ [?now])))) \<le> ?max" for u
    proof (cases "?now \<le> u")
      case False
      with Cons.prems(2) show ?thesis by simp
    next
      case le: True
      have "length (in_window cfg u (filter (\<lambda>s. s \<le> u) acc)) \<le> length (in_window cfg u acc)"
        unfolding in_window_def by (induction acc) auto
      with mono [OF le, of acc] True le show ?thesis by (simp add: in_window_def)
    qed
    then have "int (length (in_window cfg t (filter (\<lambda>s. s \<le> t)
        ((acc @ [?now]) @ allowed_times (window_log cfg (acc @ [?now]) es) es)))) \<le> ?max"
      using Cons.prems by (intro Cons.IH) auto
    with True show ?thesis by simp
  qed
qed simp

section \<open>Properties\<close>

lemma events_ok_sorted: "events_ok txt cfg acc prev es \<Longrightarrow>
    sorted (map le_now es) \<and> (\<forall>e \<in> set es. prev \<le> le_now e)"
  by (induction es arbitrary: acc prev) fastforce+


definition sample_limit :: RateLimitConfig where
  "sample_limit = \<lparr>rl_RequestsPerWindow = 2, rl_WindowDuration = 10\<rparr>"

definition sample_events :: "limit_event list" where
  "sample_events =
     map (\<lambda>(t, x). \<lparr>le_now = t, le_rnd = 5, le_expired = x\<rparr>)
       [(100, False), (103, False), (105, False), (111, False), (112, False), (140, True)]"


text \<open>
  Requests that get the same member in the sorted set are counted once: with a limit of two or
  more, any number of them is allowed. The member is the text Lua gives the time, which has 14
  significant digits, hence a tenth of a millisecond at present, and a number that Redis draws from a
  generator it seeds alike for every run of a script.
\<close>

theorem same_member_unlimited:
  assumes "2 \<le> rl_RequestsPerWindow cfg" and "\<forall>e \<in> set es. event_member txt e = m"
  shows "run_limiter txt cfg [] es = replicate (length es) True"
proof -
  have "run_limiter txt cfg z es = replicate (length es) True"
    if "z = [] \<or> (\<exists>s. z = [(m, s)])" "\<forall>e \<in> set es. event_member txt e = m" for z es
    using that
  proof (induction es arbitrary: z)
    case (Cons e es)
    have m: "limit_member txt (float64 (le_now e)) (le_rnd e) = m"
      using Cons.prems(2) by (simp add: event_member_def)
    define zz where "zz = zremrangebyscore (float64 (le_now e - rl_WindowDuration cfg))
      (if le_expired e then [] else z)"
    have zz: "zz = [] \<or> (\<exists>s. zz = [(m, s)])"
      using Cons.prems(1) by (cases "le_expired e") (auto simp: zz_def zremrangebyscore_def split: if_splits)
    then have "\<not> rl_RequestsPerWindow cfg \<le> int (length zz)" using assms(1) by auto
    then have "limit_check txt cfg (le_expired e) (le_rnd e) (le_now e) z =
        ((1, int (length zz) + 1, rl_RequestsPerWindow cfg), zadd m (float64 (le_now e)) zz)"
      unfolding limit_check_def luaScript_def Let_def zz_def [symmetric] m by simp
    moreover have "zadd m (float64 (le_now e)) zz = [(m, float64 (le_now e))]"
      using zz by (auto simp: zadd_def)
    ultimately show ?case using Cons by simp
  qed simp
  then show ?thesis using assms(2) by simp
qed

theorem same_member_unlimited_witness:
  "run_limiter (\<lambda>t. show_int (t div 10 ^ 5)) sample_limit []
     (replicate 100 \<lparr>le_now = 1770000000000000000, le_rnd = 5, le_expired = False\<rparr>)
   = replicate 100 True"
  using same_member_unlimited [of sample_limit
      "replicate 100 \<lparr>le_now = 1770000000000000000, le_rnd = 5, le_expired = False\<rparr>"
      "\<lambda>t. show_int (t div 10 ^ 5)"
      "event_member (\<lambda>t. show_int (t div 10 ^ 5))
         \<lparr>le_now = 1770000000000000000, le_rnd = 5, le_expired = False\<rparr>"]
  by (simp add: sample_limit_def)

end
