(* ===== verification/Handlers.thy ===== *)
theory Handlers
  imports Http Validation
begin

text \<open>
  The HTTP handlers (\<^verbatim>\<open>internal/api/handler.go\<close>, \<^verbatim>\<open>auth_handler.go\<close>, \<^verbatim>\<open>document_handler.go\<close>): decoding and
  checking the request, the call of the service, and the status and body of every branch.
\<close>

section \<open>Health\<close>

definition encode_dependency :: "string \<Rightarrow> string \<Rightarrow> string \<Rightarrow> json" where
  "encode_dependency status latency err =
     JObj ([(''status'', JStr status), (''latency'', JStr latency)]
       @ omit_empty err (''error'', JStr err))"

text \<open>The map of dependencies, in the order of its keys, as \<^verbatim>\<open>encoding/json\<close> writes it.\<close>

definition health_deps :: "request_env \<Rightarrow> (string \<times> json) list" where
  "health_deps E =
     (case re_pg_ping E of
        Some e \<Rightarrow>
          [(''postgresql'', encode_dependency ''unhealthy'' (re_latency E ''postgresql'') e)]
      | None \<Rightarrow>
          [(''postgresql'', encode_dependency ''healthy'' (re_latency E ''postgresql'') ''''),
           (''postgresql_pool'',
              encode_dependency ''info'' (re_latency E ''postgresql_pool'') '''')])
     @ (case re_redis_ping E of
          Some e \<Rightarrow> [(''redis'', encode_dependency ''unhealthy'' (re_latency E ''redis'') e)]
        | None \<Rightarrow> [(''redis'', encode_dependency ''healthy'' (re_latency E ''redis'') '''')])"

definition HealthCheck :: "('r, 'o) app \<Rightarrow> ('r, 'o) handler" where
  "HealthCheck A E r = (\<lambda>(w, s).
     let allHealthy = (re_pg_ping E = None \<and> re_redis_ping E = None) in
     (writeJSON (if allHealthy then 200 else 503)
        (JObj [(''status'', JStr (if allHealthy then ''healthy'' else ''degraded'')),
               (''service'', JStr ''ledger_pro''), (''version'', JStr ''2.0.0''),
               (''uptime'', JStr (re_latency E ''uptime'')),
               (''dependencies'', JObj (health_deps E))]) w, s))"

section \<open>Accounts\<close>

definition CreateAccountHandler :: "('r, 'o) app \<Rightarrow> ('r, 'o) handler" where
  "CreateAccountHandler A E r = (\<lambda>(w, s).
     case unmarshal_CreateAccountRequest (rq_Body r) of
       None \<Rightarrow>
         (WriteProblem r (BadRequest (''invalid request body: '' @ ap_json_error A (rq_Body r))) w, s)
     | Some req0 \<Rightarrow>
         (let req = (if car_Currency req0 = '''' then req0\<lparr>car_Currency := ''INR''\<rparr> else req0);
              vr = ValidateCreateAccountRequest req in
          if HasErrors vr then (WriteProblem r (ToProblem vr) w, s)
          else case CreateAccount (re_fault1 E) (re_db_now E) (GetTenantID (rq_Context r)) req
                 (sv_db s) of
            (Inl err, d) \<Rightarrow>
              (WriteProblem r (InternalError ''failed to create account'') w, set_db d s)
          | (Inr account, d) \<Rightarrow>
              (writeJSON 201 (encode_Account (ap_F A) (ap_jsonb_text A) account) w, set_db d s)))"

definition bad_account_id :: ProblemDetail where
  "bad_account_id = BadRequest (''invalid account id '' @ em_dash @ '' must be an integer'')"

definition no_account :: "int64 \<Rightarrow> ProblemDetail" where
  "no_account i =
     AccountNotFound (''account with id '' @ show_int (sint i) @ '' does not exist'')"

definition GetAccountHandler :: "('r, 'o) app \<Rightarrow> ('r, 'o) handler" where
  "GetAccountHandler A E r = (\<lambda>(w, s).
     case ParseInt (rq_URLParam r ''id'') of
       (_, Some _) \<Rightarrow> (WriteProblem r bad_account_id w, s)
     | (i, None) \<Rightarrow>
         (case GetAccount (re_fault1 E) (GetTenantID (rq_Context r)) i (sv_db s) of
            Inl err \<Rightarrow>
              if errors_Is err ErrAccountNotFound then (WriteProblem r (no_account i) w, s)
              else (WriteProblem r (InternalError ''failed to get account'') w, s)
          | Inr account \<Rightarrow>
              (writeJSON 200 (encode_Account (ap_F A) (ap_jsonb_text A) account) w, s)))"

text \<open>
  The query parameter \<^verbatim>\<open>page_size\<close>: a parse error counts as the value \<^verbatim>\<open>Atoi\<close> returns with it; 20 when
  not positive, refused when above 100. \<^verbatim>\<open>int32(n)\<close> keeps the low 32 bits.
\<close>

definition page_size_param :: "request \<Rightarrow> int64 option" where
  "page_size_param r =
     (let n = fst (ParseInt (rq_Query r ''page_size''));
          pageSize = (if sint n \<le> 0 then 20 else n) in
      if 100 < sint pageSize then None else Some pageSize)"

definition page_size_problem :: ProblemDetail where
  "page_size_problem = BadRequest ''page_size must not exceed 100''"

definition ListAccountsHandler :: "('r, 'o) app \<Rightarrow> ('r, 'o) handler" where
  "ListAccountsHandler A E r = (\<lambda>(w, s).
     let cursor = fst (ParseInt (rq_Query r ''cursor'')) in
     case page_size_param r of
       None \<Rightarrow> (WriteProblem r page_size_problem w, s)
     | Some pageSize \<Rightarrow>
         (case ListAccounts (re_fault1 E) (GetTenantID (rq_Context r)) cursor (ucast pageSize)
                 (sv_db s) of
            Inl err \<Rightarrow> (WriteProblem r (InternalError ''failed to list accounts'') w, s)
          | Inr accounts \<Rightarrow>
              (let nextCursor = (if accounts = [] then 0 else acc_ID (last accounts)) in
               (writeJSON 200
                  (JObj [(''data'',
                           JArr (map (encode_Account (ap_F A) (ap_jsonb_text A)) accounts)),
                         (''next_cursor'', encode_int64 nextCursor),
                         (''page_size'', encode_int64 pageSize)]) w, s))))"

definition GetAccountBalanceHandler :: "('r, 'o) app \<Rightarrow> ('r, 'o) handler" where
  "GetAccountBalanceHandler A E r = (\<lambda>(w, s).
     case ParseInt (rq_URLParam r ''id'') of
       (_, Some _) \<Rightarrow> (WriteProblem r bad_account_id w, s)
     | (i, None) \<Rightarrow>
         (case GetAccountBalance (re_fault1 E) (re_fault2 E) (GetTenantID (rq_Context r)) i
                 (sv_db s) of
            Inl err \<Rightarrow>
              if errors_Is err ErrAccountNotFound then (WriteProblem r (no_account i) w, s)
              else (WriteProblem r (InternalError ''failed to get balance'') w, s)
          | Inr balance \<Rightarrow> (writeJSON 200 (encode_BalanceResponse balance) w, s)))"

definition GetAccountPostingsHandler :: "('r, 'o) app \<Rightarrow> ('r, 'o) handler" where
  "GetAccountPostingsHandler A E r = (\<lambda>(w, s).
     case ParseInt (rq_URLParam r ''id'') of
       (_, Some _) \<Rightarrow> (WriteProblem r bad_account_id w, s)
     | (i, None) \<Rightarrow>
         (let offset = fst (ParseInt (rq_Query r ''offset'')) in
          case page_size_param r of
            None \<Rightarrow> (WriteProblem r page_size_problem w, s)
          | Some pageSize \<Rightarrow>
              (case ListAccountPostings (re_fault1 E) (GetTenantID (rq_Context r)) i
                      (ucast offset) (ucast pageSize) (sv_db s) of
                 Inl err \<Rightarrow>
                   (WriteProblem r (InternalError ''failed to list account postings'') w, s)
               | Inr postings \<Rightarrow>
                   (writeJSON 200
                      (JObj [(''data'', JArr (map (encode_account_posting (ap_F A)) postings)),
                             (''offset'', encode_int64 (offset + of_nat (length postings))),
                             (''page_size'', encode_int64 pageSize)]) w, s))))"

section \<open>Transactions\<close>

definition Error :: "svc_error \<Rightarrow> string" where
  "Error err = (case error_text err of Some m \<Rightarrow> m | None \<Rightarrow> '''')"

text \<open>The switch over the errors of the service.\<close>

definition transaction_problem :: "svc_error \<Rightarrow> ProblemDetail" where
  "transaction_problem err =
     (if errors_Is err ErrIdempotencyKeyRequired then BadRequest (Error err)
      else if errors_Is err ErrIdempotencyKeyConflict then DuplicateIdempotencyKey (Error err)
      else if errors_Is err ErrUnbalancedTransaction then UnbalancedTransaction (Error err)
        [\<lparr>ip_Name = ''postings'', ip_Reason = ''debit and credit legs must balance mathematically''\<rparr>]
      else if errors_Is err ErrEmptyPostings then BadRequest (Error err)
      else if errors_Is err ErrInvalidAmount then BadRequest (Error err)
      else if errors_Is err ErrInvalidDirection then BadRequest (Error err)
      else if errors_Is err ErrLockAcquisitionFailed then LockAcquisitionFailed
        (''could not acquire distributed lock '' @ em_dash
         @ '' the system is under load, please retry'')
      else InternalError ''failed to create transaction'')"

definition CreateTransactionHandler :: "('r, 'o) app \<Rightarrow> ('r, 'o) handler" where
  "CreateTransactionHandler A E r = (\<lambda>(w, s).
     case unmarshal_CreateTransactionRequest (rq_Body r) of
       None \<Rightarrow>
         (WriteProblem r (BadRequest (''invalid request body: '' @ ap_json_error A (rq_Body r))) w, s)
     | Some req0 \<Rightarrow>
         (let req = req0\<lparr>ctr_IdempotencyKey := rq_Header r ''Idempotency-Key''\<rparr>;
              vr = ValidateCreateTransactionRequest req in
          if HasErrors vr then (WriteProblem r (ToProblem vr) w, s)
          else case CreateTransaction (ap_F A) (ap_R A) (ap_idempotencyTTL A) (re_call E)
                 (GetTenantID (rq_Context r)) req (sv_world s) of
            (Inl err, world) \<Rightarrow> (WriteProblem r (transaction_problem err) w, s\<lparr>sv_world := world\<rparr>)
          | (Inr txnResponse, world) \<Rightarrow>
              (writeJSON 201 (encode_TransactionResponse (ap_F A) txnResponse) w,
               s\<lparr>sv_world := world\<rparr>)))"

definition GetTransactionHandler :: "('r, 'o) app \<Rightarrow> ('r, 'o) handler" where
  "GetTransactionHandler A E r = (\<lambda>(w, s).
     case uuid_Parse (ap_F A) (rq_URLParam r ''id'') of
       None \<Rightarrow>
         (WriteProblem r (BadRequest (''invalid transaction id '' @ em_dash
            @ '' must be a valid UUID'')) w, s)
     | Some i \<Rightarrow>
         (case GetTransaction (re_fault1 E) (re_fault2 E) (GetTenantID (rq_Context r)) i
                 (sv_db s) of
            Inl err \<Rightarrow>
              if errors_Is err ErrTransactionNotFound
              then (WriteProblem r (TransactionNotFound (''transaction with id ''
                      @ rq_URLParam r ''id'' @ '' does not exist'')) w, s)
              else (WriteProblem r (InternalError ''failed to get transaction'') w, s)
          | Inr txnResponse \<Rightarrow>
              (writeJSON 200 (encode_TransactionResponse (ap_F A) txnResponse) w, s)))"

text \<open>Without a cursor the list starts a second from now.\<close>

definition cursor_time :: "formats \<Rightarrow> request_env \<Rightarrow> string \<Rightarrow> int option" where
  "cursor_time F E cursorStr =
     (if cursorStr \<noteq> '''' then ts_Parse F cursorStr else Some (re_now E + 10 ^ 9))"

definition ListTransactionsHandler :: "('r, 'o) app \<Rightarrow> ('r, 'o) handler" where
  "ListTransactionsHandler A E r = (\<lambda>(w, s).
     case page_size_param r of
       None \<Rightarrow> (WriteProblem r page_size_problem w, s)
     | Some pageSize \<Rightarrow>
         (case cursor_time (ap_F A) E (rq_Query r ''cursor'') of
            None \<Rightarrow>
              (WriteProblem r (BadRequest (''invalid cursor '' @ em_dash
                 @ '' must be RFC3339 timestamp'')) w, s)
          | Some cursorTime \<Rightarrow>
              (case ListTransactions (re_fault1 E) (GetTenantID (rq_Context r)) cursorTime
                      (ucast pageSize) (sv_db s) of
                 Inl err \<Rightarrow> (WriteProblem r (InternalError ''failed to list transactions'') w, s)
               | Inr txns \<Rightarrow>
                   (let nextCursor = (if txns = [] then ''''
                          else case tx_CreatedAt (last txns) of
                            Some t \<Rightarrow> ts_Format (ap_F A) t | None \<Rightarrow> '''') in
                    (writeJSON 200
                       (JObj [(''data'',
                                JArr (map (encode_Transaction (ap_F A) (ap_jsonb_text A)) txns)),
                              (''next_cursor'', JStr nextCursor),
                              (''page_size'', encode_int64 pageSize)]) w, s)))))"

section \<open>Documents\<close>

definition bad_document_id :: ProblemDetail where
  "bad_document_id =
     WithInvalidParams (BadRequest ''Invalid transaction ID format'')
       [\<lparr>ip_Name = ''id'', ip_Reason = ''must be a valid UUID''\<rparr>]"

definition AttachDocumentHandler :: "('r, 'o) app \<Rightarrow> ('r, 'o) handler" where
  "AttachDocumentHandler A E r = (\<lambda>(w, s).
     case uuid_Parse (ap_F A) (rq_URLParam r ''id'') of
       None \<Rightarrow> (WriteProblem r bad_document_id w, s)
     | Some txID \<Rightarrow>
         (case rq_Form r of
            Inl _ \<Rightarrow>
              (WriteProblem r (WithInvalidParams (BadRequest ''Failed to parse multipart form'')
                 [\<lparr>ip_Name = ''body'',
                   ip_Reason = ''must be valid multipart/form-data and under 10MB''\<rparr>]) w, s)
          | Inr form \<Rightarrow>
              (case form ''file'' of
                 None \<Rightarrow>
                   (WriteProblem r (WithInvalidParams (BadRequest ''Missing file part'')
                      [\<lparr>ip_Name = ''file'', ip_Reason = ''multipart form must contain a ''
                          @ quote ''file'' @ '' field''\<rparr>]) w, s)
               | Some part \<Rightarrow>
                   (let contentType = (if ff_ContentType part = '''' then ''application/octet-stream''
                                       else ff_ContentType part) in
                    case AttachDocument (ap_F A) (ap_storage A) (ap_storageService A)
                           (re_document E) (GetTenantID (rq_Context r)) txID (ff_Filename part)
                           contentType (ff_Size part) (ff_Content part) (sv_db s, sv_objects s) of
                      (Inl err, d, ob) \<Rightarrow>
                        (WriteProblem r
                           (if errors_Is err ErrTransactionNotFound
                            then TransactionNotFound ''Transaction not found''
                            else InternalError ''Failed to process document upload'') w,
                         (set_db d s)\<lparr>sv_objects := ob\<rparr>)
                    | (Inr docResp, d, ob) \<Rightarrow>
                        (writeJSON 201 (encode_DocumentResponse (ap_F A) docResp) w,
                         (set_db d s)\<lparr>sv_objects := ob\<rparr>)))))"

definition ListTransactionDocumentsHandler :: "('r, 'o) app \<Rightarrow> ('r, 'o) handler" where
  "ListTransactionDocumentsHandler A E r = (\<lambda>(w, s).
     case uuid_Parse (ap_F A) (rq_URLParam r ''id'') of
       None \<Rightarrow> (WriteProblem r bad_document_id w, s)
     | Some txID \<Rightarrow>
         (case ListTransactionDocuments (ap_storage A) (ap_storageService A) (re_fault1 E)
                 (GetTenantID (rq_Context r)) txID (sv_db s) of
            Inl err \<Rightarrow> (WriteProblem r (InternalError ''Failed to retrieve documents'') w, s)
          | Inr docs \<Rightarrow>
              (writeJSON 200
                 (JObj [(''data'', JArr (map (encode_DocumentResponse (ap_F A)) docs))]) w, s)))"

section \<open>Users and sessions\<close>

definition session_cookie :: "string \<Rightarrow> int \<Rightarrow> cookie" where
  "session_cookie token maxAge =
     \<lparr>ck_Name = ''session_token'', ck_Value = token, ck_Path = ''/'', ck_HttpOnly = True,
      ck_Secure = True, ck_SameSite = ''Strict'', ck_MaxAge = maxAge,
      ck_Expires = None\<rparr>"

definition encode_role :: "string \<Rightarrow> json" where
  "encode_role role = JObj [(''role'', JStr role)]"

text \<open>The end of login and signup: a session, its cookie, the role as the answer.\<close>

definition open_session ::
  "('r, 'o) app \<Rightarrow> request_env \<Rightarrow> request \<Rightarrow> nat \<Rightarrow> string \<Rightarrow> uuid \<Rightarrow> writer \<times> ('r, 'o) server
    \<Rightarrow> writer \<times> ('r, 'o) server" where
  "open_session A E r status role tenantID = (\<lambda>(w, s).
     case CreateSession (ap_F A) (ap_R A) (ap_sessionTTL A) (re_rand E) role tenantID (sv_redis s) of
       (Inl err, rd) \<Rightarrow>
         (WriteProblem r (InternalError ''failed to create session'') w, set_redis rd s)
     | (Inr token, rd) \<Rightarrow>
         (writeJSON status (encode_role role) (SetCookie (session_cookie token 86400) w),
          set_redis rd s))"

text \<open>The default tenant of API keys: the parsed all-zero UUID.\<close>

definition LoginHandler :: "('r, 'o) app \<Rightarrow> ('r, 'o) handler" where
  "LoginHandler A E r = (\<lambda>(w, s).
     case unmarshal_LoginRequest (rq_Body r) of
       None \<Rightarrow> (WriteProblem r (BadRequest ''invalid JSON body'') w, s)
     | Some req \<Rightarrow>
         if lr_APIKey req \<noteq> '''' then
           (case map_of (ap_keys A) (lr_APIKey req) of
              None \<Rightarrow> (WriteProblem r (Unauthorized ''invalid API key'') w, s)
            | Some entry \<Rightarrow> open_session A E r 200 (ke_Role entry) uuid_Nil (w, s))
         else if lr_Email req \<noteq> '''' \<and> lr_Password req \<noteq> '''' then
           (case read_query (re_fault1 E) (q_GetUserByEmail (lr_Email req) (sv_db s)) of
              Inl err \<Rightarrow> (WriteProblem r (Unauthorized ''invalid email or password'') w, s)
            | Inr user \<Rightarrow>
                if ap_bcrypt_Compare A (usr_PasswordHash user) (lr_Password req)
                then open_session A E r 200 (usr_Role user) (usr_TenantID user) (w, s)
                else (WriteProblem r (Unauthorized ''invalid email or password'') w, s))
         else (WriteProblem r (BadRequest ''must provide api_key or email/password'') w, s))"

definition SignupHandler :: "('r, 'o) app \<Rightarrow> ('r, 'o) handler" where
  "SignupHandler A E r = (\<lambda>(w, s).
     case unmarshal_SignupRequest (rq_Body r) of
       None \<Rightarrow> (WriteProblem r (BadRequest ''invalid JSON body'') w, s)
     | Some req \<Rightarrow>
         if sr_Email req = '''' \<or> sr_Password req = ''''
         then (WriteProblem r (BadRequest ''email and password are required'') w, s)
         else case ap_bcrypt_Generate A (re_salt E) (sr_Password req) of
           Inl err \<Rightarrow> (WriteProblem r (InternalError ''failed to process password'') w, s)
         | Inr hashedPassword \<Rightarrow>
             (case autocommit (re_fault1 E) (q_CreateTenant (re_tenant_id E) (re_db_now E)
                     (''Organization of '' @ sr_Email req)) (sv_db s) of
                (Inl err, d) \<Rightarrow>
                  (WriteProblem r (InternalError ''failed to create organization'') w, set_db d s)
              | (Inr tenant, d) \<Rightarrow>
                  (case autocommit (re_fault2 E) (q_CreateUser (re_user_id E) (re_db_now E)
                          \<lparr>cup_TenantID = tn_ID tenant, cup_Email = sr_Email req,
                           cup_PasswordHash = hashedPassword, cup_Role = ''admin''\<rparr>) d of
                     (Inl err, d') \<Rightarrow>
                       (WriteProblem r (NewProblem ''about:blank'' ''Conflict'' 409
                          ''email already exists'') w, set_db d' s)
                   | (Inr user, d') \<Rightarrow>
                       open_session A E r 201 (usr_Role user) (usr_TenantID user)
                         (w, set_db d' s))))"

definition LogoutHandler :: "('r, 'o) app \<Rightarrow> ('r, 'o) handler" where
  "LogoutHandler A E r = (\<lambda>(w, s).
     let s' = (case rq_Cookie r ''session_token'' of
                 Some token \<Rightarrow>
                   if token \<noteq> '''' then set_redis (snd (RevokeSession (ap_R A) token (sv_redis s))) s
                   else s
               | None \<Rightarrow> s)
     in (WriteHeader 204
          (SetCookie ((session_cookie '''' (- 1))\<lparr>ck_Expires := Some 0\<rparr>) w), s'))"

definition MeHandler :: "('r, 'o) app \<Rightarrow> ('r, 'o) handler" where
  "MeHandler A E r = (\<lambda>(w, s).
     let role = GetAPIKeyRole (rq_Context r) in
     if role = '''' then (WriteProblem r (Unauthorized ''not authenticated'') w, s)
     else (writeJSON 200 (encode_role role) w, s))"

end
