(* ===== verification/Middleware.thy ===== *)
theory Middleware
  imports Handlers RateLimit
begin

text \<open>
  The middleware of \<^verbatim>\<open>internal/api/middleware.go\<close>, each a function from the next handler to a handler.
  Log lines are left out. \<^verbatim>\<open>RequestTimeoutMiddleware\<close> gives the context a deadline and does nothing when
  it passes: database and Redis calls then fail, as any call may by the request's environment.
\<close>

section \<open>Trace id, logging, timeout\<close>

definition TraceIDMiddleware ::
  "('r, 'o) app \<Rightarrow> ('r, 'o) handler \<Rightarrow> ('r, 'o) handler" where
  "TraceIDMiddleware A next_handler E r = (\<lambda>(w, s).
     let given = rq_Header r ''X-Trace-ID'';
         traceID = (if given = '''' then uuid_String (ap_F A) (re_trace E) else given)
     in next_handler E (r\<lparr>rq_Context := (rq_Context r)\<lparr>cx_TraceID := Some traceID\<rparr>\<rparr>)
          (SetHeader ''X-Trace-ID'' traceID w, s))"

text \<open>The writer the logger hands on passes the first status through and remembers it.\<close>

record responseWriter =
  rw_ResponseWriter :: writer
  rw_statusCode :: nat
  rw_wroteHeader :: bool

definition newResponseWriter :: "writer \<Rightarrow> responseWriter" where
  "newResponseWriter w = \<lparr>rw_ResponseWriter = w, rw_statusCode = 200, rw_wroteHeader = False\<rparr>"

definition rw_WriteHeader :: "nat \<Rightarrow> responseWriter \<Rightarrow> responseWriter" where
  "rw_WriteHeader code rw =
     (if \<not> rw_wroteHeader rw
      then rw\<lparr>rw_statusCode := code, rw_wroteHeader := True,
              rw_ResponseWriter := WriteHeader code (rw_ResponseWriter rw)\<rparr>
      else rw)"

lemma rw_transparent:
  assumes "rw_wroteHeader rw \<longleftrightarrow> wr_Status (rw_ResponseWriter rw) \<noteq> None"
  shows "rw_ResponseWriter (rw_WriteHeader code rw) = WriteHeader code (rw_ResponseWriter rw)"
    and "rw_wroteHeader (rw_WriteHeader code rw)
      \<longleftrightarrow> wr_Status (rw_ResponseWriter (rw_WriteHeader code rw)) \<noteq> None"
  using assms by (simp_all add: rw_WriteHeader_def WriteHeader_def)

text \<open>
  The handlers write to the wrapped writer, which by \<open>rw_transparent\<close> sends what the inner one would.
\<close>

definition StructuredLoggerMiddleware :: "('r, 'o) handler \<Rightarrow> ('r, 'o) handler" where
  "StructuredLoggerMiddleware next_handler E r = (\<lambda>(w, s).
     let wrapped = newResponseWriter w;
         (w', s') = next_handler E r (rw_ResponseWriter wrapped, s)
     in (w', s'))"

lemma StructuredLogger_id: "StructuredLoggerMiddleware h = h"
  by (intro ext) (auto simp: StructuredLoggerMiddleware_def newResponseWriter_def Let_def)

text \<open>\<^verbatim>\<open>context.WithTimeout\<close>: an earlier deadline of the parent stays.\<close>

definition with_timeout :: "int \<Rightarrow> int \<Rightarrow> request_context \<Rightarrow> request_context" where
  "with_timeout now timeout ctx =
     ctx\<lparr>cx_Deadline := Some (case cx_Deadline ctx of
           Some d \<Rightarrow> min d (now + timeout) | None \<Rightarrow> now + timeout)\<rparr>"

definition RequestTimeoutMiddleware :: "int \<Rightarrow> ('r, 'o) handler \<Rightarrow> ('r, 'o) handler" where
  "RequestTimeoutMiddleware timeout next_handler E r =
     next_handler E (r\<lparr>rq_Context := with_timeout (re_now E) timeout (rq_Context r)\<rparr>)"

section \<open>Authentication and roles\<close>

text \<open>\<^verbatim>\<open>strings.HasPrefix\<close> and \<^verbatim>\<open>strings.TrimPrefix\<close>.\<close>

definition HasPrefix :: "string \<Rightarrow> string \<Rightarrow> bool" where
  "HasPrefix s p \<longleftrightarrow> take (length p) s = p"

definition TrimPrefix :: "string \<Rightarrow> string \<Rightarrow> string" where
  "TrimPrefix s p = (if HasPrefix s p then drop (length p) s else s)"

definition publicPaths :: "string list" where
  "publicPaths = [''/v1/health'', ''/v1/metrics'', ''/v1/auth/login'', ''/v1/auth/signup'']"

definition is_public :: "string \<Rightarrow> bool" where
  "is_public path \<longleftrightarrow> path \<in> set publicPaths \<or> HasPrefix path ''/swagger/''"

definition presented_key :: "request \<Rightarrow> string" where
  "presented_key r =
     (let apiKey = rq_Header r ''X-API-Key'' in
      if apiKey = '''' then
        (let authHeader = rq_Header r ''Authorization'' in
         if HasPrefix authHeader ''Bearer '' then TrimPrefix authHeader ''Bearer '' else apiKey)
      else apiKey)"

definition with_identity :: "string \<Rightarrow> uuid \<Rightarrow> request \<Rightarrow> request" where
  "with_identity role tenantID r =
     r\<lparr>rq_Context := (rq_Context r)\<lparr>cx_Role := Some role, cx_TenantID := Some tenantID\<rparr>\<rparr>"

text \<open>The session of the cookie, if there is one and Redis confirms it.\<close>

definition cookie_session ::
  "('r, 'o) app \<Rightarrow> request \<Rightarrow> ('r, 'o) server \<Rightarrow> SessionData option \<times> ('r, 'o) server" where
  "cookie_session A r s =
     (case rq_Cookie r ''session_token'' of
        None \<Rightarrow> (None, s)
      | Some token \<Rightarrow>
          if token = '''' then (None, s)
          else case ValidateSession (ap_F A) (ap_R A) (ap_sessionTTL A) token (sv_redis s) of
            (Inl _, rd) \<Rightarrow> (None, set_redis rd s)
          | (Inr sessionData, rd) \<Rightarrow> (Some sessionData, set_redis rd s))"

definition APIKeyAuthMiddleware ::
  "('r, 'o) app \<Rightarrow> ('r, 'o) handler \<Rightarrow> ('r, 'o) handler" where
  "APIKeyAuthMiddleware A next_handler E r = (\<lambda>(w, s).
     if is_public (rq_Path r) then next_handler E r (w, s)
     else case cookie_session A r s of
       (Some sessionData, s1) \<Rightarrow>
         next_handler E (with_identity (sd_Role sessionData) (sd_TenantID sessionData) r) (w, s1)
     | (None, s1) \<Rightarrow>
         (let apiKey = presented_key r in
          if apiKey = ''''
          then (WriteProblem r
                  (Unauthorized ''authentication required (API key or session cookie)'') w, s1)
          else case map_of (ap_keys A) apiKey of
            None \<Rightarrow> (WriteProblem r (Unauthorized ''invalid API key'') w, s1)
          | Some entry \<Rightarrow> next_handler E (with_identity (ke_Role entry) uuid_Nil r) (w, s1)))"

definition RequireRole ::
  "string list \<Rightarrow> ('r, 'o) handler \<Rightarrow> ('r, 'o) handler" where
  "RequireRole allowed next_handler E r = (\<lambda>(w, s).
     let role = GetAPIKeyRole (rq_Context r) in
     if role = '''' then (WriteProblem r (Unauthorized ''authentication required'') w, s)
     else if role \<notin> set allowed
     then (WriteProblem r (Forbidden (''role '' @ quote role
             @ '' does not have permission for this operation'')) w, s)
     else next_handler E r (w, s))"

section \<open>Rate limiting\<close>

text \<open>\<^verbatim>\<open>time.Duration.String\<close>.\<close>

fun drop_zeros :: "string \<Rightarrow> string" where
  "drop_zeros [] = []"
| "drop_zeros (c # cs) = (if c = CHR ''0'' then drop_zeros cs else c # cs)"

definition fraction :: "nat \<Rightarrow> nat \<Rightarrow> string" where
  "fraction prec u =
     (let ds = show_nat (u mod 10 ^ prec);
          padded = replicate (prec - length ds) (CHR ''0'') @ ds;
          f = rev (drop_zeros (rev padded))
      in if prec = 0 \<or> f = '''' then '''' else CHR ''.'' # f)"

definition scaled :: "nat \<Rightarrow> nat \<Rightarrow> string" where
  "scaled prec u = show_nat (u div 10 ^ prec) @ fraction prec u"

definition duration_String :: "int \<Rightarrow> string" where
  "duration_String d =
     (let u = nat \<bar>d\<bar>;
          txt = (if u = 0 then ''0s''
                 else if u < 10 ^ 3 then show_nat u @ ''ns''
                 else if u < 10 ^ 6 then scaled 3 u @ [CHR 0xC2, CHR 0xB5] @ ''s''
                 else if u < 10 ^ 9 then scaled 6 u @ ''ms''
                 else (let secs = u div 10 ^ 9; mins = secs div 60; hours = mins div 60 in
                   (if hours > 0 then show_nat hours @ ''h'' else '''')
                   @ (if mins > 0 then show_nat (mins mod 60) @ ''m'' else '''')
                   @ show_nat (secs mod 60) @ fraction 9 u @ ''s''))
      in (if d < 0 then CHR ''-'' # txt else txt))"

definition client_key :: "request \<Rightarrow> string" where
  "client_key r =
     (let k = rq_Header r ''X-API-Key'' in if k = '''' then rq_RemoteAddr r else k)"

definition limit_key :: "request \<Rightarrow> string" where
  "limit_key r = ''ledger:ratelimit:'' @ client_key r"

text \<open>\<open>txt\<close> is Lua's text of a number. A failing script lets the request through.\<close>

definition RateLimitMiddleware ::
  "(int \<Rightarrow> string) \<Rightarrow> RateLimitConfig \<Rightarrow> ('r, 'o) handler \<Rightarrow> ('r, 'o) handler" where
  "RateLimitMiddleware txt cfg next_handler E r = (\<lambda>(w, s).
     case re_limit_error E of
       Some _ \<Rightarrow> next_handler E r (w, s)
     | None \<Rightarrow>
         (let now = re_now E;
              redisKey = limit_key r;
              ((allowed, current, limit), z) = limit_check txt cfg (re_limit_expired E)
                (re_limit_rnd E) now (sv_limits s redisKey);
              s1 = s\<lparr>sv_limits := (sv_limits s)(redisKey := z)\<rparr>;
              remaining = max 0 (limit - current);
              W = rl_WindowDuration cfg;
              w1 = SetHeader ''X-RateLimit-Reset'' (show_int ((now + W) div 10 ^ 9))
                    (SetHeader ''X-RateLimit-Remaining'' (show_int remaining)
                      (SetHeader ''X-RateLimit-Limit'' (show_int limit) w))
          in if allowed \<noteq> 1
             then (WriteProblem r (RateLimitExceeded (''rate limit of ''
                     @ show_int (rl_RequestsPerWindow cfg) @ '' requests per '' @ duration_String W
                     @ '' exceeded '' @ em_dash @ '' retry after '' @ duration_String W))
                     (SetHeader ''Retry-After'' (show_int (sgn W * (\<bar>W\<bar> div 10 ^ 9))) w1), s1)
             else next_handler E r (w1, s1)))"

section \<open>CORS\<close>

record CORSConfig =
  co_AllowedOrigins :: "string list"
  co_AllowedMethods :: "string list"
  co_AllowedHeaders :: "string list"
  co_MaxAge :: int

definition DefaultCORSConfig :: CORSConfig where
  "DefaultCORSConfig =
     \<lparr>co_AllowedOrigins = [''*''],
      co_AllowedMethods = [''GET'', ''POST'', ''PUT'', ''PATCH'', ''DELETE'', ''OPTIONS''],
      co_AllowedHeaders =
        [''Accept'', ''Authorization'', ''Content-Type'', ''X-API-Key'', ''X-Trace-ID'',
         ''Idempotency-Key'', ''X-Correlation-Id''],
      co_MaxAge = 86400\<rparr>"

text \<open>\<^verbatim>\<open>strings.Join\<close>\<close>

fun Join :: "string \<Rightarrow> string list \<Rightarrow> string" where
  "Join sep [] = ''''"
| "Join sep [x] = x"
| "Join sep (x # y # xs) = x @ sep @ Join sep (y # xs)"

definition CORSMiddleware :: "CORSConfig \<Rightarrow> ('r, 'o) handler \<Rightarrow> ('r, 'o) handler" where
  "CORSMiddleware cfg next_handler E r = (\<lambda>(w, s).
     let w1 = SetHeader ''Access-Control-Allow-Origin'' (Join '', '' (co_AllowedOrigins cfg)) w;
         w2 = SetHeader ''Access-Control-Allow-Methods'' (Join '', '' (co_AllowedMethods cfg)) w1;
         w3 = SetHeader ''Access-Control-Allow-Headers'' (Join '', '' (co_AllowedHeaders cfg)) w2;
         w4 = SetHeader ''Access-Control-Max-Age'' (show_int (co_MaxAge cfg)) w3;
         w5 = SetHeader ''Access-Control-Expose-Headers''
           ''X-Trace-ID, X-RateLimit-Limit, X-RateLimit-Remaining, X-RateLimit-Reset'' w4
     in if rq_Method r = ''OPTIONS'' then (WriteHeader 204 w5, s) else next_handler E r (w5, s))"

end
