(* ===== verification/Router.thy ===== *)
theory Router
  imports Middleware
begin

text \<open>
  The route table and the middleware stack of \<^verbatim>\<open>internal/api/router.go\<close>. How go-chi matches a path
  is a parameter: \<open>ch_Match\<close> picks a route of the table and its URL parameters, \<open>ch_Fallback\<close> is the
  status when there is none, \<open>ch_RealIP\<close> the client address, \<open>ch_Swagger\<close> the Swagger UI.
\<close>

section \<open>Routes\<close>

datatype endpoint =
    EHealthCheck | ESwagger
  | ELogin | ESignup | ELogout | EMe
  | ECreateAccount | EListAccounts | EGetAccount | EGetAccountBalance | EGetAccountPostings
  | ECreateTransaction | EAttachDocument
  | EListTransactions | EGetTransaction | EListTransactionDocuments

record route =
  rt_Method :: string
  rt_Pattern :: string
  rt_Roles :: "string list option"      \<comment> \<open>the \<^verbatim>\<open>RequireRole\<close> of the group, if any\<close>
  rt_Endpoint :: endpoint

definition write_roles :: "string list" where
  "write_roles = [''admin'', ''write'']"

definition read_roles :: "string list" where
  "read_roles = [''admin'', ''write'', ''read'']"

definition routes :: "route list" where
  "routes =
     map (\<lambda>(m, p, rs, e). \<lparr>rt_Method = m, rt_Pattern = p, rt_Roles = rs, rt_Endpoint = e\<rparr>)
      [(''GET'', ''/v1/health'', None, EHealthCheck),
       (''GET'', ''/swagger/*'', None, ESwagger),
       (''POST'', ''/v1/auth/login'', None, ELogin),
       (''POST'', ''/v1/auth/signup'', None, ESignup),
       (''POST'', ''/v1/auth/logout'', None, ELogout),
       (''GET'', ''/v1/auth/me'', None, EMe),
       (''POST'', ''/v1/accounts/'', Some write_roles, ECreateAccount),
       (''GET'', ''/v1/accounts/'', Some read_roles, EListAccounts),
       (''GET'', ''/v1/accounts/{id}'', Some read_roles, EGetAccount),
       (''GET'', ''/v1/accounts/{id}/balance'', Some read_roles, EGetAccountBalance),
       (''GET'', ''/v1/accounts/{id}/postings'', Some read_roles, EGetAccountPostings),
       (''POST'', ''/v1/transactions/'', Some write_roles, ECreateTransaction),
       (''POST'', ''/v1/transactions/{id}/documents'', Some write_roles, EAttachDocument),
       (''GET'', ''/v1/transactions/'', Some read_roles, EListTransactions),
       (''GET'', ''/v1/transactions/{id}'', Some read_roles, EGetTransaction),
       (''GET'', ''/v1/transactions/{id}/documents'', Some read_roles, EListTransactionDocuments)]"

record chi =
  ch_Match :: "route list \<Rightarrow> string \<Rightarrow> string \<Rightarrow> (route \<times> (string \<Rightarrow> string)) option"
  ch_Fallback :: "string \<Rightarrow> string \<Rightarrow> nat"
  ch_RealIP :: "request \<Rightarrow> string"
  ch_Swagger :: "request \<Rightarrow> writer \<Rightarrow> writer"

text \<open>
  A match is a route of the table for the method and agrees with its pattern: a pattern without
  parameters is the path, up to a final slash, and of any other the text before its first parameter
  or wildcard is a prefix of the path. Without a match the answer is 404 or 405.
\<close>

definition literal_prefix :: "string \<Rightarrow> string" where
  "literal_prefix p = takeWhile (\<lambda>c. c \<noteq> CHR ''{'' \<and> c \<noteq> CHR ''*'') p"

definition pattern_fits :: "string \<Rightarrow> string \<Rightarrow> bool" where
  "pattern_fits pat path \<longleftrightarrow>
     (if literal_prefix pat = pat then path = pat \<or> path @ ''/'' = pat
      else HasPrefix path (literal_prefix pat))"

definition chi_ok :: "chi \<Rightarrow> bool" where
  "chi_ok ch \<longleftrightarrow>
     (\<forall>rts m p rt ps. ch_Match ch rts m p = Some (rt, ps) \<longrightarrow>
        rt \<in> set rts \<and> rt_Method rt = m \<and> pattern_fits (rt_Pattern rt) p)
   \<and> (\<forall>m p. ch_Fallback ch m p \<in> {404, 405})"

section \<open>Dispatch\<close>

fun endpoint_handler :: "chi \<Rightarrow> ('r, 'o) app \<Rightarrow> endpoint \<Rightarrow> ('r, 'o) handler" where
  "endpoint_handler ch A EHealthCheck = HealthCheck A"
| "endpoint_handler ch A ESwagger = (\<lambda>E r (w, s). (ch_Swagger ch r w, s))"
| "endpoint_handler ch A ELogin = LoginHandler A"
| "endpoint_handler ch A ESignup = SignupHandler A"
| "endpoint_handler ch A ELogout = LogoutHandler A"
| "endpoint_handler ch A EMe = MeHandler A"
| "endpoint_handler ch A ECreateAccount = CreateAccountHandler A"
| "endpoint_handler ch A EListAccounts = ListAccountsHandler A"
| "endpoint_handler ch A EGetAccount = GetAccountHandler A"
| "endpoint_handler ch A EGetAccountBalance = GetAccountBalanceHandler A"
| "endpoint_handler ch A EGetAccountPostings = GetAccountPostingsHandler A"
| "endpoint_handler ch A ECreateTransaction = CreateTransactionHandler A"
| "endpoint_handler ch A EAttachDocument = AttachDocumentHandler A"
| "endpoint_handler ch A EListTransactions = ListTransactionsHandler A"
| "endpoint_handler ch A EGetTransaction = GetTransactionHandler A"
| "endpoint_handler ch A EListTransactionDocuments = ListTransactionDocumentsHandler A"

definition auth_enabled :: "('r, 'o) app \<Rightarrow> bool" where
  "auth_enabled A \<longleftrightarrow> 0 < length (ap_keys A)"

definition route_handler :: "chi \<Rightarrow> ('r, 'o) app \<Rightarrow> route \<Rightarrow> ('r, 'o) handler" where
  "route_handler ch A rt =
     (case rt_Roles rt of
        Some allowed \<Rightarrow>
          if auth_enabled A then RequireRole allowed (endpoint_handler ch A (rt_Endpoint rt))
          else endpoint_handler ch A (rt_Endpoint rt)
      | None \<Rightarrow> endpoint_handler ch A (rt_Endpoint rt))"

definition dispatch :: "chi \<Rightarrow> ('r, 'o) app \<Rightarrow> ('r, 'o) handler" where
  "dispatch ch A E r = (\<lambda>(w, s).
     case ch_Match ch routes (rq_Method r) (rq_Path r) of
       None \<Rightarrow> (WriteHeader (ch_Fallback ch (rq_Method r) (rq_Path r)) w, s)
     | Some (rt, ps) \<Rightarrow> route_handler ch A rt E (r\<lparr>rq_URLParam := ps\<rparr>) (w, s))"

section \<open>The stack\<close>

record RouterConfig =
  rc_RateLimitConfig :: "RateLimitConfig option"
  rc_CORSConfig :: "CORSConfig option"
  rc_RequestTimeout :: int

definition DefaultRouterConfig :: RouterConfig where
  "DefaultRouterConfig =
     \<lparr>rc_RateLimitConfig = Some \<lparr>rl_RequestsPerWindow = 100, rl_WindowDuration = 60 * 10 ^ 9\<rparr>,
      rc_CORSConfig = None, rc_RequestTimeout = 30 * 10 ^ 9\<rparr>"

definition RealIP :: "chi \<Rightarrow> ('r, 'o) handler \<Rightarrow> ('r, 'o) handler" where
  "RealIP ch next_handler E r = next_handler E (r\<lparr>rq_RemoteAddr := ch_RealIP ch r\<rparr>)"

definition cors_config :: "RouterConfig \<Rightarrow> CORSConfig" where
  "cors_config cfg = (case rc_CORSConfig cfg of Some c \<Rightarrow> c | None \<Rightarrow> DefaultCORSConfig)"

definition NewRouter ::
  "chi \<Rightarrow> (int \<Rightarrow> string) \<Rightarrow> ('r, 'o) app \<Rightarrow> RouterConfig \<Rightarrow> ('r, 'o) handler" where
  "NewRouter ch txt A cfg =
     (let h1 = (if auth_enabled A then APIKeyAuthMiddleware A (dispatch ch A) else dispatch ch A);
          h2 = (case rc_RateLimitConfig cfg of
                  Some rl \<Rightarrow> RateLimitMiddleware txt rl h1 | None \<Rightarrow> h1);
          h3 = (if 0 < rc_RequestTimeout cfg then RequestTimeoutMiddleware (rc_RequestTimeout cfg) h2
                else h2)
      in RealIP ch (CORSMiddleware (cors_config cfg)
           (TraceIDMiddleware A (StructuredLoggerMiddleware h3))))"

definition no_context :: request_context where
  "no_context = \<lparr>cx_TraceID = None, cx_Role = None, cx_TenantID = None, cx_Deadline = None\<rparr>"

text \<open>One request, from a fresh response writer and an empty context.\<close>

definition serve ::
  "chi \<Rightarrow> (int \<Rightarrow> string) \<Rightarrow> ('r, 'o) app \<Rightarrow> RouterConfig \<Rightarrow> request_env \<Rightarrow> request
    \<Rightarrow> ('r, 'o) server \<Rightarrow> writer \<times> ('r, 'o) server" where
  "serve ch txt A cfg E r s =
     NewRouter ch txt A cfg E (r\<lparr>rq_Context := no_context\<rparr>) (new_writer, s)"

end
