(* ===== verification/Server.thy ===== *)
theory Server
  imports Router Isolation
begin

text \<open>
  The program as one server: every handler keeps a contract, the middleware passes it on, so the
  router keeps it; with the outbox worker beside it this gives the invariants of the running system.
\<close>

section \<open>Responses\<close>

text \<open>A writer before the response: nothing sent, the trace id set.\<close>

definition ready :: "string \<Rightarrow> writer \<Rightarrow> bool" where
  "ready tr w \<longleftrightarrow> wr_Status w = None \<and> wr_Body w = [] \<and> wr_Header w ''X-Trace-ID'' = Some tr"

definition json_type :: string where
  "json_type = ''application/json; charset=utf-8''"

definition problem_type_header :: string where
  "problem_type_header = ''application/problem+json; charset=utf-8''"

text \<open>
  A complete response: an empty one, one JSON document, or one problem document whose status is the
  status sent, whose trace id is the one in the header and whose instance is the path.
\<close>

definition empty_response :: "writer \<Rightarrow> bool" where
  "empty_response w \<longleftrightarrow> wr_Body w = [] \<and> wr_Status w \<in> {Some 204, Some 404, Some 405}"

definition json_response :: "writer \<Rightarrow> bool" where
  "json_response w \<longleftrightarrow> (\<exists>j. wr_Body w = [j]) \<and> wr_Status w \<in> {Some 200, Some 201, Some 503}
     \<and> wr_Header w ''Content-Type'' = Some json_type"

definition problem_response :: "string \<Rightarrow> string \<Rightarrow> writer \<Rightarrow> bool" where
  "problem_response path tr w \<longleftrightarrow>
     (\<exists>p. wr_Body w = [encode_ProblemDetail p] \<and> wr_Status w = Some (pd_Status p)
        \<and> pd_Status p \<in> {400, 401, 403, 404, 409, 422, 429, 500, 503}
        \<and> pd_TraceID p = tr \<and> pd_Instance p = path)
   \<and> wr_Header w ''Content-Type'' = Some problem_type_header"

definition response_ok :: "string \<Rightarrow> string \<Rightarrow> writer \<Rightarrow> bool" where
  "response_ok path tr w \<longleftrightarrow> wr_Header w ''X-Trace-ID'' = Some tr
     \<and> (empty_response w \<or> json_response w \<or> problem_response path tr w)"

lemma ready_SetHeader: "ready tr w \<Longrightarrow> k \<noteq> ''X-Trace-ID'' \<Longrightarrow> ready tr (SetHeader k v w)"
  by (simp add: ready_def SetHeader_def)

lemma ready_SetCookie: "ready tr w \<Longrightarrow> ready tr (SetCookie c w)"
  by (simp add: ready_def SetCookie_def)

text \<open>A problem as the constructors make it: the trace id and the instance are not set.\<close>

definition plain_problem :: "ProblemDetail \<Rightarrow> bool" where
  "plain_problem p \<longleftrightarrow> pd_TraceID p = '''' \<and> pd_Instance p = ''''
     \<and> pd_Status p \<in> {400, 401, 403, 404, 409, 422, 429, 500, 503}"

lemma plain_problems [simp]:
  "plain_problem (BadRequest m)" "plain_problem (ValidationError m ps)"
  "plain_problem (UnbalancedTransaction m ps)" "plain_problem (AccountNotFound m)"
  "plain_problem (TransactionNotFound m)" "plain_problem (DuplicateIdempotencyKey m)"
  "plain_problem (LockAcquisitionFailed m)" "plain_problem (InternalError m)"
  "plain_problem (Unauthorized m)" "plain_problem (Forbidden m)"
  "plain_problem (RateLimitExceeded m)" "plain_problem (ToProblem v)"
  "plain_problem (NewProblem t m 409 m')"
  "plain_problem bad_account_id" "plain_problem (no_account i)" "plain_problem page_size_problem"
  "plain_problem bad_document_id" "plain_problem (transaction_problem err)"
  "plain_problem p \<Longrightarrow> plain_problem (WithInvalidParams p ps)"
  by (simp_all add: plain_problem_def problem_defs ToProblem_def bad_account_id_def no_account_def
      page_size_problem_def bad_document_id_def transaction_problem_def)

lemma WriteProblem_ok:
  assumes "ready tr w" and "GetTraceID (rq_Context r) = tr" and "plain_problem p"
  shows "response_ok (rq_Path r) tr (WriteProblem r p w)"
  using assms
  by (auto simp: response_ok_def problem_response_def WriteProblem_def Let_def completed_problem_def
      write_body_def WriteHeader_def SetHeader_def ready_def plain_problem_def problem_type_header_def)

lemma writeJSON_ok:
  assumes "ready tr w" and "status \<in> {200, 201, 503}"
  shows "response_ok path tr (writeJSON status j w)"
  using assms
  by (auto simp: response_ok_def json_response_def writeJSON_def write_body_def WriteHeader_def
      SetHeader_def ready_def json_type_def)

lemma WriteHeader_ok:
  assumes "ready tr w" and "status \<in> {204, 404, 405}"
  shows "response_ok path tr (WriteHeader status w)"
  using assms by (auto simp: response_ok_def empty_response_def WriteHeader_def ready_def)

lemmas response_rules = WriteProblem_ok writeJSON_ok WriteHeader_ok ready_SetCookie ready_SetHeader

section \<open>The contract of a handler\<close>

definition server_ok :: "('r, 'o) app \<Rightarrow> ('r, 'o) server \<Rightarrow> bool" where
  "server_ok A s \<longleftrightarrow> ledger_ok (ap_F A) (sv_db s)
     \<and> documents_stored (ap_storage A) (ap_storageService A) (sv_db s) (sv_objects s)"

text \<open>
  It completes the response it is given (the Swagger UI under its own paths may send what it likes),
  keeps the invariant of the server, and only adds to the database.
\<close>

abbreviation swagger_path :: "string \<Rightarrow> bool" where
  "swagger_path path \<equiv> HasPrefix path ''/swagger/''"

locale http_handler =
  fixes A :: "('r, 'o) app"
    and h :: "('r, 'o) handler"
  assumes responds: "ready tr w \<Longrightarrow> GetTraceID (rq_Context r) = tr \<Longrightarrow>
      \<not> swagger_path (rq_Path r) \<Longrightarrow> response_ok (rq_Path r) tr (fst (h E r (w, s)))"
    and keeps: "storage_ok (ap_storage A) \<Longrightarrow> server_ok A s \<Longrightarrow>
      server_ok A (snd (h E r (w, s))) \<and> evolves (sv_db s) (sv_db (snd (h E r (w, s))))"
begin

lemma role_responds:
  "ready tr w \<Longrightarrow> GetTraceID (rq_Context r) = tr \<Longrightarrow> \<not> swagger_path (rq_Path r) \<Longrightarrow>
     response_ok (rq_Path r) tr (fst (RequireRole allowed h E r (w, s)))"
  using responds by (simp add: RequireRole_def Let_def WriteProblem_ok)

lemma role_keeps:
  "storage_ok (ap_storage A) \<Longrightarrow> server_ok A s \<Longrightarrow>
     server_ok A (snd (RequireRole allowed h E r (w, s)))
   \<and> evolves (sv_db s) (sv_db (snd (RequireRole allowed h E r (w, s))))"
  using keeps by (simp add: RequireRole_def Let_def)

lemma RequireRole: "http_handler A (RequireRole allowed h)"
  by unfold_locales (use role_responds role_keeps in blast)+

lemma auth_responds:
  assumes "ready tr w" and "GetTraceID (rq_Context r) = tr" and "\<not> swagger_path (rq_Path r)"
  shows "response_ok (rq_Path r) tr (fst (APIKeyAuthMiddleware A h E r (w, s)))"
proof -
  have same: "rq_Path (with_identity role T r) = rq_Path r"
      "GetTraceID (rq_Context (with_identity role T r)) = tr" for role T
    using assms(2) by (simp_all add: with_identity_def GetTraceID_def)
  show ?thesis
    using responds [OF assms] responds [OF assms(1) same(2)] assms(3) WriteProblem_ok [OF assms(1,2)]
    by (auto simp: APIKeyAuthMiddleware_def Let_def same split: prod.splits option.splits)
qed

lemma auth_keeps:
  assumes "storage_ok (ap_storage A)" and "server_ok A s"
  shows "server_ok A (snd (APIKeyAuthMiddleware A h E r (w, s)))
    \<and> evolves (sv_db s) (sv_db (snd (APIKeyAuthMiddleware A h E r (w, s))))"
proof -
  have quiet: "server_ok A (snd (cookie_session A r s))"
      "sv_db (snd (cookie_session A r s)) = sv_db s"
    using assms(2)
    by (auto simp: cookie_session_def server_ok_def split: option.splits prod.splits sum.splits)
  show ?thesis
    using keeps [OF assms, of E r w] keeps [OF assms(1) quiet(1)] quiet assms(2)
    by (auto simp: APIKeyAuthMiddleware_def Let_def split: prod.splits option.splits)
qed

lemma APIKeyAuth: "http_handler A (APIKeyAuthMiddleware A h)"
  by unfold_locales (use auth_responds auth_keeps in blast)+

lemma limit_responds:
  assumes "ready tr w" and "GetTraceID (rq_Context r) = tr" and "\<not> swagger_path (rq_Path r)"
  shows "response_ok (rq_Path r) tr (fst (RateLimitMiddleware txt cfg h E r (w, s)))"
  using responds [OF _ assms(2,3)] WriteProblem_ok [OF _ assms(2)] assms(1)
  by (auto simp: RateLimitMiddleware_def Let_def ready_SetHeader split: prod.splits option.splits)

lemma limit_keeps:
  assumes "storage_ok (ap_storage A)" and "server_ok A s"
  shows "server_ok A (snd (RateLimitMiddleware txt cfg h E r (w, s)))
    \<and> evolves (sv_db s) (sv_db (snd (RateLimitMiddleware txt cfg h E r (w, s))))"
proof -
  have quiet: "server_ok A (s\<lparr>sv_limits := l\<rparr>)" for l
    using assms(2) by (simp add: server_ok_def)
  show ?thesis
    using keeps [OF assms, of E r w] keeps [OF assms(1) quiet] quiet assms(2)
    by (auto simp: RateLimitMiddleware_def Let_def split: prod.splits option.splits)
qed

lemma RateLimit: "http_handler A (RateLimitMiddleware txt cfg h)"
  by unfold_locales (use limit_responds limit_keeps in blast)+

end

section \<open>Every endpoint keeps the contract\<close>

lemma server_ok_set_redis [simp]: "server_ok A (set_redis rd s) = server_ok A s"
  by (simp add: server_ok_def)

lemma server_ok_committed: "server_ok A s \<Longrightarrow> committed_ok (sv_db s)"
  by (simp add: server_ok_def ledger_ok_def)

text \<open>A database that differs in other tables than \<^verbatim>\<open>documents\<close>.\<close>

lemma server_ok_set_db:
  assumes "server_ok A s" and "ledger_ok (ap_F A) d" and "db_documents d = db_documents (sv_db s)"
  shows "server_ok A (set_db d s)"
  using assms by (simp add: server_ok_def documents_stored_def)

interpretation HealthCheck: http_handler A "HealthCheck A" for A
  by unfold_locales (auto simp: HealthCheck_def Let_def intro: response_rules)

interpretation GetAccountHandler: http_handler A "GetAccountHandler A" for A
  by unfold_locales
    (auto simp: GetAccountHandler_def split: prod.splits option.splits sum.splits
      intro: response_rules)

interpretation ListAccountsHandler: http_handler A "ListAccountsHandler A" for A
  by unfold_locales
    (auto simp: ListAccountsHandler_def Let_def split: option.splits sum.splits
      intro: response_rules)

interpretation GetAccountBalanceHandler: http_handler A "GetAccountBalanceHandler A" for A
  by unfold_locales
    (auto simp: GetAccountBalanceHandler_def split: prod.splits option.splits sum.splits
      intro: response_rules)

interpretation GetAccountPostingsHandler: http_handler A "GetAccountPostingsHandler A" for A
  by unfold_locales
    (auto simp: GetAccountPostingsHandler_def Let_def split: prod.splits option.splits sum.splits
      intro: response_rules)

interpretation GetTransactionHandler: http_handler A "GetTransactionHandler A" for A
  by unfold_locales
    (auto simp: GetTransactionHandler_def split: option.splits sum.splits intro: response_rules)

interpretation ListTransactionsHandler: http_handler A "ListTransactionsHandler A" for A
  by unfold_locales
    (auto simp: ListTransactionsHandler_def Let_def split: option.splits sum.splits
      intro: response_rules)

interpretation ListTransactionDocumentsHandler:
  http_handler A "ListTransactionDocumentsHandler A" for A
  by unfold_locales
    (auto simp: ListTransactionDocumentsHandler_def split: option.splits sum.splits
      intro: response_rules)

interpretation MeHandler: http_handler A "MeHandler A" for A
  by unfold_locales (auto simp: MeHandler_def Let_def intro: response_rules)

interpretation LogoutHandler: http_handler A "LogoutHandler A" for A
  by unfold_locales (auto simp: LogoutHandler_def Let_def split: option.splits intro: response_rules)

lemma open_session_responds:
  assumes "ready tr w" and "GetTraceID (rq_Context r) = tr" and "status \<in> {200, 201}"
  shows "response_ok (rq_Path r) tr (fst (open_session A E r status role T (w, s)))"
  using assms
  by (auto simp: open_session_def split: prod.splits sum.splits intro!: response_rules)

lemma open_session_frame [simp]:
  "sv_db (snd (open_session A E r status role T (w, s))) = sv_db s"
  "sv_objects (snd (open_session A E r status role T (w, s))) = sv_objects s"
  by (auto simp: open_session_def split: prod.splits sum.splits)

interpretation LoginHandler: http_handler A "LoginHandler A" for A
  by unfold_locales
    (auto simp: LoginHandler_def server_ok_def split: option.splits sum.splits
      intro: response_rules open_session_responds)

section \<open>Handlers that write\<close>

context statement
begin

lemma autocommit_step:
  assumes "ledger_ok F d" and "books (snd (q d)) = books d"
    and "db_documents (snd (q d)) = db_documents d"
  shows "ledger_ok F (snd (autocommit flt q d))" and "evolves d (snd (autocommit flt q d))"
    and "db_documents (snd (autocommit flt q d)) = db_documents d"
proof -
  show "ledger_ok F (snd (autocommit flt q d))" by (rule autocommit_ledger_ok [OF assms(1,2)])
  show "evolves d (snd (autocommit flt q d))" by (rule autocommit_evolves)
  show "db_documents (snd (autocommit flt q d)) = db_documents d"
    by (rule autocommit_field) (simp_all add: assms(3))
qed

end

lemma documents_inserts:
  "db_documents (snd (q_CreateTenant i now name d)) = db_documents d"
  "db_documents (snd (q_CreateUser i now uarg d)) = db_documents d"
  "db_documents (snd (q_CreateAccount now aarg d)) = db_documents d"
  by (auto simp: q_CreateTenant_def q_CreateUser_def q_CreateAccount_def insert_row_def put_defs
      split: sum.splits)

lemma CreateAccount_step:
  assumes "ledger_ok F d" and "CreateAccount flt now T req d = (res, d')"
  shows "ledger_ok F d'" and "evolves d d'" and "db_documents d' = db_documents d"
proof -
  let ?arg = "\<lparr>cap_TenantID = T, cap_AccountName = car_AccountName req,
    cap_AccountType = car_AccountType req, cap_Currency = car_Currency req,
    cap_Metadata = metadata_or_empty (car_Metadata req)\<rparr>"
  have d': "d' = snd (autocommit flt (q_CreateAccount now ?arg) d)"
    using assms(2) by (auto simp: CreateAccount_def split: prod.splits sum.splits)
  note step = CreateAccount.autocommit_step [OF assms(1) books_inserts(3) documents_inserts(3)]
  show "ledger_ok F d'" "evolves d d'" "db_documents d' = db_documents d"
    unfolding d' by (rule step)+
qed

interpretation CreateAccountHandler: http_handler A "CreateAccountHandler A" for A
proof unfold_locales
  show "server_ok A (snd (CreateAccountHandler A E r (w, s)))
    \<and> evolves (sv_db s) (sv_db (snd (CreateAccountHandler A E r (w, s))))"
    if "server_ok A s" for E r w s
    using that CreateAccount_step [of "ap_F A" "sv_db s"]
    by (auto simp: CreateAccountHandler_def Let_def server_ok_def documents_stored_def
        split: option.splits prod.splits sum.splits)
qed (auto simp: CreateAccountHandler_def Let_def split: option.splits prod.splits sum.splits
      intro: response_rules)

interpretation SignupHandler: http_handler A "SignupHandler A" for A
proof unfold_locales
  show "server_ok A (snd (SignupHandler A E r (w, s)))
    \<and> evolves (sv_db s) (sv_db (snd (SignupHandler A E r (w, s))))"
    if "server_ok A s" for E r w s
  proof -
    have t: "ledger_ok (ap_F A) d" "evolves (sv_db s) d" "db_documents d = db_documents (sv_db s)"
      if "autocommit f (q_CreateTenant i now name) (sv_db s) = (x, d)" for f i now name x d
      using CreateTenant.autocommit_step [OF _ books_inserts(1) documents_inserts(1),
          of "ap_F A" "sv_db s" f i now name] \<open>server_ok A s\<close> that
      by (simp_all add: server_ok_def)
    have u: "ledger_ok (ap_F A) d'" "evolves d d'" "db_documents d' = db_documents d"
      if "ledger_ok (ap_F A) d" "autocommit f (q_CreateUser i now arg) d = (x, d')"
      for f i now arg x d d'
      using CreateUser.autocommit_step [OF that(1) books_inserts(2) documents_inserts(2),
          of f i now arg] that(2)
      by simp_all
    show ?thesis
      using \<open>server_ok A s\<close> t(1,3) evolves_trans [OF t(2) u(2) [OF t(1)]] t(2) u(1) [OF t(1)]
        u(3) [OF t(1)]
      by (auto simp: SignupHandler_def server_ok_def documents_stored_def
          split: option.splits prod.splits sum.splits)
  qed
qed (auto simp: SignupHandler_def split: option.splits prod.splits sum.splits
      intro: response_rules open_session_responds)

lemma CreateTransaction_step:
  assumes "ledger_ok F (w_db v)" and "CreateTransaction F R ttl E T req v = (res, v')"
  shows "ledger_ok F (w_db v')" and "evolves (w_db v) (w_db v')"
    and "db_documents (w_db v') = db_documents (w_db v)"
proof -
  show "ledger_ok F (w_db v')"
    using CreateTransaction_db [OF assms(2)] write_transaction_ledger_ok [OF assms(1)] assms(1)
    by metis
  have "committed_ok (w_db v)" using assms(1) by (simp add: ledger_ok_def)
  then show "evolves (w_db v) (w_db v')"
    using CreateTransaction_db [OF assms(2)] write_transaction_committed by fastforce
  show "db_documents (w_db v') = db_documents (w_db v)"
    using CreateTransaction_outcome [OF assms(2)]
  proof
    assume "unchanged (w_db v) (w_db v')"
    then show ?thesis by (subst \<open>unchanged _ _\<close> [unfolded unchanged_def rollback_db_def]) simp
  qed (simp add: posted_def)
qed

interpretation CreateTransactionHandler: http_handler A "CreateTransactionHandler A" for A
proof unfold_locales
  show "server_ok A (snd (CreateTransactionHandler A E r (w, s)))
    \<and> evolves (sv_db s) (sv_db (snd (CreateTransactionHandler A E r (w, s))))"
    if "server_ok A s" for E r w s
    using that CreateTransaction_step [of "ap_F A" "sv_world s"]
    by (auto simp: CreateTransactionHandler_def Let_def server_ok_def documents_stored_def
        split: option.splits prod.splits sum.splits)
qed (auto simp: CreateTransactionHandler_def Let_def split: option.splits prod.splits sum.splits
      intro: response_rules)

lemma AttachDocument_step:
  assumes "ledger_ok F d" and "AttachDocument F S x E T t filename ct sz body (d, ob) = (res, d', ob')"
  shows "evolves d d'"
proof -
  have "db_deferred d = []" using assms(1) by (simp add: ledger_ok_def committed_ok_def)
  from AttachDocument_cases [OF this assms(2)] show ?thesis
    by cases (simp_all add: put_document_def evolves_def)
qed

interpretation AttachDocumentHandler: http_handler A "AttachDocumentHandler A" for A
proof unfold_locales
  show "server_ok A (snd (AttachDocumentHandler A E r (w, s)))
    \<and> evolves (sv_db s) (sv_db (snd (AttachDocumentHandler A E r (w, s))))"
    if st: "storage_ok (ap_storage A)" and ok: "server_ok A s" for E r w s
  proof -
    have q: "db_deferred (sv_db s) = []"
      using ok by (simp add: server_ok_def ledger_ok_def committed_ok_def)
    have step: "ledger_ok (ap_F A) d' \<and> documents_stored (ap_storage A) (ap_storageService A) d' ob'
        \<and> evolves (sv_db s) d'"
      if "AttachDocument (ap_F A) (ap_storage A) (ap_storageService A) E' T t filename ct sz body
        (sv_db s, sv_objects s) = (res, d', ob')" for E' T t filename ct sz body res d' ob'
      using ok AttachDocument_ledger_ok [OF _ that] AttachDocument_stored [OF st _ q that]
        AttachDocument_step [OF _ that]
      by (simp add: server_ok_def)
    show ?thesis
      using ok step
      by (auto simp: AttachDocumentHandler_def Let_def server_ok_def set_db_def
          split: option.splits prod.splits sum.splits)
  qed
qed (auto simp: AttachDocumentHandler_def Let_def split: option.splits prod.splits sum.splits
      intro!: response_rules)

section \<open>The router keeps the contract\<close>

lemma endpoint_ok: "e \<noteq> ESwagger \<Longrightarrow> http_handler A (endpoint_handler ch A e)"
  by (cases e)
    (simp_all add: HealthCheck.http_handler_axioms LoginHandler.http_handler_axioms
      SignupHandler.http_handler_axioms LogoutHandler.http_handler_axioms
      MeHandler.http_handler_axioms CreateAccountHandler.http_handler_axioms
      ListAccountsHandler.http_handler_axioms GetAccountHandler.http_handler_axioms
      GetAccountBalanceHandler.http_handler_axioms GetAccountPostingsHandler.http_handler_axioms
      CreateTransactionHandler.http_handler_axioms AttachDocumentHandler.http_handler_axioms
      ListTransactionsHandler.http_handler_axioms GetTransactionHandler.http_handler_axioms
      ListTransactionDocumentsHandler.http_handler_axioms)

lemma route_ok: "rt_Endpoint rt \<noteq> ESwagger \<Longrightarrow> http_handler A (route_handler ch A rt)"
  using endpoint_ok [of "rt_Endpoint rt" A ch] http_handler.RequireRole
  by (auto simp: route_handler_def split: option.splits)

lemma swagger_route:
  assumes "chi_ok ch" and "ch_Match ch routes m path = Some (rt, ps)" and "rt_Endpoint rt = ESwagger"
  shows "swagger_path path" and "route_handler ch A rt E r (w, s) = (ch_Swagger ch r w, s)"
proof -
  have "rt \<in> set routes" and fits: "pattern_fits (rt_Pattern rt) path"
    using assms(1,2) unfolding chi_ok_def by blast+
  have "list_all (\<lambda>x. rt_Endpoint x = ESwagger \<longrightarrow> x = \<lparr>rt_Method = ''GET'',
      rt_Pattern = ''/swagger/*'', rt_Roles = None, rt_Endpoint = ESwagger\<rparr>) routes"
    by (simp add: routes_def)
  with \<open>rt \<in> set routes\<close> assms(3) have rt: "rt = \<lparr>rt_Method = ''GET'',
      rt_Pattern = ''/swagger/*'', rt_Roles = None, rt_Endpoint = ESwagger\<rparr>"
    by (auto simp: list_all_iff)
  from fits show "swagger_path path"
    by (simp add: rt pattern_fits_def literal_prefix_def)
  show "route_handler ch A rt E r (w, s) = (ch_Swagger ch r w, s)"
    by (simp add: route_handler_def rt)
qed

lemma dispatch_ok:
  assumes "chi_ok ch"
  shows "http_handler A (dispatch ch A)"
proof unfold_locales
  fix tr w E s and r :: request
  assume pre: "ready tr w" "GetTraceID (rq_Context r) = tr" "\<not> swagger_path (rq_Path r)"
  show "response_ok (rq_Path r) tr (fst (dispatch ch A E r (w, s)))"
  proof (cases "ch_Match ch routes (rq_Method r) (rq_Path r)")
    case None
    have "ch_Fallback ch (rq_Method r) (rq_Path r) \<in> {204, 404, 405}"
      using assms unfolding chi_ok_def by blast
    from WriteHeader_ok [OF pre(1) this] None show ?thesis by (simp add: dispatch_def)
  next
    case (Some m)
    obtain rt ps where m: "m = (rt, ps)" by (cases m)
    have "rt_Endpoint rt \<noteq> ESwagger" using swagger_route(1) [OF assms Some [unfolded m]] pre(3) by blast
    from http_handler.responds [OF route_ok [OF this], of tr w "r\<lparr>rq_URLParam := ps\<rparr>"] pre
    show ?thesis by (simp add: dispatch_def Some m)
  qed
next
  fix E r w s
  assume pre: "storage_ok (ap_storage A)" "server_ok A s"
  show "server_ok A (snd (dispatch ch A E r (w, s)))
    \<and> evolves (sv_db s) (sv_db (snd (dispatch ch A E r (w, s))))"
  proof (cases "ch_Match ch routes (rq_Method r) (rq_Path r)")
    case None
    then show ?thesis using pre by (simp add: dispatch_def)
  next
    case (Some m)
    obtain rt ps where m: "m = (rt, ps)" by (cases m)
    show ?thesis
    proof (cases "rt_Endpoint rt = ESwagger")
      case True
      note sw = swagger_route(2) [OF assms Some [unfolded m] this, of A E "r\<lparr>rq_URLParam := ps\<rparr>" w s]
      show ?thesis using pre by (simp add: dispatch_def Some m sw)
    next
      case False
      from http_handler.keeps [OF route_ok [OF False] pre] show ?thesis
        by (simp add: dispatch_def Some m)
    qed
  qed
qed

definition inner_stack ::
  "chi \<Rightarrow> (int \<Rightarrow> string) \<Rightarrow> ('r, 'o) app \<Rightarrow> RouterConfig \<Rightarrow> ('r, 'o) handler" where
  "inner_stack ch txt A cfg =
     (let h1 = (if auth_enabled A then APIKeyAuthMiddleware A (dispatch ch A) else dispatch ch A)
      in case rc_RateLimitConfig cfg of Some rl \<Rightarrow> RateLimitMiddleware txt rl h1 | None \<Rightarrow> h1)"

lemma inner_stack_ok:
  assumes "chi_ok ch"
  shows "http_handler A (inner_stack ch txt A cfg)"
proof -
  have "http_handler A (if auth_enabled A then APIKeyAuthMiddleware A (dispatch ch A) else dispatch ch A)"
    using dispatch_ok [OF assms, of A] http_handler.APIKeyAuth [of A "dispatch ch A"] by simp
  from this http_handler.RateLimit [OF this] show ?thesis
    unfolding inner_stack_def Let_def by (cases "rc_RateLimitConfig cfg") (simp_all only: option.simps)
qed

text \<open>A request that is no preflight: the inner stack, with the trace id set and the writer ready.\<close>

definition trace_of :: "('r, 'o) app \<Rightarrow> request_env \<Rightarrow> request \<Rightarrow> string" where
  "trace_of A E r =
     (let given = rq_Header r ''X-Trace-ID'' in
      if given = '''' then uuid_String (ap_F A) (re_trace E) else given)"

definition traced_request ::
  "chi \<Rightarrow> ('r, 'o) app \<Rightarrow> RouterConfig \<Rightarrow> request_env \<Rightarrow> request \<Rightarrow> request" where
  "traced_request ch A cfg E r =
     (let r0 = r\<lparr>rq_Context := no_context\<rparr>; r1 = r0\<lparr>rq_RemoteAddr := ch_RealIP ch r0\<rparr> in
      r1\<lparr>rq_Context :=
        \<lparr>cx_TraceID = Some (trace_of A E r), cx_Role = None, cx_TenantID = None,
         cx_Deadline = (if 0 < rc_RequestTimeout cfg then Some (re_now E + rc_RequestTimeout cfg)
                        else None)\<rparr>\<rparr>)"

definition cors_writer :: "RouterConfig \<Rightarrow> writer" where
  "cors_writer rcfg =
     (let cfg = cors_config rcfg in
      SetHeader ''Access-Control-Expose-Headers''
        ''X-Trace-ID, X-RateLimit-Limit, X-RateLimit-Remaining, X-RateLimit-Reset''
       (SetHeader ''Access-Control-Max-Age'' (show_int (co_MaxAge cfg))
        (SetHeader ''Access-Control-Allow-Headers'' (Join '', '' (co_AllowedHeaders cfg))
         (SetHeader ''Access-Control-Allow-Methods'' (Join '', '' (co_AllowedMethods cfg))
          (SetHeader ''Access-Control-Allow-Origin'' (Join '', '' (co_AllowedOrigins cfg))
            new_writer)))))"

lemma cors_writer_open: "wr_Status (cors_writer cfg) = None \<and> wr_Body (cors_writer cfg) = []"
  by (simp add: cors_writer_def Let_def new_writer_def SetHeader_def)

lemma traced_writer_ready: "ready tr (SetHeader ''X-Trace-ID'' tr (cors_writer cfg))"
  using cors_writer_open [of cfg] by (simp add: ready_def SetHeader_def)

lemma CORS_step:
  "CORSMiddleware (cors_config cfg) h E r (new_writer, s) =
     (if rq_Method r = ''OPTIONS'' then (WriteHeader 204 (cors_writer cfg), s)
      else h E r (cors_writer cfg, s))"
  by (simp add: CORSMiddleware_def cors_writer_def Let_def)

lemma serve_eq:
  "serve ch txt A cfg E r s =
     (if rq_Method r = ''OPTIONS'' then (WriteHeader 204 (cors_writer cfg), s)
      else inner_stack ch txt A cfg E (traced_request ch A cfg E r)
        (SetHeader ''X-Trace-ID'' (trace_of A E r) (cors_writer cfg), s))"
  by (simp add: serve_def NewRouter_def RealIP_def CORS_step TraceIDMiddleware_def
      StructuredLogger_id RequestTimeoutMiddleware_def with_timeout_def no_context_def
      inner_stack_def traced_request_def trace_of_def Let_def)

lemma serve_inner:
  assumes "rq_Method r \<noteq> ''OPTIONS''"
  obtains w where "ready (trace_of A E r) w"
    and "serve ch txt A cfg E r s = inner_stack ch txt A cfg E (traced_request ch A cfg E r) (w, s)"
  using that [OF traced_writer_ready] assms by (simp add: serve_eq)

lemma serve_preflight:
  "rq_Method r = ''OPTIONS'' \<Longrightarrow> snd (serve ch txt A cfg E r s) = s"
  by (simp add: serve_eq)

lemma traced_request_simps [simp]:
  "rq_Path (traced_request ch A cfg E r) = rq_Path r" "rq_Method (traced_request ch A cfg E r) = rq_Method r"
  "rq_Cookie (traced_request ch A cfg E r) = rq_Cookie r"
  "rq_Header (traced_request ch A cfg E r) = rq_Header r"
  "GetTraceID (rq_Context (traced_request ch A cfg E r)) = trace_of A E r"
  by (simp_all add: traced_request_def Let_def GetTraceID_def)

end
