(* ===== verification/Program.thy ===== *)
theory Program
  imports Server Config Outbox
begin

text \<open>
  The running program: requests served through the router, the outbox worker beside them, and what
  holds of it from start to end. The examples run it on the small ledger of \<open>Sample\<close> with a simple
  router.
\<close>

section \<open>A router in full\<close>

text \<open>
  Patterns and paths segment by segment; \<^verbatim>\<open>{id}\<close> takes one nonempty segment, \<^verbatim>\<open>*\<close> all that is left.
\<close>

fun match_segments :: "string list \<Rightarrow> string list \<Rightarrow> (string \<times> string) list option" where
  "match_segments [] [] = Some []"
| "match_segments (p # ps) (x # xs) =
     (if p = ''*'' then Some []
      else if p = ''{id}'' \<and> x \<noteq> '''' then map_option (Cons (''id'', x)) (match_segments ps xs)
      else if p = x then match_segments ps xs
      else None)"
| "match_segments _ _ = None"

definition url_params :: "route \<Rightarrow> string \<Rightarrow> (string \<times> string) list option" where
  "url_params rt path =
     (if pattern_fits (rt_Pattern rt) path
      then match_segments (Split (CHR ''/'') (rt_Pattern rt)) (Split (CHR ''/'') path) else None)"

definition segment_chi :: chi where
  "segment_chi =
     \<lparr>ch_Match = (\<lambda>rts m path.
        case List.find (\<lambda>rt. rt_Method rt = m \<and> url_params rt path \<noteq> None) rts of
          None \<Rightarrow> None
        | Some rt \<Rightarrow> Some (rt, \<lambda>k. case map_of (the (url_params rt path)) k of
                                Some v \<Rightarrow> v | None \<Rightarrow> '''')),
      ch_Fallback = (\<lambda>m path. if list_ex (\<lambda>rt. url_params rt path \<noteq> None) routes then 405 else 404),
      ch_RealIP = (\<lambda>r. if rq_Header r ''X-Real-IP'' = '''' then rq_RemoteAddr r
                       else rq_Header r ''X-Real-IP''),
      ch_Swagger = (\<lambda>r w. WriteHeader 200 w)\<rparr>"

lemma segment_chi_ok: "chi_ok segment_chi"
  by (auto simp: chi_ok_def segment_chi_def url_params_def split: option.splits if_splits
      dest!: find_Some_in)

definition sample_server ::
  "(string \<Rightarrow> payload option, string \<times> string \<Rightarrow> (string \<times> string) option) server" where
  "sample_server =
     \<lparr>sv_world = sample_world, sv_objects = Map.empty, sv_limits = (\<lambda>_. [])\<rparr>"

definition sample_request_env :: request_env where
  "sample_request_env =
     \<lparr>re_now = 7, re_db_now = 7, re_trace = 77, re_tenant_id = 401, re_user_id = 402,
      re_rand = Inr (replicate 32 0), re_salt = 3, re_fault1 = None, re_fault2 = None,
      re_call = sample_env, re_document = sample_document_env, re_pg_ping = None,
      re_redis_ping = None, re_latency = (\<lambda>_. ''1ms''), re_limit_error = None,
      re_limit_expired = False, re_limit_rnd = 5\<rparr>"

text \<open>The request of the examples, with its idempotency key and an API key in the headers.\<close>

definition post_transaction :: "string \<Rightarrow> request" where
  "post_transaction apiKey =
     \<lparr>rq_Method = ''POST'', rq_Path = ''/v1/transactions/'',
      rq_Header = (\<lambda>h. if h = ''X-API-Key'' then apiKey
                       else if h = ''Idempotency-Key'' then ''order-1'' else ''''),
      rq_Cookie = (\<lambda>_. None), rq_Query = (\<lambda>_. ''''), rq_URLParam = (\<lambda>_. ''''),
      rq_RemoteAddr = ''10.0.0.1:4711'',
      rq_Body = Doc (JObj
        [(''description'', JStr ''First sale''),
         (''postings'', JArr
           [JObj [(''account_id'', JInt 1), (''amount'', JInt 500), (''direction'', JStr ''debit'')],
            JObj [(''account_id'', JInt 2), (''amount'', JInt 500),
                  (''direction'', JStr ''credit'')]])]),
      rq_Form = Inl ''no multipart form'', rq_Context = no_context\<rparr>"

text \<open>Small numbers, so that the examples evaluate: a window of 3 ns, a preflight valid for 5 s.\<close>

definition sample_config :: RouterConfig where
  "sample_config =
     \<lparr>rc_RateLimitConfig = Some \<lparr>rl_RequestsPerWindow = 100, rl_WindowDuration = 3\<rparr>,
      rc_CORSConfig = Some (DefaultCORSConfig\<lparr>co_MaxAge := 5\<rparr>), rc_RequestTimeout = 30\<rparr>"

abbreviation serve_sample where
  "serve_sample \<equiv> serve segment_chi show_int sample_app sample_config sample_request_env"

section \<open>Answers\<close>



section \<open>The ledger over the life of the program\<close>

text \<open>
  One step of the running program: a request is served; the outbox worker polls; or Redis changes on
  its own (keys expire, other clients write, data is lost). A call that fails inside a step is part of
  the step's environment.
\<close>

inductive program_step ::
  "chi \<Rightarrow> (int \<Rightarrow> string) \<Rightarrow> ('r, 'o) app \<Rightarrow> RouterConfig \<Rightarrow> 'b broker \<Rightarrow> OutboxWorker
    \<Rightarrow> ('r, 'o) server \<times> 'b \<Rightarrow> ('r, 'o) server \<times> 'b \<Rightarrow> bool"
  for ch lua A cfg B ow where
  request: "program_step ch lua A cfg B ow (s, b) (snd (serve ch lua A cfg E r s), b)"
| poll: "processBatch (ap_F A) B ow P (b, sv_db s) = (b', d') \<Longrightarrow>
     program_step ch lua A cfg B ow (s, b) (set_db d' s, b')"
| redis: "program_step ch lua A cfg B ow (s, b) (set_redis rd s, b)"

lemma serve_keeps:
  assumes "chi_ok ch" and "storage_ok (ap_storage A)" and "server_ok A s"
  shows "server_ok A (snd (serve ch txt A cfg E r s))
    \<and> evolves (sv_db s) (sv_db (snd (serve ch txt A cfg E r s)))"
proof (cases "rq_Method r = ''OPTIONS''")
  case True
  then show ?thesis using assms(3) by (simp add: serve_preflight)
next
  case False
  then obtain w where
    "serve ch txt A cfg E r s = inner_stack ch txt A cfg E (traced_request ch A cfg E r) (w, s)"
    by (rule serve_inner)
  with http_handler.keeps [OF inner_stack_ok [OF assms(1)] assms(2,3)] show ?thesis by simp
qed

lemma processBatch_keeps:
  assumes "ledger_ok F d" and "broker_ok B" and "processBatch F B ow P (b, d) = (b', d')"
  shows "ledger_ok F d' \<and> evolves d d' \<and> db_documents d' = db_documents d"
proof -
  have ok: "committed_ok d" using assms(1) by (simp add: ledger_ok_def)
  obtain g where g: "d' = d\<lparr>db_outbox := map g (db_outbox d)\<rparr>"
      "\<forall>r \<in> set (db_outbox d). g r = r \<or> r \<in> set (batch ow d)
         \<and> event_outcome F ow P (set (bk_written B b')) r (g r)"
    by (rule processBatch_effect [OF ok assms(2,3)])
  have row: "ob_Payload (g r) = ob_Payload r \<and> ob_ID (g r) = ob_ID r"
    if "r \<in> set (db_outbox d)" for r
    using g(2) that batch_pending event_outcome_row by metis
  then have "books d' = books d" by (simp add: g(1) books_def)
  then have "ledger_ok F d'"
    by (rule ledger_ok_books [OF assms(1) processBatch_committed [OF ok assms(2,3)]])
  then show ?thesis using row by (simp add: g(1) evolves_def cong: map_cong)
qed

lemma program_step_keeps:
  assumes "program_step ch txt A cfg B ow (s, b) (s', b')"
    and "chi_ok ch" and "storage_ok (ap_storage A)" and "broker_ok B" and "server_ok A s"
  shows "server_ok A s' \<and> evolves (sv_db s) (sv_db s')"
  using assms(1)
proof cases
  case (request E r)
  then show ?thesis using serve_keeps [OF assms(2,3,5)] by simp
next
  case (poll P d')
  have "ledger_ok (ap_F A) (sv_db s)" using assms(5) by (simp add: server_ok_def)
  from processBatch_keeps [OF this assms(4) poll(2)] assms(5) show ?thesis
    by (simp add: poll(1) server_ok_set_db)
next
  case (redis rd)
  then show ?thesis using assms(5) by simp
qed

text \<open>
  C2: The ledger over the life of the program. Starting from a sound state, whatever requests are
  served (valid or not, with calls failing at any point), however often the outbox worker polls and
  whatever happens to Redis, in between: the ledger invariant holds (every transaction balanced and
  with its postings, one event for each transaction, all constraints of the schema), every document
  row has its stored object, and tenants, users, accounts, transactions, postings and documents are
  only ever appended to: no row is changed or lost.
\<close>

theorem program_keeps_ledger:
  assumes "(program_step ch txt A cfg B ow)\<^sup>*\<^sup>* (s, b) (s', b')"
    and "chi_ok ch" and "storage_ok (ap_storage A)" and "broker_ok B"
    and "ledger_ok (ap_F A) (sv_db s)"
    and "documents_stored (ap_storage A) (ap_storageService A) (sv_db s) (sv_objects s)"
  shows "ledger_ok (ap_F A) (sv_db s') \<and> evolves (sv_db s) (sv_db s')
    \<and> documents_stored (ap_storage A) (ap_storageService A) (sv_db s') (sv_objects s')
    \<and> (\<forall>t. debits_of t (sv_db s') = credits_of t (sv_db s'))"
proof -
  have "server_ok A s' \<and> evolves (sv_db s) (sv_db s')"
    using assms(1)
  proof (induction rule: rtranclp_induct2)
    case refl
    then show ?case using assms(5,6) by (simp add: server_ok_def)
  next
    case (step s1 b1 s2 b2)
    with program_step_keeps [OF step.hyps(2) assms(2-4)] show ?case
      by (blast intro: evolves_trans)
  qed
  then show ?thesis
    by (simp add: server_ok_def ledger_ok_def committed_ok_def tx_ok_def balanced_def)
qed

text \<open>The request of the examples, served step by step, and then a poll of the outbox.\<close>

lemma post_route:
  "map_option fst (ch_Match segment_chi routes ''POST'' ''/v1/transactions/'') =
     Some \<lparr>rt_Method = ''POST'', rt_Pattern = ''/v1/transactions/'', rt_Roles = Some write_roles,
       rt_Endpoint = ECreateTransaction\<rparr>"
  by code_simp

lemma sample_parts:
  "ap_F sample_app = plain_formats" "ap_R sample_app = map_redis" "ap_idempotencyTTL sample_app = 1"
  "re_call sample_request_env = sample_env" "re_limit_error sample_request_env = None"
  "auth_enabled sample_app"
  "map_of (ap_keys sample_app) ''sk-abc123'' = Some \<lparr>ke_Role = ''admin''\<rparr>"
  by (simp_all add: sample_app_def sample_request_env_def auth_enabled_def)

lemma sample_body:
  "unmarshal_CreateTransactionRequest (rq_Body (post_transaction k)) =
     Some (sample_request\<lparr>ctr_IdempotencyKey := ''''\<rparr>)"
proof -
  have "unmarshal_CreateTransactionRequest (rq_Body (post_transaction '''')) =
     Some (sample_request\<lparr>ctr_IdempotencyKey := ''''\<rparr>)" by code_simp
  then show ?thesis by (simp add: post_transaction_def)
qed

lemma sample_request_key: "sample_request\<lparr>ctr_IdempotencyKey := ''order-1''\<rparr> = sample_request"
  by (simp add: sample_request_def)

lemma sample_created:
  "CreateTransaction plain_formats map_redis 1 sample_env 0 sample_request sample_world =
     (Inr (projr (fst (sample_create sample_env sample_request sample_world))), posted_world)"
proof -
  obtain resp where "sample_create sample_env sample_request sample_world = (Inr resp, posted_world)"
    by (rule sample_posted)
  then show ?thesis by (simp add: sample_create_def sample_tenant_def uuid_Nil_def)
qed

lemma sample_handled:
  assumes "rq_Body r = rq_Body (post_transaction k)" and "rq_Header r ''Idempotency-Key'' = ''order-1''"
    and "GetTenantID (rq_Context r) = 0" and "sv_world s = sample_world"
  shows "CreateTransactionHandler sample_app sample_request_env r (w, s) =
    (writeJSON 201 (encode_TransactionResponse plain_formats
       (projr (fst (sample_create sample_env sample_request sample_world)))) w,
     s\<lparr>sv_world := posted_world\<rparr>)"
proof -
  have "ValidateCreateTransactionRequest sample_request = []" by code_simp
  then show ?thesis
    using assms by (simp add: CreateTransactionHandler_def sample_body sample_request_key HasErrors_def
        sample_parts sample_created)
qed

lemma serve_sample_db:
  "sv_db (snd (serve_sample (post_transaction ''sk-abc123'') sample_server)) = posted_db"
proof -
  let ?r = "traced_request segment_chi sample_app sample_config sample_request_env (post_transaction ''sk-abc123'')"
  let ?who = "with_identity ''admin'' uuid_Nil ?r"
  let ?h = "APIKeyAuthMiddleware sample_app (dispatch segment_chi sample_app)"
  obtain ps where m: "ch_Match segment_chi routes ''POST'' ''/v1/transactions/'' =
      Some (\<lparr>rt_Method = ''POST'', rt_Pattern = ''/v1/transactions/'', rt_Roles = Some write_roles,
        rt_Endpoint = ECreateTransaction\<rparr>, ps)"
    using post_route by auto
  have world: "sv_db (snd (dispatch segment_chi sample_app sample_request_env ?who (w, s))) = posted_db"
    if "sv_world s = sample_world" for w s
  proof -
    let ?q = "?who\<lparr>rq_URLParam := ps\<rparr>"
    have "sv_db (snd (CreateTransactionHandler sample_app sample_request_env ?q (w, s))) = posted_db"
      by (subst sample_handled [where k = "''sk-abc123''"])
        (simp_all add: that with_identity_def traced_request_def Let_def post_transaction_def
          GetTenantID_def uuid_Nil_def posted_db_def)
    then show ?thesis
      by (simp add: dispatch_def m route_handler_def sample_parts RequireRole_def with_identity_def
          traced_request_def Let_def post_transaction_def GetAPIKeyRole_def write_roles_def)
  qed
  have auth: "sv_db (snd (?h sample_request_env ?r (w, s))) = posted_db"
    if "sv_world s = sample_world" for w s
    using world [OF that, of w]
    by (simp add: APIKeyAuthMiddleware_def is_public_def publicPaths_def HasPrefix_def
        cookie_session_def presented_key_def sample_parts traced_request_def Let_def
        post_transaction_def)
  have "fst (limit_check show_int \<lparr>rl_RequestsPerWindow = 100, rl_WindowDuration = 3\<rparr> False 5 7 [])
      = (1, 1, 100)"
    by code_simp
  then obtain z where "limit_check show_int \<lparr>rl_RequestsPerWindow = 100, rl_WindowDuration = 3\<rparr> False 5 7 []
      = ((1, 1, 100), z)"
    by (metis prod.collapse)
  then have "sv_db (snd (RateLimitMiddleware show_int
      \<lparr>rl_RequestsPerWindow = 100, rl_WindowDuration = 3\<rparr> ?h sample_request_env ?r (w, sample_server)))
    = posted_db" for w
    using auth by (simp add: RateLimitMiddleware_def sample_request_env_def sample_server_def Let_def)
  then show ?thesis
    by (simp add: serve_eq inner_stack_def sample_config_def sample_parts)
      (simp add: post_transaction_def)
qed

theorem program_keeps_ledger_witness:
  "\<exists>s'. (program_step segment_chi show_int sample_app sample_config script_broker sample_worker)\<^sup>*\<^sup>*
      (sample_server, ([], [])) s' \<and> db_transactions (sv_db (fst s')) \<noteq> []
    \<and> ledger_ok plain_formats (sv_db (fst s'))"
proof -
  let ?step = "program_step segment_chi show_int sample_app sample_config script_broker sample_worker"
  have fmt: "ap_F sample_app = plain_formats" and st: "storage_ok (ap_storage sample_app)"
    by (simp_all add: sample_app_def map_storage_ok)
  let ?s1 = "snd (serve_sample (post_transaction ''sk-abc123'') sample_server)"
  obtain b d where poll: "processBatch plain_formats script_broker sample_worker sample_poll
      (([], []), sv_db ?s1) = (b, d)" by (metis surj_pair)
  have "?step (sample_server, ([], [])) (?s1, ([], []))" by (rule program_step.request)
  moreover have "?step (?s1, ([], [])) (set_db d ?s1, b)"
    by (rule program_step.poll [where P = sample_poll]) (simp add: fmt poll)
  ultimately have steps: "?step\<^sup>*\<^sup>* (sample_server, ([], [])) (set_db d ?s1, b)"
    by (meson converse_rtranclp_into_rtranclp rtranclp.rtrancl_refl)
  have start: "sv_db sample_server = sample_db"
    by (simp add: sample_server_def sample_world_def)
  have docs: "documents_stored (ap_storage sample_app) (ap_storageService sample_app)
      (sv_db sample_server) (sv_objects sample_server)"
    by (simp add: documents_stored_def start sample_db_eq)
  have led: "ledger_ok (ap_F sample_app) (sv_db sample_server)"
    by (simp add: start sample_ledger_ok)
  from program_keeps_ledger [OF steps segment_chi_ok st script_broker_ok led docs]
  have "ledger_ok plain_formats (sv_db (set_db d ?s1))" by (simp add: fmt)
  moreover have "db_transactions d \<noteq> []"
  proof -
    have ok: "ledger_ok plain_formats (sv_db ?s1)"
      by (simp only: serve_sample_db posted_ledger_ok)
    from processBatch_keeps [OF ok script_broker_ok poll]
    have "prefix (db_transactions posted_db) (db_transactions d)"
      by (simp add: serve_sample_db evolves_def)
    then show ?thesis by (auto simp: posted_db_eq)
  qed
  ultimately show ?thesis using steps by (intro exI [of _ "(set_db d ?s1, b)"]) simp
qed

section \<open>Who may write\<close>

text \<open>The rows of the ledger: all but tenants and users, which anyone may create by signing up.\<close>

definition ledger_rows ::
  "db \<Rightarrow> Account list \<times> Transaction list \<times> Posting list \<times> Document list \<times> LedgerOutbox list" where
  "ledger_rows d =
     (db_accounts d, db_transactions d, db_postings d, db_documents d, db_outbox d)"

definition others_kept :: "uuid \<Rightarrow> db \<Rightarrow> db \<Rightarrow> bool" where
  "others_kept T d d' \<longleftrightarrow>
     (\<forall>T'. T' \<noteq> T \<longrightarrow> tenant_view T' d' = tenant_view T' d
        \<and> filter (\<lambda>doc. doc_TenantID doc = T') (db_documents d')
          = filter (\<lambda>doc. doc_TenantID doc = T') (db_documents d))"

lemma others_kept_rows: "ledger_rows d' = ledger_rows d \<Longrightarrow> others_kept T d d'"
  by (simp add: ledger_rows_def others_kept_def tenant_view_def own_accounts_def tenant_postings_def)

lemma others_kept_refl [simp]: "others_kept T d d"
  by (simp add: others_kept_def)

lemma rows_inserts:
  "ledger_rows (snd (autocommit flt (q_CreateTenant i now name) d)) = ledger_rows d"
  "ledger_rows (snd (autocommit flt (q_CreateUser i now uarg) d)) = ledger_rows d"
  by (rule autocommit_field;
      auto simp: ledger_rows_def q_CreateTenant_def q_CreateUser_def insert_row_def put_defs
        split: sum.splits)+

lemma CreateAccount_others:
  assumes "CreateAccount flt now T req d = (res, d')"
  shows "others_kept T d d'"
proof -
  let ?arg = "\<lparr>cap_TenantID = T, cap_AccountName = car_AccountName req,
    cap_AccountType = car_AccountType req, cap_Currency = car_Currency req,
    cap_Metadata = metadata_or_empty (car_Metadata req)\<rparr>"
  have d': "d' = snd (autocommit flt (q_CreateAccount now ?arg) d)"
    using assms by (auto simp: CreateAccount_def split: prod.splits sum.splits)
  have "tenant_view T' d' = tenant_view T' d" "db_documents d' = db_documents d" if "T' \<noteq> T" for T'
    unfolding d'
    by (rule autocommit_field; use that in \<open>auto simp: q_CreateAccount_def insert_row_def put_defs
        tenant_view_def own_accounts_def tenant_postings_def split: sum.splits\<close>)+
  then show ?thesis by (simp add: others_kept_def)
qed

lemma CreateTransaction_others:
  assumes "CreateTransaction F R ttl E T req v = (res, v')"
  shows "others_kept T (w_db v) (w_db v')"
proof -
  have "db_documents (w_db v') = db_documents (w_db v)"
    using CreateTransaction_outcome [OF assms]
  proof
    assume "unchanged (w_db v) (w_db v')"
    then show ?thesis by (subst \<open>unchanged _ _\<close> [unfolded unchanged_def rollback_db_def]) simp
  qed (simp add: posted_def)
  then show ?thesis using CreateTransaction_tenant_view [OF assms] by (simp add: others_kept_def)
qed

lemma AttachDocument_others:
  assumes "db_deferred d = []" and "AttachDocument F S x E T t filename ct sz body (d, ob) = (res, d', ob')"
  shows "others_kept T d d'"
  using AttachDocument_cases [OF assms]
  by cases (auto simp: others_kept_def put_document_def new_document_def tenant_view_def
      own_accounts_def tenant_postings_def)

text \<open>An endpoint changes the rows of the tenant of its request only, and only three change any.\<close>

definition writing :: "endpoint set" where
  "writing = {ECreateAccount, ECreateTransaction, EAttachDocument}"

lemma endpoint_others:
  assumes "server_ok A s" and "e \<in> writing"
  shows "others_kept (GetTenantID (rq_Context r)) (sv_db s)
    (sv_db (snd (endpoint_handler ch A e E r (w, s))))"
proof -
  have quiet: "db_deferred (sv_db s) = []"
    using assms(1) by (simp add: server_ok_def ledger_ok_def committed_ok_def)
  consider "e = ECreateAccount" | "e = ECreateTransaction" | "e = EAttachDocument"
    using assms(2) by (auto simp: writing_def)
  then show ?thesis
  proof cases
    case 1
    then show ?thesis
      by (auto simp: CreateAccountHandler_def Let_def split: option.splits prod.splits sum.splits
          dest: CreateAccount_others)
  next
    case 2
    then show ?thesis
      by (auto simp: CreateTransactionHandler_def Let_def split: option.splits prod.splits sum.splits
          dest: CreateTransaction_others)
  next
    case 3
    then show ?thesis
      by (auto simp: AttachDocumentHandler_def Let_def set_db_def
          split: option.splits prod.splits sum.splits dest: AttachDocument_others [OF quiet])
  qed
qed

lemma LogoutHandler_rows:
  "sv_db (snd (LogoutHandler A E r (w, s))) = sv_db s"
  by (auto simp: LogoutHandler_def Let_def split: option.splits)

lemma SignupHandler_rows:
  "ledger_rows (sv_db (snd (SignupHandler A E r (w, s)))) = ledger_rows (sv_db s)"
proof -
  have "ledger_rows d = ledger_rows (sv_db s)"
    if "autocommit f (q_CreateTenant i now name) (sv_db s) = (x, d)" for f i now name x d
    using rows_inserts(1) [of f i now name "sv_db s"] that by simp
  moreover have "ledger_rows d' = ledger_rows d"
    if "autocommit f (q_CreateUser i now arg) d = (x, d')" for f i now arg x d d'
    using rows_inserts(2) [of f i now arg d] that by simp
  ultimately show ?thesis
    by (auto simp: SignupHandler_def split: option.splits prod.splits sum.splits)
qed

lemma endpoint_rows:
  assumes "e \<notin> writing"
  shows "ledger_rows (sv_db (snd (endpoint_handler ch A e E r (w, s)))) = ledger_rows (sv_db s)"
  using assms
  by (cases e)
    (auto simp: writing_def SignupHandler_rows LogoutHandler_rows HealthCheck_def LoginHandler_def
      MeHandler_def GetAccountHandler_def ListAccountsHandler_def GetAccountBalanceHandler_def
      GetAccountPostingsHandler_def GetTransactionHandler_def ListTransactionsHandler_def
      ListTransactionDocumentsHandler_def Let_def split: option.splits prod.splits sum.splits)

text \<open>With authentication on, the three are behind \<^verbatim>\<open>RequireRole\<close>.\<close>

lemma writing_routes: "rt \<in> set routes \<Longrightarrow> rt_Endpoint rt \<in> writing \<Longrightarrow> rt_Roles rt = Some write_roles"
  by (auto simp: routes_def writing_def)

lemma RequireRole_cases:
  "snd (RequireRole allowed h E r (w, s)) = s
     \<or> GetAPIKeyRole (rq_Context r) \<in> set allowed
       \<and> snd (RequireRole allowed h E r (w, s)) = snd (h E r (w, s))"
  by (simp add: RequireRole_def Let_def)

text \<open>What a request changes below the authentication: nothing, or rows of its tenant as a writer.\<close>

definition as_writer :: "request \<Rightarrow> db \<Rightarrow> db \<Rightarrow> bool" where
  "as_writer r d d' \<longleftrightarrow> ledger_rows d' = ledger_rows d
     \<or> GetAPIKeyRole (rq_Context r) \<in> set write_roles \<and> others_kept (GetTenantID (rq_Context r)) d d'"

lemma dispatch_as_writer:
  assumes "chi_ok ch" and "auth_enabled A" and "server_ok A s"
  shows "as_writer r (sv_db s) (sv_db (snd (dispatch ch A E r (w, s))))"
proof (cases "ch_Match ch routes (rq_Method r) (rq_Path r)")
  case None
  then show ?thesis by (simp add: dispatch_def as_writer_def)
next
  case (Some m)
  obtain rt ps where m: "m = (rt, ps)" by (cases m)
  let ?r = "r\<lparr>rq_URLParam := ps\<rparr>" and ?h = "endpoint_handler ch A (rt_Endpoint rt)"
  have rt: "rt \<in> set routes" using assms(1) Some m unfolding chi_ok_def by blast
  have d: "dispatch ch A E r (w, s) = route_handler ch A rt E ?r (w, s)"
    by (simp add: dispatch_def Some m)
  show ?thesis
  proof (cases "rt_Endpoint rt \<in> writing")
    case True
    have "route_handler ch A rt = RequireRole write_roles ?h"
      using writing_routes [OF rt True] assms(2) by (simp add: route_handler_def)
    with RequireRole_cases [of write_roles ?h E ?r w s] endpoint_others [OF assms(3) True, of ?r ch E w]
    show ?thesis by (auto simp: d as_writer_def)
  next
    case False
    have "sv_db (snd (route_handler ch A rt E ?r (w, s))) = sv_db s
        \<or> snd (route_handler ch A rt E ?r (w, s)) = snd (?h E ?r (w, s))"
      using RequireRole_cases [of "the (rt_Roles rt)" ?h E ?r w s]
      by (auto simp: route_handler_def split: option.splits)
    with endpoint_rows [OF False, of ch A E ?r w s] show ?thesis by (auto simp: d as_writer_def)
  qed
qed

text \<open>
  The identities a request can claim: the session of its cookie, as Redis holds it, or that of a
  configured API key, in the default tenant.
\<close>

inductive granted ::
  "('r, 'o) app \<Rightarrow> 'r \<Rightarrow> request \<Rightarrow> string \<Rightarrow> uuid \<Rightarrow> bool" for A rd r where
  by_session: "rq_Cookie r ''session_token'' = Some token \<Longrightarrow>
     session_value (ap_R A) rd token = Some v \<Longrightarrow> read_session (ap_F A) v = Some data \<Longrightarrow>
     granted A rd r (sd_Role data) (sd_TenantID data)"
| by_key: "map_of (ap_keys A) (presented_key r) = Some entry \<Longrightarrow>
     granted A rd r (ke_Role entry) uuid_Nil"

lemma cookie_session_granted:
  assumes "redis_ok (ap_R A)" and "cookie_session A r s = (Some data, s1)"
  shows "granted A (sv_redis s) r (sd_Role data) (sd_TenantID data)"
proof -
  obtain token where t: "rq_Cookie r ''session_token'' = Some token"
    and v: "fst (ValidateSession (ap_F A) (ap_R A) (ap_sessionTTL A) token (sv_redis s)) = Inr data"
    using assms(2) by (auto simp: cookie_session_def split: option.splits if_splits prod.splits sum.splits)
  obtain x where "session_value (ap_R A) (sv_redis s) token = Some x"
      "read_session (ap_F A) x = Some data"
    using ValidateSession_result(1) [OF assms(1) v] by blast
  with t show ?thesis by (rule granted.by_session)
qed

lemma auth_as_writer:
  assumes "chi_ok ch" and "auth_enabled A" and "server_ok A s" and "redis_ok (ap_R A)"
    and "cx_Role (rq_Context r) = None"
    and "ledger_rows (sv_db (snd (APIKeyAuthMiddleware A (dispatch ch A) E r (w, s)))) \<noteq> ledger_rows (sv_db s)"
  shows "\<exists>role T. granted A (sv_redis s) r role T \<and> role \<in> set write_roles
    \<and> others_kept T (sv_db s) (sv_db (snd (APIKeyAuthMiddleware A (dispatch ch A) E r (w, s))))"
proof -
  let ?out = "snd (APIKeyAuthMiddleware A (dispatch ch A) E r (w, s))"
  have ctx: "GetAPIKeyRole (rq_Context (with_identity role T r)) = role"
      "GetTenantID (rq_Context (with_identity role T r)) = T" for role T
    by (simp_all add: with_identity_def GetAPIKeyRole_def GetTenantID_def)
  have anon: "GetAPIKeyRole (rq_Context r) = ''''" using assms(5) by (simp add: GetAPIKeyRole_def)
  obtain so s1 where c: "cookie_session A r s = (so, s1)" by fastforce
  have s1: "sv_db s1 = sv_db s" "server_ok A s1"
    using c assms(3)
    by (auto simp: cookie_session_def split: option.splits if_splits prod.splits sum.splits)
  have run: "granted A (sv_redis s) r role T \<Longrightarrow>
      ?out = snd (dispatch ch A E (with_identity role T r) (w, s1)) \<Longrightarrow> ?thesis" for role T
    using dispatch_as_writer [OF assms(1,2) s1(2), of "with_identity role T r" E w] assms(6)
    by (auto simp: as_writer_def ctx s1(1))
  consider (public) "is_public (rq_Path r)" | (session) data where "\<not> is_public (rq_Path r)" "so = Some data"
    | (key) "\<not> is_public (rq_Path r)" "so = None" by (cases so) auto
  then show ?thesis
  proof cases
    case public
    then have "?out = snd (dispatch ch A E r (w, s))" by (simp add: APIKeyAuthMiddleware_def)
    with dispatch_as_writer [OF assms(1-3), of r E w] assms(6) anon show ?thesis
      by (auto simp: as_writer_def write_roles_def)
  next
    case session
    with cookie_session_granted [OF assms(4)] c show ?thesis
      by (intro run) (auto simp: APIKeyAuthMiddleware_def c)
  next
    case key
    then obtain entry where entry: "map_of (ap_keys A) (presented_key r) = Some entry"
        "?out = snd (dispatch ch A E (with_identity (ke_Role entry) uuid_Nil r) (w, s1))"
      using assms(6) s1(1)
      by (auto simp: APIKeyAuthMiddleware_def c Let_def split: if_splits option.splits)
    show ?thesis by (rule run [OF granted.by_key [OF entry(1)] entry(2)])
  qed
qed

lemma RateLimit_cases:
  "\<exists>l w'. snd (RateLimitMiddleware lua rl h E r (w, s)) = s\<lparr>sv_limits := l\<rparr>
    \<or> snd (RateLimitMiddleware lua rl h E r (w, s)) = snd (h E r (w', s\<lparr>sv_limits := l\<rparr>))"
proof (cases "re_limit_error E")
  case None
  obtain a c m z where "limit_check lua rl (re_limit_expired E) (re_limit_rnd E) (re_now E)
      (sv_limits s (limit_key r)) = ((a, c, m), z)"
    by (metis surj_pair)
  with None show ?thesis
    by (intro exI [of _ "(sv_limits s)(limit_key r := z)"]) (auto simp: RateLimitMiddleware_def Let_def)
next
  case (Some e)
  then show ?thesis by (intro exI [of _ "sv_limits s"]) (auto simp: RateLimitMiddleware_def)
qed

lemma granted_traced: "granted A rd (traced_request ch A cfg E r) role T = granted A rd r role T"
  by (simp add: granted.simps presented_key_def Let_def)


lemma sample_server_ok: "server_ok sample_app sample_server"
proof -
  have "db_documents sample_db = []" by (simp add: sample_db_eq)
  then show ?thesis
    by (simp add: server_ok_def sample_app_def sample_server_def sample_world_def sample_ledger_ok
        documents_stored_def)
qed


end
