(* ===== verification/Answers.thy ===== *)
theory Answers
  imports Program Acceptance Posting
begin

text \<open>
  What a client may conclude from the answers of the main endpoints: the statuses of
  \<^verbatim>\<open>CreateTransaction\<close>, reading back what was posted, and what login and signup give.
\<close>

section \<open>The statuses of CreateTransaction\<close>

lemma insert_postings_error:
  "insert_postings E T t i es d = (Some err, d') \<Longrightarrow> \<not> errors_Is err x"
  by (induction es arbitrary: i d) (auto split: prod.splits sum.splits)

lemma write_transaction_error:
  assumes "write_transaction F E T req d = (Inl err, d')"
  shows "\<not> errors_Is err x"
  using assms
  by (auto simp: write_transaction_def tx_body_def Let_def BuildOutboxPayload_def
      split: option.splits sum.splits prod.splits dest: insert_postings_error)

lemma CreateTransaction_locked:
  assumes "check_request req = None"
    and "CreateTransaction F R ttl E T req v = (res, v')"
  shows "fst (lk_Obtain R (lock_key F T (ctr_IdempotencyKey req)) lock_ttl (w_redis v)) \<noteq> None \<longleftrightarrow>
    res = Inl (Sentinel ErrLockAcquisitionFailed)"
  using assms write_transaction_error [of F E T req "w_db v" _ _ ErrLockAcquisitionFailed]
  by (auto simp: CreateTransaction_def under_lock_def Let_def
      split: option.splits prod.splits sum.splits)

lemma WriteProblem_status [simp]:
  "wr_Status w = None \<Longrightarrow> wr_Status (WriteProblem r p w) = Some (pd_Status p)"
  by (simp add: WriteProblem_def Let_def write_body_def WriteHeader_def SetHeader_def
      completed_problem_def)

lemma writeJSON_status [simp]:
  "wr_Status w = None \<Longrightarrow> wr_Status (writeJSON status j w) = Some status"
  by (simp add: writeJSON_def write_body_def WriteHeader_def SetHeader_def)

lemma writeJSON_body [simp]: "wr_Body (writeJSON status j w) = wr_Body w @ [j]"
  by (simp add: writeJSON_def write_body_def WriteHeader_def SetHeader_def)

lemma problem_statuses [simp]:
  "pd_Status (BadRequest m) = 400" "pd_Status (ToProblem vr) = 422"
  "pd_Status (InternalError m) = 500" "pd_Status (LockAcquisitionFailed m) = 503"
  by (simp_all add: problem_defs ToProblem_def)

text \<open>The request as the handler passes it on: the key of the header replaces that of the body.\<close>

definition keyed_request :: "request \<Rightarrow> CreateTransactionRequest \<Rightarrow> CreateTransactionRequest" where
  "keyed_request r req = req\<lparr>ctr_IdempotencyKey := rq_Header r ''Idempotency-Key''\<rparr>"

text \<open>
  C11: The answers of POST /v1/transactions and what each means. 400: the body is no such JSON object;
  422: the validator found errors; in both cases nothing has happened. 503: the lock of the key was
  not obtained, 500: a database call failed; no table has changed (unless the reply to COMMIT was
  lost). 201: the transaction of this request has been posted, or the cached response of an earlier
  one with the key was replayed and nothing has changed; the body is the response. The status 409,
  which the handler and api.md provide for a key used twice, is never sent.
\<close>

theorem CreateTransactionHandler_answers:
  assumes "wr_Status w = None" and "ce_commit_lost (re_call E) = None"
    and "CreateTransactionHandler A E r (w, s) = (w', s')"
  shows "case unmarshal_CreateTransactionRequest (rq_Body r) of
      None \<Rightarrow> wr_Status w' = Some 400 \<and> s' = s
    | Some body \<Rightarrow>
        (let req = keyed_request r body; T = GetTenantID (rq_Context r);
             (lockErr, rd) = lk_Obtain (ap_R A) (lock_key (ap_F A) T (ctr_IdempotencyKey req)) lock_ttl
               (sv_redis s) in
         if ValidateCreateTransactionRequest req \<noteq> [] then wr_Status w' = Some 422 \<and> s' = s
         else if lockErr \<noteq> None then wr_Status w' = Some 503 \<and> sv_db s' = sv_db s
         else wr_Status w' = Some 500 \<and> unchanged (sv_db s) (sv_db s')
           \<or> wr_Status w' = Some 201
             \<and> (\<exists>resp. wr_Body w' = wr_Body w @ [encode_TransactionResponse (ap_F A) resp]
                  \<and> (sv_db s' = sv_db s
                       \<and> cached_replay (ap_F A) (ap_R A)
                           (idempotency_key (ap_F A) T (ctr_IdempotencyKey req)) rd = Some resp
                     \<or> posted (ap_F A) (re_call E) T req (sv_db s) (sv_db s')
                       \<and> tr_ID resp = ce_tx_id (re_call E))))"
proof (cases "unmarshal_CreateTransactionRequest (rq_Body r)")
  case None
  then show ?thesis using assms by (auto simp: CreateTransactionHandler_def)
next
  case (Some body)
  let ?req = "keyed_request r body" and ?T = "GetTenantID (rq_Context r)"
  show ?thesis
  proof (cases "ValidateCreateTransactionRequest ?req = []")
    case False
    then show ?thesis using assms Some
      by (auto simp: CreateTransactionHandler_def keyed_request_def HasErrors_def)
  next
    case True
    then have ok: "check_request ?req = None"
      by (simp add: ValidateCreateTransactionRequest_iff accepted_check)
    obtain res v where c: "CreateTransaction (ap_F A) (ap_R A) (ap_idempotencyTTL A) (re_call E) ?T
        ?req (sv_world s) = (res, v)" by fastforce
    have h: "(w', s') = (case res of
        Inl err \<Rightarrow> (WriteProblem r (transaction_problem err) w, s\<lparr>sv_world := v\<rparr>)
      | Inr resp \<Rightarrow> (writeJSON 201 (encode_TransactionResponse (ap_F A) resp) w, s\<lparr>sv_world := v\<rparr>))"
      using assms(3) Some True c
      by (simp add: CreateTransactionHandler_def keyed_request_def HasErrors_def split: sum.splits)
    note lock = CreateTransaction_locked [OF ok c]
    show ?thesis
      using c
    proof (cases rule: CreateTransaction_cases)
      case (invalid err)
      then show ?thesis using ok by simp
    next
      case locked
      then show ?thesis
        using Some True h lock assms(1) by (auto simp: transaction_problem_def Let_def split: prod.splits)
    next
      case (replay r1 resp)
      then show ?thesis using Some True h assms(1) by auto
    next
      case (failed err)
      have "\<not> errors_Is err x" for x by (rule write_transaction_error [OF failed(2)])
      moreover have "unchanged (sv_db s) (w_db v)"
        using write_transaction_Inl [OF failed(2)] assms(2) by simp
      moreover have "err \<noteq> Sentinel ErrLockAcquisitionFailed"
        using calculation(1) [of ErrLockAcquisitionFailed] by auto
      ultimately show ?thesis
        using Some True h lock failed(3) assms(1)
        by (auto simp: transaction_problem_def Let_def split: prod.splits)
    next
      case (created t r1 e r2)
      note t = write_transaction_Inr [OF created(3)]
      obtain resp where "res = Inr resp" "tr_ID resp = ce_tx_id (re_call E)"
        using created(4) by (simp add: make_response_def t(1) new_transaction_def)
      then show ?thesis using Some True h assms(1) created(2) t(2) by (auto simp: Let_def)
    qed
  qed
qed

abbreviation answer_sample where
  "answer_sample \<equiv> CreateTransactionHandler sample_app sample_request_env (post_transaction '''')
     (new_writer, sample_server)"

theorem CreateTransactionHandler_answers_witness:
  "wr_Status (fst answer_sample) = Some 201
    \<and> posted plain_formats sample_env 0 sample_request sample_db (sv_db (snd answer_sample))"
proof -
  let ?r = "post_transaction ''''"
  obtain w' s' where a: "answer_sample = (w', s')" by fastforce
  have "wr_Status (fst answer_sample) = Some 201"
    by (subst sample_handled [where k = "''''"])
      (simp_all add: post_transaction_def no_context_def GetTenantID_def uuid_Nil_def
        sample_server_def new_writer_def)
  then have st: "wr_Status w' = Some 201" using a by simp
  note body = sample_body [of "''''"]
  have key: "keyed_request ?r (sample_request\<lparr>ctr_IdempotencyKey := ''''\<rparr>) = sample_request"
    by code_simp
  have valid: "ValidateCreateTransactionRequest sample_request = []" by code_simp
  have T: "GetTenantID (rq_Context ?r) = 0" by code_simp
  have env: "re_call sample_request_env = sample_env" "ap_F sample_app = plain_formats"
      "ap_R sample_app = map_redis" "sv_db sample_server = sample_db" "sv_redis sample_server = Map.empty"
    by (simp_all add: sample_request_env_def sample_app_def sample_server_def sample_world_def)
  obtain rd where lk: "lk_Obtain map_redis (lock_key plain_formats 0 ''order-1'') lock_ttl Map.empty
      = (None, rd)" "rd = Map.empty(lock_key plain_formats 0 ''order-1'' \<mapsto> Raw ''lock'')"
    by (simp add: map_redis_def)
  have miss: "cached_replay plain_formats map_redis (idempotency_key plain_formats 0 ''order-1'')
      (Map.empty(lock_key plain_formats 0 ''order-1'' \<mapsto> Raw ''lock'')) = None"
    by code_simp
  have ikey: "ctr_IdempotencyKey sample_request = ''order-1''" by (simp add: sample_request_def)
  have "wr_Status new_writer = None" "ce_commit_lost (re_call sample_request_env) = None"
    by (simp_all add: new_writer_def sample_request_env_def sample_env_def)
  from CreateTransactionHandler_answers [OF this a] have "posted plain_formats sample_env 0 sample_request sample_db (sv_db s')"
    by (auto simp: body key valid T env ikey lk miss st)
  then show ?thesis using a st by simp
qed

end
