(* ===== verification/Identity.thy ===== *)
theory Identity
  imports Answers
begin

text \<open>
  Login and signup: which identity a client obtains, from which credentials, and what a signup adds.
\<close>

section \<open>Credentials\<close>

text \<open>The role and tenant that given credentials stand for.\<close>

inductive credentials ::
  "('r, 'o) app \<Rightarrow> db \<Rightarrow> LoginRequest \<Rightarrow> string \<Rightarrow> uuid \<Rightarrow> bool" for A d req where
  api_key: "map_of (ap_keys A) (lr_APIKey req) = Some entry \<Longrightarrow>
     credentials A d req (ke_Role entry) uuid_Nil"
| password: "user \<in> set (db_users d) \<Longrightarrow> usr_Email user = lr_Email req \<Longrightarrow>
     ap_bcrypt_Compare A (usr_PasswordHash user) (lr_Password req) \<Longrightarrow>
     credentials A d req (usr_Role user) (usr_TenantID user)"

inductive_simps credentials_iff: "credentials A d req role T"

text \<open>A session with exactly this identity, or none if it has expired already.\<close>

definition opened :: "('r, 'o) app \<Rightarrow> 'r \<Rightarrow> string \<Rightarrow> string \<Rightarrow> uuid \<Rightarrow> bool" where
  "opened A rd token role T \<longleftrightarrow>
     (case session_value (ap_R A) rd token of
        None \<Rightarrow> True
      | Some v \<Rightarrow> read_session (ap_F A) v = Some \<lparr>sd_Role = role, sd_TenantID = T\<rparr>)"

lemma CreateSession_opened:
  assumes "redis_ok (ap_R A)" and "formats_ok (ap_F A)"
    and "CreateSession (ap_F A) (ap_R A) ttl rnd role T rd = (Inr token, rd')"
  shows "opened A rd' token role T"
proof -
  obtain b where b: "rnd = Inr b"
    using assms(3) by (cases rnd) (auto simp: CreateSession_def)
  note c = CreateSession_value [OF assms(1) assms(3) [unfolded b]]
  have "read_session (ap_F A) (Doc (encode_SessionData (ap_F A) \<lparr>sd_Role = role, sd_TenantID = T\<rparr>))
      = Some \<lparr>sd_Role = role, sd_TenantID = T\<rparr>"
    unfolding read_session_def unmarshal_encode_session [OF assms(2)] by simp
  then show ?thesis using c(1,3) by (auto simp: opened_def)
qed

lemma WriteProblem_cookies [simp]: "wr_Cookies (WriteProblem r p w) = wr_Cookies w"
  by (simp add: WriteProblem_def Let_def write_body_def WriteHeader_def SetHeader_def)

lemma problem_statuses2 [simp]:
  "pd_Status (Unauthorized m) = 401"
  by (simp add: problem_defs)

lemma open_session_cases:
  assumes "open_session A E r status role T (w, s) = (w', s')" and "wr_Status w = None"
  obtains (failed) "wr_Status w' = Some 500" "wr_Cookies w' = wr_Cookies w"
  | (opened) token where
      "CreateSession (ap_F A) (ap_R A) (ap_sessionTTL A) (re_rand E) role T (sv_redis s) = (Inr token, sv_redis s')"
      "wr_Status w' = Some status" "wr_Cookies w' = wr_Cookies w @ [session_cookie token 86400]"
      "wr_Body w' = wr_Body w @ [encode_role role]"
proof -
  obtain res rd where c: "CreateSession (ap_F A) (ap_R A) (ap_sessionTTL A) (re_rand E) role T
      (sv_redis s) = (res, rd)" by fastforce
  show ?thesis
  proof (cases res)
    case (Inl e)
    then show ?thesis using assms c
      by (intro failed) (auto simp: open_session_def)
  next
    case (Inr token)
    then show ?thesis using assms c
      by (intro opened [of token]) (auto simp: open_session_def SetCookie_def writeJSON_def
          write_body_def WriteHeader_def SetHeader_def)
  qed
qed

text \<open>
  C32: A login gives the identity of its credentials and nothing else. When POST /v1/auth/login
  answers 200, the request named a configured API key, or an email and a password that bcrypt accepts
  for a user of that email; the answer is the role of that key or user, and the only cookie set is
  the token of a session that Redis holds for exactly this role and tenant (until it expires). With
  any other answer no cookie is set. The database is not changed either way.
\<close>

theorem LoginHandler_answers:
  assumes "redis_ok (ap_R A)" and "formats_ok (ap_F A)" and "wr_Status w = None"
    and "LoginHandler A E r (w, s) = (w', s')"
  shows "sv_db s' = sv_db s
    \<and> (if wr_Status w' = Some 200
       then \<exists>req role T token. unmarshal_LoginRequest (rq_Body r) = Some req
          \<and> credentials A (sv_db s) req role T
          \<and> wr_Cookies w' = wr_Cookies w @ [session_cookie token 86400]
          \<and> wr_Body w' = wr_Body w @ [encode_role role]
          \<and> opened A (sv_redis s') token role T
       else wr_Status w' \<in> {Some 400, Some 401, Some 500} \<and> wr_Cookies w' = wr_Cookies w)"
proof -
  have db: "sv_db s' = sv_db s"
  proof -
    have "open_session A E r 200 role T (w, s) = (w', s') \<Longrightarrow> sv_db s' = sv_db s" for role T
      using open_session_frame(1) [of A E r 200 role T w s] by simp
    then show ?thesis
      using assms(4) by (auto simp: LoginHandler_def split: option.splits if_splits sum.splits)
  qed
  have opens: ?thesis if "unmarshal_LoginRequest (rq_Body r) = Some req" "credentials A (sv_db s) req role T"
      "open_session A E r 200 role T (w, s) = (w', s')" for req role T
    using that(3) assms(3)
  proof (cases rule: open_session_cases)
    case failed
    then show ?thesis using db by simp
  next
    case (opened token)
    with CreateSession_opened [OF assms(1,2) opened(1)] db that(1,2) show ?thesis by auto
  qed
  have refused: ?thesis if "w' = WriteProblem r (BadRequest m) w \<or> w' = WriteProblem r (Unauthorized m) w" for m
    using that assms(3) db by auto
  show ?thesis
  proof (cases "unmarshal_LoginRequest (rq_Body r)")
    case None
    then show ?thesis using assms(3,4) db by (auto simp: LoginHandler_def)
  next
    case (Some req)
    note login = assms(4) [unfolded LoginHandler_def, simplified, unfolded Some, simplified]
    show ?thesis
    proof (cases "lr_APIKey req = ''''")
      case False
      show ?thesis
      proof (cases "map_of (ap_keys A) (lr_APIKey req)")
        case None
        then have "w' = WriteProblem r (Unauthorized ''invalid API key'') w"
          using login False by simp
        then show ?thesis using refused by metis
      next
        case entry: (Some entry)
        then have "open_session A E r 200 (ke_Role entry) uuid_Nil (w, s) = (w', s')"
          using login False by simp
        with opens [OF Some credentials.api_key [OF entry]] show ?thesis .
      qed
    next
      case True
      show ?thesis
      proof (cases "read_query (re_fault1 E) (q_GetUserByEmail (lr_Email req) (sv_db s))")
        case (Inl e)
        then have "w' = WriteProblem r (BadRequest ''must provide api_key or email/password'') w
            \<or> w' = WriteProblem r (Unauthorized ''invalid email or password'') w"
          using login True by (simp split: if_splits)
        then show ?thesis using refused by metis
      next
        case (Inr user)
        then have user: "user \<in> set (db_users (sv_db s))" "usr_Email user = lr_Email req"
          by (auto simp: read_query_def q_GetUserByEmail_def split: option.splits dest!: query_one_Inr)
        show ?thesis
        proof (cases "lr_Email req \<noteq> '''' \<and> lr_Password req \<noteq> ''''
            \<and> ap_bcrypt_Compare A (usr_PasswordHash user) (lr_Password req)")
          case good: True
          then have "open_session A E r 200 (usr_Role user) (usr_TenantID user) (w, s) = (w', s')"
            using login True Inr by simp
          with opens [OF Some credentials.password [OF user conjunct2 [OF conjunct2 [OF good]]]]
          show ?thesis .
        next
          case False
          then consider "lr_Email req = ''''" | "lr_Password req = ''''"
            | "lr_Email req \<noteq> ''''" "lr_Password req \<noteq> ''''"
              "\<not> ap_bcrypt_Compare A (usr_PasswordHash user) (lr_Password req)"
            by blast
          then have "w' = WriteProblem r (BadRequest ''must provide api_key or email/password'') w
              \<or> w' = WriteProblem r (Unauthorized ''invalid email or password'') w"
            by cases (use login True Inr in simp_all)
          then show ?thesis using refused by metis
        qed
      qed
    qed
  qed
qed

definition login_request :: request where
  "login_request = (post_transaction '''')
     \<lparr>rq_Path := ''/v1/auth/login'', rq_Body := Doc (JObj [(''api_key'', JStr ''sk-xyz789'')])\<rparr>"

abbreviation login_sample where
  "login_sample \<equiv> LoginHandler sample_app sample_request_env login_request (new_writer, sample_server)"

theorem LoginHandler_answers_witness:
  "\<exists>token. wr_Cookies (fst login_sample) = [session_cookie token 86400]
    \<and> wr_Body (fst login_sample) = [encode_role ''read'']
    \<and> opened sample_app (sv_redis (snd login_sample)) token ''read'' 0"
proof -
  obtain w' s' where a: "login_sample = (w', s')" by fastforce
  have ok: "redis_ok (ap_R sample_app)" "formats_ok (ap_F sample_app)" "wr_Status new_writer = None"
    by (simp_all add: sample_app_def map_redis_ok plain_formats_ok new_writer_def)
  have "wr_Status (fst login_sample) = Some 200 \<and> wr_Body (fst login_sample) = [encode_role ''read'']"
    by code_simp
  then have st: "wr_Status w' = Some 200" "wr_Body w' = [encode_role ''read'']" using a by simp_all
  have w: "wr_Cookies new_writer = []" "wr_Body new_writer = []" by (simp_all add: new_writer_def)
  have req: "unmarshal_LoginRequest (rq_Body login_request) =
      Some \<lparr>lr_APIKey = ''sk-xyz789'', lr_Email = '''', lr_Password = ''''\<rparr>" by code_simp
  have keys: "map_of (ap_keys sample_app) ''sk-xyz789'' = Some \<lparr>ke_Role = ''read''\<rparr>"
    by (simp add: sample_app_def)
  have users: "db_users (sv_db sample_server) = []"
    by (simp add: sample_server_def sample_world_def sample_db_eq)
  from LoginHandler_answers [OF ok a] st w show ?thesis
    by (auto simp: a req keys users credentials_iff uuid_Nil_def)
qed

section \<open>Signing up\<close>

definition signup_user :: "request_env \<Rightarrow> SignupRequest \<Rightarrow> string \<Rightarrow> User" where
  "signup_user E req hash =
     \<lparr>usr_ID = re_user_id E, usr_Email = sr_Email req, usr_PasswordHash = hash, usr_Role = ''admin'',
      usr_CreatedAt = Some (re_db_now E), usr_UpdatedAt = Some (re_db_now E),
      usr_TenantID = re_tenant_id E\<rparr>"

text \<open>
  C39: Every signup opens an organisation of its own, also for an email that is taken. When no call
  fails, the generated ids are new and the values fit their columns, POST /v1/auth/signup adds exactly
  one tenant and one user, an admin of that tenant, and sets the session cookie with answer 201 (or
  500 when only the session could not be stored); whether another user has the same email plays no
  part, so the conflict (409) promised for it is never answered.
\<close>

theorem SignupHandler_adds_admin:
  assumes "committed_ok (sv_db s)" and "wr_Status w = None"
    and "unmarshal_SignupRequest (rq_Body r) = Some req"
    and "sr_Email req \<noteq> ''''" and "sr_Password req \<noteq> ''''"
    and "ap_bcrypt_Generate A (re_salt E) (sr_Password req) = Inr hash"
    and "re_fault1 E = None" and "re_fault2 E = None"
    and "re_tenant_id E \<notin> tn_ID ` set (db_tenants (sv_db s))"
    and "re_user_id E \<notin> usr_ID ` set (db_users (sv_db s))"
    and "\<not> too_long 255 (''Organization of '' @ sr_Email req)" and "\<not> too_long 255 (sr_Email req)"
    and "\<not> too_long 255 hash"
    and "SignupHandler A E r (w, s) = (w', s')"
  shows "sv_db s' = (sv_db s)
        \<lparr>db_tenants := db_tenants (sv_db s) @ [\<lparr>tn_ID = re_tenant_id E,
            tn_Name = ''Organization of '' @ sr_Email req, tn_CreatedAt = Some (re_db_now E)\<rparr>],
         db_users := db_users (sv_db s) @ [signup_user E req hash]\<rparr>
    \<and> wr_Status w' \<in> {Some 201, Some 500}"
proof -
  let ?d = "sv_db s"
  let ?tn = "\<lparr>tn_ID = re_tenant_id E, tn_Name = ''Organization of '' @ sr_Email req,
    tn_CreatedAt = Some (re_db_now E)\<rparr>"
  let ?d1 = "put_tenant ?tn ?d" and ?u = "signup_user E req hash"
  have quiet: "db_deferred ?d = []" using assms(1) by (simp add: committed_ok_def)
  have t: "autocommit (re_fault1 E) (q_CreateTenant (re_tenant_id E) (re_db_now E)
      (''Organization of '' @ sr_Email req)) ?d = (Inr ?tn, ?d1)"
    using assms(7,9,11) quiet
    by (auto simp: autocommit_def q_CreateTenant_def insert_row_def commit_db_def put_tenant_def
        image_iff)
  have alone: "\<forall>u \<in> set (db_users ?d). usr_TenantID u \<noteq> re_tenant_id E"
  proof
    fix u assume "u \<in> set (db_users ?d)"
    then have "tenant_exists (usr_TenantID u) ?d"
      using assms(1) by (simp add: committed_ok_def tx_ok_def schema_ok_def refs_ok_def)
    then show "usr_TenantID u \<noteq> re_tenant_id E"
      using assms(9) by (force simp: tenant_exists_def)
  qed
  have "\<not> too_long 50 ''admin''" by (simp add: too_long_def RuneCountInString_def rune_count_ascii)
  then have u: "autocommit (re_fault2 E) (q_CreateUser (re_user_id E) (re_db_now E)
      \<lparr>cup_TenantID = re_tenant_id E, cup_Email = sr_Email req, cup_PasswordHash = hash,
       cup_Role = ''admin''\<rparr>) ?d1 = (Inr ?u, put_user ?u ?d1)"
    using assms(8,10,12,13) quiet alone
    by (auto simp: autocommit_def q_CreateUser_def insert_row_def commit_db_def put_tenant_def
        put_user_def tenant_exists_def signup_user_def image_iff)
  have h: "open_session A E r 201 ''admin'' (re_tenant_id E) (w, set_db (put_user ?u ?d1) s) = (w', s')"
    using assms(3-6,14) t u by (simp add: SignupHandler_def signup_user_def)
  have db: "sv_db s' = put_user ?u ?d1"
  proof -
    have "sv_db (snd (open_session A E r 201 ''admin'' (re_tenant_id E)
        (w, set_db (put_user ?u ?d1) s))) = put_user ?u ?d1"
      by (simp only: open_session_frame set_db_simps)
    then show ?thesis by (simp only: h snd_conv)
  qed
  have "wr_Status w' \<in> {Some 201, Some 500}"
    using h assms(2) by (cases rule: open_session_cases) auto
  with db show ?thesis by (simp add: put_user_def put_tenant_def)
qed

text \<open>Two signups with one email.\<close>

definition signup_request :: request where
  "signup_request = (post_transaction '''')
     \<lparr>rq_Path := ''/v1/auth/signup'',
      rq_Body := Doc (JObj [(''email'', JStr ''a@b.c''), (''password'', JStr ''secret'')])\<rparr>"

definition second_env :: request_env where
  "second_env = sample_request_env\<lparr>re_tenant_id := 501, re_user_id := 502\<rparr>"

abbreviation first_signup where
  "first_signup \<equiv> SignupHandler sample_app sample_request_env signup_request (new_writer, sample_server)"

abbreviation second_signup where
  "second_signup \<equiv>
     SignupHandler sample_app second_env signup_request (new_writer, snd first_signup)"

theorem SignupHandler_adds_admin_witness:
  "map usr_Email (db_users (sv_db (snd second_signup))) = [''a@b.c'', ''a@b.c'']
    \<and> wr_Status (fst second_signup) \<in> {Some 201, Some 500}"
proof -
  let ?req = "\<lparr>sr_Email = ''a@b.c'', sr_Password = ''secret''\<rparr>"
  have req: "unmarshal_SignupRequest (rq_Body signup_request) = Some ?req" by code_simp
  have gen: "ap_bcrypt_Generate sample_app (re_salt E) (sr_Password ?req) = Inr ''3$secret''"
    if "re_salt E = 3" for E
    by (simp add: sample_app_def that show_nat.simps digit_def) code_simp
  have short: "\<not> too_long 255 (''Organization of '' @ sr_Email ?req)" "\<not> too_long 255 (sr_Email ?req)"
      "\<not> too_long 255 ''3$secret''"
    by (simp_all add: too_long_def RuneCountInString_def rune_count_ascii)
  have w: "wr_Status new_writer = None" by (simp add: new_writer_def)
  have salts: "re_salt sample_request_env = 3" "re_salt second_env = 3"
      "re_fault1 sample_request_env = None" "re_fault2 sample_request_env = None"
      "re_fault1 second_env = None" "re_fault2 second_env = None"
      "re_tenant_id second_env = 501" "re_user_id second_env = 502" "re_db_now second_env = 7"
      "re_tenant_id sample_request_env = 401" "re_user_id sample_request_env = 402"
      "re_db_now sample_request_env = 7"
    by (simp_all add: second_env_def sample_request_env_def)
  have start: "sv_db sample_server = sample_db" by (simp add: sample_server_def sample_world_def)
  have ok: "committed_ok (sv_db sample_server)"
    using sample_server_ok by (rule server_ok_committed)
  have st: "storage_ok (ap_storage sample_app)" by (simp add: sample_app_def map_storage_ok)
  have ok1: "committed_ok (sv_db (snd first_signup))"
    using SignupHandler.keeps [OF st sample_server_ok, of sample_request_env signup_request new_writer]
    by (blast intro: server_ok_committed)
  note add = SignupHandler_adds_admin [OF _ w req _ _ gen _ _ _ _ short surjective_pairing]
  have d1: "sv_db (snd first_signup) = sample_db
      \<lparr>db_tenants := db_tenants sample_db @ [\<lparr>tn_ID = 401, tn_Name = ''Organization of a@b.c'',
         tn_CreatedAt = Some 7\<rparr>],
       db_users := [signup_user sample_request_env ?req ''3$secret'']\<rparr>"
    using add [OF ok, of sample_request_env] salts
    by (simp add: start sample_db_eq)
  show ?thesis
    using add [OF ok1, of second_env] salts
    by (simp add: d1 sample_db_eq signup_user_def)
qed

end
