(* ===== verification/Permanence.thy ===== *)
theory Permanence
  imports Answers
begin

text \<open>
  What has been posted stays: the transaction and its postings, as a client reads them, are the same
  in every later state of the program.
\<close>

section \<open>One request, one endpoint\<close>

text \<open>
  Below the middleware a request runs at most one endpoint, on the database and the objects as they
  were.
\<close>

definition same_rows :: "('r, 'o) server \<Rightarrow> ('r, 'o) server \<Rightarrow> bool" where
  "same_rows s s' \<longleftrightarrow> sv_db s' = sv_db s \<and> sv_objects s' = sv_objects s"

definition runs :: "chi \<Rightarrow> ('r, 'o) app \<Rightarrow> request_env \<Rightarrow> ('r, 'o) server \<Rightarrow> ('r, 'o) server \<Rightarrow> bool" where
  "runs ch A E s s' \<longleftrightarrow> same_rows s s'
     \<or> (\<exists>e r w s1. same_rows s s1 \<and> s' = snd (endpoint_handler ch A e E r (w, s1)))"

lemma runs_from: "same_rows s s1 \<Longrightarrow> runs ch A E s1 s' \<Longrightarrow> runs ch A E s s'"
  by (auto simp: runs_def same_rows_def)

lemma route_runs: "runs ch A E s (snd (route_handler ch A rt E r (w, s)))"
proof -
  let ?h = "endpoint_handler ch A (rt_Endpoint rt)"
  have "snd (route_handler ch A rt E r (w, s)) = s
      \<or> snd (route_handler ch A rt E r (w, s)) = snd (?h E r (w, s))"
    using RequireRole_cases [of "the (rt_Roles rt)" ?h E r w s]
    by (auto simp: route_handler_def split: option.splits)
  then show ?thesis unfolding runs_def same_rows_def by metis
qed

lemma dispatch_runs: "runs ch A E s (snd (dispatch ch A E r (w, s)))"
proof (cases "ch_Match ch routes (rq_Method r) (rq_Path r)")
  case None
  then show ?thesis by (simp add: dispatch_def runs_def same_rows_def)
next
  case (Some m)
  obtain rt ps where "m = (rt, ps)" by (cases m)
  with Some route_runs [of ch A E s rt "r\<lparr>rq_URLParam := ps\<rparr>" w] show ?thesis
    by (simp add: dispatch_def)
qed

lemma auth_runs: "runs ch A E s (snd (APIKeyAuthMiddleware A (dispatch ch A) E r (w, s)))"
proof -
  obtain so s1 where c: "cookie_session A r s = (so, s1)" by fastforce
  have s1: "same_rows s s1"
    using c by (auto simp: cookie_session_def same_rows_def
        split: option.splits if_splits prod.splits sum.splits)
  then have "runs ch A E s s1" by (simp add: runs_def)
  with dispatch_runs [of ch A E s r w] runs_from [OF s1 dispatch_runs, of ch A E] show ?thesis
    by (simp add: APIKeyAuthMiddleware_def c Let_def split: option.splits)
qed

lemma stack_runs: "runs ch A E s (snd (inner_stack ch lua A cfg E r (w, s)))"
proof -
  let ?h = "if auth_enabled A then APIKeyAuthMiddleware A (dispatch ch A) else dispatch ch A"
  have h: "runs ch A E s (snd (?h E r (w, s)))" for w s
    using auth_runs [of ch A E s r w] dispatch_runs [of ch A E s r w] by simp
  show ?thesis
  proof (cases "rc_RateLimitConfig cfg")
    case None
    then show ?thesis using h by (simp add: inner_stack_def)
  next
    case (Some rl)
    have "same_rows s (s\<lparr>sv_limits := l\<rparr>)" for l by (simp add: same_rows_def)
    then have limited: "runs ch A E s (s\<lparr>sv_limits := l\<rparr>)"
        "runs ch A E s (snd (?h E r (w', s\<lparr>sv_limits := l\<rparr>)))" for l w'
      using runs_from [OF _ h] by (simp_all add: runs_def)
    have "runs ch A E s (snd (RateLimitMiddleware lua rl ?h E r (w, s)))"
      using RateLimit_cases [of lua rl ?h E r w s] limited by metis
    then show ?thesis by (simp add: inner_stack_def Some)
  qed
qed

lemma serve_runs: "runs ch A E s (snd (serve ch lua A cfg E r s))"
proof (cases "rq_Method r = ''OPTIONS''")
  case True
  then show ?thesis by (simp add: serve_preflight runs_def same_rows_def)
next
  case False
  then obtain w where
    "serve ch lua A cfg E r s = inner_stack ch lua A cfg E (traced_request ch A cfg E r) (w, s)"
    by (rule serve_inner)
  then show ?thesis by (simp add: stack_runs)
qed

section \<open>Settled transactions\<close>

text \<open>Rows are only added, and no posting to a transaction that is already there.\<close>

definition settled :: "db \<Rightarrow> db \<Rightarrow> bool" where
  "settled d d' \<longleftrightarrow> evolves d d'
     \<and> (\<forall>t \<in> tx_ID ` set (db_transactions d). postings_of t (db_postings d') = postings_of t (db_postings d))"

lemma settled_refl [simp]: "settled d d"
  by (simp add: settled_def)

lemma settled_trans: "settled a b \<Longrightarrow> settled b c \<Longrightarrow> settled a c"
proof -
  assume ab: "settled a b" and bc: "settled b c"
  then have "set (db_transactions a) \<subseteq> set (db_transactions b)"
    by (auto simp: settled_def evolves_def set_mono_prefix)
  with ab bc show ?thesis
    unfolding settled_def using evolves_trans by (metis image_mono subsetD)
qed

lemma settled_same_postings: "evolves d d' \<Longrightarrow> db_postings d' = db_postings d \<Longrightarrow> settled d d'"
  by (simp add: settled_def)

lemma CreateTransaction_settled:
  assumes "ledger_ok F (w_db v)" and "CreateTransaction F R ttl E T req v = (res, v')"
  shows "settled (w_db v) (w_db v')"
  using CreateTransaction_outcome [OF assms(2)]
proof
  assume "unchanged (w_db v) (w_db v')"
  then show ?thesis
    by (intro settled_same_postings CreateTransaction_step(2) [OF assms] unchanged_fields(3))
next
  assume post: "posted F E T req (w_db v) (w_db v')"
  have "committed_ok (w_db v')"
    using CreateTransaction_step(1) [OF assms] by (simp add: ledger_ok_def)
  then have fresh: "ce_tx_id E \<notin> tx_ID ` set (db_transactions (w_db v))"
    by (rule posted_fresh_tx) (rule post)
  obtain ps where "db_postings (w_db v') = db_postings (w_db v) @ ps"
      "list_all2 (posting_of_entry T (ce_tx_id E) (ce_now E)) (ctr_Postings req) ps"
    using post by (auto simp: posted_def)
  moreover from this(2) have "\<forall>p \<in> set ps. pst_TransactionID p = ce_tx_id E"
    by (auto simp: list_all2_conv_all_nth posting_of_entry_def in_set_conv_nth)
  ultimately show ?thesis
    using CreateTransaction_step(2) [OF assms] fresh
    by (auto simp: settled_def postings_of_def filter_empty_conv)
qed

lemma CreateAccount_tables:
  assumes "CreateAccount flt now T req d = (res, d')"
  shows "db_postings d' = db_postings d" and "db_outbox d' = db_outbox d"
proof -
  let ?arg = "\<lparr>cap_TenantID = T, cap_AccountName = car_AccountName req,
    cap_AccountType = car_AccountType req, cap_Currency = car_Currency req,
    cap_Metadata = metadata_or_empty (car_Metadata req)\<rparr>"
  have d': "d' = snd (autocommit flt (q_CreateAccount now ?arg) d)"
    using assms by (auto simp: CreateAccount_def split: prod.splits sum.splits)
  show "db_postings d' = db_postings d" "db_outbox d' = db_outbox d"
    unfolding d' by (rule autocommit_field; auto simp: q_CreateAccount_def insert_row_def put_defs
        split: sum.splits)+
qed

lemma AttachDocument_tables:
  assumes "db_deferred d = []" and "AttachDocument F S x E T t filename ct sz body (d, ob) = (res, d', ob')"
  shows "db_postings d' = db_postings d" and "db_outbox d' = db_outbox d"
  using AttachDocument_cases [OF assms] by (cases, simp_all add: put_document_def)+

lemma endpoint_settled:
  assumes "chi_ok ch" and "storage_ok (ap_storage A)" and "server_ok A s"
  shows "settled (sv_db s) (sv_db (snd (endpoint_handler ch A e E r (w, s))))"
proof (cases "e = ECreateTransaction")
  case True
  have "ledger_ok (ap_F A) (sv_db s)" using assms(3) by (simp add: server_ok_def)
  note CreateTransaction_settled [OF this]
  then show ?thesis
    by (auto simp: True CreateTransactionHandler_def Let_def split: option.splits prod.splits sum.splits)
next
  case False
  have ev: "evolves (sv_db s) (sv_db (snd (endpoint_handler ch A e E r (w, s))))"
  proof (cases "e = ESwagger")
    case False
    from http_handler.keeps [OF endpoint_ok [OF this] assms(2,3)] show ?thesis by simp
  qed simp
  have "db_postings (sv_db (snd (endpoint_handler ch A e E r (w, s)))) = db_postings (sv_db s)"
  proof (cases "e \<in> writing")
    case True
    then consider "e = ECreateAccount" | "e = EAttachDocument"
      using \<open>e \<noteq> ECreateTransaction\<close> by (auto simp: writing_def)
    then show ?thesis
    proof cases
      case 1
      then show ?thesis
        by (auto simp: CreateAccountHandler_def Let_def split: option.splits prod.splits sum.splits
            dest: CreateAccount_tables)
    next
      case 2
      have "db_deferred (sv_db s) = []"
        using assms(3) by (simp add: server_ok_def ledger_ok_def committed_ok_def)
      then show ?thesis
        by (auto simp: 2 AttachDocumentHandler_def Let_def set_db_def
            split: option.splits prod.splits sum.splits dest: AttachDocument_tables)
    qed
  next
    case False
    from endpoint_rows [OF this, of ch A E r w s] show ?thesis by (simp add: ledger_rows_def)
  qed
  with ev show ?thesis by (rule settled_same_postings)
qed

lemma program_step_settled:
  assumes "program_step ch lua A cfg B ow (s, b) (s', b')"
    and "chi_ok ch" and "storage_ok (ap_storage A)" and "broker_ok B" and "server_ok A s"
  shows "settled (sv_db s) (sv_db s')"
  using assms(1)
proof cases
  case (request E r)
  from serve_runs [of ch A E s lua cfg r] show ?thesis unfolding runs_def
  proof (elim disjE exE conjE)
    assume "same_rows s (snd (serve ch lua A cfg E r s))"
    then show ?thesis by (simp add: request same_rows_def)
  next
    fix e r1 w s1
    assume s1: "same_rows s s1"
      and out: "snd (serve ch lua A cfg E r s) = snd (endpoint_handler ch A e E r1 (w, s1))"
    have "server_ok A s1" using s1 assms(5) by (simp add: same_rows_def server_ok_def)
    from endpoint_settled [OF assms(2,3) this, of e E r1 w] s1
    show ?thesis by (simp add: request(1) out same_rows_def)
  qed
next
  case (poll P d')
  have ok: "ledger_ok (ap_F A) (sv_db s)" using assms(5) by (simp add: server_ok_def)
  then have com: "committed_ok (sv_db s)" by (simp add: ledger_ok_def)
  obtain g where "d' = (sv_db s)\<lparr>db_outbox := map g (db_outbox (sv_db s))\<rparr>"
    by (rule processBatch_effect [OF com assms(4) poll(2)])
  then have "db_postings d' = db_postings (sv_db s)" by simp
  with processBatch_keeps [OF ok assms(4) poll(2)] show ?thesis
    by (simp add: poll(1) settled_same_postings)
next
  case (redis rd)
  then show ?thesis by simp
qed

lemma program_settled:
  assumes "(program_step ch lua A cfg B ow)\<^sup>*\<^sup>* (s, b) (s', b')"
    and "chi_ok ch" and "storage_ok (ap_storage A)" and "broker_ok B" and "server_ok A s"
  shows "server_ok A s' \<and> settled (sv_db s) (sv_db s')"
  using assms(1)
proof (induction rule: rtranclp_induct2)
  case refl
  then show ?case using assms(5) by simp
next
  case (step s1 b1 s2 b2)
  with program_step_keeps [OF step.hyps(2) assms(2-4)] program_step_settled [OF step.hyps(2) assms(2-4)]
  show ?case by (blast intro: settled_trans)
qed

section \<open>Reading\<close>

lemma filter_prefix_hd:
  "prefix xs ys \<Longrightarrow> query_one (filter P xs) = Inr x \<Longrightarrow> query_one (filter P ys) = Inr x"
  by (auto simp: prefix_def) (metis append_Cons neq_Nil_conv query_one.simps(2) query_one_Inl sum.distinct(1))

lemma settled_rows:
  assumes "schema_ok d" and "schema_ok d'" and "settled d d'" and "t \<in> tx_ID ` set (db_transactions d)"
  shows "q_GetPostingsByTransactionID \<lparr>gpt_TransactionID = t, gpt_TenantID = T\<rparr> d'
    = q_GetPostingsByTransactionID \<lparr>gpt_TransactionID = t, gpt_TenantID = T\<rparr> d"
proof -
  have sel: "filter (\<lambda>p. pst_TransactionID p = t \<and> pst_TenantID p = T) (db_postings x)
      = filter (\<lambda>p. pst_TenantID p = T) (postings_of t (db_postings x))" for x
    by (simp add: postings_of_def conj_commute)
  have same: "postings_of t (db_postings d') = postings_of t (db_postings d)"
    using assms(3,4) by (auto simp: settled_def)
  have "join_row d' p = join_row d p" if "p \<in> set (postings_of t (db_postings d))" for p
  proof -
    have "p \<in> set (db_postings d)" using that by (simp add: postings_of_def)
    then obtain a where a: "a \<in> set (db_accounts d)" "acc_ID a = pst_AccountID p"
      using assms(1) by (auto simp: schema_ok_def refs_ok_def account_exists_def)
    moreover have "a \<in> set (db_accounts d')"
      using assms(3) a(1) by (auto simp: settled_def evolves_def dest: set_mono_prefix)
    ultimately show ?thesis
      using assms(1,2) by (simp add: join_row_one [of _ a] schema_ok_def keys_ok_def)
  qed
  then have "map (join_row d') (filter (\<lambda>p. pst_TenantID p = T) (postings_of t (db_postings d)))
      = map (join_row d) (filter (\<lambda>p. pst_TenantID p = T) (postings_of t (db_postings d)))"
    by (intro map_cong) auto
  then show ?thesis by (simp only: q_GetPostings_join sel same)
qed

lemma settled_GetTransaction:
  assumes "schema_ok d" and "schema_ok d'" and "settled d d'"
    and "GetTransaction None None T i d = Inr resp"
  shows "GetTransaction None None T i d' = Inr resp"
proof -
  obtain t where t: "q_GetTransactionByID \<lparr>gtp_ID = i, gtp_TenantID = T\<rparr> d = Inr t"
    using assms(4) by (auto simp: GetTransaction_def read_query_def split: sum.splits pg_error.splits)
  then have "t \<in> set (db_transactions d)" "tx_ID t = i"
    by (auto simp: q_GetTransactionByID_def dest!: query_one_Inr)
  then have "i \<in> tx_ID ` set (db_transactions d)" by blast
  note rows = settled_rows [OF assms(1-3) this]
  have "q_GetTransactionByID \<lparr>gtp_ID = i, gtp_TenantID = T\<rparr> d' = Inr t"
    using t assms(3) filter_prefix_hd [of "db_transactions d" "db_transactions d'"]
    by (simp add: q_GetTransactionByID_def settled_def evolves_def)
  with assms(4) t rows show ?thesis by (simp add: GetTransaction_def read_query_def)
qed

text \<open>What a call has posted is what reading the transaction gives right after it.\<close>

lemma CreateTransaction_read:
  assumes "ledger_ok F (w_db v)" and "CreateTransaction F R ttl E T req v = (Inr resp, v')"
    and "w_db v' \<noteq> w_db v" and "ce_fault E AtFetchPostings = None"
  shows "GetTransaction None None T (ce_tx_id E) (w_db v') = Inr resp"
  using assms(2)
proof (cases rule: CreateTransaction_cases)
  case (created t r1 e r2)
  note t = write_transaction_Inr [OF created(3)]
  have com: "committed_ok (w_db v)" "committed_ok (w_db v')"
    using assms(1) CreateTransaction_step(1) [OF assms(1,2)] by (simp_all add: ledger_ok_def)
  obtain rows where rows: "q_GetPostingsByTransactionID
      \<lparr>gpt_TransactionID = ce_tx_id E, gpt_TenantID = T\<rparr> (w_db v') = Inr rows"
    using rows_of_posted [OF com t(2)] by blast
  have "filter (\<lambda>x. tx_ID x = ce_tx_id E \<and> tx_TenantID x = T) (db_transactions (w_db v)) = []"
    using posted_fresh_tx [OF com(2) t(2)] by (force simp: filter_empty_conv)
  then have "q_GetTransactionByID \<lparr>gtp_ID = ce_tx_id E, gtp_TenantID = T\<rparr> (w_db v')
      = Inr (new_transaction E T req)"
    using t(2) by (simp add: q_GetTransactionByID_def posted_def new_transaction_def)
  then show ?thesis
    using created(4) assms(4) rows t(1)
    by (simp add: GetTransaction_def fetch_postings_def read_query_def new_transaction_def)
qed (use assms(3) in simp_all)

lemma created_answer:
  assumes "CreateTransactionHandler A E r (w, s) = (w1, s1)"
    and "wr_Status w = None" and "wr_Status w1 = Some 201"
  obtains body resp v where "CreateTransaction (ap_F A) (ap_R A) (ap_idempotencyTTL A) (re_call E)
      (GetTenantID (rq_Context r)) (keyed_request r body) (sv_world s) = (Inr resp, v)"
    "w1 = writeJSON 201 (encode_TransactionResponse (ap_F A) resp) w" "s1 = s\<lparr>sv_world := v\<rparr>"
proof -
  obtain body where b: "unmarshal_CreateTransactionRequest (rq_Body r) = Some body"
    using assms by (cases "unmarshal_CreateTransactionRequest (rq_Body r)")
      (auto simp: CreateTransactionHandler_def)
  have v: "\<not> HasErrors (ValidateCreateTransactionRequest (keyed_request r body))"
    using assms b by (auto simp: CreateTransactionHandler_def keyed_request_def)
  obtain res v where c: "CreateTransaction (ap_F A) (ap_R A) (ap_idempotencyTTL A) (re_call E)
      (GetTenantID (rq_Context r)) (keyed_request r body) (sv_world s) = (res, v)" by fastforce
  have "pd_Status (transaction_problem e) \<noteq> 201" for e
    by (simp add: transaction_problem_def problem_defs)
  then obtain resp where "res = Inr resp"
    using assms b v c by (cases res) (auto simp: CreateTransactionHandler_def keyed_request_def)
  with assms b v c show ?thesis
    by (intro that [of body resp v]) (simp_all add: CreateTransactionHandler_def keyed_request_def)
qed

text \<open>
  C9: What is posted stays as it was answered. When POST /v1/transactions has answered 201 for a new
  transaction (with its postings, that is, the final read did not fail), then in every later state of
  the program, whatever requests, polls and failures came in between, GET /v1/transactions/{id} of
  the same tenant answers 200 with the same JSON document, as long as its own reads do not fail.
\<close>

theorem posted_transaction_permanent:
  assumes "server_ok A s" and "chi_ok ch" and "storage_ok (ap_storage A)" and "broker_ok B"
    and "formats_ok (ap_F A)"
    and post: "CreateTransactionHandler A E r (w, s) = (w1, s1)"
      "wr_Status w = None" "wr_Status w1 = Some 201" "sv_db s1 \<noteq> sv_db s"
      "ce_fault (re_call E) AtFetchPostings = None"
    and steps: "(program_step ch lua A cfg B ow)\<^sup>*\<^sup>* (s1, b) (s2, b')"
    and get: "GetTenantID (rq_Context r') = GetTenantID (rq_Context r)"
      "rq_URLParam r' ''id'' = uuid_String (ap_F A) (ce_tx_id (re_call E))"
      "re_fault1 E' = None" "re_fault2 E' = None" "wr_Status w' = None"
  shows "wr_Status (fst (GetTransactionHandler A E' r' (w', s2))) = Some 200
    \<and> (\<exists>doc. wr_Body w1 = wr_Body w @ [doc]
         \<and> wr_Body (fst (GetTransactionHandler A E' r' (w', s2))) = wr_Body w' @ [doc])"
proof -
  let ?T = "GetTenantID (rq_Context r)"
  have ok: "ledger_ok (ap_F A) (sv_db s)" using assms(1) by (simp add: server_ok_def)
  obtain body resp v where c: "CreateTransaction (ap_F A) (ap_R A) (ap_idempotencyTTL A) (re_call E)
      ?T (keyed_request r body) (sv_world s) = (Inr resp, v)"
    and out: "w1 = writeJSON 201 (encode_TransactionResponse (ap_F A) resp) w"
      "s1 = s\<lparr>sv_world := v\<rparr>"
    by (rule created_answer [OF post(1-3)])
  have "GetTransaction None None ?T (ce_tx_id (re_call E)) (sv_db s1) = Inr resp"
    using CreateTransaction_read [OF ok c] post(4,5) by (simp add: out(2))
  moreover have s1: "server_ok A s1"
    using CreateTransactionHandler.keeps [OF assms(3,1), of E r w] post(1) by simp
  moreover note program_settled [OF steps assms(2-4) s1]
  moreover have "schema_ok (sv_db x)" if "server_ok A x" for x
    using that by (simp add: server_ok_def ledger_ok_def committed_ok_def tx_ok_def)
  ultimately have "GetTransaction None None ?T (ce_tx_id (re_call E)) (sv_db s2) = Inr resp"
    using settled_GetTransaction by blast
  moreover have "uuid_Parse (ap_F A) (rq_URLParam r' ''id'') = Some (ce_tx_id (re_call E))"
    using assms(5) get(2) by (simp add: formats_ok_def)
  ultimately show ?thesis
    using get out by (simp add: GetTransactionHandler_def)
qed

text \<open>Posted, polled, and read.\<close>

definition get_transaction :: request where
  "get_transaction = (post_transaction '''')
     \<lparr>rq_Method := ''GET'', rq_URLParam := (\<lambda>_. uuid_String plain_formats 101)\<rparr>"

theorem posted_transaction_permanent_witness:
  "\<exists>s2 b2. (program_step segment_chi show_int sample_app sample_config script_broker sample_worker)\<^sup>*\<^sup>*
      (snd answer_sample, ([], [])) (s2, b2)
    \<and> wr_Status (fst (GetTransactionHandler sample_app sample_request_env get_transaction
        (new_writer, s2))) = Some 200
    \<and> wr_Body (fst (GetTransactionHandler sample_app sample_request_env get_transaction
        (new_writer, s2))) = wr_Body (fst answer_sample)"
proof -
  let ?s = "sample_server\<lparr>sv_world := posted_world\<rparr>" and ?r = "post_transaction ''''"
  let ?w = "writeJSON 201 (encode_TransactionResponse plain_formats
       (projr (fst (sample_create sample_env sample_request sample_world)))) new_writer"
  have a: "answer_sample = (?w, ?s)"
    by (rule sample_handled [where k = "''''"])
      (simp_all add: post_transaction_def no_context_def GetTenantID_def uuid_Nil_def sample_server_def)
  obtain b d where poll: "processBatch plain_formats script_broker sample_worker sample_poll
      (([], []), sv_db ?s) = (b, d)" by (metis surj_pair)
  let ?step = "program_step segment_chi show_int sample_app sample_config script_broker sample_worker"
  have "?step (?s, ([], [])) (set_db d ?s, b)"
    by (rule program_step.poll [where P = sample_poll]) (simp only: sample_parts poll)
  then have steps: "?step\<^sup>*\<^sup>* (?s, ([], [])) (set_db d ?s, b)" by (rule r_into_rtranclp)
  have st: "storage_ok (ap_storage sample_app)" "formats_ok (ap_F sample_app)"
    by (simp_all add: sample_app_def map_storage_ok plain_formats_ok)
  have "wr_Status new_writer = None" "wr_Status ?w = Some 201" by (simp_all add: new_writer_def)
  moreover have "sv_db ?s \<noteq> sv_db sample_server"
    by (simp add: posted_db_def [symmetric] posted_db_eq sample_db_eq sample_server_def sample_world_def)
  moreover have "ce_fault (re_call sample_request_env) AtFetchPostings = None"
    "re_fault1 sample_request_env = None" "re_fault2 sample_request_env = None"
    by (simp_all add: sample_request_env_def sample_env_def)
  moreover have "GetTenantID (rq_Context get_transaction) = GetTenantID (rq_Context ?r)"
    "rq_URLParam get_transaction ''id'' =
      uuid_String (ap_F sample_app) (ce_tx_id (re_call sample_request_env))"
    by (simp_all add: get_transaction_def sample_parts sample_env_def)
  ultimately have "wr_Status (fst (GetTransactionHandler sample_app sample_request_env get_transaction
        (new_writer, set_db d ?s))) = Some 200
    \<and> (\<exists>doc. wr_Body ?w = wr_Body new_writer @ [doc]
         \<and> wr_Body (fst (GetTransactionHandler sample_app sample_request_env get_transaction
        (new_writer, set_db d ?s))) = wr_Body new_writer @ [doc])"
    using posted_transaction_permanent [OF sample_server_ok segment_chi_ok st(1) script_broker_ok st(2)
        a _ _ _ _ steps, of get_transaction sample_request_env new_writer] by blast
  with steps show ?thesis unfolding a by (intro exI [of _ "set_db d ?s"] exI [of _ b]) auto
qed

end
