(* ===== verification/Lifecycle.thy ===== *)
theory Lifecycle
  imports Permanence
begin

text \<open>
  The process from start to end (\<^verbatim>\<open>main\<close> and \<^verbatim>\<open>runMigrations\<close> in \<^verbatim>\<open>cmd/server/main.go\<close>): the calls
  that must succeed before it serves, the resources it opens with their deferred closes, the two ways
  it ends, and being killed. Over the starts and ends the ledger and its events are followed.
\<close>

section \<open>Start-up\<close>

datatype up_result = UpOk | UpNoChange | UpErr string

record exchange =
  ex_name :: string
  ex_kind :: string
  ex_durable :: bool
  ex_auto_delete :: bool
  ex_internal :: bool
  ex_no_wait :: bool

text \<open>What the calls of other packages return at a start: nothing, or an error.\<close>

record start_env =
  se_iofs :: "string option"
  se_migrate :: "string \<Rightarrow> string option"        \<comment> \<open>of the database URL\<close>
  se_up :: up_result
  se_parse_db :: "string \<Rightarrow> string option"
  se_new_pool :: "string option"
  se_ping_db :: "string option"
  se_parse_redis :: "string \<Rightarrow> string option"
  se_ping_redis :: "string option"
  se_dial :: "string \<Rightarrow> string option"
  se_channel :: "string option"
  se_declare :: "exchange \<Rightarrow> string option"
  se_aws :: "string option"

text \<open>An error ends the process with the message that is logged and code 1.\<close>

type_synonym start_error = "string \<times> string"

definition runMigrations :: "start_env \<Rightarrow> string \<Rightarrow> start_error option" where
  "runMigrations S dbURL =
     (case se_iofs S of
        Some e \<Rightarrow> Some (''failed to load embedded migrations'', e)
      | None \<Rightarrow>
          (case se_migrate S dbURL of
             Some e \<Rightarrow> Some (''failed to initialize database migrations'', e)
           | None \<Rightarrow>
               (case se_up S of
                  UpErr e \<Rightarrow> Some (''failed to apply migrations'', e)
                | UpNoChange \<Rightarrow> None
                | UpOk \<Rightarrow> None)))"

definition or_exit :: "string \<Rightarrow> string option \<Rightarrow> start_error + 'a \<Rightarrow> start_error + 'a" where
  "or_exit msg err rest = (case err of Some e \<Rightarrow> Inl (msg, e) | None \<Rightarrow> rest)"

datatype resource = DBPool | RedisClient | BrokerConn | BrokerChan

record http_server =
  hs_Addr :: string
  hs_ReadTimeout :: int
  hs_WriteTimeout :: int
  hs_IdleTimeout :: int

text \<open>What a start has built; \<open>pr_defers\<close> are the deferred closes, the latest first.\<close>

record ('r, 'o) process =
  pr_app :: "('r, 'o) app"
  pr_router :: RouterConfig
  pr_worker :: OutboxWorker
  pr_exchange :: exchange
  pr_http :: http_server
  pr_defers :: "resource list"

definition ledger_exchange :: exchange where
  "ledger_exchange =
     \<lparr>ex_name = ''ledger.events'', ex_kind = ''topic'', ex_durable = True, ex_auto_delete = False,
      ex_internal = False, ex_no_wait = False\<rparr>"

definition main_http :: "environment \<Rightarrow> http_server" where
  "main_http env =
     (let cfg = loadConfig env in
      \<lparr>hs_Addr = '':'' @ cf_ServerPort cfg, hs_ReadTimeout = cf_ReadTimeout cfg,
       hs_WriteTimeout = cf_WriteTimeout cfg, hs_IdleTimeout = 120 * 10 ^ 9\<rparr>)"

definition start_main ::
  "environment \<Rightarrow> start_env \<Rightarrow> ('r, 'o) app \<Rightarrow> start_error + ('r, 'o) process" where
  "start_main env S X =
     (let cfg = loadConfig env in
      case runMigrations S (cf_DatabaseURL cfg) of
        Some err \<Rightarrow> Inl err
      | None \<Rightarrow>
          or_exit ''failed to parse database URL'' (se_parse_db S (cf_DatabaseURL cfg)) (
          or_exit ''failed to create database pool'' (se_new_pool S) (
          let defers = [DBPool] in
          or_exit ''failed to ping database'' (se_ping_db S) (
          or_exit ''failed to parse Redis URL'' (se_parse_redis S (cf_RedisURL cfg)) (
          let defers = RedisClient # defers in
          or_exit ''failed to ping Redis'' (se_ping_redis S) (
          or_exit ''failed to connect to RabbitMQ'' (se_dial S (cf_RabbitMQURL cfg)) (
          let defers = BrokerConn # defers in
          or_exit ''failed to open RabbitMQ channel'' (se_channel S) (
          let defers = BrokerChan # defers in
          or_exit ''failed to declare RabbitMQ exchange'' (se_declare S ledger_exchange) (
          case main_app env (se_aws S) X of
            Inl e \<Rightarrow> Inl (''failed to initialize storage service'', e)
          | Inr A \<Rightarrow>
              Inr \<lparr>pr_app = A, pr_router = main_router_config env,
                   pr_worker = NewOutboxWorker DefaultOutboxWorkerConfig,
                   pr_exchange = ledger_exchange, pr_http = main_http env,
                   pr_defers = defers\<rparr>)))))))))"

text \<open>Every call at start-up that can fail, as \<^verbatim>\<open>main\<close> sees it.\<close>

definition start_calls :: "environment \<Rightarrow> start_env \<Rightarrow> string option list" where
  "start_calls env S =
     (let cfg = loadConfig env in
      [se_iofs S, se_migrate S (cf_DatabaseURL cfg),
       (case se_up S of UpErr e \<Rightarrow> Some e | _ \<Rightarrow> None),
       se_parse_db S (cf_DatabaseURL cfg), se_new_pool S, se_ping_db S,
       se_parse_redis S (cf_RedisURL cfg), se_ping_redis S, se_dial S (cf_RabbitMQURL cfg),
       se_channel S, se_declare S ledger_exchange, se_aws S])"

definition storage_complete :: "environment \<Rightarrow> bool" where
  "storage_complete env \<longleftrightarrow> env ''R2_ACCESS_KEY_ID'' \<noteq> '''' \<and> env ''R2_SECRET_ACCESS_KEY'' \<noteq> ''''
     \<and> env ''R2_ENDPOINT'' \<noteq> ''''"

lemma or_exit_Inr [simp]: "or_exit m e k = Inr P \<longleftrightarrow> e = None \<and> k = Inr P"
  by (simp add: or_exit_def split: option.split)

lemma main_app_Inr:
  "(\<exists>A. main_app env awsErr X = Inr A) \<longleftrightarrow> storage_complete env \<and> awsErr = None"
  by (auto simp: main_app_def NewStorageService_def storage_config_def loadConfig_def getEnv_def
      storage_complete_def Let_def split: option.splits)

lemma runMigrations_None:
  "runMigrations S u = None \<longleftrightarrow> se_iofs S = None \<and> se_migrate S u = None \<and> (\<forall>e. se_up S \<noteq> UpErr e)"
  by (auto simp: runMigrations_def split: option.splits up_result.splits)

lemma start_main_Inr:
  "start_main env S X = Inr P \<longleftrightarrow> set (start_calls env S) \<subseteq> {None}
     \<and> (\<exists>A. main_app env None X = Inr A
          \<and> P = \<lparr>pr_app = A, pr_router = main_router_config env,
                 pr_worker = NewOutboxWorker DefaultOutboxWorkerConfig,
                 pr_exchange = ledger_exchange, pr_http = main_http env,
                 pr_defers = [BrokerChan, BrokerConn, RedisClient, DBPool]\<rparr>)"
proof -
  have run: "(case runMigrations S u of Some err \<Rightarrow> Inl err | None \<Rightarrow> k) = Inr P
      \<longleftrightarrow> runMigrations S u = None \<and> k = Inr P" for u and k :: "start_error + ('a, 'b) process"
    by (auto split: option.split)
  have "main_app env (se_aws S) X = Inr A \<longleftrightarrow> se_aws S = None \<and> main_app env None X = Inr A" for A
    using main_app_Inr [of env "se_aws S" X] by (cases "se_aws S") auto
  then show ?thesis
    by (auto simp: start_main_def start_calls_def run runMigrations_None Let_def
        split: sum.splits up_result.splits)
qed

text \<open>
  Start-up is all or nothing. \<^verbatim>\<open>main\<close> gets to serving if and only if every call it makes succeeds
  (migrations that are already applied count as success) and the storage settings are complete. Then
  the outbox worker publishes to the very exchange that has been declared, and the deferred closes are
  those of the four clients, the broker's channel first and the database pool last. Otherwise the
  process ends with an error and nothing is served.
\<close>

theorem start_main_starts:
  "(\<exists>P. start_main env S X = Inr P) = (set (start_calls env S) \<subseteq> {None} \<and> storage_complete env)
   \<and> (case start_main env S X of
        Inl (msg, e) \<Rightarrow> \<not> (set (start_calls env S) \<subseteq> {None} \<and> storage_complete env)
      | Inr P \<Rightarrow> ow_exchangeName (pr_worker P) = ex_name (pr_exchange P)
          \<and> se_declare S (pr_exchange P) = None \<and> ex_durable (pr_exchange P)
          \<and> pr_defers P = [BrokerChan, BrokerConn, RedisClient, DBPool]
          \<and> ap_keys (pr_app P) = loadAPIKeys env)"
proof -
  have iff: "(\<exists>P. start_main env S X = Inr P) = (set (start_calls env S) \<subseteq> {None} \<and> storage_complete env)"
    using main_app_Inr [of env None X] by (simp add: start_main_Inr)
  show ?thesis
  proof (cases "start_main env S X")
    case (Inl a)
    with iff show ?thesis by (auto split: prod.split)
  next
    case (Inr P)
    from Inr iff Inr [unfolded start_main_Inr] show ?thesis
      by (auto simp: start_calls_def NewOutboxWorker_def DefaultOutboxWorkerConfig_def
          ledger_exchange_def main_app_def Let_def split: sum.splits)
  qed
qed

section \<open>The life of a process\<close>

text \<open>
  \<open>Down\<close>: not running. \<open>Serving\<close>: in the final \<^verbatim>\<open>select\<close> of \<^verbatim>\<open>main\<close>. After a signal \<open>Stopping\<close>: in
  \<^verbatim>\<open>outboxWorker.Stop()\<close>, which waits for the batch in hand; then \<open>Draining\<close>: in \<^verbatim>\<open>server.Shutdown\<close>.
  \<open>Closing\<close>: \<^verbatim>\<open>main\<close> has reached its end and the deferred closes run.
\<close>

datatype phase = Down | Serving | Stopping | Draining | Closing

record ('r, 'o, 'b) life =
  lf_phase :: phase
  lf_open :: "resource list"
  lf_worker :: bool
  lf_server :: "('r, 'o) server"
  lf_broker :: 'b

datatype life_event =
    Started | StartFailed | Request | Poll | RedisChanged | SignalReceived | WorkerStopped
  | ServerStopped | ListenFailed | Closed resource | MainReturned | Killed

text \<open>Publishing on a channel that has been closed fails without a trace.\<close>

definition channel :: "resource list \<Rightarrow> 'b broker \<Rightarrow> 'b broker" where
  "channel opened B =
     (if BrokerChan \<in> set opened then B
      else B\<lparr>bk_Publish := (\<lambda>m b. (Some ''channel/connection is not open'', b))\<rparr>)"

definition down :: "('r, 'o, 'b) life \<Rightarrow> ('r, 'o, 'b) life" where
  "down l = l\<lparr>lf_phase := Down, lf_open := [], lf_worker := False\<rparr>"

text \<open>
  One step. \<^verbatim>\<open>main\<close> stops the worker only after a signal; when \<^verbatim>\<open>ListenAndServe\<close> fails it goes straight
  to the deferred closes, while the worker goes on polling. A request may be served until the process
  is gone, since neither \<^verbatim>\<open>server.Close\<close> nor the end of \<^verbatim>\<open>main\<close> waits for a handler; what the closed
  clients do to it is among the failures of its environment. A process that is killed in the middle of
  a request has made its last calls fail; one that is killed in the middle of a poll has handled the
  first \<open>n\<close> events only, as a poll with limit \<open>n\<close> would.
\<close>

inductive life_step ::
  "chi \<Rightarrow> (int \<Rightarrow> string) \<Rightarrow> environment \<Rightarrow> ('r, 'o) app \<Rightarrow> 'b broker \<Rightarrow> ('r, 'o) process
    \<Rightarrow> ('r, 'o, 'b) life \<Rightarrow> life_event \<Rightarrow> ('r, 'o, 'b) life \<Rightarrow> bool"
  for ch lua env X B P where
  started: "lf_phase l = Down \<Longrightarrow> start_main env S X = Inr P \<Longrightarrow>
     life_step ch lua env X B P l Started
       (l\<lparr>lf_phase := Serving, lf_open := pr_defers P, lf_worker := True\<rparr>)"
| start_failed: "lf_phase l = Down \<Longrightarrow> start_main env S X = Inl e \<Longrightarrow>
     life_step ch lua env X B P l StartFailed l"
| request: "lf_phase l \<noteq> Down \<Longrightarrow>
     life_step ch lua env X B P l Request
       (l\<lparr>lf_server := snd (serve ch lua (pr_app P) (pr_router P) E r (lf_server l))\<rparr>)"
| poll: "lf_worker l \<Longrightarrow> (DBPool \<notin> set (lf_open l) \<longrightarrow> po_fetch_fault Q \<noteq> None) \<Longrightarrow>
     processBatch (ap_F (pr_app P)) (channel (lf_open l) B) (pr_worker P) Q
       (lf_broker l, sv_db (lf_server l)) = (b, d) \<Longrightarrow>
     life_step ch lua env X B P l Poll (l\<lparr>lf_server := set_db d (lf_server l), lf_broker := b\<rparr>)"
| redis: "life_step ch lua env X B P l RedisChanged (l\<lparr>lf_server := set_redis rd (lf_server l)\<rparr>)"
| signal: "lf_phase l = Serving \<Longrightarrow>
     life_step ch lua env X B P l SignalReceived (l\<lparr>lf_phase := Stopping\<rparr>)"
| worker_stopped: "lf_phase l = Stopping \<Longrightarrow>
     life_step ch lua env X B P l WorkerStopped (l\<lparr>lf_phase := Draining, lf_worker := False\<rparr>)"
| server_stopped: "lf_phase l = Draining \<Longrightarrow>
     life_step ch lua env X B P l ServerStopped (l\<lparr>lf_phase := Closing\<rparr>)"
| listen_failed: "lf_phase l = Serving \<Longrightarrow>
     life_step ch lua env X B P l ListenFailed (l\<lparr>lf_phase := Closing\<rparr>)"
| closed: "lf_phase l = Closing \<Longrightarrow> lf_open l = x # xs \<Longrightarrow>
     life_step ch lua env X B P l (Closed x) (l\<lparr>lf_open := xs\<rparr>)"
| returned: "lf_phase l = Closing \<Longrightarrow> lf_open l = [] \<Longrightarrow>
     life_step ch lua env X B P l MainReturned (down l)"
| killed: "lf_phase l \<noteq> Down \<Longrightarrow> life_step ch lua env X B P l Killed (down l)"
| killed_polling: "lf_worker l \<Longrightarrow> (DBPool \<notin> set (lf_open l) \<longrightarrow> po_fetch_fault Q \<noteq> None) \<Longrightarrow>
     0 \<le> sint n \<Longrightarrow> sint n \<le> sint (ow_batchSize (pr_worker P)) \<Longrightarrow>
     processBatch (ap_F (pr_app P)) (channel (lf_open l) B) (pr_worker P\<lparr>ow_batchSize := n\<rparr>) Q
       (lf_broker l, sv_db (lf_server l)) = (b, d) \<Longrightarrow>
     life_step ch lua env X B P l Killed
       (down (l\<lparr>lf_server := set_db d (lf_server l), lf_broker := b\<rparr>))"

inductive life_run ::
  "chi \<Rightarrow> (int \<Rightarrow> string) \<Rightarrow> environment \<Rightarrow> ('r, 'o) app \<Rightarrow> 'b broker \<Rightarrow> ('r, 'o) process
    \<Rightarrow> ('r, 'o, 'b) life \<Rightarrow> life_event list \<Rightarrow> ('r, 'o, 'b) life \<Rightarrow> bool"
  for ch lua env X B P l where
  here: "life_run ch lua env X B P l [] l"
| step: "life_run ch lua env X B P l es l1 \<Longrightarrow> life_step ch lua env X B P l1 e l2 \<Longrightarrow>
     life_run ch lua env X B P l (es @ [e]) l2"

section \<open>What the outbox holds after a request\<close>

definition events_added :: "db \<Rightarrow> db \<Rightarrow> bool" where
  "events_added d d' \<longleftrightarrow> (\<exists>es. db_outbox d' = db_outbox d @ es
     \<and> (\<forall>e \<in> set es. ob_Status e = OutboxStatusPending))"

lemma events_added_same: "db_outbox d' = db_outbox d \<Longrightarrow> events_added d d'"
  by (simp add: events_added_def)

lemma CreateTransaction_events:
  assumes "CreateTransaction F R ttl E T req v = (res, v')"
  shows "events_added (w_db v) (w_db v')"
  using CreateTransaction_outcome [OF assms]
proof
  assume "unchanged (w_db v) (w_db v')"
  then have "db_outbox (w_db v') = db_outbox (w_db v)"
    by (subst unchanged_def [THEN iffD1], assumption) (simp add: rollback_db_def)
  then show ?thesis by (rule events_added_same)
next
  assume "posted F E T req (w_db v) (w_db v')"
  then show ?thesis by (auto simp: posted_def event_row_def events_added_def)
qed

lemma endpoint_events:
  assumes "server_ok A s"
  shows "events_added (sv_db s) (sv_db (snd (endpoint_handler ch A e E r (w, s))))"
proof -
  have def: "db_deferred (sv_db s) = []"
    using assms by (simp add: server_ok_def ledger_ok_def committed_ok_def)
  consider "e = ECreateTransaction" | "e = ECreateAccount" | "e = EAttachDocument" | "e \<notin> writing"
    by (auto simp: writing_def)
  then show ?thesis
  proof cases
    case 1
    then show ?thesis
      by (auto simp: CreateTransactionHandler_def Let_def events_added_same dest: CreateTransaction_events
          split: option.splits prod.splits sum.splits)
  next
    case 2
    then show ?thesis
      by (auto simp: CreateAccountHandler_def Let_def intro!: events_added_same
          split: option.splits prod.splits sum.splits dest: CreateAccount_tables)
  next
    case 3
    then show ?thesis using def
      by (auto simp: AttachDocumentHandler_def Let_def set_db_def intro!: events_added_same
          split: option.splits prod.splits sum.splits dest: AttachDocument_tables)
  next
    case 4
    from endpoint_rows [OF this, of ch A E r w s] show ?thesis
      by (simp add: ledger_rows_def events_added_same)
  qed
qed

lemma serve_events:
  assumes "server_ok A s"
  shows "events_added (sv_db s) (sv_db (snd (serve ch lua A cfg E r s)))"
  using serve_runs [of ch A E s lua cfg r] unfolding runs_def
proof (elim disjE exE conjE)
  assume "same_rows s (snd (serve ch lua A cfg E r s))"
  then show ?thesis by (simp add: same_rows_def events_added_same)
next
  fix e r1 w s1
  assume s1: "same_rows s s1"
    and out: "snd (serve ch lua A cfg E r s) = snd (endpoint_handler ch A e E r1 (w, s1))"
  have "server_ok A s1" using s1 assms by (simp add: same_rows_def server_ok_def)
  from endpoint_events [OF this, of ch e E r1 w] s1 show ?thesis by (simp add: out same_rows_def)
qed

lemma delivered_events_added:
  "delivered F W d \<Longrightarrow> events_added d d' \<Longrightarrow> delivered F W d'"
  by (auto simp: delivered_def events_added_def OutboxStatusPending_def OutboxStatusPublished_def)

section \<open>The ledger and its events over all lives\<close>

text \<open>What holds at every moment, also between two lives of the process.\<close>

definition life_ok :: "('r, 'o) process \<Rightarrow> 'b broker \<Rightarrow> ('r, 'o, 'b) life \<Rightarrow> bool" where
  "life_ok P B l \<longleftrightarrow> server_ok (pr_app P) (lf_server l)
     \<and> delivered (ap_F (pr_app P))
         {m \<in> set (bk_written B (lf_broker l)). pub_Exchange m = ex_name (pr_exchange P)}
         (sv_db (lf_server l))"

lemma channel_ok: "broker_ok B \<Longrightarrow> broker_ok (channel opened B)"
  by (auto simp: channel_def broker_ok_def)

lemma written_channel [simp]: "bk_written (channel opened B) = bk_written B"
  by (simp add: channel_def)

lemma life_ok_poll:
  assumes "life_ok P B l" and "broker_ok B"
    and "processBatch (ap_F (pr_app P)) (channel opened B) w Q (lf_broker l, sv_db (lf_server l)) = (b, d)"
    and "ow_exchangeName w = ex_name (pr_exchange P)"
  shows "life_ok P B (l\<lparr>lf_server := set_db d (lf_server l), lf_broker := b\<rparr>)
    \<and> evolves (sv_db (lf_server l)) d"
proof -
  have led: "ledger_ok (ap_F (pr_app P)) (sv_db (lf_server l))"
    using assms(1) by (simp add: life_ok_def server_ok_def)
  then have com: "committed_ok (sv_db (lf_server l))" by (simp add: ledger_ok_def)
  note keeps = processBatch_keeps [OF led channel_ok [OF assms(2)] assms(3)]
  have "delivered (ap_F (pr_app P))
      {m \<in> set (bk_written (channel opened B) b). pub_Exchange m = ex_name (pr_exchange P)} d"
    using assms(1,4) by (intro processBatch_delivered_where [OF com channel_ok [OF assms(2)] assms(3)])
      (simp_all add: life_ok_def event_message_def)
  with keeps assms(1) show ?thesis by (simp add: life_ok_def server_ok_set_db)
qed

lemma life_ok_down [simp]: "life_ok P B (down l) = life_ok P B l"
  by (simp add: life_ok_def down_def)

lemma down_simps [simp]:
  "lf_server (down l) = lf_server l" "lf_broker (down l) = lf_broker l"
  "lf_phase (down l) = Down" "lf_open (down l) = []" "lf_worker (down l) = False"
  by (simp_all add: down_def)

lemma life_step_ok:
  assumes "life_step ch lua env X B P l e l'" and "life_ok P B l"
    and "chi_ok ch" and "storage_ok (ap_storage (pr_app P))" and "broker_ok B"
    and "ow_exchangeName (pr_worker P) = ex_name (pr_exchange P)"
  shows "life_ok P B l' \<and> evolves (sv_db (lf_server l)) (sv_db (lf_server l'))"
  using assms(1)
proof cases
  case (request E r)
  have ok: "server_ok (pr_app P) (lf_server l)" using assms(2) by (simp add: life_ok_def)
  from serve_keeps [OF assms(3,4) ok] serve_events [OF ok] assms(2) show ?thesis
    unfolding request(2) life_ok_def by (auto intro: delivered_events_added)
next
  case (poll Q b d)
  from life_ok_poll [OF assms(2,5) poll(5) assms(6)] show ?thesis by (simp add: poll(2))
next
  case (killed_polling Q n b d)
  from life_ok_poll [OF assms(2,5) killed_polling(7)] assms(6) show ?thesis
    by (simp add: killed_polling(2))
qed (use assms(2) in \<open>simp_all add: life_ok_def\<close>)

text \<open>
  C4: No transaction and no event is lost over the lives of the service. Start from a sound state (a
  freshly migrated database is one) and let the process be started, serve, poll, be stopped by a
  signal, fail to listen, be killed at any point and be started again, as often as you like. Then the
  ledger invariant holds, no row has been changed or lost, and each transaction has its event: either
  still pending, or given up as failed, or written as a persistent message with that payload to the
  exchange that was declared at start-up.
\<close>

theorem lives_keep_events:
  assumes "life_run ch lua env X B P l es l'" and "life_ok P B l"
    and "start_main env S X = Inr P"
    and "chi_ok ch" and "storage_ok (ap_storage X)" and "broker_ok B"
  shows "ledger_ok (ap_F X) (sv_db (lf_server l'))
    \<and> evolves (sv_db (lf_server l)) (sv_db (lf_server l'))
    \<and> (\<forall>t \<in> set (db_transactions (sv_db (lf_server l'))).
         \<exists>e \<in> set (db_outbox (sv_db (lf_server l'))).
           json_field ''transaction_id'' (ob_Payload e) = Some (encode_uuid (ap_F X) (tx_ID t))
         \<and> (ob_Status e \<in> {OutboxStatusPending, OutboxStatusFailed}
            \<or> (\<exists>m \<in> set (bk_written B (lf_broker l')). pub_Exchange m = ''ledger.events''
                 \<and> pub_RoutingKey m = ob_RoutingKey e \<and> pub_Body m = ob_Payload e
                 \<and> pub_Persistent m)))"
proof -
  have P: "ap_F (pr_app P) = ap_F X" "ap_storage (pr_app P) = ap_storage X"
      "ex_name (pr_exchange P) = ''ledger.events''"
      "ow_exchangeName (pr_worker P) = ex_name (pr_exchange P)"
    using assms(3) by (auto simp: start_main_Inr main_app_def ledger_exchange_def NewOutboxWorker_def
        DefaultOutboxWorkerConfig_def split: sum.splits)
  have ok: "life_ok P B l' \<and> evolves (sv_db (lf_server l)) (sv_db (lf_server l'))"
    using assms(1)
  proof induction
    case here
    then show ?case using assms(2) by simp
  next
    case (step es l1 e l2)
    with life_step_ok [OF step.hyps(2) _ assms(4) _ assms(6) P(4)] assms(5) P(2) show ?case
      by (auto intro: evolves_trans)
  qed
  let ?d = "sv_db (lf_server l')"
  have led: "ledger_ok (ap_F X) ?d" and del: "delivered (ap_F X)
      {m \<in> set (bk_written B (lf_broker l')). pub_Exchange m = ''ledger.events''} ?d"
    using ok by (simp_all add: life_ok_def server_ok_def P)
  have "\<exists>e \<in> set (db_outbox ?d).
      json_field ''transaction_id'' (ob_Payload e) = Some (encode_uuid (ap_F X) (tx_ID t))"
    if "t \<in> set (db_transactions ?d)" for t
  proof -
    have "set (event_ids ?d) = (\<lambda>t. Some (encode_uuid (ap_F X) (tx_ID t))) ` set (db_transactions ?d)"
      using led by (simp add: ledger_ok_def)
    with that have "Some (encode_uuid (ap_F X) (tx_ID t)) \<in> set (event_ids ?d)" by auto
    then show ?thesis by (auto simp: event_ids_def)
  qed
  moreover have "ob_Status e \<in> {OutboxStatusPending, OutboxStatusFailed, OutboxStatusPublished}"
    if "e \<in> set (db_outbox ?d)" for e
    using led that by (auto simp: ledger_ok_def committed_ok_def tx_ok_def schema_ok_def values_ok_def)
  ultimately show ?thesis using led ok del unfolding delivered_def by fastforce
qed

section \<open>Starting the sample process\<close>

text \<open>All calls succeed; the settings are those of the examples of \<open>Config\<close>.\<close>

definition good_start :: start_env where
  "good_start =
     \<lparr>se_iofs = None, se_migrate = (\<lambda>_. None), se_up = UpNoChange, se_parse_db = (\<lambda>_. None),
      se_new_pool = None, se_ping_db = None, se_parse_redis = (\<lambda>_. None), se_ping_redis = None,
      se_dial = (\<lambda>_. None), se_channel = None, se_declare = (\<lambda>_. None), se_aws = None\<rparr>"

definition sample_process ::
  "(string \<Rightarrow> payload option, string \<times> string \<Rightarrow> (string \<times> string) option) process" where
  "sample_process = projr (start_main (set_env ''sk-abc123:admin'') good_start sample_app)"

lemma good_start_calls: "set (start_calls env good_start) \<subseteq> {None}"
  by (simp add: start_calls_def good_start_def Let_def)

lemma sample_process_starts:
  "start_main (set_env ''sk-abc123:admin'') good_start sample_app = Inr sample_process"
proof -
  obtain P where "start_main (set_env ''sk-abc123:admin'') good_start sample_app = Inr P"
    using main_app_starts [of "''sk-abc123:admin''" sample_app] good_start_calls start_main_Inr by blast
  then show ?thesis by (simp only: sample_process_def sum.sel)
qed

lemma sample_process_parts:
  "ap_F (pr_app sample_process) = plain_formats" "ap_storage (pr_app sample_process) = map_storage"
  "pr_worker sample_process = sample_worker" "ex_name (pr_exchange sample_process) = ''ledger.events''"
  "pr_defers sample_process = [BrokerChan, BrokerConn, RedisClient, DBPool]"
proof -
  obtain A where A: "main_app (set_env ''sk-abc123:admin'') None sample_app = Inr A"
      "sample_process = \<lparr>pr_app = A, pr_router = main_router_config (set_env ''sk-abc123:admin''),
         pr_worker = NewOutboxWorker DefaultOutboxWorkerConfig, pr_exchange = ledger_exchange,
         pr_http = main_http (set_env ''sk-abc123:admin''),
         pr_defers = [BrokerChan, BrokerConn, RedisClient, DBPool]\<rparr>"
    using sample_process_starts unfolding start_main_Inr by blast
  have "ap_F A = plain_formats" "ap_storage A = map_storage"
    using A(1) by (auto simp: main_app_def sample_app_def split: sum.splits)
  then show "ap_F (pr_app sample_process) = plain_formats"
    "ap_storage (pr_app sample_process) = map_storage" "pr_worker sample_process = sample_worker"
    "ex_name (pr_exchange sample_process) = ''ledger.events''"
    "pr_defers sample_process = [BrokerChan, BrokerConn, RedisClient, DBPool]"
    by (simp_all add: A(2) sample_worker_def ledger_exchange_def)
qed

text \<open>The process is down, on a database with one posted transaction and its pending event.\<close>

definition posted_life where
  "posted_life = \<lparr>lf_phase = Down, lf_open = [], lf_worker = False,
     lf_server = sample_server\<lparr>sv_world := posted_world\<rparr>,
     lf_broker = ([] :: string option list, [] :: publishing list)\<rparr>"

abbreviation sample_step where
  "sample_step \<equiv> life_step segment_chi show_int (set_env ''sk-abc123:admin'') sample_app script_broker
     sample_process"

abbreviation sample_run where
  "sample_run \<equiv> life_run segment_chi show_int (set_env ''sk-abc123:admin'') sample_app script_broker
     sample_process"

lemma posted_life_ok: "life_ok sample_process script_broker posted_life"
proof -
  have "sv_db (lf_server posted_life) = posted_db"
    by (simp add: posted_life_def posted_db_def)
  then show ?thesis
    by (simp add: life_ok_def server_ok_def documents_stored_def sample_process_parts posted_ledger_ok
        delivered_def)
      (simp add: posted_db_eq OutboxStatusPublished_def)
qed

abbreviation serving_life where
  "serving_life \<equiv> posted_life\<lparr>lf_phase := Serving,
     lf_open := [BrokerChan, BrokerConn, RedisClient, DBPool], lf_worker := True\<rparr>"

lemma sample_started: "sample_run posted_life ([] @ [Started]) serving_life"
proof (rule life_run.step [OF life_run.here])
  show "sample_step posted_life Started serving_life"
    using life_step.started [OF _ sample_process_starts, of posted_life]
    by (simp add: sample_process_parts posted_life_def)
qed

text \<open>
  From there the process is started, polls, and is killed; the event has been written to the
  exchange.
\<close>

theorem lives_keep_events_witness:
  "\<exists>l'. sample_run posted_life [Started, Poll, Killed] l'
     \<and> lf_phase l' = Down \<and> ledger_ok plain_formats (sv_db (lf_server l'))
     \<and> (\<forall>t \<in> set (db_transactions (sv_db (lf_server l'))).
         \<exists>e \<in> set (db_outbox (sv_db (lf_server l'))).
           json_field ''transaction_id'' (ob_Payload e) = Some (encode_uuid plain_formats (tx_ID t))
         \<and> (ob_Status e \<in> {OutboxStatusPending, OutboxStatusFailed}
            \<or> (\<exists>m \<in> set (bk_written script_broker (lf_broker l')). pub_Exchange m = ''ledger.events''
                 \<and> pub_RoutingKey m = ob_RoutingKey e \<and> pub_Body m = ob_Payload e
                 \<and> pub_Persistent m)))"
proof -
  let ?l1 = serving_life
  obtain b d where poll: "processBatch plain_formats script_broker sample_worker sample_poll
      (lf_broker ?l1, sv_db (lf_server ?l1)) = (b, d)" by (metis surj_pair)
  let ?l2 = "?l1\<lparr>lf_server := set_db d (lf_server ?l1), lf_broker := b\<rparr>"
  have "sample_step ?l1 Poll ?l2"
    by (rule life_step.poll [where Q = sample_poll])
      (use poll in \<open>simp_all add: sample_process_parts channel_def\<close>)
  then have r2: "sample_run posted_life (([] @ [Started]) @ [Poll]) ?l2"
    by (rule life_run.step [OF sample_started])
  have "sample_step ?l2 Killed (down ?l2)" by (rule life_step.killed) simp
  then have r3: "sample_run posted_life ((([] @ [Started]) @ [Poll]) @ [Killed]) (down ?l2)"
    by (rule life_run.step [OF r2])
  have st: "storage_ok (ap_storage sample_app)" "ap_F sample_app = plain_formats"
    by (simp_all add: sample_app_def map_storage_ok)
  from lives_keep_events [OF r3 posted_life_ok sample_process_starts segment_chi_ok st(1)
      script_broker_ok] r3
  show ?thesis unfolding st(2) by (intro exI [of _ "down ?l2"]) simp
qed

section \<open>Stopping\<close>



text \<open>
  When \<^verbatim>\<open>ListenAndServe\<close> fails (the port is taken, say) nobody stops the worker. Its next poll meets
  the channel that \<^verbatim>\<open>main\<close> has closed, while the pool is still open: the attempt is counted against
  the event, although the broker has neither been asked nor refused anything. After five such starts
  the event is given up.
\<close>

theorem failed_listen_costs_an_attempt:
  "\<exists>l'. sample_run posted_life [Started, ListenFailed, Closed BrokerChan, Poll] l'
     \<and> map ob_RetryCount (db_outbox (sv_db (lf_server posted_life))) = [0]
     \<and> map ob_RetryCount (db_outbox (sv_db (lf_server l'))) = [1]
     \<and> lf_broker l' = lf_broker posted_life"
proof -
  let ?l1 = serving_life
  let ?l2 = "?l1\<lparr>lf_phase := Closing\<rparr>" and ?l3 = "?l1\<lparr>lf_phase := Closing, lf_open := [BrokerConn, RedisClient, DBPool]\<rparr>"
  let ?poll = "processBatch plain_formats (channel [] script_broker) sample_worker sample_poll
      (([], []), posted_db)"
  have out: "fst ?poll = ([], [])" "map ob_RetryCount (db_outbox (snd ?poll)) = [1]"
      "map ob_RetryCount (db_outbox posted_db) = [0]"
    by code_simp+
  have db: "sv_db (lf_server posted_life) = posted_db" "lf_broker posted_life = ([], [])"
    by (simp_all add: posted_life_def posted_db_def)
  note run = sample_started
  have "sample_step ?l1 ListenFailed ?l2" by (rule life_step.listen_failed) simp
  note run = life_run.step [OF run this]
  have "sample_step ?l2 (Closed BrokerChan) ?l3"
    using life_step.closed [of ?l2 BrokerChan "[BrokerConn, RedisClient, DBPool]"] by simp
  note run = life_run.step [OF run this]
  have "sample_step ?l3 Poll (?l3\<lparr>lf_server := set_db (snd ?poll) (lf_server ?l3), lf_broker := fst ?poll\<rparr>)"
    by (rule life_step.poll [where Q = sample_poll])
      (simp_all add: sample_process_parts channel_def db)
  note run = life_run.step [OF run this]
  show ?thesis
    by (rule exI, intro conjI, use run in \<open>simp\<close>) (simp_all add: db out)
qed

end
