(* ===== verification/Sql.thy ===== *)
theory Sql
  imports Queries
begin

text \<open>
  The part of PostgreSQL's DDL and DML that \<^verbatim>\<open>db/migrations\<close> is written in, as an executable
  interpreter: a catalog (enum types, functions, tables with their columns, defaults and constraints,
  triggers, indexes, sequences) together with the rows, and one operation per statement form. The
  migration files themselves are in \<open>Migrations\<close>; that \<open>Queries\<close> checks exactly what the migrated
  catalog declares is proved in \<open>Conformance\<close>.

  A row is an association list from column names, in the order of the table's columns. Rows stay in
  the order of insertion. Comments on tables change nothing a statement can observe.
\<close>

section \<open>Values, columns, constraints\<close>

datatype sql_val =
    VNull
  | VUuid uuid
  | VText string        \<comment> \<open>TEXT, VARCHAR and enum labels\<close>
  | VInt int            \<comment> \<open>INT and BIGINT\<close>
  | VTime int
  | VJson json

type_synonym row = "(string \<times> sql_val) list"

definition col :: "row \<Rightarrow> string \<Rightarrow> sql_val" where
  "col r c = (case map_of r c of Some v \<Rightarrow> v | None \<Rightarrow> VNull)"

datatype sql_type = UUID | TEXT | VARCHAR nat | INTEGER | BIGINT | JSONB | TIMESTAMPTZ | ENUM string

datatype sql_default = NoDefault | Literal sql_val | NowDefault | GenRandomUuid | Nextval string

record column =
  col_name :: string
  col_type :: sql_type
  col_notnull :: bool
  col_default :: sql_default

datatype on_delete = Restrict | Cascade

text \<open>A foreign key references the column \<^verbatim>\<open>id\<close> of its table, as all those of the schema do.\<close>

datatype sql_constraint =
    PrimaryKey string "string list"
  | Unique string "string list"
  | CheckPositive string string
  | References string string string on_delete   \<comment> \<open>name, column, table\<close>

fun con_name :: "sql_constraint \<Rightarrow> string" where
  "con_name (PrimaryKey n cs) = n"
| "con_name (Unique n cs) = n"
| "con_name (CheckPositive n c) = n"
| "con_name (References n c t od) = n"

fun con_columns :: "sql_constraint \<Rightarrow> string list" where
  "con_columns (PrimaryKey n cs) = cs"
| "con_columns (Unique n cs) = cs"
| "con_columns (CheckPositive n c) = [c]"
| "con_columns (References n c t od) = [c]"

fun con_table :: "sql_constraint \<Rightarrow> string option" where
  "con_table (References n c t od) = Some t"
| "con_table k = None"

record table_def =
  tb_columns :: "column list"
  tb_constraints :: "sql_constraint list"

text \<open>The bodies of the three PL/pgSQL functions of the schema.\<close>

datatype plpgsql =
    RaiseRestrictViolation      \<comment> \<open>\<^verbatim>\<open>RAISE EXCEPTION ... ERRCODE = 'restrict_violation'\<close>\<close>
  | SetColumnNow string         \<comment> \<open>\<^verbatim>\<open>NEW.c = now(); RETURN NEW\<close>\<close>
  | CheckDebitsEqualCredits     \<comment> \<open>over the postings of \<^verbatim>\<open>NEW.transaction_id\<close>\<close>

datatype trigger_event = OnInsert | OnUpdate | OnDelete

record trigger =
  tg_name :: string
  tg_table :: string
  tg_events :: "trigger_event list"
  tg_deferred :: bool           \<comment> \<open>AFTER, DEFERRABLE INITIALLY DEFERRED; the others are BEFORE\<close>
  tg_function :: string

text \<open>
  The database. A queued call of a deferred trigger keeps the function and what it reads of NEW, the
  transaction id. A sequence keeps the last value it handed out.
\<close>

record sqldb =
  sd_types :: "(string \<times> string list) list"
  sd_functions :: "(string \<times> plpgsql) list"
  sd_tables :: "(string \<times> table_def) list"
  sd_triggers :: "trigger list"
  sd_indexes :: "(string \<times> string \<times> string list) list"   \<comment> \<open>name, table, columns\<close>
  sd_seqs :: "(string \<times> int) list"
  sd_rows :: "(string \<times> row list) list"
  sd_queue :: "(string \<times> sql_val) list"

definition empty_db :: sqldb where
  "empty_db = \<lparr>sd_types = [], sd_functions = [], sd_tables = [], sd_triggers = [], sd_indexes = [],
     sd_seqs = [], sd_rows = [], sd_queue = []\<rparr>"

datatype sql_error =
    Pg pg_error
  | RestrictViolation string    \<comment> \<open>raised by a trigger of that table\<close>
  | UndefinedTable string
  | UndefinedColumn string
  | UndefinedObject string
  | DuplicateObject string
  | DependentObjects string

definition rows_of :: "sqldb \<Rightarrow> string \<Rightarrow> row list" where
  "rows_of s t = (case map_of (sd_rows s) t of Some rs \<Rightarrow> rs | None \<Rightarrow> [])"

text \<open>Replacing the entry of a key that is there.\<close>

fun put_entry :: "'k \<Rightarrow> 'v \<Rightarrow> ('k \<times> 'v) list \<Rightarrow> ('k \<times> 'v) list" where
  "put_entry k v [] = []"
| "put_entry k v ((k', v') # es) = (if k' = k then (k, v) # es else (k', v') # put_entry k v es)"

definition drop_entry :: "'k \<Rightarrow> ('k \<times> 'v) list \<Rightarrow> ('k \<times> 'v) list" where
  "drop_entry k es = filter (\<lambda>e. fst e \<noteq> k) es"

definition set_rows :: "string \<Rightarrow> row list \<Rightarrow> sqldb \<Rightarrow> sqldb" where
  "set_rows t rs s = s\<lparr>sd_rows := put_entry t rs (sd_rows s)\<rparr>"

section \<open>Constraints of a row\<close>

definition same_key :: "string list \<Rightarrow> row \<Rightarrow> row \<Rightarrow> bool" where
  "same_key cs a b \<longleftrightarrow> (\<forall>c \<in> set cs. col a c = col b c \<and> col a c \<noteq> VNull)"

text \<open>What a new row violates, as pairs of a condition and its error.\<close>

fun type_check :: "row \<Rightarrow> column \<Rightarrow> (bool \<times> pg_error) list" where
  "type_check r c =
     (case (col_type c, col r (col_name c)) of
        (VARCHAR n, VText v) \<Rightarrow> [(too_long n v, ValueTooLong n)]
      | _ \<Rightarrow> [])"

definition null_check :: "row \<Rightarrow> column \<Rightarrow> (bool \<times> pg_error) list" where
  "null_check r c =
     (if col_notnull c then [(col r (col_name c) = VNull, NotNullViolation (col_name c))] else [])"

fun positive_check :: "row \<Rightarrow> sql_constraint \<Rightarrow> (bool \<times> pg_error) list" where
  "positive_check r (CheckPositive n c) =
     (case col r c of VInt i \<Rightarrow> [(i \<le> 0, CheckViolation n)] | _ \<Rightarrow> [])"
| "positive_check r k = []"

fun unique_check :: "row list \<Rightarrow> row \<Rightarrow> sql_constraint \<Rightarrow> (bool \<times> pg_error) list" where
  "unique_check rs r (PrimaryKey n cs) = [(\<exists>x \<in> set rs. same_key cs x r, UniqueViolation n)]"
| "unique_check rs r (Unique n cs) = [(\<exists>x \<in> set rs. same_key cs x r, UniqueViolation n)]"
| "unique_check rs r k = []"

fun reference_check :: "sqldb \<Rightarrow> row \<Rightarrow> sql_constraint \<Rightarrow> (bool \<times> pg_error) list" where
  "reference_check s r (References n c t od) =
     [(col r c \<noteq> VNull \<and> \<not> (\<exists>x \<in> set (rows_of s t). col x ''id'' = col r c),
       ForeignKeyViolation n)]"
| "reference_check s r k = []"

text \<open>
  The order in which PostgreSQL looks at them: the length coercions, NOT NULL, CHECK, the unique
  indexes in the order they were created, and after the row is in, the foreign keys.
\<close>

definition row_checks ::
  "sqldb \<Rightarrow> column list \<Rightarrow> sql_constraint list \<Rightarrow> row list \<Rightarrow> row \<Rightarrow> (bool \<times> pg_error) list" where
  "row_checks s cols ks others r =
     concat (map (type_check r) cols) @ concat (map (null_check r) cols)
     @ concat (map (positive_check r) ks) @ concat (map (unique_check others r) ks)
     @ concat (map (reference_check s r) ks)"

section \<open>INSERT\<close>

text \<open>Parameters are cast to their enum types when they are bound, before the statement runs.\<close>

fun cast_check :: "(string \<times> string list) list \<Rightarrow> row \<Rightarrow> column \<Rightarrow> (bool \<times> pg_error) list" where
  "cast_check types vals c =
     (case (col_type c, col vals (col_name c)) of
        (ENUM e, VText v) \<Rightarrow>
          [(\<not> (\<exists>ls. map_of types e = Some ls \<and> v \<in> set ls), InvalidEnumValue e)]
      | _ \<Rightarrow> [])"

text \<open>
  The new row, column by column: the value given, or the default. \<open>gen\<close> is the UUID
  \<^verbatim>\<open>gen_random_uuid()\<close> draws. A sequence hands out its next value and keeps it, whatever happens to
  the statement.
\<close>

fun default_value ::
  "uuid \<Rightarrow> int \<Rightarrow> sql_default \<Rightarrow> (string \<times> int) list \<Rightarrow> (pg_error + sql_val) \<times> (string \<times> int) list"
where
  "default_value gen now NoDefault sq = (Inr VNull, sq)"
| "default_value gen now (Literal v) sq = (Inr v, sq)"
| "default_value gen now NowDefault sq = (Inr (VTime now), sq)"
| "default_value gen now GenRandomUuid sq = (Inr (VUuid gen), sq)"
| "default_value gen now (Nextval n) sq =
     (case map_of sq n of
        None \<Rightarrow> (Inr VNull, sq)
      | Some i \<Rightarrow>
          if i < 2 ^ 63 - 1 then (Inr (VInt (i + 1)), put_entry n (i + 1) sq)
          else (Inl (SequenceLimit n), sq))"

fun fill_row ::
  "uuid \<Rightarrow> int \<Rightarrow> row \<Rightarrow> column list \<Rightarrow> (string \<times> int) list \<Rightarrow> (pg_error + row) \<times> (string \<times> int) list"
where
  "fill_row gen now vals [] sq = (Inr [], sq)"
| "fill_row gen now vals (c # cs) sq =
     (case (case map_of vals (col_name c) of
              Some v \<Rightarrow> (Inr v, sq)
            | None \<Rightarrow> default_value gen now (col_default c) sq) of
        (Inl e, sq') \<Rightarrow> (Inl e, sq')
      | (Inr v, sq') \<Rightarrow>
          (case fill_row gen now vals cs sq' of
             (Inl e, sq'') \<Rightarrow> (Inl e, sq'')
           | (Inr r, sq'') \<Rightarrow> (Inr ((col_name c, v) # r), sq'')))"

text \<open>Deferred AFTER INSERT triggers are queued for the end of the transaction.\<close>

definition queued :: "sqldb \<Rightarrow> string \<Rightarrow> row \<Rightarrow> (string \<times> sql_val) list" where
  "queued s t r =
     map (\<lambda>g. (tg_function g, col r ''transaction_id''))
       (filter (\<lambda>g. tg_table g = t \<and> tg_deferred g \<and> OnInsert \<in> set (tg_events g))
         (sd_triggers s))"

definition sql_insert ::
  "uuid \<Rightarrow> int \<Rightarrow> string \<Rightarrow> row \<Rightarrow> sqldb \<Rightarrow> (sql_error + row) \<times> sqldb" where
  "sql_insert gen now t vals s =
     (case map_of (sd_tables s) t of
        None \<Rightarrow> (Inl (UndefinedTable t), s)
      | Some tb \<Rightarrow>
          (case first_violation (concat (map (cast_check (sd_types s) vals) (tb_columns tb))) of
             Some e \<Rightarrow> (Inl (Pg e), s)
           | None \<Rightarrow>
               (case fill_row gen now vals (tb_columns tb) (sd_seqs s) of
                  (Inl e, sq) \<Rightarrow> (Inl (Pg e), s\<lparr>sd_seqs := sq\<rparr>)
                | (Inr r, sq) \<Rightarrow>
                    (case first_violation
                       (row_checks s (tb_columns tb) (tb_constraints tb) (rows_of s t) r) of
                       Some e \<Rightarrow> (Inl (Pg e), s\<lparr>sd_seqs := sq\<rparr>)
                     | None \<Rightarrow>
                         (Inr r, set_rows t (rows_of s t @ [r])
                            (s\<lparr>sd_seqs := sq, sd_queue := sd_queue s @ queued s t r\<rparr>))))))"

section \<open>UPDATE\<close>

text \<open>
  A BEFORE UPDATE trigger sees the new row and may change it or raise. Then the row is checked;
  what no assigned column belongs to cannot be newly violated.
\<close>

fun run_before :: "int \<Rightarrow> string \<Rightarrow> plpgsql list \<Rightarrow> row \<Rightarrow> sql_error + row" where
  "run_before now t [] r = Inr r"
| "run_before now t (RaiseRestrictViolation # fs) r = Inl (RestrictViolation t)"
| "run_before now t (SetColumnNow c # fs) r = run_before now t fs (put_entry c (VTime now) r)"
| "run_before now t (CheckDebitsEqualCredits # fs) r = run_before now t fs r"

definition before_triggers :: "sqldb \<Rightarrow> string \<Rightarrow> trigger_event \<Rightarrow> plpgsql list" where
  "before_triggers s t ev =
     concat (map (\<lambda>g. case map_of (sd_functions s) (tg_function g) of Some f \<Rightarrow> [f] | None \<Rightarrow> [])
       (filter (\<lambda>g. tg_table g = t \<and> \<not> tg_deferred g \<and> ev \<in> set (tg_events g))
         (sd_triggers s)))"

text \<open>The assignments of SET, each an expression over the old row.\<close>

type_synonym assignments = "(string \<times> (row \<Rightarrow> pg_error + sql_val)) list"

fun assign :: "row \<Rightarrow> assignments \<Rightarrow> row \<Rightarrow> pg_error + row" where
  "assign old [] r = Inr r"
| "assign old ((c, e) # as) r =
     (case e old of Inl err \<Rightarrow> Inl err | Inr v \<Rightarrow> assign old as (put_entry c v r))"

definition touched :: "string list \<Rightarrow> sql_constraint \<Rightarrow> bool" where
  "touched cs k \<longleftrightarrow> (\<exists>c \<in> set (con_columns k). c \<in> set cs)"

fun update_rows ::
  "(row \<Rightarrow> bool) \<Rightarrow> (row \<Rightarrow> sql_error + row) \<Rightarrow> (row list \<Rightarrow> row \<Rightarrow> (bool \<times> pg_error) list)
     \<Rightarrow> row list \<Rightarrow> row list \<Rightarrow> sql_error + row list" where
  "update_rows sel f checks done [] = Inr done"
| "update_rows sel f checks done (r # rs) =
     (if sel r then
        (case f r of
           Inl e \<Rightarrow> Inl e
         | Inr r' \<Rightarrow>
             (case first_violation (checks (done @ rs) r') of
                Some e \<Rightarrow> Inl (Pg e)
              | None \<Rightarrow> update_rows sel f checks (done @ [r']) rs))
      else update_rows sel f checks (done @ [r]) rs)"

definition new_version ::
  "int \<Rightarrow> sqldb \<Rightarrow> string \<Rightarrow> assignments \<Rightarrow> row \<Rightarrow> sql_error + row" where
  "new_version now s t as r =
     (case assign r as r of
        Inl e \<Rightarrow> Inl (Pg e)
      | Inr r' \<Rightarrow> run_before now t (before_triggers s t OnUpdate) r')"

definition sql_update ::
  "int \<Rightarrow> string \<Rightarrow> (row \<Rightarrow> bool) \<Rightarrow> assignments \<Rightarrow> sqldb \<Rightarrow> sql_error + sqldb" where
  "sql_update now t sel as s =
     (case map_of (sd_tables s) t of
        None \<Rightarrow> Inl (UndefinedTable t)
      | Some tb \<Rightarrow>
          (case update_rows sel (new_version now s t as)
             (row_checks s (filter (\<lambda>c. col_name c \<in> set (map fst as)) (tb_columns tb))
               (filter (touched (map fst as)) (tb_constraints tb)))
             [] (rows_of s t) of
             Inl e \<Rightarrow> Inl e
           | Inr rs \<Rightarrow> Inr (set_rows t rs s)))"

section \<open>COMMIT\<close>

definition sum_rows :: "string \<Rightarrow> sql_val \<Rightarrow> row list \<Rightarrow> int" where
  "sum_rows dir t rs =
     (\<Sum>r\<leftarrow>rs. if col r ''transaction_id'' = t \<and> col r ''direction'' = VText dir
             then (case col r ''amount'' of VInt i \<Rightarrow> i | _ \<Rightarrow> 0) else 0)"

definition run_after :: "sqldb \<Rightarrow> plpgsql \<Rightarrow> sql_val \<Rightarrow> sql_error option" where
  "run_after s f t =
     (case f of
        CheckDebitsEqualCredits \<Rightarrow>
          (let v_debit_sum = sum_rows ''debit'' t (rows_of s ''postings'');
               v_credit_sum = sum_rows ''credit'' t (rows_of s ''postings'') in
           if \<not> fits64 v_debit_sum \<or> \<not> fits64 v_credit_sum then Some (Pg NumericOutOfRange)
           else if v_debit_sum \<noteq> v_credit_sum then Some (Pg (CheckViolation ''trg_check_balance''))
           else None)
      | RaiseRestrictViolation \<Rightarrow> Some (RestrictViolation ''postings'')
      | SetColumnNow c \<Rightarrow> None)"

fun run_queue :: "sqldb \<Rightarrow> (string \<times> sql_val) list \<Rightarrow> sql_error option" where
  "run_queue s [] = None"
| "run_queue s ((f, t) # q) =
     (case map_of (sd_functions s) f of
        None \<Rightarrow> Some (UndefinedObject f)
      | Some body \<Rightarrow>
          (case run_after s body t of Some e \<Rightarrow> Some e | None \<Rightarrow> run_queue s q))"

definition sql_commit :: "sqldb \<Rightarrow> sql_error + sqldb" where
  "sql_commit s =
     (case run_queue s (sd_queue s) of Some e \<Rightarrow> Inl e | None \<Rightarrow> Inr (s\<lparr>sd_queue := []\<rparr>))"

section \<open>Statements\<close>

datatype stmt =
    CreateType string "string list"
  | CreateTable bool string "column list" "sql_constraint list"   \<comment> \<open>IF NOT EXISTS?\<close>
  | CommentOn string
  | CreateIndex string string "string list"
  | CreateFunction string plpgsql
  | CreateTrigger trigger
  | InsertInto string row
  | UpdateNulls string string sql_val     \<comment> \<open>\<^verbatim>\<open>UPDATE t SET c = v WHERE c IS NULL\<close>\<close>
  | AddColumn string column "sql_constraint list"
  | SetNotNull string string
  | AddUnique string string "string list"  \<comment> \<open>table, name, columns\<close>
  | DropConstraint bool string string     \<comment> \<open>IF EXISTS?\<close>
  | DropColumn string string
  | DropTable bool string                 \<comment> \<open>IF EXISTS?\<close>
  | DropIndex string                      \<comment> \<open>the other DROPs are all IF EXISTS\<close>
  | DropTrigger string string
  | DropFunction string
  | DropType string

text \<open>A BIGSERIAL column owns the sequence its default draws from.\<close>

definition owned_seqs :: "column list \<Rightarrow> string list" where
  "owned_seqs cs =
     concat (map (\<lambda>c. case col_default c of Nextval n \<Rightarrow> [n] | _ \<Rightarrow> []) cs)"

definition uses_type :: "string \<Rightarrow> table_def \<Rightarrow> bool" where
  "uses_type e tb \<longleftrightarrow> (\<exists>c \<in> set (tb_columns tb). col_type c = ENUM e)"

definition refers_to :: "string \<Rightarrow> table_def \<Rightarrow> bool" where
  "refers_to t tb \<longleftrightarrow> (\<exists>k \<in> set (tb_constraints tb). con_table k = Some t)"

definition with_table :: "string \<Rightarrow> sqldb \<Rightarrow> (table_def \<Rightarrow> sql_error + sqldb) \<Rightarrow> sql_error + sqldb" where
  "with_table t s f =
     (case map_of (sd_tables s) t of None \<Rightarrow> Inl (UndefinedTable t) | Some tb \<Rightarrow> f tb)"

definition put_table :: "string \<Rightarrow> table_def \<Rightarrow> sqldb \<Rightarrow> sqldb" where
  "put_table t tb s = s\<lparr>sd_tables := put_entry t tb (sd_tables s)\<rparr>"

definition create_table ::
  "bool \<Rightarrow> string \<Rightarrow> column list \<Rightarrow> sql_constraint list \<Rightarrow> sqldb \<Rightarrow> sql_error + sqldb" where
  "create_table if_not_exists t cols ks s =
     (if map_of (sd_tables s) t \<noteq> None
      then (if if_not_exists then Inr s else Inl (DuplicateObject t))
      else case List.find (\<lambda>c. \<exists>e. col_type c = ENUM e \<and> map_of (sd_types s) e = None) cols of
        Some c \<Rightarrow> Inl (UndefinedObject (col_name c))
      | None \<Rightarrow>
          (case List.find (\<lambda>k. \<exists>r. con_table k = Some r \<and> map_of (sd_tables s) r = None) ks of
             Some k \<Rightarrow> Inl (UndefinedTable (con_name k))
           | None \<Rightarrow>
               Inr (s\<lparr>sd_tables := sd_tables s @ [(t, \<lparr>tb_columns = cols, tb_constraints = ks\<rparr>)],
                      sd_seqs := sd_seqs s @ map (\<lambda>n. (n, 0)) (owned_seqs cols),
                      sd_rows := sd_rows s @ [(t, [])]\<rparr>)))"

text \<open>
  Dropping a table takes its rows, triggers, indexes and sequences with it, unless another table
  references it. Dropping a column takes the constraints and indexes it belongs to.
\<close>

definition drop_table :: "bool \<Rightarrow> string \<Rightarrow> sqldb \<Rightarrow> sql_error + sqldb" where
  "drop_table if_exists t s =
     (case map_of (sd_tables s) t of
        None \<Rightarrow> if if_exists then Inr s else Inl (UndefinedTable t)
      | Some tb \<Rightarrow>
          if \<exists>(n, x) \<in> set (sd_tables s). n \<noteq> t \<and> refers_to t x then Inl (DependentObjects t)
          else Inr (s\<lparr>sd_tables := drop_entry t (sd_tables s),
                      sd_triggers := filter (\<lambda>g. tg_table g \<noteq> t) (sd_triggers s),
                      sd_indexes := filter (\<lambda>(n, u, cs). u \<noteq> t) (sd_indexes s),
                      sd_seqs := filter (\<lambda>(n, i). n \<notin> set (owned_seqs (tb_columns tb))) (sd_seqs s),
                      sd_rows := drop_entry t (sd_rows s)\<rparr>))"

definition drop_column :: "string \<Rightarrow> string \<Rightarrow> sqldb \<Rightarrow> sql_error + sqldb" where
  "drop_column t c s =
     with_table t s (\<lambda>tb.
       if c \<notin> set (map col_name (tb_columns tb)) then Inl (UndefinedColumn c)
       else Inr (set_rows t (map (drop_entry c) (rows_of s t))
         (put_table t \<lparr>tb_columns = filter (\<lambda>x. col_name x \<noteq> c) (tb_columns tb),
                       tb_constraints = filter (\<lambda>k. c \<notin> set (con_columns k)) (tb_constraints tb)\<rparr>
           (s\<lparr>sd_indexes := filter (\<lambda>(n, u, cs). \<not> (u = t \<and> c \<in> set cs)) (sd_indexes s)\<rparr>))))"

definition add_column :: "string \<Rightarrow> column \<Rightarrow> sql_constraint list \<Rightarrow> sqldb \<Rightarrow> sql_error + sqldb" where
  "add_column t c ks s =
     with_table t s (\<lambda>tb.
       if col_name c \<in> set (map col_name (tb_columns tb)) then Inl (DuplicateObject (col_name c))
       else if \<exists>k \<in> set ks. \<exists>r. con_table k = Some r \<and> map_of (sd_tables s) r = None
       then Inl (UndefinedTable t)
       else Inr (set_rows t (map (\<lambda>r. r @ [(col_name c, VNull)]) (rows_of s t))
         (put_table t \<lparr>tb_columns = tb_columns tb @ [c],
                       tb_constraints = tb_constraints tb @ ks\<rparr> s)))"

definition set_not_null :: "string \<Rightarrow> string \<Rightarrow> sqldb \<Rightarrow> sql_error + sqldb" where
  "set_not_null t c s =
     with_table t s (\<lambda>tb.
       if \<exists>r \<in> set (rows_of s t). col r c = VNull then Inl (Pg (NotNullViolation c))
       else Inr (put_table t
         (tb\<lparr>tb_columns := map (\<lambda>x. if col_name x = c then x\<lparr>col_notnull := True\<rparr> else x)
                              (tb_columns tb)\<rparr>) s))"

text \<open>Adding a unique constraint builds its index over the rows that are there.\<close>

fun no_duplicate :: "string list \<Rightarrow> row list \<Rightarrow> bool" where
  "no_duplicate cs [] = True"
| "no_duplicate cs (r # rs) \<longleftrightarrow> \<not> (\<exists>x \<in> set rs. same_key cs x r) \<and> no_duplicate cs rs"

definition add_unique :: "string \<Rightarrow> string \<Rightarrow> string list \<Rightarrow> sqldb \<Rightarrow> sql_error + sqldb" where
  "add_unique t n cs s =
     with_table t s (\<lambda>tb.
       if n \<in> set (map con_name (tb_constraints tb)) then Inl (DuplicateObject n)
       else if \<not> no_duplicate cs (rows_of s t) then Inl (Pg (UniqueViolation n))
       else Inr (put_table t (tb\<lparr>tb_constraints := tb_constraints tb @ [Unique n cs]\<rparr>) s))"

definition drop_constraint :: "bool \<Rightarrow> string \<Rightarrow> string \<Rightarrow> sqldb \<Rightarrow> sql_error + sqldb" where
  "drop_constraint if_exists t n s =
     with_table t s (\<lambda>tb.
       if n \<notin> set (map con_name (tb_constraints tb))
       then (if if_exists then Inr s else Inl (UndefinedObject n))
       else Inr (put_table t
         (tb\<lparr>tb_constraints := filter (\<lambda>k. con_name k \<noteq> n) (tb_constraints tb)\<rparr>) s))"

definition is_null :: "string \<Rightarrow> row \<Rightarrow> bool" where
  "is_null c r \<longleftrightarrow> col r c = VNull"

fun exec :: "uuid \<Rightarrow> int \<Rightarrow> stmt \<Rightarrow> sqldb \<Rightarrow> sql_error + sqldb" where
  "exec gen now (CreateType e labels) s =
     (if map_of (sd_types s) e \<noteq> None then Inl (DuplicateObject e)
      else Inr (s\<lparr>sd_types := sd_types s @ [(e, labels)]\<rparr>))"
| "exec gen now (CreateTable if_not_exists t cols ks) s = create_table if_not_exists t cols ks s"
| "exec gen now (CommentOn what) s = Inr s"
| "exec gen now (CreateIndex n t cs) s =
     with_table t s (\<lambda>tb.
       if map_of (sd_indexes s) n \<noteq> None then Inl (DuplicateObject n)
       else if \<not> set cs \<subseteq> set (map col_name (tb_columns tb)) then Inl (UndefinedColumn n)
       else Inr (s\<lparr>sd_indexes := sd_indexes s @ [(n, t, cs)]\<rparr>))"
| "exec gen now (CreateFunction f body) s =
     Inr (s\<lparr>sd_functions := (if map_of (sd_functions s) f = None then sd_functions s @ [(f, body)]
                             else put_entry f body (sd_functions s))\<rparr>)"
| "exec gen now (CreateTrigger g) s =
     with_table (tg_table g) s (\<lambda>tb.
       if map_of (sd_functions s) (tg_function g) = None then Inl (UndefinedObject (tg_function g))
       else if \<exists>h \<in> set (sd_triggers s). tg_name h = tg_name g \<and> tg_table h = tg_table g
       then Inl (DuplicateObject (tg_name g))
       else Inr (s\<lparr>sd_triggers := sd_triggers s @ [g]\<rparr>))"
| "exec gen now (InsertInto t vals) s =
     (case sql_insert gen now t vals s of (Inl e, s') \<Rightarrow> Inl e | (Inr r, s') \<Rightarrow> Inr s')"
| "exec gen now (UpdateNulls t c v) s = sql_update now t (is_null c) [(c, \<lambda>r. Inr v)] s"
| "exec gen now (AddColumn t c ks) s = add_column t c ks s"
| "exec gen now (SetNotNull t c) s = set_not_null t c s"
| "exec gen now (AddUnique t n cs) s = add_unique t n cs s"
| "exec gen now (DropConstraint if_exists t n) s = drop_constraint if_exists t n s"
| "exec gen now (DropColumn t c) s = drop_column t c s"
| "exec gen now (DropTable if_exists t) s = drop_table if_exists t s"
| "exec gen now (DropIndex n) s = Inr (s\<lparr>sd_indexes := drop_entry n (sd_indexes s)\<rparr>)"
| "exec gen now (DropTrigger n t) s =
     Inr (s\<lparr>sd_triggers :=
       filter (\<lambda>g. \<not> (tg_name g = n \<and> tg_table g = t)) (sd_triggers s)\<rparr>)"
| "exec gen now (DropFunction f) s =
     (if \<exists>g \<in> set (sd_triggers s). tg_function g = f then Inl (DependentObjects f)
      else Inr (s\<lparr>sd_functions := drop_entry f (sd_functions s)\<rparr>))"
| "exec gen now (DropType e) s =
     (if \<exists>(n, tb) \<in> set (sd_tables s). uses_type e tb then Inl (DependentObjects e)
      else Inr (s\<lparr>sd_types := drop_entry e (sd_types s)\<rparr>))"

section \<open>Files\<close>

text \<open>
  A file is sent as one query string: it runs in one transaction (with or without its own
  \<^verbatim>\<open>BEGIN\<close> and \<^verbatim>\<open>COMMIT\<close>), so a failing statement undoes the file.
\<close>

fun run_stmts :: "uuid \<Rightarrow> int \<Rightarrow> stmt list \<Rightarrow> sqldb \<Rightarrow> sql_error + sqldb" where
  "run_stmts gen now [] s = Inr s"
| "run_stmts gen now (st # sts) s =
     (case exec gen now st s of Inl e \<Rightarrow> Inl e | Inr s' \<Rightarrow> run_stmts gen now sts s')"

definition run_file :: "uuid \<Rightarrow> int \<Rightarrow> stmt list \<Rightarrow> sqldb \<Rightarrow> sql_error + sqldb" where
  "run_file gen now sts s =
     (case run_stmts gen now sts s of Inl e \<Rightarrow> Inl e | Inr s' \<Rightarrow> sql_commit s')"

text \<open>Files one after the other, up to the first that fails: the error, if any, and the database.\<close>

fun run_files ::
  "uuid \<Rightarrow> int \<Rightarrow> stmt list list \<Rightarrow> sqldb \<Rightarrow> sql_error option \<times> sqldb" where
  "run_files gen now [] s = (None, s)"
| "run_files gen now (f # fs) s =
     (case run_file gen now f s of
        Inl e \<Rightarrow> (Some e, s)
      | Inr s' \<Rightarrow> run_files gen now fs s')"

lemma run_stmts_append:
  "run_stmts gen now (xs @ ys) s =
     (case run_stmts gen now xs s of Inl e \<Rightarrow> Inl e | Inr s' \<Rightarrow> run_stmts gen now ys s')"
  by (induction xs arbitrary: s) (auto split: sum.splits)

lemma run_files_append:
  "run_files gen now (xs @ ys) s =
     (case run_files gen now xs s of
        (None, s') \<Rightarrow> run_files gen now ys s'
      | (Some e, s') \<Rightarrow> (Some e, s'))"
  by (induction xs arbitrary: s) (auto split: sum.splits)

end
