(* ===== verification/Migrations.thy ===== *)
theory Migrations
  imports Sql
begin

text \<open>
  The ten files of \<^verbatim>\<open>db/migrations\<close>, statement by statement, in the language of \<open>Sql\<close>. Unnamed
  constraints have the names PostgreSQL gives them (\<^verbatim>\<open>t_pkey\<close>, \<^verbatim>\<open>t_c_key\<close>, \<^verbatim>\<open>t_c_check\<close>,
  \<^verbatim>\<open>t_c_fkey\<close>), and a BIGSERIAL column draws from \<^verbatim>\<open>t_c_seq\<close>. A PRIMARY KEY column is NOT NULL.
\<close>

definition column :: "string \<Rightarrow> sql_type \<Rightarrow> column" where
  "column n ty = \<lparr>col_name = n, col_type = ty, col_notnull = False, col_default = NoDefault\<rparr>"

definition not_null :: "column \<Rightarrow> column" where
  "not_null c = c\<lparr>col_notnull := True\<rparr>"

definition default :: "sql_default \<Rightarrow> column \<Rightarrow> column" where
  "default v c = c\<lparr>col_default := v\<rparr>"

definition uuid_key :: column where
  "uuid_key = not_null (default GenRandomUuid (column ''id'' UUID))"

definition bigserial :: "string \<Rightarrow> column" where
  "bigserial sq = not_null (default (Nextval sq) (column ''id'' BIGINT))"

definition created_at :: column where
  "created_at = not_null (default NowDefault (column ''created_at'' TIMESTAMPTZ))"

lemmas column_defs =
  column_def not_null_def default_def uuid_key_def bigserial_def created_at_def

section \<open>000001 init ledger\<close>

definition trg_postings_immutable :: trigger where
  "trg_postings_immutable = \<lparr>tg_name = ''trg_postings_immutable'', tg_table = ''postings'',
     tg_events = [OnUpdate, OnDelete], tg_deferred = False, tg_function = ''fn_prevent_mutation''\<rparr>"

definition trg_transactions_immutable :: trigger where
  "trg_transactions_immutable = \<lparr>tg_name = ''trg_transactions_immutable'',
     tg_table = ''transactions'', tg_events = [OnUpdate, OnDelete], tg_deferred = False,
     tg_function = ''fn_prevent_mutation''\<rparr>"

definition trg_check_balance :: trigger where
  "trg_check_balance = \<lparr>tg_name = ''trg_check_balance'', tg_table = ''postings'',
     tg_events = [OnInsert], tg_deferred = True, tg_function = ''fn_check_transaction_balance''\<rparr>"

definition init_ledger_up :: "stmt list" where
  "init_ledger_up =
     [CreateType ''account_type'' [''asset'', ''liability'', ''equity'', ''revenue'', ''expense''],
      CreateType ''posting_direction'' [''debit'', ''credit''],
      CreateTable False ''accounts''
        [bigserial ''accounts_id_seq'',
         not_null (column ''account_name'' TEXT),
         not_null (column ''account_type'' (ENUM ''account_type'')),
         not_null (default (Literal (VText ''INR'')) (column ''currency'' TEXT)),
         default (Literal (VJson (JObj []))) (column ''metadata'' JSONB),
         created_at]
        [PrimaryKey ''accounts_pkey'' [''id''],
         Unique ''accounts_account_name_key'' [''account_name'']],
      CommentOn ''accounts'',
      CommentOn ''accounts.currency'',
      CreateTable False ''transactions''
        [uuid_key,
         not_null (column ''idempotency_key'' TEXT),
         not_null (default (Literal (VText '''')) (column ''description'' TEXT)),
         default (Literal (VJson (JObj []))) (column ''metadata'' JSONB),
         created_at]
        [PrimaryKey ''transactions_pkey'' [''id''],
         Unique ''transactions_idempotency_key_key'' [''idempotency_key'']],
      CommentOn ''transactions'',
      CommentOn ''transactions.idempotency_key'',
      CreateTable False ''postings''
        [bigserial ''postings_id_seq'',
         not_null (column ''transaction_id'' UUID),
         not_null (column ''account_id'' BIGINT),
         not_null (column ''amount'' BIGINT),
         not_null (column ''direction'' (ENUM ''posting_direction'')),
         created_at]
        [PrimaryKey ''postings_pkey'' [''id''],
         References ''postings_transaction_id_fkey'' ''transaction_id'' ''transactions'' Restrict,
         References ''postings_account_id_fkey'' ''account_id'' ''accounts'' Restrict,
         CheckPositive ''postings_amount_check'' ''amount''],
      CommentOn ''postings'',
      CommentOn ''postings.amount'',
      CreateIndex ''idx_postings_transaction_id'' ''postings'' [''transaction_id''],
      CreateIndex ''idx_postings_account_id'' ''postings'' [''account_id''],
      CreateIndex ''idx_transactions_created_at'' ''transactions'' [''created_at''],
      CreateIndex ''idx_accounts_created_at'' ''accounts'' [''created_at''],
      CreateFunction ''fn_prevent_mutation'' RaiseRestrictViolation,
      CreateTrigger trg_postings_immutable,
      CreateTrigger trg_transactions_immutable,
      CreateFunction ''fn_check_transaction_balance'' CheckDebitsEqualCredits,
      CreateTrigger trg_check_balance]"

definition init_ledger_down :: "stmt list" where
  "init_ledger_down =
     [DropTrigger ''trg_check_balance'' ''postings'',
      DropTrigger ''trg_postings_immutable'' ''postings'',
      DropTrigger ''trg_transactions_immutable'' ''transactions'',
      DropFunction ''fn_check_transaction_balance'',
      DropFunction ''fn_prevent_mutation'',
      DropTable True ''postings'',
      DropTable True ''transactions'',
      DropTable True ''accounts'',
      DropType ''posting_direction'',
      DropType ''account_type'']"

section \<open>000002 add outbox\<close>

text \<open>The two indexes are partial (\<^verbatim>\<open>WHERE status = ...\<close>), which no constraint depends on.\<close>

definition add_outbox_up :: "stmt list" where
  "add_outbox_up =
     [CreateType ''outbox_status'' [''pending'', ''published'', ''failed''],
      CreateTable False ''ledger_outbox''
        [uuid_key,
         not_null (column ''event_type'' TEXT),
         not_null (default (Literal (VText '''')) (column ''routing_key'' TEXT)),
         not_null (column ''payload'' JSONB),
         not_null (default (Literal (VText ''pending'')) (column ''status'' (ENUM ''outbox_status''))),
         not_null (default (Literal (VInt 0)) (column ''retry_count'' INTEGER)),
         not_null (default (Literal (VInt 5)) (column ''max_retries'' INTEGER)),
         default (Literal (VText '''')) (column ''last_error'' TEXT),
         created_at,
         column ''processed_at'' TIMESTAMPTZ]
        [PrimaryKey ''ledger_outbox_pkey'' [''id'']],
      CommentOn ''ledger_outbox'',
      CreateIndex ''idx_outbox_status_created'' ''ledger_outbox'' [''status'', ''created_at''],
      CreateIndex ''idx_outbox_failed'' ''ledger_outbox'' [''status'', ''retry_count'']]"

definition add_outbox_down :: "stmt list" where
  "add_outbox_down = [DropTable True ''ledger_outbox'', DropType ''outbox_status'']"

section \<open>000003 add documents\<close>

definition add_documents_up :: "stmt list" where
  "add_documents_up =
     [CreateTable False ''documents''
        [uuid_key,
         not_null (column ''transaction_id'' UUID),
         not_null (column ''filename'' TEXT),
         not_null (column ''content_type'' TEXT),
         not_null (column ''size_bytes'' BIGINT),
         not_null (column ''object_key'' TEXT),
         created_at]
        [PrimaryKey ''documents_pkey'' [''id''],
         References ''documents_transaction_id_fkey'' ''transaction_id'' ''transactions'' Cascade,
         Unique ''documents_object_key_key'' [''object_key'']],
      CreateIndex ''idx_documents_transaction_id'' ''documents'' [''transaction_id''],
      CommentOn ''documents'']"

definition add_documents_down :: "stmt list" where
  "add_documents_down = [DropTable True ''documents'']"

section \<open>000004 add users\<close>

definition update_user_modtime :: trigger where
  "update_user_modtime = \<lparr>tg_name = ''update_user_modtime'', tg_table = ''users'',
     tg_events = [OnUpdate], tg_deferred = False, tg_function = ''update_modified_column''\<rparr>"

definition add_users_up :: "stmt list" where
  "add_users_up =
     [CreateTable True ''users''
        [uuid_key,
         not_null (column ''email'' (VARCHAR 255)),
         not_null (column ''password_hash'' (VARCHAR 255)),
         not_null (default (Literal (VText ''admin'')) (column ''role'' (VARCHAR 50))),
         default NowDefault (column ''created_at'' TIMESTAMPTZ),
         default NowDefault (column ''updated_at'' TIMESTAMPTZ)]
        [PrimaryKey ''users_pkey'' [''id''],
         Unique ''users_email_key'' [''email'']],
      CreateFunction ''update_modified_column'' (SetColumnNow ''updated_at''),
      CreateTrigger update_user_modtime]"

definition add_users_down :: "stmt list" where
  "add_users_down =
     [DropTrigger ''update_user_modtime'' ''users'',
      DropFunction ''update_modified_column'',
      DropTable True ''users'']"

section \<open>000005 add multi tenancy\<close>

definition tenant_column :: "string \<Rightarrow> string \<Rightarrow> stmt" where
  "tenant_column t fkey =
     AddColumn t (column ''tenant_id'' UUID) [References fkey ''tenant_id'' ''tenants'' Restrict]"

definition default_tenant :: sql_val where
  "default_tenant = VUuid uuid_Nil"

definition add_tenant :: "string \<Rightarrow> string \<Rightarrow> stmt list" where
  "add_tenant t fkey =
     [tenant_column t fkey,
      UpdateNulls t ''tenant_id'' default_tenant,
      SetNotNull t ''tenant_id'']"

definition add_multi_tenancy_up :: "stmt list" where
  "add_multi_tenancy_up =
     [CreateTable False ''tenants''
        [uuid_key, not_null (column ''name'' (VARCHAR 255)), created_at]
        [PrimaryKey ''tenants_pkey'' [''id'']],
      InsertInto ''tenants'' [(''id'', default_tenant), (''name'', VText ''Default Tenant'')]]
     @ add_tenant ''users'' ''users_tenant_id_fkey''
     @ [DropConstraint True ''users'' ''users_email_key'',
        AddUnique ''users'' ''users_tenant_email_key'' [''tenant_id'', ''email'']]
     @ add_tenant ''accounts'' ''accounts_tenant_id_fkey''
     @ [DropConstraint True ''accounts'' ''accounts_account_name_key'',
        AddUnique ''accounts'' ''accounts_tenant_account_name_key'' [''tenant_id'', ''account_name'']]
     @ add_tenant ''transactions'' ''transactions_tenant_id_fkey''
     @ [DropConstraint True ''transactions'' ''transactions_idempotency_key_key'',
        AddUnique ''transactions'' ''transactions_tenant_idempotency_key_key''
          [''tenant_id'', ''idempotency_key'']]
     @ add_tenant ''postings'' ''postings_tenant_id_fkey''
     @ add_tenant ''documents'' ''documents_tenant_id_fkey''
     @ add_tenant ''ledger_outbox'' ''ledger_outbox_tenant_id_fkey''
     @ [CreateIndex ''idx_users_tenant_id'' ''users'' [''tenant_id''],
        CreateIndex ''idx_accounts_tenant_id'' ''accounts'' [''tenant_id''],
        CreateIndex ''idx_transactions_tenant_id'' ''transactions'' [''tenant_id''],
        CreateIndex ''idx_postings_tenant_id'' ''postings'' [''tenant_id''],
        CreateIndex ''idx_documents_tenant_id'' ''documents'' [''tenant_id''],
        CreateIndex ''idx_ledger_outbox_tenant_id'' ''ledger_outbox'' [''tenant_id'']]"

definition add_multi_tenancy_down :: "stmt list" where
  "add_multi_tenancy_down =
     [DropIndex ''idx_ledger_outbox_tenant_id'',
      DropIndex ''idx_documents_tenant_id'',
      DropIndex ''idx_postings_tenant_id'',
      DropIndex ''idx_transactions_tenant_id'',
      DropIndex ''idx_accounts_tenant_id'',
      DropIndex ''idx_users_tenant_id'',
      DropColumn ''ledger_outbox'' ''tenant_id'',
      DropColumn ''documents'' ''tenant_id'',
      DropColumn ''postings'' ''tenant_id'',
      DropConstraint False ''transactions'' ''transactions_tenant_idempotency_key_key'',
      AddUnique ''transactions'' ''transactions_idempotency_key_key'' [''idempotency_key''],
      DropColumn ''transactions'' ''tenant_id'',
      DropConstraint False ''accounts'' ''accounts_tenant_account_name_key'',
      AddUnique ''accounts'' ''accounts_account_name_key'' [''account_name''],
      DropColumn ''accounts'' ''tenant_id'',
      DropConstraint False ''users'' ''users_tenant_email_key'',
      AddUnique ''users'' ''users_email_key'' [''email''],
      DropColumn ''users'' ''tenant_id'',
      DropTable False ''tenants'']"

text \<open>The versions in the order they are applied; the files \<^verbatim>\<open>runMigrations\<close> applies.\<close>

definition up_files :: "stmt list list" where
  "up_files = [init_ledger_up, add_outbox_up, add_documents_up, add_users_up, add_multi_tenancy_up]"

definition down_files :: "stmt list list" where
  "down_files =
     [add_multi_tenancy_down, add_users_down, add_documents_down, add_outbox_down, init_ledger_down]"

end
