(* ===== verification/Catalog.thy ===== *)
theory Catalog
  imports Migrations
begin

text \<open>
  The catalogs the migrations lead to, written out: version 4, before there were tenants, and
  version 5; and a \<open>db\<close> of \<open>Store\<close> written as rows under each of them (\<open>encode_v4\<close>,
  \<open>encode_db\<close>). That the files build these catalogs is proved in \<open>Upgrade\<close>, that the model of the
  queries agrees with them in \<open>Conformance\<close>.
\<close>

section \<open>The catalogs\<close>

definition accounts_columns :: "column list" where
  "accounts_columns =
     [bigserial ''accounts_id_seq'',
      not_null (column ''account_name'' TEXT),
      not_null (column ''account_type'' (ENUM ''account_type'')),
      not_null (default (Literal (VText ''INR'')) (column ''currency'' TEXT)),
      default (Literal (VJson (JObj []))) (column ''metadata'' JSONB),
      created_at]"

definition transactions_columns :: "column list" where
  "transactions_columns =
     [uuid_key,
      not_null (column ''idempotency_key'' TEXT),
      not_null (default (Literal (VText '''')) (column ''description'' TEXT)),
      default (Literal (VJson (JObj []))) (column ''metadata'' JSONB),
      created_at]"

definition postings_columns :: "column list" where
  "postings_columns =
     [bigserial ''postings_id_seq'',
      not_null (column ''transaction_id'' UUID),
      not_null (column ''account_id'' BIGINT),
      not_null (column ''amount'' BIGINT),
      not_null (column ''direction'' (ENUM ''posting_direction'')),
      created_at]"

definition postings_keys :: "sql_constraint list" where
  "postings_keys =
     [PrimaryKey ''postings_pkey'' [''id''],
      References ''postings_transaction_id_fkey'' ''transaction_id'' ''transactions'' Restrict,
      References ''postings_account_id_fkey'' ''account_id'' ''accounts'' Restrict,
      CheckPositive ''postings_amount_check'' ''amount'']"

definition outbox_columns :: "column list" where
  "outbox_columns =
     [uuid_key,
      not_null (column ''event_type'' TEXT),
      not_null (default (Literal (VText '''')) (column ''routing_key'' TEXT)),
      not_null (column ''payload'' JSONB),
      not_null (default (Literal (VText ''pending'')) (column ''status'' (ENUM ''outbox_status''))),
      not_null (default (Literal (VInt 0)) (column ''retry_count'' INTEGER)),
      not_null (default (Literal (VInt 5)) (column ''max_retries'' INTEGER)),
      default (Literal (VText '''')) (column ''last_error'' TEXT),
      created_at,
      column ''processed_at'' TIMESTAMPTZ]"

definition documents_columns :: "column list" where
  "documents_columns =
     [uuid_key,
      not_null (column ''transaction_id'' UUID),
      not_null (column ''filename'' TEXT),
      not_null (column ''content_type'' TEXT),
      not_null (column ''size_bytes'' BIGINT),
      not_null (column ''object_key'' TEXT),
      created_at]"

definition documents_keys :: "sql_constraint list" where
  "documents_keys =
     [PrimaryKey ''documents_pkey'' [''id''],
      References ''documents_transaction_id_fkey'' ''transaction_id'' ''transactions'' Cascade,
      Unique ''documents_object_key_key'' [''object_key'']]"

definition users_columns :: "column list" where
  "users_columns =
     [uuid_key,
      not_null (column ''email'' (VARCHAR 255)),
      not_null (column ''password_hash'' (VARCHAR 255)),
      not_null (default (Literal (VText ''admin'')) (column ''role'' (VARCHAR 50))),
      default NowDefault (column ''created_at'' TIMESTAMPTZ),
      default NowDefault (column ''updated_at'' TIMESTAMPTZ)]"

definition tenants_columns :: "column list" where
  "tenants_columns = [uuid_key, not_null (column ''name'' (VARCHAR 255)), created_at]"

definition accounts_v4 :: table_def where
  "accounts_v4 =
    \<lparr>tb_columns = accounts_columns,
     tb_constraints = [PrimaryKey ''accounts_pkey'' [''id''], Unique ''accounts_account_name_key'' [''account_name'']]\<rparr>"

definition transactions_v4 :: table_def where
  "transactions_v4 =
    \<lparr>tb_columns = transactions_columns,
     tb_constraints = [PrimaryKey ''transactions_pkey'' [''id''], Unique ''transactions_idempotency_key_key'' [''idempotency_key'']]\<rparr>"

definition postings_v4 :: table_def where
  "postings_v4 =
    \<lparr>tb_columns = postings_columns,
     tb_constraints = postings_keys\<rparr>"

definition outbox_v4 :: table_def where
  "outbox_v4 =
    \<lparr>tb_columns = outbox_columns,
     tb_constraints = [PrimaryKey ''ledger_outbox_pkey'' [''id'']]\<rparr>"

definition documents_v4 :: table_def where
  "documents_v4 =
    \<lparr>tb_columns = documents_columns,
     tb_constraints = documents_keys\<rparr>"

definition users_v4 :: table_def where
  "users_v4 =
    \<lparr>tb_columns = users_columns,
     tb_constraints = [PrimaryKey ''users_pkey'' [''id''], Unique ''users_email_key'' [''email'']]\<rparr>"

definition schema_v4 :: "(string \<times> table_def) list" where
  "schema_v4 =
     [(''accounts'', accounts_v4),
      (''transactions'', transactions_v4),
      (''postings'', postings_v4),
      (''ledger_outbox'', outbox_v4),
      (''documents'', documents_v4),
      (''users'', users_v4)]"

definition tenant_id :: column where
  "tenant_id = not_null (column ''tenant_id'' UUID)"

definition tenant_key :: "string \<Rightarrow> sql_constraint" where
  "tenant_key fkey = References fkey ''tenant_id'' ''tenants'' Restrict"

definition accounts_v5 :: table_def where
  "accounts_v5 =
    \<lparr>tb_columns = accounts_columns @ [tenant_id],
     tb_constraints = [PrimaryKey ''accounts_pkey'' [''id''], tenant_key ''accounts_tenant_id_fkey'', Unique ''accounts_tenant_account_name_key'' [''tenant_id'', ''account_name'']]\<rparr>"

definition transactions_v5 :: table_def where
  "transactions_v5 =
    \<lparr>tb_columns = transactions_columns @ [tenant_id],
     tb_constraints = [PrimaryKey ''transactions_pkey'' [''id''], tenant_key ''transactions_tenant_id_fkey'', Unique ''transactions_tenant_idempotency_key_key'' [''tenant_id'', ''idempotency_key'']]\<rparr>"

definition postings_v5 :: table_def where
  "postings_v5 =
    \<lparr>tb_columns = postings_columns @ [tenant_id],
     tb_constraints = postings_keys @ [tenant_key ''postings_tenant_id_fkey'']\<rparr>"

definition outbox_v5 :: table_def where
  "outbox_v5 =
    \<lparr>tb_columns = outbox_columns @ [tenant_id],
     tb_constraints = [PrimaryKey ''ledger_outbox_pkey'' [''id''], tenant_key ''ledger_outbox_tenant_id_fkey'']\<rparr>"

definition documents_v5 :: table_def where
  "documents_v5 =
    \<lparr>tb_columns = documents_columns @ [tenant_id],
     tb_constraints = documents_keys @ [tenant_key ''documents_tenant_id_fkey'']\<rparr>"

definition users_v5 :: table_def where
  "users_v5 =
    \<lparr>tb_columns = users_columns @ [tenant_id],
     tb_constraints = [PrimaryKey ''users_pkey'' [''id''], tenant_key ''users_tenant_id_fkey'', Unique ''users_tenant_email_key'' [''tenant_id'', ''email'']]\<rparr>"

definition tenants_v5 :: table_def where
  "tenants_v5 =
    \<lparr>tb_columns = tenants_columns,
     tb_constraints = [PrimaryKey ''tenants_pkey'' [''id'']]\<rparr>"

definition schema_v5 :: "(string \<times> table_def) list" where
  "schema_v5 =
     [(''accounts'', accounts_v5),
      (''transactions'', transactions_v5),
      (''postings'', postings_v5),
      (''ledger_outbox'', outbox_v5),
      (''documents'', documents_v5),
      (''users'', users_v5),
      (''tenants'', tenants_v5)]"

lemmas tables_v4 =
  accounts_v4_def transactions_v4_def postings_v4_def outbox_v4_def documents_v4_def users_v4_def
lemmas tables_v5 =
  accounts_v5_def transactions_v5_def postings_v5_def outbox_v5_def documents_v5_def users_v5_def
  tenants_v5_def

lemmas columns_defs =
  accounts_columns_def transactions_columns_def postings_columns_def outbox_columns_def
  documents_columns_def users_columns_def tenants_columns_def tenant_id_def
lemmas keys_defs = postings_keys_def documents_keys_def tenant_key_def

definition schema_types :: "(string \<times> string list) list" where
  "schema_types =
     [(''account_type'', [''asset'', ''liability'', ''equity'', ''revenue'', ''expense'']),
      (''posting_direction'', [''debit'', ''credit'']),
      (''outbox_status'', [''pending'', ''published'', ''failed''])]"

definition schema_functions :: "(string \<times> plpgsql) list" where
  "schema_functions =
     [(''fn_prevent_mutation'', RaiseRestrictViolation),
      (''fn_check_transaction_balance'', CheckDebitsEqualCredits),
      (''update_modified_column'', SetColumnNow ''updated_at'')]"

definition schema_triggers :: "trigger list" where
  "schema_triggers =
     [trg_postings_immutable, trg_transactions_immutable, trg_check_balance, update_user_modtime]"

definition indexes_v4 :: "(string \<times> string \<times> string list) list" where
  "indexes_v4 =
     [(''idx_postings_transaction_id'', ''postings'', [''transaction_id'']),
      (''idx_postings_account_id'', ''postings'', [''account_id'']),
      (''idx_transactions_created_at'', ''transactions'', [''created_at'']),
      (''idx_accounts_created_at'', ''accounts'', [''created_at'']),
      (''idx_outbox_status_created'', ''ledger_outbox'', [''status'', ''created_at'']),
      (''idx_outbox_failed'', ''ledger_outbox'', [''status'', ''retry_count'']),
      (''idx_documents_transaction_id'', ''documents'', [''transaction_id''])]"

definition tenant_indexes :: "(string \<times> string \<times> string list) list" where
  "tenant_indexes =
     [(''idx_users_tenant_id'', ''users'', [''tenant_id'']),
      (''idx_accounts_tenant_id'', ''accounts'', [''tenant_id'']),
      (''idx_transactions_tenant_id'', ''transactions'', [''tenant_id'']),
      (''idx_postings_tenant_id'', ''postings'', [''tenant_id'']),
      (''idx_documents_tenant_id'', ''documents'', [''tenant_id'']),
      (''idx_ledger_outbox_tenant_id'', ''ledger_outbox'', [''tenant_id''])]"

section \<open>Rows\<close>

definition enc_time :: "Timestamptz \<Rightarrow> sql_val" where
  "enc_time t = (case t of None \<Rightarrow> VNull | Some i \<Rightarrow> VTime i)"

definition enc_text :: "Text \<Rightarrow> sql_val" where
  "enc_text t = (case t of None \<Rightarrow> VNull | Some s \<Rightarrow> VText s)"

definition enc_json :: "RawMessage \<Rightarrow> sql_val" where
  "enc_json m = (case m of None \<Rightarrow> VNull | Some j \<Rightarrow> VJson j)"

definition enc_account :: "Account \<Rightarrow> row" where
  "enc_account a =
     [(''id'', VInt (sint (acc_ID a))), (''account_name'', VText (acc_AccountName a)),
      (''account_type'', VText (acc_AccountType a)), (''currency'', VText (acc_Currency a)),
      (''metadata'', enc_json (acc_Metadata a)), (''created_at'', enc_time (acc_CreatedAt a))]"

definition enc_transaction :: "Transaction \<Rightarrow> row" where
  "enc_transaction t =
     [(''id'', VUuid (tx_ID t)), (''idempotency_key'', VText (tx_IdempotencyKey t)),
      (''description'', VText (tx_Description t)), (''metadata'', enc_json (tx_Metadata t)),
      (''created_at'', enc_time (tx_CreatedAt t))]"

definition enc_posting :: "Posting \<Rightarrow> row" where
  "enc_posting p =
     [(''id'', VInt (sint (pst_ID p))), (''transaction_id'', VUuid (pst_TransactionID p)),
      (''account_id'', VInt (sint (pst_AccountID p))), (''amount'', VInt (sint (pst_Amount p))),
      (''direction'', VText (pst_Direction p)), (''created_at'', enc_time (pst_CreatedAt p))]"

definition enc_outbox :: "LedgerOutbox \<Rightarrow> row" where
  "enc_outbox e =
     [(''id'', VUuid (ob_ID e)), (''event_type'', VText (ob_EventType e)),
      (''routing_key'', VText (ob_RoutingKey e)), (''payload'', VJson (ob_Payload e)),
      (''status'', VText (ob_Status e)), (''retry_count'', VInt (sint (ob_RetryCount e))),
      (''max_retries'', VInt (sint (ob_MaxRetries e))), (''last_error'', enc_text (ob_LastError e)),
      (''created_at'', enc_time (ob_CreatedAt e)), (''processed_at'', enc_time (ob_ProcessedAt e))]"

definition enc_document :: "Document \<Rightarrow> row" where
  "enc_document x =
     [(''id'', VUuid (doc_ID x)), (''transaction_id'', VUuid (doc_TransactionID x)),
      (''filename'', VText (doc_Filename x)), (''content_type'', VText (doc_ContentType x)),
      (''size_bytes'', VInt (sint (doc_SizeBytes x))), (''object_key'', VText (doc_ObjectKey x)),
      (''created_at'', enc_time (doc_CreatedAt x))]"

definition enc_user :: "User \<Rightarrow> row" where
  "enc_user u =
     [(''id'', VUuid (usr_ID u)), (''email'', VText (usr_Email u)),
      (''password_hash'', VText (usr_PasswordHash u)), (''role'', VText (usr_Role u)),
      (''created_at'', enc_time (usr_CreatedAt u)), (''updated_at'', enc_time (usr_UpdatedAt u))]"

definition enc_tenant :: "Tenant \<Rightarrow> row" where
  "enc_tenant t =
     [(''id'', VUuid (tn_ID t)), (''name'', VText (tn_Name t)),
      (''created_at'', enc_time (tn_CreatedAt t))]"

lemmas enc_defs =
  enc_account_def enc_transaction_def enc_posting_def enc_outbox_def enc_document_def
  enc_user_def enc_tenant_def enc_json_def enc_time_def enc_text_def

text \<open>Version 5 rows end with the tenant.\<close>

definition tenanted :: "('a \<Rightarrow> row) \<Rightarrow> ('a \<Rightarrow> uuid) \<Rightarrow> 'a \<Rightarrow> row" where
  "tenanted enc tenant r = enc r @ [(''tenant_id'', VUuid (tenant r))]"

definition encode_seqs :: "db \<Rightarrow> (string \<times> int) list" where
  "encode_seqs d =
     [(''accounts_id_seq'', sint (db_account_seq d)), (''postings_id_seq'', sint (db_posting_seq d))]"

definition encode_v4 :: "db \<Rightarrow> sqldb" where
  "encode_v4 d =
     \<lparr>sd_types = schema_types, sd_functions = schema_functions, sd_tables = schema_v4,
      sd_triggers = schema_triggers, sd_indexes = indexes_v4, sd_seqs = encode_seqs d,
      sd_rows = [(''accounts'', map enc_account (db_accounts d)),
                 (''transactions'', map enc_transaction (db_transactions d)),
                 (''postings'', map enc_posting (db_postings d)),
                 (''ledger_outbox'', map enc_outbox (db_outbox d)),
                 (''documents'', map enc_document (db_documents d)),
                 (''users'', map enc_user (db_users d))],
      sd_queue = []\<rparr>"

definition encode_db :: "db \<Rightarrow> sqldb" where
  "encode_db d =
     \<lparr>sd_types = schema_types, sd_functions = schema_functions, sd_tables = schema_v5,
      sd_triggers = schema_triggers, sd_indexes = indexes_v4 @ tenant_indexes,
      sd_seqs = encode_seqs d,
      sd_rows = [(''accounts'', map (tenanted enc_account acc_TenantID) (db_accounts d)),
                 (''transactions'', map (tenanted enc_transaction tx_TenantID) (db_transactions d)),
                 (''postings'', map (tenanted enc_posting pst_TenantID) (db_postings d)),
                 (''ledger_outbox'', map (tenanted enc_outbox ob_TenantID) (db_outbox d)),
                 (''documents'', map (tenanted enc_document doc_TenantID) (db_documents d)),
                 (''users'', map (tenanted enc_user usr_TenantID) (db_users d)),
                 (''tenants'', map enc_tenant (db_tenants d))],
      sd_queue = map (\<lambda>t. (''fn_check_transaction_balance'', VUuid t)) (db_deferred d)\<rparr>"

end
