(* ===== verification/Upgrade.thy ===== *)
theory Upgrade
  imports Catalog
begin

text \<open>
  What the migration files do: the first four build the version 4 catalog from nothing, the fifth
  turns existing data into data of the default tenant or fails, the down files lead back.
\<close>

section \<open>The migrations build the schema\<close>

definition before_tenants :: "stmt list list" where
  "before_tenants = [init_ledger_up, add_outbox_up, add_documents_up, add_users_up]"

lemmas catalog_defs =
  column_defs columns_defs keys_defs schema_types_def schema_functions_def schema_triggers_def
  indexes_v4_def tenant_indexes_def trg_postings_immutable_def trg_transactions_immutable_def
  trg_check_balance_def update_user_modtime_def

lemmas exec_defs =
  create_table_def with_table_def put_table_def owned_seqs_def drop_table_def drop_column_def
  add_column_def set_not_null_def add_unique_def drop_constraint_def refers_to_def uses_type_def
  drop_entry_def set_rows_def rows_of_def is_null_def

lemma first_four_files:
  "run_files gen now before_tenants empty_db = (None, encode_v4 (initial_db now'))"
  by (simp add: before_tenants_def run_file_def init_ledger_up_def add_outbox_up_def
    add_documents_up_def add_users_up_def empty_db_def exec_defs catalog_defs sql_commit_def
    encode_v4_def initial_db_def schema_v4_def tables_v4 encode_seqs_def)

lemma first_violation_append [simp]:
  "first_violation (xs @ ys) =
     (case first_violation xs of Some e \<Rightarrow> Some e | None \<Rightarrow> first_violation ys)"
  by (induction xs) (auto split: if_splits)

lemma update_rows_map:
  "(\<And>r. r \<in> set rs \<Longrightarrow> sel r \<Longrightarrow> f r = Inr (g r))
    \<Longrightarrow> (\<And>r others. r \<in> set rs \<Longrightarrow> sel r \<Longrightarrow> first_violation (checks others (g r)) = None)
    \<Longrightarrow> update_rows sel f checks done rs = Inr (done @ map (\<lambda>r. if sel r then g r else r) rs)"
  by (induction rs arbitrary: "done") auto

lemma update_rows_raise:
  "(\<And>r. r \<in> set rs \<Longrightarrow> sel r) \<Longrightarrow> (\<And>r. r \<in> set rs \<Longrightarrow> f r = Inl e) \<Longrightarrow> rs \<noteq> []
    \<Longrightarrow> update_rows sel f checks done rs = Inl e"
  by (cases rs) auto

lemma same_key_sym: "same_key cs a b \<longleftrightarrow> same_key cs b a"
  by (auto simp: same_key_def)

lemma no_duplicate_map:
  "(\<And>a b. same_key cs (enc a) (enc b) \<longleftrightarrow> key a = key b)
    \<Longrightarrow> no_duplicate cs (map enc xs) \<longleftrightarrow> distinct (map key xs)"
  by (induction xs) (auto simp: image_iff)

lemma map_of_put_entry:
  "map_of (put_entry k v es) k' = (if k' = k \<and> map_of es k \<noteq> None then Some v else map_of es k')"
  by (induction es) auto

lemma put_entry_twice [simp]: "put_entry k v (put_entry k w es) = put_entry k v es"
  by (induction es) auto

lemma put_entry_append:
  "k \<notin> fst ` set xs \<Longrightarrow> put_entry k v (xs @ ys) = xs @ put_entry k v ys"
  by (induction xs) auto

lemma rows_of_set_rows:
  "rows_of (set_rows t rs s) u = (if u = t \<and> map_of (sd_rows s) t \<noteq> None then rs else rows_of s u)"
  by (auto simp: rows_of_def set_rows_def map_of_put_entry split: option.splits)

lemma put_table_simps [simp]:
  "rows_of (put_table t tb s) u = rows_of s u" "sd_rows (put_table t tb s) = sd_rows s"
  "before_triggers (put_table t tb s) u ev = before_triggers s u ev"
  "put_table t x (put_table t tb s) = put_table t x s"
  "put_table t tb (set_rows u rs s) = set_rows u rs (put_table t tb s)"
  "before_triggers (set_rows u rs s) w ev = before_triggers s w ev"
  "sd_tables (set_rows u rs s) = sd_tables s"
  "set_rows u rs (set_rows u rs' s) = set_rows u rs s"
  by (simp_all add: put_table_def rows_of_def before_triggers_def set_rows_def)

lemma map_of_put_table:
  "map_of (sd_tables (put_table t tb s)) u =
     (if u = t \<and> map_of (sd_tables s) t \<noteq> None then Some tb else map_of (sd_tables s) u)"
  by (simp add: put_table_def map_of_put_entry)

section \<open>Version 5 on existing data\<close>

text \<open>The data after version 5: one tenant, everything its own, the users' rows freshly updated.\<close>

definition with_default_tenant :: "int \<Rightarrow> db \<Rightarrow> db" where
  "with_default_tenant now d =
     d\<lparr>db_tenants := db_tenants (initial_db now),
       db_users := map (\<lambda>u. u\<lparr>usr_UpdatedAt := Some now, usr_TenantID := uuid_Nil\<rparr>) (db_users d),
       db_accounts := map (\<lambda>a. a\<lparr>acc_TenantID := uuid_Nil\<rparr>) (db_accounts d),
       db_documents := map (\<lambda>x. x\<lparr>doc_TenantID := uuid_Nil\<rparr>) (db_documents d),
       db_outbox := map (\<lambda>e. e\<lparr>ob_TenantID := uuid_Nil\<rparr>) (db_outbox d),
       db_deferred := []\<rparr>"

text \<open>One table: the column is added, filled with the default tenant, and made NOT NULL.\<close>

lemma add_tenant_table:
  assumes tb: "map_of (sd_tables s) t = Some tb" "''tenant_id'' \<notin> set (map col_name (tb_columns tb))"
    and ref: "map_of (sd_tables s) ''tenants'' \<noteq> None" "t \<noteq> ''tenants''"
      "rows_of s ''tenants'' = [dflt]" "col dflt ''id'' = default_tenant"
    and rows: "map_of (sd_rows s) t = Some rs"
      "\<And>r. r \<in> set rs \<Longrightarrow> ''tenant_id'' \<notin> fst ` set r"
    and trig: "\<And>r. r \<in> set rs \<Longrightarrow>
        run_before now t (before_triggers s t OnUpdate) (r @ [(''tenant_id'', default_tenant)])
          = Inr (g r @ [(''tenant_id'', default_tenant)])"
      "\<And>r. r \<in> set rs \<Longrightarrow> ''tenant_id'' \<notin> fst ` set (g r)"
    and keys: "\<And>k. k \<in> set (tb_constraints tb) \<Longrightarrow> ''tenant_id'' \<notin> set (con_columns k)"
  shows "run_stmts gen now (add_tenant t fkey) s =
     Inr (set_rows t (map (\<lambda>r. g r @ [(''tenant_id'', default_tenant)]) rs)
       (put_table t \<lparr>tb_columns = tb_columns tb @ [tenant_id],
          tb_constraints = tb_constraints tb @ [tenant_key fkey]\<rparr> s))"
proof -
  let ?null = "\<lambda>r :: row. r @ [(''tenant_id'', VNull)]"
  let ?new = "\<lambda>r :: row. g r @ [(''tenant_id'', default_tenant)]"
  let ?c = "column ''tenant_id'' UUID" and ?k = "References fkey ''tenant_id'' ''tenants'' Restrict"
  let ?tb1 = "\<lparr>tb_columns = tb_columns tb @ [?c], tb_constraints = tb_constraints tb @ [?k]\<rparr>"
  let ?s1 = "set_rows t (map ?null rs) (put_table t ?tb1 s)"
  have R: "rows_of s t = rs"
    using rows(1) by (simp add: rows_of_def)
  have col_app: "col (r @ [(''tenant_id'', v)]) ''tenant_id'' = v" if "''tenant_id'' \<notin> fst ` set r" for r v
  proof -
    from that have "map_of r ''tenant_id'' = None"
      by (simp add: map_of_eq_None_iff)
    then show ?thesis
      by (simp add: col_def map_add_def split: option.splits)
  qed
  have 1: "exec gen now (tenant_column t fkey) s = Inr ?s1"
    using tb ref R by (simp add: tenant_column_def add_column_def with_table_def column_def)
  have R1: "rows_of ?s1 t = map ?null rs" "rows_of ?s1 ''tenants'' = [dflt]"
    using rows(1) ref by (simp_all add: rows_of_set_rows)
  have T1: "map_of (sd_tables ?s1) t = Some ?tb1"
    using tb by (simp add: map_of_put_table)
  have cols: "filter (\<lambda>c. col_name c \<in> set [''tenant_id'']) (tb_columns ?tb1) = [?c]"
    using tb(2) by (auto simp: column_def filter_empty_conv image_iff)
  have cons: "filter (touched [''tenant_id'']) (tb_constraints ?tb1) = [?k]"
    using keys by (auto simp: touched_def filter_empty_conv)
  have ok: "first_violation (row_checks ?s1 [?c] [?k] others (?new r)) = None" if "r \<in> set rs" for r others
    using R1(2) ref(4) trig(2) [OF that]
    by (simp add: row_checks_def null_check_def column_def col_app default_tenant_def)
  have up: "update_rows (is_null ''tenant_id'')
      (new_version now ?s1 t [(''tenant_id'', \<lambda>r. Inr default_tenant)])
      (row_checks ?s1 [?c] [?k]) [] (map ?null rs)
    = Inr (map ?new rs)"
  proof -
    have "new_version now ?s1 t [(''tenant_id'', \<lambda>r. Inr default_tenant)] (?null r) = Inr (?new r)"
      if "r \<in> set rs" for r
      using rows(2) [OF that] trig(1) [OF that] by (simp add: new_version_def put_entry_append)
    then have "update_rows (is_null ''tenant_id'')
        (new_version now ?s1 t [(''tenant_id'', \<lambda>r. Inr default_tenant)])
        (row_checks ?s1 [?c] [?k]) [] (map ?null rs)
      = Inr ([] @ map (\<lambda>r. if is_null ''tenant_id'' r then ?new (butlast r) else r) (map ?null rs))"
      using ok by (intro update_rows_map) auto
    also have "map (\<lambda>r. if is_null ''tenant_id'' r then ?new (butlast r) else r) (map ?null rs)
        = map ?new rs"
      using rows(2) by (auto simp: is_null_def col_app)
    finally show ?thesis by simp
  qed
  have 2: "exec gen now (UpdateNulls t ''tenant_id'' default_tenant) ?s1
      = Inr (set_rows t (map ?new rs) (put_table t ?tb1 s))"
    using T1 R1 up cols cons by (simp add: sql_update_def)
  have same: "map (\<lambda>x. if col_name x = ''tenant_id'' then x\<lparr>col_notnull := True\<rparr> else x) (tb_columns tb)
      = tb_columns tb"
    using tb(2) by (intro map_idI) (auto simp: image_iff)
  have 3: "exec gen now (SetNotNull t ''tenant_id'') (set_rows t (map ?new rs) (put_table t ?tb1 s))
      = Inr (set_rows t (map ?new rs)
       (put_table t \<lparr>tb_columns = tb_columns tb @ [tenant_id],
          tb_constraints = tb_constraints tb @ [tenant_key fkey]\<rparr> s))"
    using tb rows(1) trig(2) same
    by (auto simp: set_not_null_def with_table_def map_of_put_table rows_of_set_rows col_app
      tenant_id_def tenant_key_def column_def not_null_def default_tenant_def)
  show ?thesis
    using 1 2 3 by (simp add: add_tenant_def)
qed

text \<open>A BEFORE UPDATE trigger that raises makes the file fail as soon as there is a row to fill.\<close>

lemma add_tenant_raises:
  assumes tb: "map_of (sd_tables s) t = Some tb" "''tenant_id'' \<notin> set (map col_name (tb_columns tb))"
    and ref: "map_of (sd_tables s) ''tenants'' \<noteq> None"
    and rows: "map_of (sd_rows s) t = Some rs" "rs \<noteq> []"
      "\<And>r. r \<in> set rs \<Longrightarrow> ''tenant_id'' \<notin> fst ` set r"
    and trig: "before_triggers s t OnUpdate = RaiseRestrictViolation # fs"
  shows "run_stmts gen now (add_tenant t fkey) s = Inl (RestrictViolation t)"
proof -
  let ?null = "\<lambda>r :: row. r @ [(''tenant_id'', VNull)]"
  let ?c = "column ''tenant_id'' UUID" and ?k = "References fkey ''tenant_id'' ''tenants'' Restrict"
  let ?tb1 = "\<lparr>tb_columns = tb_columns tb @ [?c], tb_constraints = tb_constraints tb @ [?k]\<rparr>"
  let ?s1 = "set_rows t (map ?null rs) (put_table t ?tb1 s)"
  have 1: "exec gen now (tenant_column t fkey) s = Inr ?s1"
    using tb ref rows(1) by (simp add: tenant_column_def add_column_def with_table_def column_def rows_of_def)
  have T1: "map_of (sd_tables ?s1) t = Some ?tb1" and R1: "rows_of ?s1 t = map ?null rs"
    using tb rows(1) by (simp_all add: map_of_put_table rows_of_set_rows)
  have sel: "is_null ''tenant_id'' (?null r)" if "r \<in> set rs" for r
  proof -
    from rows(3) [OF that] have "map_of r ''tenant_id'' = None"
      by (simp add: map_of_eq_None_iff)
    then show ?thesis
      by (simp add: is_null_def col_def map_add_def split: option.splits)
  qed
  have up: "update_rows (is_null ''tenant_id'')
      (new_version now ?s1 t [(''tenant_id'', \<lambda>r. Inr default_tenant)]) ch [] (map ?null rs)
    = Inl (RestrictViolation t)" for ch
    by (rule update_rows_raise) (use sel trig rows(2) in \<open>auto simp: new_version_def\<close>)
  have "exec gen now (UpdateNulls t ''tenant_id'' default_tenant) ?s1 = Inl (RestrictViolation t)"
    using T1 R1 up by (simp add: sql_update_def)
  then show ?thesis
    using 1 by (simp add: add_tenant_def)
qed

definition tenant_rows :: "int \<Rightarrow> row list" where
  "tenant_rows now = [enc_tenant \<lparr>tn_ID = uuid_Nil, tn_Name = ''Default Tenant'', tn_CreatedAt = Some now\<rparr>]"

definition midway ::
  "db \<Rightarrow> (string \<times> table_def) list \<Rightarrow> (string \<times> row list) list \<Rightarrow> sqldb" where
  "midway d tbs rs =
     \<lparr>sd_types = schema_types, sd_functions = schema_functions, sd_tables = tbs,
      sd_triggers = schema_triggers, sd_indexes = indexes_v4, sd_seqs = encode_seqs d,
      sd_rows = rs, sd_queue = []\<rparr>"

lemma midway_simps [simp]:
  "sd_tables (midway d tbs rs) = tbs" "sd_rows (midway d tbs rs) = rs"
  "set_rows t x (midway d tbs rs) = midway d tbs (put_entry t x rs)"
  "put_table t y (midway d tbs rs) = midway d (put_entry t y tbs) rs"
  "rows_of (midway d tbs rs) t = (case map_of rs t of Some x \<Rightarrow> x | None \<Rightarrow> [])"
  by (simp_all add: midway_def set_rows_def put_table_def rows_of_def)

lemma midway_triggers [simp]:
  "before_triggers (midway d tbs rs) ''users'' OnUpdate = [SetColumnNow ''updated_at'']"
  "before_triggers (midway d tbs rs) ''accounts'' OnUpdate = []"
  "before_triggers (midway d tbs rs) ''transactions'' OnUpdate = [RaiseRestrictViolation]"
  "before_triggers (midway d tbs rs) ''postings'' OnUpdate = [RaiseRestrictViolation]"
  "before_triggers (midway d tbs rs) ''documents'' OnUpdate = []"
  "before_triggers (midway d tbs rs) ''ledger_outbox'' OnUpdate = []"
  by (simp_all add: midway_def before_triggers_def schema_triggers_def schema_functions_def catalog_defs)

lemma default_tenant_name: "RuneCountInString ''Default Tenant'' = 14"
  by code_simp

lemma tenants_created:
  "run_stmts gen now (take 2 add_multi_tenancy_up) (encode_v4 d) =
     Inr (midway d (schema_v4 @ [(''tenants'', tenants_v5)])
       (sd_rows (encode_v4 d) @ [(''tenants'', tenant_rows now)]))"
  by (simp add: add_multi_tenancy_up_def exec_defs sql_insert_def encode_v4_def schema_v4_def
   tables_v5 catalog_defs row_checks_def null_check_def tenant_rows_def enc_tenant_def enc_time_def
   midway_def default_tenant_def col_def queued_def too_long_def default_tenant_name)

lemma tenant_step:
  assumes "map_of T t = Some tb" "''tenant_id'' \<notin> set (map col_name (tb_columns tb))"
    and "map_of T ''tenants'' \<noteq> None" "t \<noteq> ''tenants''"
    and "map_of R ''tenants'' = Some (tenant_rows now)"
    and "map_of R t = Some (map enc xs)"
    and "\<And>x. ''tenant_id'' \<notin> fst ` set (enc x :: row)"
    and "\<And>x v. run_before now t (before_triggers (midway d T R) t OnUpdate) (enc x @ [(''tenant_id'', v)])
        = Inr (enc (upd x) @ [(''tenant_id'', v)])"
    and "\<forall>k \<in> set (tb_constraints tb). ''tenant_id'' \<notin> set (con_columns k)"
  shows "run_stmts gen now (add_tenant t fkey) (midway d T R) =
     Inr (midway d
       (put_entry t \<lparr>tb_columns = tb_columns tb @ [tenant_id],
          tb_constraints = tb_constraints tb @ [tenant_key fkey]\<rparr> T)
       (put_entry t (map (\<lambda>x. enc (upd x) @ [(''tenant_id'', default_tenant)]) xs) R))"
proof -
  define g where "g r = butlast (projr (run_before now t (before_triggers (midway d T R) t OnUpdate)
      (r @ [(''tenant_id'', default_tenant)])))" for r
  have g: "g (enc x) = enc (upd x)" for x
    by (simp add: g_def assms(8))
  have fresh: "(''tenant_id'', b) \<notin> set (enc x)" for b x
    using assms(7) [of x] by force
  have "run_stmts gen now (add_tenant t fkey) (midway d T R) =
     Inr (set_rows t (map (\<lambda>r. g r @ [(''tenant_id'', default_tenant)]) (map enc xs))
       (put_table t \<lparr>tb_columns = tb_columns tb @ [tenant_id],
          tb_constraints = tb_constraints tb @ [tenant_key fkey]\<rparr> (midway d T R)))"
    using assms
    by (intro add_tenant_table [where dflt = "hd (tenant_rows now)"])
      (auto simp: g fresh tenant_rows_def enc_tenant_def col_def default_tenant_def)
  then show ?thesis
    by (simp add: g comp_def)
qed

lemma enc_fresh:
  "''tenant_id'' \<notin> fst ` set (enc_account a)" "''tenant_id'' \<notin> fst ` set (enc_transaction t)"
  "''tenant_id'' \<notin> fst ` set (enc_posting p)" "''tenant_id'' \<notin> fst ` set (enc_outbox e)"
  "''tenant_id'' \<notin> fst ` set (enc_document x)" "''tenant_id'' \<notin> fst ` set (enc_user u)"
  by (simp_all add: enc_defs)

lemma key_same:
  "same_key [''email''] (enc_user u) (enc_user v) \<longleftrightarrow> usr_Email u = usr_Email v"
  "same_key [''account_name''] (enc_account a) (enc_account b) \<longleftrightarrow> acc_AccountName a = acc_AccountName b"
  "same_key [''tenant_id'', ''email''] (enc_user u @ [(''tenant_id'', VUuid i)])
     (enc_user v @ [(''tenant_id'', VUuid j)]) \<longleftrightarrow> (i, usr_Email u) = (j, usr_Email v)"
  "same_key [''tenant_id'', ''account_name''] (enc_account a @ [(''tenant_id'', VUuid i)])
     (enc_account b @ [(''tenant_id'', VUuid j)])
     \<longleftrightarrow> (i, acc_AccountName a) = (j, acc_AccountName b)"
  by (simp_all add: same_key_def col_def enc_defs)

lemma users_step:
  assumes "map_of T ''users'' = Some users_v4" "map_of T ''tenants'' \<noteq> None"
    and "map_of R ''tenants'' = Some (tenant_rows now)"
    and "map_of R ''users'' = Some (map enc_user xs)" "distinct (map usr_Email xs)"
  shows "run_stmts gen now (add_tenant ''users'' ''users_tenant_id_fkey''
     @ [DropConstraint True ''users'' ''users_email_key'',
        AddUnique ''users'' ''users_tenant_email_key'' [''tenant_id'', ''email'']]) (midway d T R) =
     Inr (midway d (put_entry ''users'' users_v5 T)
       (put_entry ''users'' (map (tenanted enc_user usr_TenantID)
          (map (\<lambda>u. u\<lparr>usr_UpdatedAt := Some now, usr_TenantID := uuid_Nil\<rparr>) xs)) R))"
proof -
  let ?upd = "\<lambda>u. u\<lparr>usr_UpdatedAt := Some now, usr_TenantID := uuid_Nil\<rparr>"
  have trig: "run_before now ''users'' (before_triggers (midway d T R) ''users'' OnUpdate)
      (enc_user x @ [(''tenant_id'', v)]) = Inr (enc_user (?upd x) @ [(''tenant_id'', v)])" for x v
    by (simp add: enc_defs)
  have step: "run_stmts gen now (add_tenant ''users'' ''users_tenant_id_fkey'') (midway d T R) =
     Inr (midway d
       (put_entry ''users'' \<lparr>tb_columns = users_columns @ [tenant_id],
          tb_constraints = tb_constraints users_v4 @ [tenant_key ''users_tenant_id_fkey'']\<rparr> T)
       (put_entry ''users'' (map (\<lambda>x. enc_user (?upd x) @ [(''tenant_id'', default_tenant)]) xs) R))"
    using tenant_step [where upd = ?upd, OF assms(1) _ assms(2) _ assms(3,4) _ trig,
        where gen = gen and fkey = "''users_tenant_id_fkey''"] enc_fresh(6)
    by (simp add: users_v4_def catalog_defs)
  have dup: "no_duplicate [''tenant_id'', ''email'']
      (map (\<lambda>x. enc_user (?upd x) @ [(''tenant_id'', default_tenant)]) xs)"
    using assms(5)
    by (subst no_duplicate_map [where key = "usr_Email"]) (auto simp: key_same default_tenant_def)
  show ?thesis
    using assms(1,4) dup
    by (simp add: run_stmts_append step drop_constraint_def add_unique_def with_table_def map_of_put_entry
      users_v4_def users_v5_def keys_defs tenanted_def default_tenant_def comp_def)
qed

lemma accounts_step:
  assumes "map_of T ''accounts'' = Some accounts_v4" "map_of T ''tenants'' \<noteq> None"
    and "map_of R ''tenants'' = Some (tenant_rows now)"
    and "map_of R ''accounts'' = Some (map enc_account xs)" "distinct (map acc_AccountName xs)"
  shows "run_stmts gen now (add_tenant ''accounts'' ''accounts_tenant_id_fkey''
     @ [DropConstraint True ''accounts'' ''accounts_account_name_key'',
        AddUnique ''accounts'' ''accounts_tenant_account_name_key'' [''tenant_id'', ''account_name'']])
       (midway d T R) =
     Inr (midway d (put_entry ''accounts'' accounts_v5 T)
       (put_entry ''accounts'' (map (tenanted enc_account acc_TenantID)
          (map (\<lambda>a. a\<lparr>acc_TenantID := uuid_Nil\<rparr>) xs)) R))"
proof -
  let ?upd = "\<lambda>a. a\<lparr>acc_TenantID := uuid_Nil\<rparr>"
  have trig: "run_before now ''accounts'' (before_triggers (midway d T R) ''accounts'' OnUpdate)
      (enc_account x @ [(''tenant_id'', v)]) = Inr (enc_account (?upd x) @ [(''tenant_id'', v)])" for x v
    by (simp add: enc_defs)
  have step: "run_stmts gen now (add_tenant ''accounts'' ''accounts_tenant_id_fkey'') (midway d T R) =
     Inr (midway d
       (put_entry ''accounts'' \<lparr>tb_columns = accounts_columns @ [tenant_id],
          tb_constraints = tb_constraints accounts_v4 @ [tenant_key ''accounts_tenant_id_fkey'']\<rparr> T)
       (put_entry ''accounts'' (map (\<lambda>x. enc_account (?upd x) @ [(''tenant_id'', default_tenant)]) xs) R))"
    using tenant_step [where upd = ?upd, OF assms(1) _ assms(2) _ assms(3,4) _ trig,
        where gen = gen and fkey = "''accounts_tenant_id_fkey''"] enc_fresh(1)
    by (simp add: accounts_v4_def catalog_defs)
  have dup: "no_duplicate [''tenant_id'', ''account_name'']
      (map (\<lambda>x. enc_account (?upd x) @ [(''tenant_id'', default_tenant)]) xs)"
    using assms(5)
    by (subst no_duplicate_map [where key = "acc_AccountName"]) (auto simp: key_same default_tenant_def)
  show ?thesis
    using assms(1,4) dup
    by (simp add: run_stmts_append step drop_constraint_def add_unique_def with_table_def map_of_put_entry
      accounts_v4_def accounts_v5_def keys_defs tenanted_def default_tenant_def comp_def)
qed

lemma transactions_step:
  assumes "map_of T ''transactions'' = Some transactions_v4" "map_of T ''tenants'' \<noteq> None"
    and "map_of R ''tenants'' = Some (tenant_rows now)"
    and "map_of R ''transactions'' = Some []"
  shows "run_stmts gen now (add_tenant ''transactions'' ''transactions_tenant_id_fkey''
     @ [DropConstraint True ''transactions'' ''transactions_idempotency_key_key'',
        AddUnique ''transactions'' ''transactions_tenant_idempotency_key_key''
          [''tenant_id'', ''idempotency_key'']]) (midway d T R) =
     Inr (midway d (put_entry ''transactions'' transactions_v5 T) (put_entry ''transactions'' [] R))"
proof -
  have step: "run_stmts gen now (add_tenant ''transactions'' ''transactions_tenant_id_fkey'') (midway d T R) =
     Inr (set_rows ''transactions'' (map (\<lambda>r. id r @ [(''tenant_id'', default_tenant)]) [])
       (put_table ''transactions'' \<lparr>tb_columns = tb_columns transactions_v4 @ [tenant_id],
          tb_constraints = tb_constraints transactions_v4 @ [tenant_key ''transactions_tenant_id_fkey'']\<rparr>
         (midway d T R)))"
    using assms
    by (intro add_tenant_table [where dflt = "hd (tenant_rows now)"])
      (auto simp: transactions_v4_def catalog_defs tenant_rows_def enc_tenant_def col_def default_tenant_def)
  show ?thesis
    using assms(1,4)
    by (simp add: run_stmts_append step drop_constraint_def add_unique_def with_table_def map_of_put_entry
      transactions_v4_def transactions_v5_def keys_defs)
qed

lemma postings_step:
  assumes "map_of T ''postings'' = Some postings_v4" "map_of T ''tenants'' \<noteq> None"
    and "map_of R ''tenants'' = Some (tenant_rows now)" "map_of R ''postings'' = Some []"
  shows "run_stmts gen now (add_tenant ''postings'' ''postings_tenant_id_fkey'') (midway d T R) =
     Inr (midway d (put_entry ''postings'' postings_v5 T) (put_entry ''postings'' [] R))"
proof -
  have "run_stmts gen now (add_tenant ''postings'' ''postings_tenant_id_fkey'') (midway d T R) =
     Inr (set_rows ''postings'' (map (\<lambda>r. id r @ [(''tenant_id'', default_tenant)]) [])
       (put_table ''postings'' \<lparr>tb_columns = tb_columns postings_v4 @ [tenant_id],
          tb_constraints = tb_constraints postings_v4 @ [tenant_key ''postings_tenant_id_fkey'']\<rparr>
         (midway d T R)))"
    using assms
    by (intro add_tenant_table [where dflt = "hd (tenant_rows now)"])
      (auto simp: postings_v4_def catalog_defs tenant_rows_def enc_tenant_def col_def default_tenant_def)
  then show ?thesis
    by (simp add: postings_v4_def postings_v5_def)
qed

lemma documents_step:
  assumes "map_of T ''documents'' = Some documents_v4" "map_of T ''tenants'' \<noteq> None"
    and "map_of R ''tenants'' = Some (tenant_rows now)"
    and "map_of R ''documents'' = Some (map enc_document xs)"
  shows "run_stmts gen now (add_tenant ''documents'' ''documents_tenant_id_fkey'') (midway d T R) =
     Inr (midway d (put_entry ''documents'' documents_v5 T)
       (put_entry ''documents'' (map (tenanted enc_document doc_TenantID)
          (map (\<lambda>x. x\<lparr>doc_TenantID := uuid_Nil\<rparr>) xs)) R))"
proof -
  let ?upd = "\<lambda>x. x\<lparr>doc_TenantID := uuid_Nil\<rparr>"
  have trig: "run_before now ''documents'' (before_triggers (midway d T R) ''documents'' OnUpdate)
      (enc_document x @ [(''tenant_id'', v)]) = Inr (enc_document (?upd x) @ [(''tenant_id'', v)])" for x v
    by (simp add: enc_defs)
  show ?thesis
    using tenant_step [where upd = ?upd, OF assms(1) _ assms(2) _ assms(3,4) _ trig,
        where gen = gen and fkey = "''documents_tenant_id_fkey''"] enc_fresh(5)
    by (simp add: documents_v4_def documents_v5_def catalog_defs tenanted_def default_tenant_def comp_def)
qed

lemma outbox_step:
  assumes "map_of T ''ledger_outbox'' = Some outbox_v4" "map_of T ''tenants'' \<noteq> None"
    and "map_of R ''tenants'' = Some (tenant_rows now)"
    and "map_of R ''ledger_outbox'' = Some (map enc_outbox xs)"
  shows "run_stmts gen now (add_tenant ''ledger_outbox'' ''ledger_outbox_tenant_id_fkey'') (midway d T R) =
     Inr (midway d (put_entry ''ledger_outbox'' outbox_v5 T)
       (put_entry ''ledger_outbox'' (map (tenanted enc_outbox ob_TenantID)
          (map (\<lambda>e. e\<lparr>ob_TenantID := uuid_Nil\<rparr>) xs)) R))"
proof -
  let ?upd = "\<lambda>e. e\<lparr>ob_TenantID := uuid_Nil\<rparr>"
  have trig: "run_before now ''ledger_outbox'' (before_triggers (midway d T R) ''ledger_outbox'' OnUpdate)
      (enc_outbox x @ [(''tenant_id'', v)]) = Inr (enc_outbox (?upd x) @ [(''tenant_id'', v)])" for x v
    by (simp add: enc_defs)
  show ?thesis
    using tenant_step [where upd = ?upd, OF assms(1) _ assms(2) _ assms(3,4) _ trig,
        where gen = gen and fkey = "''ledger_outbox_tenant_id_fkey''"] enc_fresh(4)
    by (simp add: outbox_v4_def outbox_v5_def catalog_defs tenanted_def default_tenant_def comp_def)
qed

text \<open>
  Migration 5 on a database of version 4 whose emails and account names are distinct, as the unique
  constraints of version 4 demand.
\<close>

lemma multi_tenancy_split:
  "run_stmts gen now add_multi_tenancy_up s =
     (case run_stmts gen now (take 2 add_multi_tenancy_up) s of Inl e \<Rightarrow> Inl e
      | Inr s' \<Rightarrow> run_stmts gen now (drop 2 add_multi_tenancy_up) s')"
  using run_stmts_append [of gen now "take 2 add_multi_tenancy_up" "drop 2 add_multi_tenancy_up" s]
  by simp

text \<open>The rest of the file, one block per table.\<close>

definition users_block :: "stmt list" where
  "users_block = add_tenant ''users'' ''users_tenant_id_fkey''
     @ [DropConstraint True ''users'' ''users_email_key'',
        AddUnique ''users'' ''users_tenant_email_key'' [''tenant_id'', ''email'']]"

definition accounts_block :: "stmt list" where
  "accounts_block = add_tenant ''accounts'' ''accounts_tenant_id_fkey''
     @ [DropConstraint True ''accounts'' ''accounts_account_name_key'',
        AddUnique ''accounts'' ''accounts_tenant_account_name_key'' [''tenant_id'', ''account_name'']]"

definition transactions_block :: "stmt list" where
  "transactions_block = add_tenant ''transactions'' ''transactions_tenant_id_fkey''
     @ [DropConstraint True ''transactions'' ''transactions_idempotency_key_key'',
        AddUnique ''transactions'' ''transactions_tenant_idempotency_key_key''
          [''tenant_id'', ''idempotency_key'']]"

definition indexes_block :: "stmt list" where
  "indexes_block = map (\<lambda>(n, t, cs). CreateIndex n t cs) tenant_indexes"

lemma up5_rest: "drop 2 add_multi_tenancy_up =
     users_block @ accounts_block @ transactions_block
     @ add_tenant ''postings'' ''postings_tenant_id_fkey''
     @ add_tenant ''documents'' ''documents_tenant_id_fkey''
     @ add_tenant ''ledger_outbox'' ''ledger_outbox_tenant_id_fkey'' @ indexes_block"
  by (simp add: add_multi_tenancy_up_def tenant_indexes_def users_block_def accounts_block_def
    transactions_block_def indexes_block_def)

lemmas block_steps =
  users_step [folded users_block_def] accounts_step [folded accounts_block_def]
  transactions_step [folded transactions_block_def] postings_step documents_step outbox_step

definition T0 where "T0 = schema_v4 @ [(''tenants'', tenants_v5)]"
definition R0 where "R0 now d = sd_rows (encode_v4 d) @ [(''tenants'', tenant_rows now)]"

lemma T0_lookup:
  "map_of T0 ''tenants'' = Some tenants_v5" "map_of T0 ''users'' = Some users_v4"
  "map_of T0 ''accounts'' = Some accounts_v4" "map_of T0 ''transactions'' = Some transactions_v4"
  "map_of T0 ''postings'' = Some postings_v4" "map_of T0 ''documents'' = Some documents_v4"
  "map_of T0 ''ledger_outbox'' = Some outbox_v4"
  by (simp_all add: T0_def schema_v4_def)

lemma R0_lookup:
  "map_of (R0 now d) ''tenants'' = Some (tenant_rows now)"
  "map_of (R0 now d) ''users'' = Some (map enc_user (db_users d))"
  "map_of (R0 now d) ''accounts'' = Some (map enc_account (db_accounts d))"
  "map_of (R0 now d) ''transactions'' = Some (map enc_transaction (db_transactions d))"
  "map_of (R0 now d) ''postings'' = Some (map enc_posting (db_postings d))"
  "map_of (R0 now d) ''documents'' = Some (map enc_document (db_documents d))"
  "map_of (R0 now d) ''ledger_outbox'' = Some (map enc_outbox (db_outbox d))"
  by (simp_all add: R0_def encode_v4_def)

lemma indexes_step:
  "T = schema_v5 \<Longrightarrow> run_stmts gen now indexes_block (midway d T R) =
     Inr (midway d T R\<lparr>sd_indexes := indexes_v4 @ tenant_indexes\<rparr>)"
  by (simp add: indexes_block_def tenant_indexes_def indexes_v4_def midway_def with_table_def
    schema_v5_def tables_v5 tenant_id_def column_def not_null_def)

lemma transactions_block_raises:
  assumes "db_transactions d \<noteq> []"
    and "map_of T ''transactions'' = Some transactions_v4" "map_of T ''tenants'' = Some tenants_v5"
    and "map_of R ''transactions'' = Some (map enc_transaction (db_transactions d))"
  shows "run_stmts gen now transactions_block (midway d T R) = Inl (RestrictViolation ''transactions'')"
proof -
  have "run_stmts gen now (add_tenant ''transactions'' ''transactions_tenant_id_fkey'') (midway d T R) =
      Inl (RestrictViolation ''transactions'')"
    using assms
    by (intro add_tenant_raises) (auto simp: enc_transaction_def transactions_v4_def catalog_defs)
  then show ?thesis
    by (simp add: transactions_block_def run_stmts_append)
qed

lemma add_multi_tenancy_fails:
  assumes "distinct (map usr_Email (db_users d))" "distinct (map acc_AccountName (db_accounts d))"
    and "db_transactions d \<noteq> []"
  shows "run_file gen now add_multi_tenancy_up (encode_v4 d) = Inl (RestrictViolation ''transactions'')"
  using assms
  by (simp add: run_file_def multi_tenancy_split tenants_created up5_rest run_stmts_append block_steps
    map_of_put_entry T0_lookup R0_lookup transactions_block_raises flip: T0_def R0_def)

lemma add_multi_tenancy_succeeds:
  assumes "distinct (map usr_Email (db_users d))" "distinct (map acc_AccountName (db_accounts d))"
    and "db_transactions d = []" "db_postings d = []"
  shows "run_file gen now add_multi_tenancy_up (encode_v4 d) = Inr (encode_db (with_default_tenant now d))"
proof -
  let ?d = "with_default_tenant now d"
  have "run_stmts gen now add_multi_tenancy_up (encode_v4 d) =
      run_stmts gen now indexes_block (midway d schema_v5 (sd_rows (encode_db ?d)))"
    using assms
    by (simp add: multi_tenancy_split tenants_created up5_rest run_stmts_append block_steps
      map_of_put_entry T0_lookup R0_lookup flip: T0_def R0_def)
     (simp add: T0_def schema_v4_def schema_v5_def R0_def encode_v4_def encode_db_def
      with_default_tenant_def initial_db_def tenant_rows_def)
  also have "\<dots> = Inr (midway d schema_v5 (sd_rows (encode_db ?d))\<lparr>sd_indexes := indexes_v4 @ tenant_indexes\<rparr>)"
    by (rule indexes_step) simp
  also have "midway d schema_v5 (sd_rows (encode_db ?d))\<lparr>sd_indexes := indexes_v4 @ tenant_indexes\<rparr>
      = encode_db ?d"
    by (simp add: midway_def encode_db_def encode_seqs_def with_default_tenant_def)
  finally show ?thesis
    by (simp add: run_file_def sql_commit_def encode_db_def with_default_tenant_def)
qed

text \<open>An empty database, so the start of a fresh installation: every file applies.\<close>

theorem migrations_build_schema:
  "run_files gen now up_files empty_db = (None, encode_db (initial_db now))"
proof -
  have five: "run_file gen now add_multi_tenancy_up (encode_v4 (initial_db now))
      = Inr (encode_db (initial_db now))"
    using add_multi_tenancy_succeeds [of "initial_db now" gen now]
    by (simp add: with_default_tenant_def initial_db_def)
  have up: "up_files = before_tenants @ [add_multi_tenancy_up]"
    by (simp add: up_files_def before_tenants_def)
  show ?thesis
    by (simp add: up run_files_append first_four_files [where now' = now] five)
qed

text \<open>The down file of version 5, statement by statement.\<close>

lemma key_same_v5:
  "same_key [''email''] (tenanted enc_user usr_TenantID u) (tenanted enc_user usr_TenantID v)
     \<longleftrightarrow> usr_Email u = usr_Email v"
  "same_key [''account_name''] (tenanted enc_account acc_TenantID a) (tenanted enc_account acc_TenantID b)
     \<longleftrightarrow> acc_AccountName a = acc_AccountName b"
  "same_key [''idempotency_key''] (tenanted enc_transaction tx_TenantID x)
       (tenanted enc_transaction tx_TenantID y)
     \<longleftrightarrow> tx_IdempotencyKey x = tx_IdempotencyKey y"
  by (simp_all add: same_key_def col_def enc_defs tenanted_def)

lemma drop_tenant:
  "filter (\<lambda>e. fst e \<noteq> ''tenant_id'') (tenanted enc_user usr_TenantID u) = enc_user u"
  "filter (\<lambda>e. fst e \<noteq> ''tenant_id'') (tenanted enc_account acc_TenantID a) = enc_account a"
  "filter (\<lambda>e. fst e \<noteq> ''tenant_id'') (tenanted enc_transaction tx_TenantID x) = enc_transaction x"
  "filter (\<lambda>e. fst e \<noteq> ''tenant_id'') (tenanted enc_posting pst_TenantID p) = enc_posting p"
  "filter (\<lambda>e. fst e \<noteq> ''tenant_id'') (tenanted enc_outbox ob_TenantID e) = enc_outbox e"
  "filter (\<lambda>e. fst e \<noteq> ''tenant_id'') (tenanted enc_document doc_TenantID c) = enc_document c"
  by (simp_all add: tenanted_def enc_defs)

lemma no_duplicate_v5:
  "no_duplicate [''email''] (map (tenanted enc_user usr_TenantID) us) \<longleftrightarrow> distinct (map usr_Email us)"
  "no_duplicate [''account_name''] (map (tenanted enc_account acc_TenantID) as)
     \<longleftrightarrow> distinct (map acc_AccountName as)"
  "no_duplicate [''idempotency_key''] (map (tenanted enc_transaction tx_TenantID) ts)
     \<longleftrightarrow> distinct (map tx_IdempotencyKey ts)"
  by (rule no_duplicate_map, simp add: key_same_v5)+

definition down_error :: "db \<Rightarrow> sql_error option" where
  "down_error d =
     (if \<not> distinct (map tx_IdempotencyKey (db_transactions d))
      then Some (Pg (UniqueViolation ''transactions_idempotency_key_key''))
      else if \<not> distinct (map acc_AccountName (db_accounts d))
      then Some (Pg (UniqueViolation ''accounts_account_name_key''))
      else if \<not> distinct (map usr_Email (db_users d))
      then Some (Pg (UniqueViolation ''users_email_key''))
      else None)"

lemma down5:
  assumes "db_deferred d = []"
  shows "run_file gen now add_multi_tenancy_down (encode_db d) =
     (case down_error d of Some e \<Rightarrow> Inl e | None \<Rightarrow> Inr (encode_v4 d))"
  using assms
  by (simp add: run_file_def add_multi_tenancy_down_def encode_db_def exec_defs schema_v5_def tables_v5
    keys_defs catalog_defs no_duplicate_v5
    down_error_def drop_tenant comp_def encode_v4_def schema_v4_def tables_v4 encode_seqs_def sql_commit_def)

text \<open>The other down files leave nothing behind.\<close>

lemma drop_all_v4:
  "run_files gen now (tl down_files) (encode_v4 d) = (None, empty_db)"
  by (simp add: down_files_def run_file_def add_users_down_def add_documents_down_def
    add_outbox_down_def init_ledger_down_def encode_v4_def exec_defs schema_v4_def tables_v4 keys_defs
    catalog_defs encode_seqs_def sql_commit_def empty_db_def)

theorem migrate_down:
  assumes "db_deferred d = []"
  shows "run_files gen now down_files (encode_db d) =
     (case down_error d of Some e \<Rightarrow> (Some e, encode_db d) | None \<Rightarrow> (None, empty_db))"
proof -
  have "down_files = add_multi_tenancy_down # tl down_files"
    by (simp add: down_files_def)
  then have "run_files gen now down_files (encode_db d) =
      (case run_file gen now add_multi_tenancy_down (encode_db d) of
         Inl e \<Rightarrow> (Some e, encode_db d)
       | Inr s \<Rightarrow> run_files gen now (tl down_files) s)"
    by (metis run_files.simps(2))
  then show ?thesis
    using assms by (simp add: down5 drop_all_v4 split: option.splits)
qed

end
