(* ===== verification/Conformance.thy ===== *)
theory Conformance
  imports Upgrade
begin

text \<open>
  The statements of \<^verbatim>\<open>db/queries/queries.sql\<close> that write, as statements of \<open>Sql\<close> on the migrated
  catalog, which knows nothing of them but the DDL; and that each of them is the hand-written
  \<open>q_Name\<close> of \<open>Queries\<close>: the same rows, the same error, the same sequences and queued triggers.
\<close>

section \<open>The statements\<close>

definition sql_CreateTenant :: "uuid \<Rightarrow> int \<Rightarrow> string \<Rightarrow> sqldb \<Rightarrow> (sql_error + row) \<times> sqldb" where
  "sql_CreateTenant gen now name = sql_insert gen now ''tenants'' [(''name'', VText name)]"

definition sql_CreateUser ::
  "uuid \<Rightarrow> int \<Rightarrow> CreateUserParams \<Rightarrow> sqldb \<Rightarrow> (sql_error + row) \<times> sqldb" where
  "sql_CreateUser gen now arg =
     sql_insert gen now ''users''
       [(''tenant_id'', VUuid (cup_TenantID arg)), (''email'', VText (cup_Email arg)),
        (''password_hash'', VText (cup_PasswordHash arg)), (''role'', VText (cup_Role arg))]"

definition sql_CreateAccount ::
  "uuid \<Rightarrow> int \<Rightarrow> CreateAccountParams \<Rightarrow> sqldb \<Rightarrow> (sql_error + row) \<times> sqldb" where
  "sql_CreateAccount gen now arg =
     sql_insert gen now ''accounts''
       [(''tenant_id'', VUuid (cap_TenantID arg)), (''account_name'', VText (cap_AccountName arg)),
        (''account_type'', VText (cap_AccountType arg)), (''currency'', VText (cap_Currency arg)),
        (''metadata'', enc_json (cap_Metadata arg))]"

definition sql_CreateTransaction ::
  "uuid \<Rightarrow> int \<Rightarrow> CreateTransactionParams \<Rightarrow> sqldb \<Rightarrow> (sql_error + row) \<times> sqldb" where
  "sql_CreateTransaction gen now arg =
     sql_insert gen now ''transactions''
       [(''tenant_id'', VUuid (ctp_TenantID arg)),
        (''idempotency_key'', VText (ctp_IdempotencyKey arg)),
        (''description'', VText (ctp_Description arg)), (''metadata'', enc_json (ctp_Metadata arg))]"

definition sql_CreatePosting ::
  "uuid \<Rightarrow> int \<Rightarrow> CreatePostingParams \<Rightarrow> sqldb \<Rightarrow> (sql_error + row) \<times> sqldb" where
  "sql_CreatePosting gen now arg =
     sql_insert gen now ''postings''
       [(''tenant_id'', VUuid (cpp_TenantID arg)),
        (''transaction_id'', VUuid (cpp_TransactionID arg)),
        (''account_id'', VInt (sint (cpp_AccountID arg))),
        (''amount'', VInt (sint (cpp_Amount arg))), (''direction'', VText (cpp_Direction arg))]"

definition sql_CreateDocument ::
  "uuid \<Rightarrow> int \<Rightarrow> CreateDocumentParams \<Rightarrow> sqldb \<Rightarrow> (sql_error + row) \<times> sqldb" where
  "sql_CreateDocument gen now arg =
     sql_insert gen now ''documents''
       [(''tenant_id'', VUuid (cdp_TenantID arg)),
        (''transaction_id'', VUuid (cdp_TransactionID arg)),
        (''filename'', VText (cdp_Filename arg)), (''content_type'', VText (cdp_ContentType arg)),
        (''size_bytes'', VInt (sint (cdp_SizeBytes arg))),
        (''object_key'', VText (cdp_ObjectKey arg))]"

definition sql_CreateOutboxEvent ::
  "uuid \<Rightarrow> int \<Rightarrow> CreateOutboxEventParams \<Rightarrow> sqldb \<Rightarrow> (sql_error + row) \<times> sqldb" where
  "sql_CreateOutboxEvent gen now arg =
     sql_insert gen now ''ledger_outbox''
       [(''tenant_id'', VUuid (cop_TenantID arg)), (''event_type'', VText (cop_EventType arg)),
        (''routing_key'', VText (cop_RoutingKey arg)), (''payload'', enc_json (cop_Payload arg))]"

lemmas sql_statements =
  sql_CreateTenant_def sql_CreateUser_def sql_CreateAccount_def sql_CreateTransaction_def
  sql_CreatePosting_def sql_CreateDocument_def sql_CreateOutboxEvent_def

section \<open>What the catalog says\<close>

text \<open>The result of a query of the model, written as the result of a statement.\<close>

definition as_sql :: "('a \<Rightarrow> row) \<Rightarrow> (pg_error + 'a) \<times> db \<Rightarrow> (sql_error + row) \<times> sqldb" where
  "as_sql enc q = (map_sum Pg enc (fst q), encode_db (snd q))"

lemma as_sql_simps [simp]:
  "as_sql enc (Inl e, d) = (Inl (Pg e), encode_db d)"
  "as_sql enc (Inr r, d) = (Inr (enc r), encode_db d)"
  by (simp_all add: as_sql_def)

lemma encode_db_simps:
  "sd_types (encode_db d) = schema_types" "sd_seqs (encode_db d) = encode_seqs d"
  "sd_tables (encode_db d) = schema_v5" "sd_triggers (encode_db d) = schema_triggers"
  by (simp_all add: encode_db_def)

lemma rows_of_encode_db:
  "rows_of (encode_db d) ''accounts'' = map (tenanted enc_account acc_TenantID) (db_accounts d)"
  "rows_of (encode_db d) ''transactions'' = map (tenanted enc_transaction tx_TenantID) (db_transactions d)"
  "rows_of (encode_db d) ''postings'' = map (tenanted enc_posting pst_TenantID) (db_postings d)"
  "rows_of (encode_db d) ''ledger_outbox'' = map (tenanted enc_outbox ob_TenantID) (db_outbox d)"
  "rows_of (encode_db d) ''documents'' = map (tenanted enc_document doc_TenantID) (db_documents d)"
  "rows_of (encode_db d) ''users'' = map (tenanted enc_user usr_TenantID) (db_users d)"
  "rows_of (encode_db d) ''tenants'' = map enc_tenant (db_tenants d)"
  by (simp_all add: rows_of_def encode_db_def)


lemma sql_insert_rule:
  assumes "map_of schema_v5 t = Some tb"
    and "first_violation (concat (map (cast_check schema_types vals) (tb_columns tb))) = None"
    and "fill_row gen now vals (tb_columns tb) (encode_seqs d) = (Inr (enc r), sq)"
    and "first_violation (row_checks (encode_db d) (tb_columns tb) (tb_constraints tb)
           (rows_of (encode_db d) t) (enc r)) = first_violation cs"
    and "encode_db d\<lparr>sd_seqs := sq\<rparr> = encode_db d'"
    and "set_rows t (rows_of (encode_db d) t @ [enc r])
           (encode_db d\<lparr>sd_seqs := sq, sd_queue := sd_queue (encode_db d) @ queued (encode_db d) t (enc r)\<rparr>)
         = encode_db (put r d')"
  shows "sql_insert gen now t vals (encode_db d) = as_sql enc (insert_row cs put r d')"
  using assms by (simp add: sql_insert_def encode_db_simps insert_row_def split: option.splits)

lemma sql_insert_violation:
  assumes "map_of schema_v5 t = Some tb"
    and "first_violation (concat (map (cast_check schema_types vals) (tb_columns tb))) = None"
    and "fill_row gen now vals (tb_columns tb) (encode_seqs d) = (Inr r, sq)"
    and "first_violation (row_checks (encode_db d) (tb_columns tb) (tb_constraints tb)
           (rows_of (encode_db d) t) r) = Some e"
  shows "sql_insert gen now t vals (encode_db d) = (Inl (Pg e), encode_db d\<lparr>sd_seqs := sq\<rparr>)"
  using assms by (simp add: sql_insert_def encode_db_simps)

lemma sql_insert_cast:
  assumes "map_of schema_v5 t = Some tb"
    and "first_violation (concat (map (cast_check schema_types vals) (tb_columns tb))) = Some e"
  shows "sql_insert gen now t vals (encode_db d) = (Inl (Pg e), encode_db d)"
  using assms by (simp add: sql_insert_def encode_db_simps)

lemma sql_insert_default:
  assumes "map_of schema_v5 t = Some tb"
    and "first_violation (concat (map (cast_check schema_types vals) (tb_columns tb))) = None"
    and "fill_row gen now vals (tb_columns tb) (encode_seqs d) = (Inl e, encode_seqs d)"
  shows "sql_insert gen now t vals (encode_db d) = (Inl (Pg e), encode_db d)"
  using assms by (simp add: sql_insert_def encode_db_simps)

lemmas row_check_defs =
  row_checks_def null_check_def tenanted_def enc_defs col_def same_key_def

lemmas put_row_defs =
  set_rows_def encode_db_def encode_seqs_def put_defs queued_def schema_triggers_def catalog_defs
  rows_of_def

lemmas rows_simps =
  encode_db_simps rows_of_encode_db tables_v5 catalog_defs tenant_exists_def account_exists_def
  transaction_exists_def sint_eq_iff

lemma account_type_labels:
  "map_of schema_types ''account_type'' = Some account_type_enum"
  "map_of schema_types ''posting_direction'' = Some posting_direction_enum"
  "map_of schema_types ''outbox_status'' = Some [''pending'', ''published'', ''failed'']"
  by (simp_all add: schema_types_def account_type_enum_def posting_direction_enum_def)

lemmas columns_simps =
  tables_v5 columns_defs column_defs account_type_labels col_def

lemmas conform_simps =
  columns_simps row_check_defs rows_simps put_row_defs account_type_enum_def posting_direction_enum_def

lemma schema_v5_lookup:
  "map_of schema_v5 ''accounts'' = Some accounts_v5"
  "map_of schema_v5 ''transactions'' = Some transactions_v5"
  "map_of schema_v5 ''postings'' = Some postings_v5"
  "map_of schema_v5 ''ledger_outbox'' = Some outbox_v5"
  "map_of schema_v5 ''documents'' = Some documents_v5"
  "map_of schema_v5 ''users'' = Some users_v5"
  "map_of schema_v5 ''tenants'' = Some tenants_v5"
  by (simp_all add: schema_v5_def)

lemma fill_row_limit:
  "map_of vals (col_name c) = None \<Longrightarrow> col_default c = Nextval n \<Longrightarrow> map_of sq n = Some i
    \<Longrightarrow> nextval n w = Inl e \<Longrightarrow> i = sint w
    \<Longrightarrow> fill_row gen now vals (c # cs) sq = (Inl e, sq)"
  by (auto simp: nextval_def split: if_splits)

lemma accounts_conform:
  "sql_CreateAccount gen now arg (encode_db d) =
     as_sql (tenanted enc_account acc_TenantID) (q_CreateAccount now arg d)"
proof (cases "cap_AccountType arg \<in> set account_type_enum")
  case False
  then show ?thesis
    unfolding sql_statements
    by (subst sql_insert_cast [OF schema_v5_lookup(1)])
      (simp_all add: columns_simps q_CreateAccount_def)
next
  case cast: True
  show ?thesis
  proof (cases "nextval ''accounts_id_seq'' (db_account_seq d)")
    case (Inl e)
    have "sql_CreateAccount gen now arg (encode_db d) = (Inl (Pg e), encode_db d)"
      unfolding sql_statements
    proof (rule sql_insert_default [OF schema_v5_lookup(1)], goal_cases)
      case 1
      then show ?case using cast by (simp add: columns_simps)
    next
      case 2
      show ?case
        unfolding accounts_v5_def accounts_columns_def
        using Inl by (simp add: fill_row_limit bigserial_def default_def not_null_def column_def encode_seqs_def del: fill_row.simps)
    qed
    with cast Inl show ?thesis
      by (simp add: q_CreateAccount_def)
  next
    case (Inr i)
    then have i: "sint (db_account_seq d) < 2 ^ 63 - 1" "sint (db_account_seq d) + 1 = sint i"
      using nextval_Inr [OF Inr] by (simp_all add: nextval_def split: if_splits)
    show ?thesis
      unfolding sql_statements q_CreateAccount_def
      using cast Inr i
      by simp (rule sql_insert_rule [where sq = "encode_seqs (d\<lparr>db_account_seq := i\<rparr>)", OF schema_v5_lookup(1)],
        simp_all add: conform_simps)
  qed
qed

lemma postings_conform:
  "sql_CreatePosting gen now arg (encode_db d) =
     as_sql (tenanted enc_posting pst_TenantID) (q_CreatePosting now arg d)"
proof (cases "cpp_Direction arg \<in> set posting_direction_enum")
  case False
  then show ?thesis
    unfolding sql_statements
    by (subst sql_insert_cast [OF schema_v5_lookup(3)])
      (simp_all add: columns_simps q_CreatePosting_def)
next
  case cast: True
  show ?thesis
  proof (cases "nextval ''postings_id_seq'' (db_posting_seq d)")
    case (Inl e)
    have "sql_CreatePosting gen now arg (encode_db d) = (Inl (Pg e), encode_db d)"
      unfolding sql_statements
    proof (rule sql_insert_default [OF schema_v5_lookup(3)], goal_cases)
      case 1
      then show ?case using cast by (simp add: columns_simps)
    next
      case 2
      show ?case
        unfolding postings_v5_def postings_columns_def
        using Inl by (simp add: fill_row_limit bigserial_def default_def not_null_def column_def encode_seqs_def del: fill_row.simps)
    qed
    with cast Inl show ?thesis
      by (simp add: q_CreatePosting_def)
  next
    case (Inr i)
    then have i: "sint (db_posting_seq d) < 2 ^ 63 - 1" "sint (db_posting_seq d) + 1 = sint i"
      using nextval_Inr [OF Inr] by (simp_all add: nextval_def split: if_splits)
    show ?thesis
      unfolding sql_statements q_CreatePosting_def
      using cast Inr i
      by simp (rule sql_insert_rule [where sq = "encode_seqs (d\<lparr>db_posting_seq := i\<rparr>)", OF schema_v5_lookup(3)],
        simp_all add: conform_simps)
  qed
qed

lemma tenants_conform:
  "sql_CreateTenant gen now name (encode_db d) = as_sql enc_tenant (q_CreateTenant gen now name d)"
  unfolding sql_statements q_CreateTenant_def
  by (rule sql_insert_rule [where sq = "encode_seqs d", OF schema_v5_lookup(7)])
    (simp_all add: conform_simps)

lemma users_conform:
  "sql_CreateUser gen now arg (encode_db d) = as_sql (tenanted enc_user usr_TenantID) (q_CreateUser gen now arg d)"
  unfolding sql_statements q_CreateUser_def
  by (rule sql_insert_rule [where sq = "encode_seqs d", OF schema_v5_lookup(6)])
    (simp_all add: conform_simps)

lemma transactions_conform:
  "sql_CreateTransaction gen now arg (encode_db d) = as_sql (tenanted enc_transaction tx_TenantID) (q_CreateTransaction gen now arg d)"
  unfolding sql_statements q_CreateTransaction_def
  by (rule sql_insert_rule [where sq = "encode_seqs d", OF schema_v5_lookup(2)])
    (simp_all add: conform_simps)

lemma documents_conform:
  "sql_CreateDocument gen now arg (encode_db d) = as_sql (tenanted enc_document doc_TenantID) (q_CreateDocument gen now arg d)"
  unfolding sql_statements q_CreateDocument_def
  by (rule sql_insert_rule [where sq = "encode_seqs d", OF schema_v5_lookup(5)])
    (simp_all add: conform_simps)

text \<open>A nil payload is NULL, which the column refuses; only then is the row not that of an event.\<close>

lemma outbox_conform:
  "sql_CreateOutboxEvent gen now arg (encode_db d) =
     as_sql (tenanted enc_outbox ob_TenantID) (q_CreateOutboxEvent gen now arg d)"
proof (cases "cop_Payload arg")
  case None
  have "sql_CreateOutboxEvent gen now arg (encode_db d)
      = (Inl (Pg (NotNullViolation ''payload'')), encode_db d\<lparr>sd_seqs := encode_seqs d\<rparr>)"
    unfolding sql_statements
    by (rule sql_insert_violation [OF schema_v5_lookup(4), where r =
         "[(''id'', VUuid gen), (''event_type'', VText (cop_EventType arg)),
           (''routing_key'', VText (cop_RoutingKey arg)), (''payload'', VNull),
           (''status'', VText ''pending''), (''retry_count'', VInt 0), (''max_retries'', VInt 5),
           (''last_error'', VText ''''), (''created_at'', VTime now), (''processed_at'', VNull),
           (''tenant_id'', VUuid (cop_TenantID arg))]"])
      (simp_all add: None conform_simps)
  then show ?thesis
    using None by (simp add: q_CreateOutboxEvent_def insert_row_def) (simp add: encode_db_def)
next
  case (Some j)
  then show ?thesis
    unfolding sql_statements q_CreateOutboxEvent_def
    by (intro sql_insert_rule [where sq = "encode_seqs d", OF schema_v5_lookup(4)])
      (simp_all add: conform_simps enum_defs)
qed

section \<open>UPDATE and COMMIT\<close>

definition sql_MarkOutboxEventPublished :: "int \<Rightarrow> uuid \<Rightarrow> sqldb \<Rightarrow> sql_error + sqldb" where
  "sql_MarkOutboxEventPublished now i =
     sql_update now ''ledger_outbox''
       (\<lambda>r. col r ''id'' = VUuid i \<and> col r ''status'' = VText ''pending'')
       [(''status'', \<lambda>r. Inr (VText ''published'')), (''processed_at'', \<lambda>r. Inr (VTime now))]"

definition sql_MarkOutboxEventFailed ::
  "int \<Rightarrow> MarkOutboxEventFailedParams \<Rightarrow> sqldb \<Rightarrow> sql_error + sqldb" where
  "sql_MarkOutboxEventFailed now arg =
     sql_update now ''ledger_outbox'' (\<lambda>r. col r ''id'' = VUuid (mof_ID arg))
       [(''status'', \<lambda>r. Inr (VText ''failed'')), (''last_error'', \<lambda>r. Inr (enc_text (mof_LastError arg))),
        (''processed_at'', \<lambda>r. Inr (VTime now))]"

text \<open>\<^verbatim>\<open>retry_count + 1\<close> in INTEGER arithmetic.\<close>

definition int4_succ :: "sql_val \<Rightarrow> pg_error + sql_val" where
  "int4_succ v =
     (case v of
        VInt i \<Rightarrow> if i < 2 ^ 31 - 1 then Inr (VInt (i + 1)) else Inl NumericOutOfRange
      | _ \<Rightarrow> Inr VNull)"

definition sql_IncrementOutboxRetry ::
  "int \<Rightarrow> IncrementOutboxRetryParams \<Rightarrow> sqldb \<Rightarrow> sql_error + sqldb" where
  "sql_IncrementOutboxRetry now arg =
     sql_update now ''ledger_outbox''
       (\<lambda>r. col r ''id'' = VUuid (ior_ID arg) \<and> col r ''status'' = VText ''pending'')
       [(''retry_count'', \<lambda>r. int4_succ (col r ''retry_count'')),
        (''last_error'', \<lambda>r. Inr (enc_text (ior_LastError arg)))]"

definition int_less :: "sql_val \<Rightarrow> sql_val \<Rightarrow> bool" where
  "int_less a b = (case (a, b) of (VInt i, VInt j) \<Rightarrow> i < j | _ \<Rightarrow> False)"

definition sql_RequeueFailedOutboxEvents :: "int \<Rightarrow> sqldb \<Rightarrow> sql_error + sqldb" where
  "sql_RequeueFailedOutboxEvents now =
     sql_update now ''ledger_outbox''
       (\<lambda>r. col r ''status'' = VText ''failed''
          \<and> int_less (col r ''retry_count'') (col r ''max_retries''))
       [(''status'', \<lambda>r. Inr (VText ''pending'')), (''retry_count'', \<lambda>r. Inr (VInt 0)),
        (''last_error'', \<lambda>r. Inr (VText '''')), (''processed_at'', \<lambda>r. Inr VNull)]"

definition as_update :: "(pg_error + unit) \<times> db \<Rightarrow> sql_error + sqldb" where
  "as_update q = (case fst q of Inl e \<Rightarrow> Inl (Pg e) | Inr u \<Rightarrow> Inr (encode_db (snd q)))"

lemma update_rows_enc:
  assumes "\<And>x. x \<in> set xs \<Longrightarrow> sel (enc x) \<longleftrightarrow> P x"
    and "\<And>x. x \<in> set xs \<Longrightarrow> P x \<Longrightarrow> f (enc x) = (if bad x then Inl e else Inr (enc (h x)))"
    and "\<And>x others. x \<in> set xs \<Longrightarrow> P x \<Longrightarrow> first_violation (checks others (enc (h x))) = None"
  shows "update_rows sel f checks done (map enc xs) =
     (if \<exists>x \<in> set xs. P x \<and> bad x then Inl e
      else Inr (done @ map enc (map (\<lambda>x. if P x then h x else x) xs)))"
  using assms by (induction xs arbitrary: "done") auto

lemma row_checks_columns:
  "\<forall>c \<in> set cols. F c \<longrightarrow> type_check r c = [] \<and> (col_notnull c \<longrightarrow> col r (col_name c) \<noteq> VNull)
    \<Longrightarrow> first_violation (row_checks s (filter F cols) [] others r) = None"
  by (subst first_violation_None)
    (auto simp: row_checks_def null_check_def simp del: type_check.simps split: if_splits)

lemma outbox_update:
  assumes "\<And>x. sel (tenanted enc_outbox ob_TenantID x) \<longleftrightarrow> P x"
    and "\<And>x. P x \<Longrightarrow> assign (tenanted enc_outbox ob_TenantID x) as (tenanted enc_outbox ob_TenantID x)
        = (if bad x then Inl e else Inr (tenanted enc_outbox ob_TenantID (h x)))"
    and "''id'' \<notin> fst ` set as" "''tenant_id'' \<notin> fst ` set as" "''created_at'' \<notin> fst ` set as"
  shows "sql_update now ''ledger_outbox'' sel as (encode_db d) =
     (if \<exists>x \<in> set (db_outbox d). P x \<and> bad x then Inl (Pg e)
      else Inr (encode_db (update_outbox P h d)))"
proof -
  have trig: "before_triggers (encode_db d) ''ledger_outbox'' OnUpdate = []"
    by (simp add: before_triggers_def encode_db_simps schema_triggers_def catalog_defs)
  have "update_rows sel (new_version now (encode_db d) ''ledger_outbox'' as)
      (row_checks (encode_db d) (filter (\<lambda>c. col_name c \<in> set (map fst as)) (tb_columns outbox_v5))
        (filter (touched (map fst as)) (tb_constraints outbox_v5))) []
      (map (tenanted enc_outbox ob_TenantID) (db_outbox d))
    = (if \<exists>x \<in> set (db_outbox d). P x \<and> bad x then Inl (Pg e)
       else Inr ([] @ map (tenanted enc_outbox ob_TenantID) (map (\<lambda>x. if P x then h x else x) (db_outbox d))))"
  proof (rule update_rows_enc)
    show "sel (tenanted enc_outbox ob_TenantID x) \<longleftrightarrow> P x" for x
      by (rule assms)
    show "new_version now (encode_db d) ''ledger_outbox'' as (tenanted enc_outbox ob_TenantID x)
        = (if bad x then Inl (Pg e) else Inr (tenanted enc_outbox ob_TenantID (h x)))" if "P x" for x
      using assms(2) [OF that] by (simp add: new_version_def trig)
    show "first_violation (row_checks (encode_db d)
        (filter (\<lambda>c. col_name c \<in> set (map fst as)) (tb_columns outbox_v5))
        (filter (touched (map fst as)) (tb_constraints outbox_v5)) others
        (tenanted enc_outbox ob_TenantID (h x))) = None" for x others
    proof -
      have "filter (touched (map fst as)) (tb_constraints outbox_v5) = []"
        using assms(3,4) by (simp add: outbox_v5_def keys_defs touched_def)
      moreover have "\<forall>c \<in> set (tb_columns outbox_v5). col_name c \<in> set (map fst as) \<longrightarrow>
          type_check (tenanted enc_outbox ob_TenantID (h x)) c = []
          \<and> (col_notnull c \<longrightarrow> col (tenanted enc_outbox ob_TenantID (h x)) (col_name c) \<noteq> VNull)"
        using assms(5)
        by (simp add: outbox_v5_def columns_defs column_defs tenanted_def enc_outbox_def col_def)
      ultimately show ?thesis
        by (simp add: row_checks_columns)
    qed
  qed
  moreover have "set_rows ''ledger_outbox'' (map (tenanted enc_outbox ob_TenantID)
      (map (\<lambda>x. if P x then h x else x) (db_outbox d))) (encode_db d) = encode_db (update_outbox P h d)"
    by (simp add: set_rows_def encode_db_def encode_seqs_def update_outbox_def)
  ultimately show ?thesis
    by (cases "\<exists>x \<in> set (db_outbox d). P x \<and> bad x")
      (simp_all add: sql_update_def encode_db_simps schema_v5_lookup rows_of_encode_db)
qed

lemma updates_conform:
  "sql_MarkOutboxEventPublished now i (encode_db d) = as_update (q_MarkOutboxEventPublished now i d)"
  "sql_MarkOutboxEventFailed now marg (encode_db d) = as_update (q_MarkOutboxEventFailed now marg d)"
  "sql_RequeueFailedOutboxEvents now (encode_db d) = as_update (q_RequeueFailedOutboxEvents d)"
  unfolding sql_MarkOutboxEventPublished_def sql_MarkOutboxEventFailed_def
    sql_RequeueFailedOutboxEvents_def q_MarkOutboxEventPublished_def q_MarkOutboxEventFailed_def
    q_RequeueFailedOutboxEvents_def as_update_def
  by (subst outbox_update [where bad = "\<lambda>x. False"],
      auto simp: tenanted_def enc_defs col_def enum_defs int_less_def)+

lemma increment_conforms:
  "sql_IncrementOutboxRetry now arg (encode_db d) = as_update (q_IncrementOutboxRetry arg d)"
proof -
  let ?P = "\<lambda>r. ob_ID r = ior_ID arg \<and> ob_Status r = OutboxStatusPending"
  let ?bad = "\<lambda>r. sint (ob_RetryCount r) = 2 ^ 31 - 1"
  let ?h = "\<lambda>r. r\<lparr>ob_RetryCount := ob_RetryCount r + 1, ob_LastError := ior_LastError arg\<rparr>"
  have bad: "\<not> sint (ob_RetryCount r) < 2 ^ 31 - 1 \<longleftrightarrow> ?bad r" for r
    using sint32_fits [of "ob_RetryCount r"] by auto
  have succ: "sint (ob_RetryCount r + 1) = sint (ob_RetryCount r) + 1" if "\<not> ?bad r" for r
    using that bad [of r] by (intro sint32_succ) auto
  have "sql_IncrementOutboxRetry now arg (encode_db d) =
     (if \<exists>x \<in> set (db_outbox d). ?P x \<and> ?bad x then Inl (Pg NumericOutOfRange)
      else Inr (encode_db (update_outbox ?P ?h d)))"
    unfolding sql_IncrementOutboxRetry_def
  proof (rule outbox_update, goal_cases)
    case 1
    then show ?case by (simp add: tenanted_def enc_outbox_def col_def enum_defs)
  next
    case (2 x)
    have "int4_succ (col (tenanted enc_outbox ob_TenantID x) ''retry_count'')
        = (if ?bad x then Inl NumericOutOfRange else Inr (VInt (sint (ob_RetryCount x + 1))))"
      using bad [of x] succ [of x] by (auto simp: int4_succ_def tenanted_def enc_outbox_def col_def)
    then show ?case
      by (simp add: tenanted_def enc_outbox_def)
  qed simp_all
  then show ?thesis
    by (auto simp: as_update_def q_IncrementOutboxRetry_def Let_def)
qed

lemma sum_rows_postings:
  "sum_rows dir (VUuid t) (map (tenanted enc_posting pst_TenantID) ps) =
     sum_direction dir (postings_of t ps)"
  by (induction ps) (auto simp: sum_rows_def postings_of_def tenanted_def enc_posting_def col_def)

lemma run_queue_conforms:
  "run_queue (encode_db d) (map (\<lambda>t. (''fn_check_transaction_balance'', VUuid t)) ts) =
     map_option Pg (run_deferred ts d)"
proof (induction ts)
  case Nil
  show ?case by simp
next
  case (Cons t ts)
  have lookup: "map_of (sd_functions (encode_db d)) ''fn_check_transaction_balance''
      = Some CheckDebitsEqualCredits"
    by (simp add: encode_db_def schema_functions_def)
  have eq: "word_of_int i = (word_of_int j :: int64) \<longleftrightarrow> i = j" if "fits64 i" "fits64 j" for i j
    using sint64_of_int [of i] sint64_of_int [of j] that by metis
  have "run_after (encode_db d) CheckDebitsEqualCredits (VUuid t)
      = map_option Pg (fn_check_transaction_balance t d)"
    by (simp add: run_after_def rows_of_encode_db sum_rows_postings fn_check_transaction_balance_def
        debits_of_def credits_of_def to_bigint_def enum_defs Let_def eq)
  then show ?case
    using Cons lookup by (simp split: option.splits)
qed

lemma commit_conforms:
  "sql_commit (encode_db d) = map_sum Pg encode_db (commit_db d)"
proof -
  have "run_queue (encode_db d) (sd_queue (encode_db d)) = map_option Pg (run_deferred (db_deferred d) d)"
    using run_queue_conforms [of d "db_deferred d"] by (simp add: encode_db_def)
  then show ?thesis
    by (simp add: sql_commit_def commit_db_def split: option.splits)
      (simp add: encode_db_def encode_seqs_def)
qed

section \<open>Immutable tables\<close>

text \<open>
  The immutability triggers of migration 1 survive to version 5: whatever it assigns, an UPDATE of
  postings or transactions that succeeds has selected no row and changed nothing.
\<close>

lemma update_rows_immutable:
  "(\<And>r. sel r \<Longrightarrow> \<exists>e. f r = Inl e) \<Longrightarrow> update_rows sel f checks done rs = Inr rs'
    \<Longrightarrow> rs' = done @ rs"
  by (induction rs arbitrary: "done") (force split: if_splits sum.splits option.splits)+

lemma update_rows_selects:
  "(\<And>r. \<exists>e. f r = Inl e) \<Longrightarrow> update_rows sel f checks done rs = Inr rs'
    \<Longrightarrow> r \<in> set rs \<Longrightarrow> \<not> sel r"
proof (induction rs arbitrary: "done")
  case (Cons x xs)
  obtain e where "f x = Inl e" using Cons.prems(1) by blast
  with Cons show ?case by (auto split: if_splits)
qed simp

lemma set_rows_same:
  "map_of (sd_rows s) t = Some rs \<Longrightarrow> set_rows t rs s = s"
proof -
  have "map_of es t = Some rs \<Longrightarrow> put_entry t rs es = es" for es :: "(string \<times> row list) list"
    by (induction es) (auto split: if_splits)
  then show "map_of (sd_rows s) t = Some rs \<Longrightarrow> set_rows t rs s = s"
    by (simp add: set_rows_def)
qed

lemma posted_rows_kept:
  assumes "t = ''transactions'' \<or> t = ''postings''"
    and "sql_update now t sel assigns (encode_db d) = Inr s"
  shows "s = encode_db d \<and> (\<forall>r \<in> set (rows_of (encode_db d) t). \<not> sel r)"
proof -
  have "before_triggers (encode_db d) t OnUpdate = [RaiseRestrictViolation]"
    using assms(1) by (auto simp: before_triggers_def encode_db_def schema_triggers_def
      schema_functions_def catalog_defs)
  then have raise: "\<exists>e. new_version now (encode_db d) t assigns r = Inl e" for r
    by (auto simp: new_version_def split: sum.splits)
  have rows: "map_of (sd_rows (encode_db d)) t = Some (rows_of (encode_db d) t)"
    using assms(1) by (auto simp: encode_db_def rows_of_def)
  obtain ch rs where u: "update_rows sel (new_version now (encode_db d) t assigns) ch []
      (rows_of (encode_db d) t) = Inr rs"
    and s: "s = set_rows t rs (encode_db d)"
    using assms(2) by (auto simp: sql_update_def split: option.splits sum.splits)
  have "rs = rows_of (encode_db d) t"
    using update_rows_immutable [OF raise u] by simp
  moreover have "\<not> sel r" if "r \<in> set (rows_of (encode_db d) t)" for r
    using u that raise update_rows_selects [OF raise u] by simp
  ultimately show ?thesis
    using s set_rows_same [OF rows] by simp
qed

end
