(* ===== verification/Deployment.thy ===== *)
theory Deployment
  imports Lifecycle Conformance
begin

text \<open>
  What \<^verbatim>\<open>runMigrations\<close> does to a database that is already in use. The migration library is not in
  this repository; of its \<^verbatim>\<open>Up\<close> only what its documentation says is assumed: it applies the pending
  files in order and returns the error of the first that fails.
\<close>

text \<open>
  C15: A deployment of version 4 with at least one posted transaction cannot be upgraded. The UPDATE of
  migration 5 that gives the old transactions a tenant fires the trigger of migration 1 that forbids
  every UPDATE of a transaction, so the file fails, the database stays at version 4, and \<^verbatim>\<open>main\<close> exits
  before it serves. Without transactions and postings the file applies, and the result is the
  version 5 database with the same users, accounts, documents and events, all of the default tenant,
  every user's \<^verbatim>\<open>updated_at\<close> set by the trigger of migration 4.
\<close>

theorem upgrade_from_version_4:
  assumes emails: "distinct (map usr_Email (db_users d))"
    and names: "distinct (map acc_AccountName (db_accounts d))"
    and up: "\<And>e. fst (run_files gen now [add_multi_tenancy_up] (encode_v4 d)) = Some e
      \<Longrightarrow> \<exists>msg. se_up S = UpErr msg"
  shows "if db_transactions d \<noteq> [] then
       run_files gen now [add_multi_tenancy_up] (encode_v4 d)
         = (Some (RestrictViolation ''transactions''), encode_v4 d)
       \<and> (\<exists>err. start_main env S X = Inl err)
     else db_postings d = [] \<longrightarrow>
       run_files gen now [add_multi_tenancy_up] (encode_v4 d)
         = (None, encode_db (with_default_tenant now d))"
proof (cases "db_transactions d = []")
  case True
  then show ?thesis
    using add_multi_tenancy_succeeds [OF emails names True] by simp
next
  case False
  have fails: "run_files gen now [add_multi_tenancy_up] (encode_v4 d)
      = (Some (RestrictViolation ''transactions''), encode_v4 d)"
    using add_multi_tenancy_fails [OF emails names False] by simp
  with up obtain msg where "se_up S = UpErr msg"
    by auto
  then have "\<not> (\<exists>P. start_main env S X = Inr P)"
    by (auto simp: start_main_Inr start_calls_def Let_def)
  then show ?thesis
    using fails False by (cases "start_main env S X") auto
qed

text \<open>A version 4 database with one account and one transaction.\<close>

definition version_4_in_use :: db where
  "version_4_in_use = (initial_db 0)
     \<lparr>db_accounts := [\<lparr>acc_ID = 1, acc_AccountName = ''cash'', acc_AccountType = ''asset'',
        acc_Currency = ''INR'', acc_Metadata = None, acc_CreatedAt = Some 0, acc_TenantID = 0\<rparr>],
      db_transactions := [\<lparr>tx_ID = 7, tx_IdempotencyKey = ''k'', tx_Description = '''',
        tx_Metadata = None, tx_CreatedAt = Some 0, tx_TenantID = 0\<rparr>]\<rparr>"

theorem upgrade_from_version_4_witness:
  "run_files 0 1 [add_multi_tenancy_up] (encode_v4 version_4_in_use)
     = (Some (RestrictViolation ''transactions''), encode_v4 version_4_in_use)
   \<and> (\<exists>err. start_main (\<lambda>k. '''') (good_start\<lparr>se_up := UpErr ''immutable table''\<rparr>)
        sample_app = Inl err)"
  using upgrade_from_version_4 [of version_4_in_use 0 1 "good_start\<lparr>se_up := UpErr ''immutable table''\<rparr>"]
  by (simp add: version_4_in_use_def initial_db_def)



text \<open>
  C23: Posted rows cannot be rewritten: on the migrated schema, an UPDATE of the transactions or the
  postings, whatever it assigns, either fails or selects no row and changes nothing.
\<close>

theorem posted_rows_immutable:
  assumes "t = ''transactions'' \<or> t = ''postings''"
    and "sql_update now t sel assigns (encode_db d) = Inr s"
  shows "s = encode_db d \<and> (\<forall>r \<in> set (rows_of (encode_db d) t). \<not> sel r)"
  using assms by (rule posted_rows_kept)

theorem posted_rows_immutable_witness:
  "sql_update 1 ''transactions'' (is_null ''description'') [(''description'', \<lambda>r. Inr (VText ''x''))]
     (encode_db (initial_db 0)) = Inr (encode_db (initial_db 0))"
proof -
  obtain s where "sql_update 1 ''transactions'' (is_null ''description'')
      [(''description'', \<lambda>r. Inr (VText ''x''))] (encode_db (initial_db 0)) = Inr s"
    by (simp add: sql_update_def encode_db_def initial_db_def schema_v5_def rows_of_def)
  with posted_rows_immutable [OF _ this] show ?thesis by simp
qed

text \<open>
  C14: The model of the database is the migrated schema. Applied to an empty database, the five up
  files give the initial database of the model. For every database, every parameters and every value the server draws: each INSERT of the model
  returns the row, or the very error (kind and constraint name), that the generic INSERT finds by
  reading the catalog the migrations built, and leaves the same rows, sequences and queued triggers;
  the UPDATEs of the outbox and COMMIT likewise.
\<close>

theorem queries_conform_to_migrations:
  "run_files gen0 now0 up_files empty_db = (None, encode_db (initial_db now0))
   \<and> sql_CreateTenant gen now name (encode_db d) = as_sql enc_tenant (q_CreateTenant gen now name d)
   \<and> sql_CreateUser gen now user (encode_db d) =
       as_sql (tenanted enc_user usr_TenantID) (q_CreateUser gen now user d)
   \<and> sql_CreateAccount gen now acc (encode_db d) =
       as_sql (tenanted enc_account acc_TenantID) (q_CreateAccount now acc d)
   \<and> sql_CreateTransaction gen now tx (encode_db d) =
       as_sql (tenanted enc_transaction tx_TenantID) (q_CreateTransaction gen now tx d)
   \<and> sql_CreatePosting gen now pst (encode_db d) =
       as_sql (tenanted enc_posting pst_TenantID) (q_CreatePosting now pst d)
   \<and> sql_CreateDocument gen now doc (encode_db d) =
       as_sql (tenanted enc_document doc_TenantID) (q_CreateDocument gen now doc d)
   \<and> sql_CreateOutboxEvent gen now ev (encode_db d) =
       as_sql (tenanted enc_outbox ob_TenantID) (q_CreateOutboxEvent gen now ev d)
   \<and> sql_MarkOutboxEventPublished now i (encode_db d) = as_update (q_MarkOutboxEventPublished now i d)
   \<and> sql_MarkOutboxEventFailed now failed (encode_db d) = as_update (q_MarkOutboxEventFailed now failed d)
   \<and> sql_IncrementOutboxRetry now retry (encode_db d) = as_update (q_IncrementOutboxRetry retry d)
   \<and> sql_RequeueFailedOutboxEvents now (encode_db d) = as_update (q_RequeueFailedOutboxEvents d)
   \<and> sql_commit (encode_db d) = map_sum Pg encode_db (commit_db d)"
  by (intro conjI migrations_build_schema tenants_conform users_conform accounts_conform
    transactions_conform postings_conform documents_conform outbox_conform updates_conform
    increment_conforms commit_conforms)

end
