(* ===== verification/Docs.thy ===== *)
theory Docs
  imports Router
begin

text \<open>
  The Swagger document the program publishes (\<^verbatim>\<open>docs/docs.go\<close>): the JSON of \<^verbatim>\<open>docTemplate\<close>, path by
  path and definition by definition in the order of the file, its template parameters, and the part
  of the OpenAPI 2.0 schema language it is written in. What the handlers really do is compared with
  it in \<open>Documented\<close>.
\<close>

section \<open>Parts that are repeated\<close>

definition typed :: "string \<Rightarrow> json" where
  "typed t = JObj [(''type'', JStr t)]"

definition ref_to :: "string \<Rightarrow> json" where
  "ref_to n = JObj [(''$ref'', JStr (''#/definitions/'' @ n))]"

definition array_of :: "json \<Rightarrow> json" where
  "array_of items = JObj [(''type'', JStr ''array''), (''items'', items)]"

definition response_doc :: "string \<Rightarrow> json \<Rightarrow> json" where
  "response_doc descr sch = JObj [(''description'', JStr descr), (''schema'', sch)]"

definition problem_doc :: "string \<Rightarrow> json" where
  "problem_doc descr = response_doc descr (ref_to ''internal_api.ProblemDetail'')"

definition api_key :: json where
  "api_key = JArr [JObj [(''ApiKeyAuth'', JArr [])]]"

definition json_only :: json where
  "json_only = JArr [JStr ''application/json'']"

section \<open>Paths\<close>

definition doc_accounts :: json where
  "doc_accounts =
     JObj [(''get'',
             JObj [(''security'', api_key),
                   (''description'', JStr ''Retrieves a paginated list of accounts''),
                   (''produces'', json_only), (''tags'', JArr [JStr ''Accounts'']),
                   (''summary'', JStr ''List Accounts''),
                   (''parameters'',
                     JArr [JObj [(''type'', JStr ''string''),
                                 (''description'', JStr ''Pagination cursor''),
                                 (''name'', JStr ''cursor''), (''in'', JStr ''query'')],
                           JObj [(''type'', JStr ''integer''), (''default'', JInt 50),
                                 (''description'', JStr ''Number of items to return''),
                                 (''name'', JStr ''limit''), (''in'', JStr ''query'')]]),
                   (''responses'',
                     JObj [(''200'',
                             response_doc ''OK'' (array_of (ref_to ''internal_api.swaggAccount''))),
                           (''401'', problem_doc ''Unauthorized'')])]),
           (''post'',
             JObj [(''security'', api_key),
                   (''description'', JStr ''Creates a new double-entry ledger account''),
                   (''consumes'', json_only), (''produces'', json_only),
                   (''tags'', JArr [JStr ''Accounts'']), (''summary'', JStr ''Create Account''),
                   (''parameters'',
                     JArr [JObj [(''description'', JStr ''Account details''),
                                 (''name'', JStr ''request''), (''in'', JStr ''body''),
                                 (''required'', JBool True),
                                 (''schema'',
                                   ref_to ''ledger_pro_internal_service.CreateAccountRequest'')]]),
                   (''responses'',
                     JObj [(''201'',
                             response_doc ''Created'' (ref_to ''internal_api.swaggAccount'')),
                           (''400'', problem_doc ''Bad Request''),
                           (''401'', problem_doc ''Unauthorized'')])])]"

definition doc_account :: json where
  "doc_account =
     JObj [(''get'',
             JObj [(''security'', api_key),
                   (''description'', JStr ''Retrieves an account by its ID''),
                   (''produces'', json_only), (''tags'', JArr [JStr ''Accounts'']),
                   (''summary'', JStr ''Get Account''),
                   (''parameters'',
                     JArr [JObj [(''type'', JStr ''string''),
                                 (''description'', JStr ''Account ID''), (''name'', JStr ''id''),
                                 (''in'', JStr ''path''), (''required'', JBool True)]]),
                   (''responses'',
                     JObj [(''200'', response_doc ''OK'' (ref_to ''internal_api.swaggAccount'')),
                           (''401'', problem_doc ''Unauthorized''),
                           (''404'', problem_doc ''Not Found'')])])]"

definition doc_balance :: json where
  "doc_balance =
     JObj [(''get'',
             JObj [(''security'', api_key),
                   (''description'', JStr ''Computes the real-time balance of an account''),
                   (''produces'', json_only), (''tags'', JArr [JStr ''Accounts'']),
                   (''summary'', JStr ''Get Account Balance''),
                   (''parameters'',
                     JArr [JObj [(''type'', JStr ''string''),
                                 (''description'', JStr ''Account ID''), (''name'', JStr ''id''),
                                 (''in'', JStr ''path''), (''required'', JBool True)]]),
                   (''responses'',
                     JObj [(''200'',
                             response_doc ''OK'' (ref_to ''ledger_pro_internal_service.BalanceResponse'')),
                           (''401'', problem_doc ''Unauthorized''),
                           (''404'', problem_doc ''Not Found'')])])]"

definition doc_login :: json where
  "doc_login =
     JObj [(''post'',
             JObj [(''description'',
                     JStr ''Authenticates a user and sets a secure session cookie''),
                   (''consumes'', json_only), (''produces'', json_only),
                   (''tags'', JArr [JStr ''Authentication'']), (''summary'', JStr ''Login''),
                   (''parameters'',
                     JArr [JObj [(''description'', JStr ''Login credentials''),
                                 (''name'', JStr ''request''), (''in'', JStr ''body''),
                                 (''required'', JBool True),
                                 (''schema'', ref_to ''internal_api.LoginRequest'')]]),
                   (''responses'',
                     JObj [(''200'', response_doc ''OK'' (ref_to ''internal_api.LoginResponse'')),
                           (''400'', problem_doc ''Bad Request''),
                           (''401'', problem_doc ''Unauthorized'')])])]"

definition doc_logout :: json where
  "doc_logout =
     JObj [(''post'',
             JObj [(''description'',
                     JStr ''Revokes the active session and clears the session cookie''),
                   (''tags'', JArr [JStr ''Authentication'']), (''summary'', JStr ''Logout''),
                   (''responses'',
                     JObj [(''204'', JObj [(''description'', JStr ''No Content'')])])])]"

definition doc_me :: json where
  "doc_me =
     JObj [(''get'',
             JObj [(''security'', api_key),
                   (''description'',
                     JStr ''Returns the role of the currently authenticated session''),
                   (''produces'', json_only), (''tags'', JArr [JStr ''Authentication'']),
                   (''summary'', JStr ''Get Current User''),
                   (''responses'',
                     JObj [(''200'', response_doc ''OK'' (ref_to ''internal_api.MeResponse'')),
                           (''401'', problem_doc ''Unauthorized'')])])]"

definition doc_health :: json where
  "doc_health =
     JObj [(''get'',
             JObj [(''description'',
                     JStr ''Checks connectivity to Postgres, Redis, RabbitMQ, and R2.''),
                   (''produces'', json_only), (''tags'', JArr [JStr ''Observability'']),
                   (''summary'', JStr ''Health Check''),
                   (''responses'',
                     JObj [(''200'',
                             response_doc ''OK'' (JObj [(''type'', JStr ''object''), (''additionalProperties'', typed ''string'')])),
                           (''503'', problem_doc ''Service Unavailable'')])])]"

definition doc_transactions :: json where
  "doc_transactions =
     JObj [(''get'',
             JObj [(''security'', api_key),
                   (''description'', JStr ''Retrieves a paginated list of transactions''),
                   (''produces'', json_only), (''tags'', JArr [JStr ''Transactions'']),
                   (''summary'', JStr ''List Transactions''),
                   (''parameters'',
                     JArr [JObj [(''type'', JStr ''string''),
                                 (''description'', JStr ''Pagination cursor''),
                                 (''name'', JStr ''cursor''), (''in'', JStr ''query'')],
                           JObj [(''type'', JStr ''integer''), (''default'', JInt 50),
                                 (''description'', JStr ''Number of items to return''),
                                 (''name'', JStr ''limit''), (''in'', JStr ''query'')]]),
                   (''responses'',
                     JObj [(''200'',
                             response_doc ''OK'' (array_of (ref_to ''internal_api.swaggTransaction''))),
                           (''401'', problem_doc ''Unauthorized'')])]),
           (''post'',
             JObj [(''security'', api_key),
                   (''description'', JStr ''Processes a double-entry transaction''),
                   (''consumes'', json_only), (''produces'', json_only),
                   (''tags'', JArr [JStr ''Transactions'']),
                   (''summary'', JStr ''Create Transaction''),
                   (''parameters'',
                     JArr [JObj [(''type'', JStr ''string''),
                                 (''description'', JStr ''Idempotency Key (UUID)''),
                                 (''name'', JStr ''Idempotency-Key''), (''in'', JStr ''header''),
                                 (''required'', JBool True)],
                           JObj [(''description'', JStr ''Transaction details''),
                                 (''name'', JStr ''request''), (''in'', JStr ''body''),
                                 (''required'', JBool True),
                                 (''schema'',
                                   ref_to ''ledger_pro_internal_service.CreateTransactionRequest'')]]),
                   (''responses'',
                     JObj [(''201'',
                             response_doc ''Created'' (ref_to ''internal_api.swaggTransaction'')),
                           (''400'', problem_doc ''Bad Request''),
                           (''401'', problem_doc ''Unauthorized''),
                           (''409'', problem_doc ''Conflict'')])])]"

definition doc_transaction :: json where
  "doc_transaction =
     JObj [(''get'',
             JObj [(''security'', api_key),
                   (''description'', JStr ''Retrieves a transaction by its ID''),
                   (''produces'', json_only), (''tags'', JArr [JStr ''Transactions'']),
                   (''summary'', JStr ''Get Transaction''),
                   (''parameters'',
                     JArr [JObj [(''type'', JStr ''string''),
                                 (''description'', JStr ''Transaction ID''),
                                 (''name'', JStr ''id''), (''in'', JStr ''path''),
                                 (''required'', JBool True)]]),
                   (''responses'',
                     JObj [(''200'',
                             response_doc ''OK'' (ref_to ''internal_api.swaggTransaction'')),
                           (''401'', problem_doc ''Unauthorized''),
                           (''404'', problem_doc ''Not Found'')])])]"

definition doc_paths :: "(string \<times> json) list" where
  "doc_paths =
     [(''/v1/accounts'', doc_accounts),
      (''/v1/accounts/{id}'', doc_account),
      (''/v1/accounts/{id}/balance'', doc_balance),
      (''/v1/auth/login'', doc_login),
      (''/v1/auth/logout'', doc_logout),
      (''/v1/auth/me'', doc_me),
      (''/v1/health'', doc_health),
      (''/v1/transactions'', doc_transactions),
      (''/v1/transactions/{id}'', doc_transaction)]"

section \<open>Definitions\<close>

definition def_InvalidParam :: json where
  "def_InvalidParam =
     JObj [(''type'', JStr ''object''),
           (''properties'', JObj [(''name'', typed ''string''), (''reason'', typed ''string'')])]"

definition def_LoginRequest :: json where
  "def_LoginRequest =
     JObj [(''type'', JStr ''object''), (''properties'', JObj [(''api_key'', typed ''string'')])]"

definition def_LoginResponse :: json where
  "def_LoginResponse =
     JObj [(''type'', JStr ''object''), (''properties'', JObj [(''role'', typed ''string'')])]"

definition def_MeResponse :: json where
  "def_MeResponse =
     JObj [(''type'', JStr ''object''), (''properties'', JObj [(''role'', typed ''string'')])]"

definition def_ProblemDetail :: json where
  "def_ProblemDetail =
     JObj [(''type'', JStr ''object''),
           (''properties'',
             JObj [(''detail'',
                     JObj [(''description'',
                             JStr ''Detail is a human-readable explanation specific to this occurrence.''),
                           (''type'', JStr ''string'')]),
                   (''instance'',
                     JObj [(''description'',
                             JStr ''Instance is a URI reference that identifies the specific occurrence.''),
                           (''type'', JStr ''string'')]),
                   (''invalid_params'',
                     JObj [(''description'',
                             JStr ''InvalidParams lists parameters that failed validation (RFC 9457 extension).''),
                           (''type'', JStr ''array''),
                           (''items'', ref_to ''internal_api.InvalidParam'')]),
                   (''status'',
                     JObj [(''description'',
                             JStr ''Status is the HTTP status code generated by the origin server.''),
                           (''type'', JStr ''integer'')]),
                   (''title'',
                     JObj [(''description'',
                             JStr ''Title is a short, human-readable summary of the problem type.''),
                           (''type'', JStr ''string'')]),
                   (''trace_id'',
                     JObj [(''description'',
                             JStr ''TraceID is the distributed trace identifier for this request.''),
                           (''type'', JStr ''string'')]),
                   (''type'',
                     JObj [(''description'',
                             JStr ''Type is a URI reference that identifies the problem type.''),
                           (''type'', JStr ''string'')])])]"

definition def_swaggAccount :: json where
  "def_swaggAccount =
     JObj [(''type'', JStr ''object''),
           (''properties'',
             JObj [(''created_at'', typed ''string''), (''currency'', typed ''string''),
                   (''description'', typed ''string''), (''id'', typed ''integer''),
                   (''name'', typed ''string''), (''type'', typed ''string'')])]"

definition def_swaggTransaction :: json where
  "def_swaggTransaction =
     JObj [(''type'', JStr ''object''),
           (''properties'',
             JObj [(''created_at'', typed ''string''), (''description'', typed ''string''),
                   (''id'', typed ''string''), (''idempotency_key'', typed ''string'')])]"

definition def_AccountType :: json where
  "def_AccountType =
     JObj [(''type'', JStr ''string''),
           (''enum'',
             JArr [JStr ''asset'', JStr ''liability'', JStr ''equity'', JStr ''revenue'',
                   JStr ''expense'']),
           (''x-enum-varnames'',
             JArr [JStr ''AccountTypeAsset'', JStr ''AccountTypeLiability'',
                   JStr ''AccountTypeEquity'', JStr ''AccountTypeRevenue'',
                   JStr ''AccountTypeExpense''])]"

definition def_PostingDirection :: json where
  "def_PostingDirection =
     JObj [(''type'', JStr ''string''), (''enum'', JArr [JStr ''debit'', JStr ''credit'']),
           (''x-enum-varnames'',
             JArr [JStr ''PostingDirectionDebit'', JStr ''PostingDirectionCredit''])]"

definition def_BalanceResponse :: json where
  "def_BalanceResponse =
     JObj [(''type'', JStr ''object''),
           (''properties'',
             JObj [(''account_id'', typed ''integer''), (''currency'', typed ''string''),
                   (''net_balance'', typed ''integer''), (''total_credits'', typed ''integer''),
                   (''total_debits'', typed ''integer'')])]"

definition def_CreateAccountRequest :: json where
  "def_CreateAccountRequest =
     JObj [(''type'', JStr ''object''),
           (''properties'',
             JObj [(''account_name'', typed ''string''),
                   (''account_type'', ref_to ''ledger_pro_internal_db.AccountType''),
                   (''currency'', typed ''string''),
                   (''metadata'', array_of (typed ''integer''))])]"

definition def_CreateTransactionRequest :: json where
  "def_CreateTransactionRequest =
     JObj [(''type'', JStr ''object''),
           (''properties'',
             JObj [(''description'', typed ''string''), (''idempotency_key'', typed ''string''),
                   (''metadata'', array_of (typed ''integer'')),
                   (''postings'',
                     array_of (ref_to ''ledger_pro_internal_service.PostingEntry''))])]"

definition def_PostingEntry :: json where
  "def_PostingEntry =
     JObj [(''type'', JStr ''object''),
           (''properties'',
             JObj [(''account_id'', typed ''integer''), (''amount'', typed ''integer''),
                   (''direction'', ref_to ''ledger_pro_internal_db.PostingDirection'')])]"

definition doc_definitions :: "(string \<times> json) list" where
  "doc_definitions =
     [(''internal_api.InvalidParam'', def_InvalidParam),
      (''internal_api.LoginRequest'', def_LoginRequest),
      (''internal_api.LoginResponse'', def_LoginResponse),
      (''internal_api.MeResponse'', def_MeResponse),
      (''internal_api.ProblemDetail'', def_ProblemDetail),
      (''internal_api.swaggAccount'', def_swaggAccount),
      (''internal_api.swaggTransaction'', def_swaggTransaction),
      (''ledger_pro_internal_db.AccountType'', def_AccountType),
      (''ledger_pro_internal_db.PostingDirection'', def_PostingDirection),
      (''ledger_pro_internal_service.BalanceResponse'', def_BalanceResponse),
      (''ledger_pro_internal_service.CreateAccountRequest'', def_CreateAccountRequest),
      (''ledger_pro_internal_service.CreateTransactionRequest'', def_CreateTransactionRequest),
      (''ledger_pro_internal_service.PostingEntry'', def_PostingEntry)]"

section \<open>The document\<close>

record swag_Spec =
  sw_Version :: string
  sw_Host :: string
  sw_BasePath :: string
  sw_Schemes :: "string list"
  sw_Title :: string
  sw_Description :: string

definition SwaggerInfo :: swag_Spec where
  "SwaggerInfo =
     \<lparr>sw_Version = ''1.0'', sw_Host = ''ledger-pro-api.onrender.com'', sw_BasePath = ''/'',
      sw_Schemes = [], sw_Title = ''LedgerPro API'',
      sw_Description = ''A FAANG-grade double-entry ledger system.''\<rparr>"

definition docTemplate :: "swag_Spec \<Rightarrow> json" where
  "docTemplate i =
     JObj [(''schemes'', JArr (map JStr (sw_Schemes i))), (''swagger'', JStr ''2.0''),
           (''info'', JObj [(''description'', JStr (sw_Description i)), (''title'', JStr (sw_Title i)),
                          (''contact'', JObj []), (''version'', JStr (sw_Version i))]),
           (''host'', JStr (sw_Host i)), (''basePath'', JStr (sw_BasePath i)),
           (''paths'', JObj doc_paths), (''definitions'', JObj doc_definitions),
           (''securityDefinitions'',
             JObj [(''ApiKeyAuth'', JObj [(''type'', JStr ''apiKey''), (''name'', JStr ''X-API-Key''),
                                         (''in'', JStr ''header'')])])]"

section \<open>Reading it\<close>

fun jfield :: "string \<Rightarrow> json \<Rightarrow> json option" where
  "jfield k (JObj kvs) = map_of kvs k"
| "jfield k j = None"

fun members :: "json option \<Rightarrow> (string \<times> json) list" where
  "members (Some (JObj kvs)) = kvs"
| "members j = []"

fun elements :: "json option \<Rightarrow> json list" where
  "elements (Some (JArr js)) = js"
| "elements j = []"

text \<open>The operations: path, method, description of the operation.\<close>

definition operations :: "json \<Rightarrow> (string \<times> string \<times> json) list" where
  "operations doc =
     concat (map (\<lambda>(p, item). map (\<lambda>(m, op). (p, m, op)) (members (Some item)))
       (members (jfield ''paths'' doc)))"

definition operation :: "json \<Rightarrow> string \<Rightarrow> string \<Rightarrow> json option" where
  "operation doc p m =
     (case jfield ''paths'' doc of
        Some ps \<Rightarrow> (case jfield p ps of Some item \<Rightarrow> jfield m item | None \<Rightarrow> None)
      | None \<Rightarrow> None)"

definition documented_statuses :: "json \<Rightarrow> string list" where
  "documented_statuses op = map fst (members (jfield ''responses'' op))"

definition response_schema :: "json \<Rightarrow> string \<Rightarrow> json option" where
  "response_schema op st =
     (case jfield ''responses'' op of
        Some rs \<Rightarrow> (case jfield st rs of Some r \<Rightarrow> jfield ''schema'' r | None \<Rightarrow> None)
      | None \<Rightarrow> None)"

text \<open>
  A value against a schema, following \<^verbatim>\<open>$ref\<close> at most \<open>n\<close> steps deep (8 is more than the document
  nests). No schema of the document lists required properties.
\<close>

fun conforms :: "nat \<Rightarrow> (string \<times> json) list \<Rightarrow> json \<Rightarrow> json \<Rightarrow> bool" where
  "conforms 0 defs sch v = False"
| "conforms (Suc n) defs sch v =
     (case jfield ''$ref'' sch of
        Some (JStr r) \<Rightarrow>
          (case map_of defs (TrimPrefix r ''#/definitions/'') of
             Some sch' \<Rightarrow> conforms n defs sch' v
           | None \<Rightarrow> False)
      | _ \<Rightarrow>
          (case jfield ''type'' sch of
             Some (JStr t) \<Rightarrow>
               if t = ''string'' then
                 (case v of
                    JStr s \<Rightarrow> (case jfield ''enum'' sch of
                                Some e \<Rightarrow> JStr s \<in> set (elements (Some e))
                              | None \<Rightarrow> True)
                  | _ \<Rightarrow> False)
               else if t = ''integer'' then (case v of JInt i \<Rightarrow> True | _ \<Rightarrow> False)
               else if t = ''array'' then
                 (case (v, jfield ''items'' sch) of
                    (JArr vs, Some it) \<Rightarrow> list_all (conforms n defs it) vs
                  | _ \<Rightarrow> False)
               else if t = ''object'' then
                 (case v of
                    JObj kvs \<Rightarrow>
                      list_all (\<lambda>(k, x).
                        case map_of (members (jfield ''properties'' sch)) k of
                          Some p \<Rightarrow> conforms n defs p x
                        | None \<Rightarrow> (case jfield ''additionalProperties'' sch of
                                    Some p \<Rightarrow> conforms n defs p x
                                  | None \<Rightarrow> True)) kvs
                  | _ \<Rightarrow> False)
               else False
           | _ \<Rightarrow> True))"

definition the_api :: json where
  "the_api = docTemplate SwaggerInfo"

definition valid :: "json \<Rightarrow> json \<Rightarrow> bool" where
  "valid sch v = conforms 8 doc_definitions sch v"

end
