(* ===== verification/Documented.thy ===== *)
theory Documented
  imports Answers Docs
begin

text \<open>
  The published API document (\<open>Docs\<close>) against the routes, handlers and encoders of the program: which
  routes are documented, which statuses and bodies a documented operation really has.
\<close>

section \<open>Routes\<close>

definition http_method :: "string \<Rightarrow> string" where
  "http_method m = (if m = ''get'' then ''GET'' else if m = ''post'' then ''POST'' else m)"

definition documents :: "string \<times> string \<times> json \<Rightarrow> route \<Rightarrow> bool" where
  "documents op rt \<longleftrightarrow>
     (case op of (p, m, j) \<Rightarrow>
        rt_Method rt = http_method m \<and> (rt_Pattern rt = p \<or> rt_Pattern rt = p @ ''/''))"

definition endpoint_of :: "string \<times> string \<times> json \<Rightarrow> endpoint option" where
  "endpoint_of op = map_option rt_Endpoint (List.find (documents op) routes)"

fun refs :: "json \<Rightarrow> string list" where
  "refs (JObj kvs) =
     concat (map (\<lambda>(k, v). (case (k = ''$ref'', v) of (True, JStr r) \<Rightarrow> [r] | _ \<Rightarrow> []) @ refs v) kvs)"
| "refs (JArr vs) = concat (map refs vs)"
| "refs v = []"

text \<open>The names in braces of a path template, and the path parameters an operation declares.\<close>

fun path_variables :: "string \<Rightarrow> string list" where
  "path_variables [] = []"
| "path_variables (c # cs) =
     (if c = CHR ''{'' then [takeWhile (\<lambda>d. d \<noteq> CHR ''}'') cs] else []) @ path_variables cs"

definition path_parameters :: "json \<Rightarrow> string list" where
  "path_parameters op =
     concat (map (\<lambda>p. case (jfield ''in'' p, jfield ''name'' p, jfield ''required'' p) of
         (Some (JStr i), Some (JStr n), Some (JBool True)) \<Rightarrow> if i = ''path'' then [n] else []
       | _ \<Rightarrow> []) (elements (jfield ''parameters'' op)))"

definition open_operations :: "json \<Rightarrow> (string \<times> string) list" where
  "open_operations doc =
     map (\<lambda>(p, m, op). (p, m)) (filter (\<lambda>(p, m, op). jfield ''security'' op = None) (operations doc))"

text \<open>
  The published document and the route table. Every documented operation is a route (up to the
  final slash go-chi accepts either way) and declares exactly the variables of its path as required
  path parameters; every \<^verbatim>\<open>$ref\<close> has its definition. Five routes are not documented: the Swagger UI,
  signup, the postings of an account, and both document routes. Of the operations documented as open,
  login and health are, but logout is not: with API keys configured it is answered 401 without a
  session or key.
\<close>

theorem documented_routes:
  "list_all (\<lambda>op. \<exists>rt \<in> set routes. documents op rt) (operations the_api)
   \<and> list_all (\<lambda>(p, m, op). path_parameters op = path_variables p) (operations the_api)
   \<and> list_all (\<lambda>r. map_of doc_definitions (TrimPrefix r ''#/definitions/'') \<noteq> None) (refs the_api)
   \<and> map rt_Endpoint (filter (\<lambda>rt. \<not> list_ex (\<lambda>op. documents op rt) (operations the_api)) routes)
       = [ESwagger, ESignup, EGetAccountPostings, EAttachDocument, EListTransactionDocuments]
   \<and> open_operations the_api
       = [(''/v1/auth/login'', ''post''), (''/v1/auth/logout'', ''post''), (''/v1/health'', ''get'')]
   \<and> map (is_public \<circ> fst) (open_operations the_api) = [True, False, True]
   \<and> wr_Status (fst (APIKeyAuthMiddleware A h E
       (r\<lparr>rq_Path := ''/v1/auth/logout'', rq_Cookie := \<lambda>_. None, rq_Header := \<lambda>_. ''''\<rparr>)
       (new_writer, s))) = Some 401"
proof (intro conjI)
  show "wr_Status (fst (APIKeyAuthMiddleware A h E
       (r\<lparr>rq_Path := ''/v1/auth/logout'', rq_Cookie := \<lambda>_. None, rq_Header := \<lambda>_. ''''\<rparr>)
       (new_writer, s))) = Some 401"
    by (simp add: APIKeyAuthMiddleware_def is_public_def publicPaths_def HasPrefix_def cookie_session_def
      presented_key_def new_writer_def problem_defs)
qed (code_simp)+

section \<open>Statuses\<close>

text \<open>The statuses a handler answers with, behind the middleware.\<close>

fun handler_statuses :: "endpoint \<Rightarrow> nat list" where
  "handler_statuses EHealthCheck = [200, 503]"
| "handler_statuses ESwagger = []"
| "handler_statuses ELogin = [200, 400, 401, 500]"
| "handler_statuses ESignup = [201, 400, 409, 500]"
| "handler_statuses ELogout = [204]"
| "handler_statuses EMe = [200, 401]"
| "handler_statuses ECreateAccount = [201, 400, 422, 500]"
| "handler_statuses EListAccounts = [200, 400, 500]"
| "handler_statuses EGetAccount = [200, 400, 404, 500]"
| "handler_statuses EGetAccountBalance = [200, 400, 404, 500]"
| "handler_statuses EGetAccountPostings = [200, 400, 500]"
| "handler_statuses ECreateTransaction = [201, 400, 422, 500, 503]"
| "handler_statuses EAttachDocument = [201, 400, 404, 500]"
| "handler_statuses EListTransactions = [200, 400, 500]"
| "handler_statuses EGetTransaction = [200, 400, 404, 500]"
| "handler_statuses EListTransactionDocuments = [200, 400, 500]"

lemma CreateTransaction_error_kinds:
  assumes "check_request req = None" and "CreateTransaction F R ttl E T req v = (Inl err, v')"
  shows "err = Sentinel ErrLockAcquisitionFailed \<or> (\<forall>x. \<not> errors_Is err x)"
  using assms write_transaction_error [of F E T req]
  by (auto simp: CreateTransaction_def under_lock_def Let_def
      split: option.splits prod.splits sum.splits)

lemma CreateTransactionHandler_status:
  assumes "wr_Status w = None"
  shows "wr_Status (fst (CreateTransactionHandler A E r (w, s))) \<in> Some ` {201, 400, 422, 500, 503}"
proof (cases "unmarshal_CreateTransactionRequest (rq_Body r)")
  case None
  then show ?thesis using assms by (simp add: CreateTransactionHandler_def)
next
  case (Some body)
  let ?req = "keyed_request r body"
  obtain res v where c: "CreateTransaction (ap_F A) (ap_R A) (ap_idempotencyTTL A) (re_call E)
      (GetTenantID (rq_Context r)) ?req (sv_world s) = (res, v)" by fastforce
  show ?thesis
  proof (cases "ValidateCreateTransactionRequest ?req = []")
    case False
    then show ?thesis using assms Some
      by (simp add: CreateTransactionHandler_def keyed_request_def HasErrors_def)
  next
    case True
    then have chk: "check_request ?req = None"
      by (simp add: ValidateCreateTransactionRequest_iff accepted_check)
    have "pd_Status (transaction_problem err) \<in> {500, 503}" if "res = Inl err" for err
      using CreateTransaction_error_kinds [OF chk c [unfolded that]]
      by (auto simp: transaction_problem_def problem_defs)
    with True c Some assms show ?thesis
      by (cases res) (auto simp: CreateTransactionHandler_def keyed_request_def HasErrors_def)
  qed
qed

lemma more_problem_statuses [simp]:
  "pd_Status (AccountNotFound m) = 404" "pd_Status (TransactionNotFound m) = 404"
  "pd_Status (Unauthorized m) = 401" "pd_Status (NewProblem a b st m) = st"
  "pd_Status (WithInvalidParams p ps) = pd_Status p"
  by (simp_all add: problem_defs)

lemma writer_status [simp]:
  "wr_Status (SetCookie c w) = wr_Status w"
  "wr_Status w = None \<Longrightarrow> wr_Status (WriteHeader st w) = Some st"
  by (simp_all add: SetCookie_def WriteHeader_def)

lemma open_session_status:
  "wr_Status w = None
    \<Longrightarrow> wr_Status (fst (open_session A E r st role T (w, s))) \<in> {Some st, Some 500}"
  by (auto simp: open_session_def split: prod.splits sum.splits)

lemma handler_status:
  assumes "wr_Status w = None" "e \<noteq> ESwagger"
  shows "wr_Status (fst (endpoint_handler ch A e E r (w, s))) \<in> Some ` set (handler_statuses e)"
proof (cases e)
  case ELogin
  then show ?thesis
    using assms open_session_status [OF assms(1), of A E r 200 _ _ s]
    by (auto simp: LoginHandler_def split: option.splits sum.splits)
next
  case ESignup
  then show ?thesis
    using assms open_session_status [OF assms(1), of A E r 201]
    by (auto simp: SignupHandler_def split: option.splits sum.splits prod.splits)
next
  case ECreateTransaction
  then show ?thesis using CreateTransactionHandler_status [OF assms(1)] by auto
qed (use assms in \<open>auto simp: HealthCheck_def LogoutHandler_def MeHandler_def CreateAccountHandler_def
  ListAccountsHandler_def GetAccountHandler_def GetAccountBalanceHandler_def
  GetAccountPostingsHandler_def AttachDocumentHandler_def ListTransactionsHandler_def
  GetTransactionHandler_def ListTransactionDocumentsHandler_def bad_account_id_def no_account_def
  page_size_problem_def bad_document_id_def Let_def
  split: option.splits sum.splits prod.splits\<close>)

text \<open>
  What the document promises of the statuses: for each operation, the statuses its handler sends that
  are not documented, and the documented ones it never sends (401 is the middleware's for all but
  login and me, where the handler sends it too).
\<close>

definition status_gap :: "string \<times> string \<times> json \<Rightarrow> nat list \<times> string list" where
  "status_gap op =
     (case (op, endpoint_of op) of
        ((p, m, j), Some e) \<Rightarrow>
          (filter (\<lambda>st. show_nat st \<notin> set (documented_statuses j)) (handler_statuses e),
           filter (\<lambda>st. st \<notin> set (map show_nat (handler_statuses e)) \<and> st \<noteq> ''401'')
             (documented_statuses j))
      | _ \<Rightarrow> ([], []))"


section \<open>Bodies\<close>

text \<open>The body of an answer against the schema documented for it.\<close>

definition body_ok :: "string \<Rightarrow> string \<Rightarrow> string \<Rightarrow> json \<Rightarrow> bool" where
  "body_ok p m st j =
     (case operation the_api p m of
        Some op \<Rightarrow> (case response_schema op st of Some sch \<Rightarrow> valid sch j | None \<Rightarrow> False)
      | None \<Rightarrow> False)"

lemma conforms_ref:
  "map_of defs n = Some sch \<Longrightarrow> conforms (Suc k) defs (ref_to n) v = conforms k defs sch v"
  by (simp add: ref_to_def TrimPrefix_def HasPrefix_def)

lemma conforms_typed:
  "conforms (Suc k) defs (typed ''string'') v \<longleftrightarrow> (\<exists>t. v = JStr t)"
  "conforms (Suc k) defs (typed ''integer'') v \<longleftrightarrow> (\<exists>i. v = JInt i)"
  by (cases v; simp add: typed_def)+

lemma conforms_array:
  "conforms (Suc k) defs (array_of sch) v \<longleftrightarrow> (\<exists>vs. v = JArr vs \<and> list_all (conforms k defs sch) vs)"
  by (cases v; simp add: array_of_def)

lemma conforms_object:
  "conforms (Suc k) defs (JObj [(''type'', JStr ''object''), (''properties'', JObj ps)]) v
     \<longleftrightarrow> (\<exists>kvs. v = JObj kvs \<and> (\<forall>(n, x) \<in> set kvs.
           case map_of ps n of Some p \<Rightarrow> conforms k defs p x | None \<Rightarrow> True))"
  by (cases v; simp add: list_all_iff cong: option.case_cong)

lemma conforms_map:
  "conforms (Suc k) defs (JObj [(''type'', JStr ''object''), (''additionalProperties'', sch)]) v
     \<longleftrightarrow> (\<exists>kvs. v = JObj kvs \<and> (\<forall>(n, x) \<in> set kvs. conforms k defs sch x))"
  by (cases v; simp add: list_all_iff)

lemma conforms_described:
  "conforms (Suc k) defs (JObj [(''description'', d), (''type'', JStr ''string'')]) v \<longleftrightarrow> (\<exists>t. v = JStr t)"
  "conforms (Suc k) defs (JObj [(''description'', d), (''type'', JStr ''integer'')]) v \<longleftrightarrow> (\<exists>i. v = JInt i)"
  "conforms (Suc k) defs (JObj [(''description'', d), (''type'', JStr ''array''), (''items'', sch)]) v
     \<longleftrightarrow> (\<exists>vs. v = JArr vs \<and> list_all (conforms k defs sch) vs)"
  by (cases v; simp)+

lemmas conforms_rules =
  conforms_ref conforms_typed conforms_array conforms_object conforms_map conforms_described

lemma definitions_lookup:
  "map_of doc_definitions ''internal_api.swaggAccount'' = Some def_swaggAccount"
  "map_of doc_definitions ''internal_api.swaggTransaction'' = Some def_swaggTransaction"
  "map_of doc_definitions ''internal_api.ProblemDetail'' = Some def_ProblemDetail"
  "map_of doc_definitions ''internal_api.InvalidParam'' = Some def_InvalidParam"
  "map_of doc_definitions ''internal_api.LoginResponse'' = Some def_LoginResponse"
  "map_of doc_definitions ''internal_api.MeResponse'' = Some def_MeResponse"
  "map_of doc_definitions ''ledger_pro_internal_service.BalanceResponse'' = Some def_BalanceResponse"
  by (simp_all add: doc_definitions_def)

lemma schema_of_body:
  assumes "operation the_api p m = Some op" "response_schema op st = Some sch"
  shows "body_ok p m st j \<longleftrightarrow> conforms 8 doc_definitions sch j"
  using assms by (simp add: body_ok_def valid_def)

text \<open>\<^verbatim>\<open>problem_ok\<close>: every problem document fits the schema all documented errors refer to.\<close>

lemma eight: "(8::nat) = Suc (Suc (Suc (Suc (Suc (Suc (Suc (Suc 0)))))))"
  by simp

lemma problem_conforms:
  "conforms 8 doc_definitions (ref_to ''internal_api.ProblemDetail'') (encode_ProblemDetail p)"
  unfolding eight
  by (auto simp: conforms_rules definitions_lookup def_ProblemDetail_def def_InvalidParam_def
    encode_ProblemDetail_def encode_InvalidParam_def omit_empty_def list_all_iff simp del: conforms.simps)

lemma account_conforms:
  "conforms 8 doc_definitions (ref_to ''internal_api.swaggAccount'')
     (encode_Account F txt (a\<lparr>acc_CreatedAt := Some t\<rparr>))"
  unfolding eight
  by (simp add: conforms_rules definitions_lookup def_swaggAccount_def encode_Account_def
    encode_int64_def del: conforms.simps)

lemma transaction_conforms:
  "conforms 8 doc_definitions (ref_to ''internal_api.swaggTransaction'')
     (encode_TransactionResponse F (x\<lparr>tr_CreatedAt := Some t\<rparr>))"
  unfolding eight
  by (simp add: conforms_rules definitions_lookup def_swaggTransaction_def encode_TransactionResponse_def
    encode_uuid_def del: conforms.simps)

lemma balance_conforms:
  "conforms 8 doc_definitions (ref_to ''ledger_pro_internal_service.BalanceResponse'')
     (encode_BalanceResponse b)"
  unfolding eight
  by (simp add: conforms_rules definitions_lookup def_BalanceResponse_def encode_BalanceResponse_def
    encode_int64_def del: conforms.simps)

lemma role_conforms:
  "conforms 8 doc_definitions (ref_to ''internal_api.LoginResponse'') (encode_role role)"
  "conforms 8 doc_definitions (ref_to ''internal_api.MeResponse'') (encode_role role)"
  unfolding eight
  by (simp_all add: conforms_rules definitions_lookup def_LoginResponse_def def_MeResponse_def
    encode_role_def del: conforms.simps)

text \<open>The schemas documented for the answers.\<close>

definition success_schemas :: "(string \<times> string \<times> string \<times> json) list" where
  "success_schemas =
     [(''/v1/accounts'', ''get'', ''200'', array_of (ref_to ''internal_api.swaggAccount'')),
      (''/v1/accounts'', ''post'', ''201'', ref_to ''internal_api.swaggAccount''),
      (''/v1/accounts/{id}'', ''get'', ''200'', ref_to ''internal_api.swaggAccount''),
      (''/v1/accounts/{id}/balance'', ''get'', ''200'',
        ref_to ''ledger_pro_internal_service.BalanceResponse''),
      (''/v1/auth/login'', ''post'', ''200'', ref_to ''internal_api.LoginResponse''),
      (''/v1/auth/me'', ''get'', ''200'', ref_to ''internal_api.MeResponse''),
      (''/v1/health'', ''get'', ''200'',
        JObj [(''type'', JStr ''object''), (''additionalProperties'', typed ''string'')]),
      (''/v1/transactions'', ''get'', ''200'', array_of (ref_to ''internal_api.swaggTransaction'')),
      (''/v1/transactions'', ''post'', ''201'', ref_to ''internal_api.swaggTransaction''),
      (''/v1/transactions/{id}'', ''get'', ''200'', ref_to ''internal_api.swaggTransaction'')]"

definition is_success :: "string \<Rightarrow> bool" where
  "is_success st \<longleftrightarrow> st \<in> {''200'', ''201'', ''204''}"

text \<open>All answers of the document that have a schema: operation, status, schema.\<close>

definition documented_answers :: "json \<Rightarrow> (string \<times> string \<times> string \<times> json) list" where
  "documented_answers doc =
     concat (map (\<lambda>(p, m, op).
         concat (map (\<lambda>st. case response_schema op st of Some sch \<Rightarrow> [(p, m, st, sch)] | None \<Rightarrow> [])
           (documented_statuses op)))
       (operations doc))"

lemma documented_success:
  "filter (\<lambda>(p, m, st, sch). is_success st) (documented_answers the_api) = success_schemas"
  by code_simp

lemma documented_problems:
  "list_all (\<lambda>(p, m, st, sch). is_success st \<or> sch = ref_to ''internal_api.ProblemDetail'')
     (documented_answers the_api)"
  by code_simp

lemma answers_are_schemas:
  "list_all (\<lambda>(p, m, st, sch).
      (case operation the_api p m of Some op \<Rightarrow> response_schema op st | None \<Rightarrow> None) = Some sch)
     (documented_answers the_api)"
  by code_simp

lemma body_ok_iff:
  assumes "(p, m, st, sch) \<in> set (documented_answers the_api)"
  shows "body_ok p m st j \<longleftrightarrow> conforms 8 doc_definitions sch j"
  using assms answers_are_schemas
  by (fastforce simp: body_ok_def valid_def list_all_iff split: option.splits)

lemma success_body:
  assumes "(p, m, st, sch) \<in> set success_schemas"
  shows "body_ok p m st j \<longleftrightarrow> conforms 8 doc_definitions sch j"
  using assms by (intro body_ok_iff) (simp flip: documented_success)

lemma array_no_object: "\<not> conforms 8 defs (array_of sch) (JObj kvs)"
  unfolding eight by (simp add: conforms_array del: conforms.simps)

lemma fresh_bodies [simp]:
  "wr_Body new_writer = []"
  "wr_Body (WriteProblem r p new_writer) = [encode_ProblemDetail (completed_problem r p)]"
  by (simp_all add: WriteProblem_def Let_def write_body_def new_writer_def WriteHeader_def SetHeader_def)

lemma list_bodies:
  "\<exists>kvs. wr_Body (fst (ListAccountsHandler A E r (new_writer, s))) = [JObj kvs]"
  "\<exists>kvs. wr_Body (fst (ListTransactionsHandler A E r (new_writer, s))) = [JObj kvs]"
  by (auto simp: ListAccountsHandler_def ListTransactionsHandler_def Let_def encode_ProblemDetail_def
      split: option.splits sum.splits)

definition health_doc :: "request_env \<Rightarrow> json" where
  "health_doc E =
     (let ok = (re_pg_ping E = None \<and> re_redis_ping E = None) in
      JObj [(''status'', JStr (if ok then ''healthy'' else ''degraded'')),
            (''service'', JStr ''ledger_pro''), (''version'', JStr ''2.0.0''),
            (''uptime'', JStr (re_latency E ''uptime'')), (''dependencies'', JObj (health_deps E))])"

lemma health_body: "wr_Body (fst (HealthCheck A E r (new_writer, s))) = [health_doc E]"
  by (simp add: HealthCheck_def health_doc_def Let_def)

lemma health_does_not_conform:
  "\<not> conforms 8 defs (JObj [(''type'', JStr ''object''), (''additionalProperties'', typed ''string'')])
     (health_doc E)"
  "\<not> conforms 8 doc_definitions (ref_to ''internal_api.ProblemDetail'') (health_doc E)"
  unfolding eight
  by (simp_all add: health_doc_def Let_def conforms_rules definitions_lookup def_ProblemDetail_def
    del: conforms.simps)

lemma health_503:
  "body_ok ''/v1/health'' ''get'' ''503'' j
     \<longleftrightarrow> conforms 8 doc_definitions (ref_to ''internal_api.ProblemDetail'') j"
proof (rule body_ok_iff)
  have "list_ex (\<lambda>x. x = (''/v1/health'', ''get'', ''503'', ref_to ''internal_api.ProblemDetail''))
      (documented_answers the_api)"
    by code_simp
  then show "(''/v1/health'', ''get'', ''503'', ref_to ''internal_api.ProblemDetail'')
      \<in> set (documented_answers the_api)"
    by (simp add: list_ex_iff)
qed

lemmas conforming =
  account_conforms transaction_conforms balance_conforms role_conforms problem_conforms

lemma success_bodies:
  "body_ok ''/v1/accounts'' ''post'' ''201'' j
     \<longleftrightarrow> conforms 8 doc_definitions (ref_to ''internal_api.swaggAccount'') j"
  "body_ok ''/v1/accounts/{id}'' ''get'' ''200'' j
     \<longleftrightarrow> conforms 8 doc_definitions (ref_to ''internal_api.swaggAccount'') j"
  "body_ok ''/v1/accounts/{id}/balance'' ''get'' ''200'' j
     \<longleftrightarrow> conforms 8 doc_definitions (ref_to ''ledger_pro_internal_service.BalanceResponse'') j"
  "body_ok ''/v1/transactions'' ''post'' ''201'' j
     \<longleftrightarrow> conforms 8 doc_definitions (ref_to ''internal_api.swaggTransaction'') j"
  "body_ok ''/v1/transactions/{id}'' ''get'' ''200'' j
     \<longleftrightarrow> conforms 8 doc_definitions (ref_to ''internal_api.swaggTransaction'') j"
  "body_ok ''/v1/auth/login'' ''post'' ''200'' j
     \<longleftrightarrow> conforms 8 doc_definitions (ref_to ''internal_api.LoginResponse'') j"
  "body_ok ''/v1/auth/me'' ''get'' ''200'' j
     \<longleftrightarrow> conforms 8 doc_definitions (ref_to ''internal_api.MeResponse'') j"
  "body_ok ''/v1/accounts'' ''get'' ''200'' j
     \<longleftrightarrow> conforms 8 doc_definitions (array_of (ref_to ''internal_api.swaggAccount'')) j"
  "body_ok ''/v1/transactions'' ''get'' ''200'' j
     \<longleftrightarrow> conforms 8 doc_definitions (array_of (ref_to ''internal_api.swaggTransaction'')) j"
  "body_ok ''/v1/health'' ''get'' ''200'' j
     \<longleftrightarrow> conforms 8 doc_definitions
           (JObj [(''type'', JStr ''object''), (''additionalProperties'', typed ''string'')]) j"
  by (rule success_body, simp add: success_schemas_def)+

lemma all_problems_ok:
  "list_all (\<lambda>(p, m, st, sch). is_success st \<or> body_ok p m st (encode_ProblemDetail pd))
     (documented_answers the_api)"
  using documented_problems body_ok_iff problem_conforms
  by (fastforce simp: list_all_iff)


end
