(* ===== verification/Steps.thy ===== *)
theory Steps
  imports Prelude
begin

text \<open>
  Programs as sequences of atomic calls on a shared state, to interleave them: what a program does
  next depends on the answer of its last call. \<open>run\<close> is the program alone; \<open>safe\<close> is the program
  among others, in the style of rely and guarantee: between any two of its calls the state may change
  by \<open>R\<close>, as long as the invariant \<open>I\<close> holds, and its own calls keep both.
\<close>

datatype ('s, 'a) prog = Return 'a | Act "'s \<Rightarrow> ('s, 'a) prog \<times> 's"

primrec run :: "('s, 'a) prog \<Rightarrow> 's \<Rightarrow> 'a \<times> 's" where
  "run (Return a) = (\<lambda>s. (a, s))"
| "run (Act f) = (\<lambda>s. case (map_prod run id \<circ> f) s of (k, s') \<Rightarrow> k s')"

primrec bind :: "('s, 'a) prog \<Rightarrow> ('a \<Rightarrow> ('s, 'b) prog) \<Rightarrow> ('s, 'b) prog" where
  "bind (Return a) k = k a"
| "bind (Act f) k = Act (map_prod (\<lambda>p. bind p k) id \<circ> f)"

text \<open>One call, and then nothing.\<close>

definition act :: "('s \<Rightarrow> 'a \<times> 's) \<Rightarrow> ('s, 'a) prog" where
  "act f = Act (map_prod Return id \<circ> f)"

lemma run_bind: "run (bind p k) s = (case run p s of (a, s') \<Rightarrow> run (k a) s')"
proof (induction p arbitrary: s)
  case (Act f)
  obtain q s1 where f: "f s = (q, s1)" by fastforce
  have "q \<in> Basic_BNFs.fsts (f s)" by (simp add: f)
  from Act [OF rangeI this] show ?case by (simp add: f)
qed simp

lemma run_act [simp]: "run (act f) s = f s"
  by (cases "f s") (simp add: act_def)

primrec safe ::
  "('s \<Rightarrow> bool) \<Rightarrow> ('s \<Rightarrow> 's \<Rightarrow> bool) \<Rightarrow> ('a \<Rightarrow> bool) \<Rightarrow> ('s, 'a) prog \<Rightarrow> 's \<Rightarrow> bool" where
  "safe I R Q (Return a) = (\<lambda>s. Q a)"
| "safe I R Q (Act f) = (\<lambda>s. \<forall>s1. I s1 \<longrightarrow> R s s1 \<longrightarrow>
     (case (map_prod (safe I R Q) id \<circ> f) s1 of (k, s2) \<Rightarrow> I s2 \<and> R s1 s2 \<and> k s2))"

lemma safe_Act:
  "safe I R Q (Act f) s \<longleftrightarrow> (\<forall>s1 k s2. I s1 \<longrightarrow> R s s1 \<longrightarrow> f s1 = (k, s2) \<longrightarrow>
     I s2 \<and> R s1 s2 \<and> safe I R Q k s2)"
  by (simp add: case_prod_unfold prod_eq_iff)

declare safe.simps(2) [simp del]

lemma bind_act: "bind (act f) k = Act (map_prod k id \<circ> f)"
  by (simp add: act_def comp_def map_prod_def case_prod_unfold)

locale rely =
  fixes I :: "'s \<Rightarrow> bool"
    and R :: "'s \<Rightarrow> 's \<Rightarrow> bool"
  assumes stays: "R s s"
    and goes_on: "R s s1 \<Longrightarrow> R s1 s2 \<Longrightarrow> R s s2"
begin

text \<open>What others do leaves a program safe.\<close>

lemma safe_stable:
  assumes "safe I R Q p s" and "R s s'"
  shows "safe I R Q p s'"
proof (cases p)
  case (Act f)
  then show ?thesis using assms(1) goes_on [OF assms(2)] unfolding Act safe_Act by blast
qed (use assms in simp)

text \<open>One step of a safe program.\<close>

lemma safe_step:
  assumes "safe I R Q (Act f) s" and "I s" and "f s = (k, s')"
  shows "I s' \<and> R s s' \<and> safe I R Q k s'"
  using assms stays unfolding safe_Act by blast

lemma safe_act:
  assumes "\<And>s1 a s2. I s1 \<Longrightarrow> R s s1 \<Longrightarrow> f s1 = (a, s2) \<Longrightarrow> I s2 \<and> R s1 s2 \<and> safe I R Q (k a) s2"
  shows "safe I R Q (bind (act f) k) s"
  unfolding bind_act safe_Act using assms by (simp add: case_prod_unfold prod_eq_iff)

lemma safe_bind:
  assumes "safe I R Q' p s" and "\<And>a s'. Q' a \<Longrightarrow> R s s' \<Longrightarrow> safe I R Q (k a) s'"
  shows "safe I R Q (bind p k) s"
  using assms
proof (induction p arbitrary: s)
  case (Return a)
  then show ?case using stays by simp
next
  case (Act f)
  have "I s2 \<and> R s1 s2 \<and> safe I R Q (bind q k) s2"
    if s1: "I s1" "R s s1" and f: "f s1 = (q, s2)" for s1 q s2
  proof -
    have q: "I s2" "R s1 s2" "safe I R Q' q s2"
      using Act.prems(1) s1 f unfolding safe_Act by blast+
    have R: "R s s2" using s1(2) q(2) by (rule goes_on)
    have "q \<in> Basic_BNFs.fsts (f s1)" by (simp add: f)
    from Act.IH [OF rangeI this q(3)] Act.prems(2) goes_on [OF R] have "safe I R Q (bind q k) s2"
      by blast
    with q show ?thesis by blast
  qed
  then show ?case unfolding bind.simps safe_Act by (simp add: case_prod_unfold prod_eq_iff)
qed

end

end
