(* ===== verification/Interleaving.thy ===== *)
theory Interleaving
  imports Lifecycle Steps
begin

text \<open>
  Requests and polls cut at every call of the database, Redis, the object store and the broker, and
  many of them interleaved: the handlers that make more than one such call again, as programs of
  atomic steps (\<open>Steps\<close>), the middleware around them, and the outbox worker. A database transaction
  and a statement outside one are single steps, and so are the Lua script, a pipeline of Redis and a
  PUT. Run alone, these programs are the handlers of \<open>Handlers\<close> and the poll of \<open>Outbox\<close>.
\<close>

section \<open>Calls\<close>

text \<open>The shared state: the server and the broker's channel.\<close>

type_synonym ('r, 'o, 'b, 'a) steps = "(('r, 'o) server \<times> 'b, 'a) prog"

definition on_server :: "(('r, 'o) server \<Rightarrow> 'a \<times> ('r, 'o) server) \<Rightarrow> ('r, 'o, 'b, 'a) steps" where
  "on_server f = act (\<lambda>(s, b). case f s of (a, s') \<Rightarrow> (a, (s', b)))"

definition on_db :: "(db \<Rightarrow> 'a \<times> db) \<Rightarrow> ('r, 'o, 'b, 'a) steps" where
  "on_db q = on_server (\<lambda>s. case q (sv_db s) of (a, d) \<Rightarrow> (a, set_db d s))"

definition reading :: "(db \<Rightarrow> 'a) \<Rightarrow> ('r, 'o, 'b, 'a) steps" where
  "reading q = on_server (\<lambda>s. (q (sv_db s), s))"

definition on_redis :: "('r \<Rightarrow> 'a \<times> 'r) \<Rightarrow> ('r, 'o, 'b, 'a) steps" where
  "on_redis c = on_server (\<lambda>s. case c (sv_redis s) of (a, rd) \<Rightarrow> (a, set_redis rd s))"

definition on_objects :: "('o \<Rightarrow> 'a \<times> 'o) \<Rightarrow> ('r, 'o, 'b, 'a) steps" where
  "on_objects c = on_server (\<lambda>s. case c (sv_objects s) of (a, ob) \<Rightarrow> (a, s\<lparr>sv_objects := ob\<rparr>))"

definition on_broker :: "('b \<Rightarrow> 'a \<times> 'b) \<Rightarrow> ('r, 'o, 'b, 'a) steps" where
  "on_broker c = act (\<lambda>(s, b). case c b of (a, b') \<Rightarrow> (a, (s, b')))"

section \<open>Handlers\<close>

type_synonym ('r, 'o, 'b) step_handler =
  "request_env \<Rightarrow> request \<Rightarrow> writer \<Rightarrow> ('r, 'o, 'b, writer) steps"

text \<open>A handler that makes one call at most.\<close>

definition one_call :: "('r, 'o) handler \<Rightarrow> ('r, 'o, 'b) step_handler" where
  "one_call h E r w = on_server (\<lambda>s. h E r (w, s))"

definition open_session_steps ::
  "('r, 'o) app \<Rightarrow> request_env \<Rightarrow> request \<Rightarrow> nat \<Rightarrow> string \<Rightarrow> uuid \<Rightarrow> writer
    \<Rightarrow> ('r, 'o, 'b, writer) steps" where
  "open_session_steps A E r status role tenantID w =
     bind (on_redis (CreateSession (ap_F A) (ap_R A) (ap_sessionTTL A) (re_rand E) role tenantID))
       (\<lambda>res. Return (case res of
          Inl err \<Rightarrow> WriteProblem r (InternalError ''failed to create session'') w
        | Inr token \<Rightarrow>
            writeJSON status (encode_role role) (SetCookie (session_cookie token 86400) w)))"

definition LoginHandler_steps :: "('r, 'o) app \<Rightarrow> ('r, 'o, 'b) step_handler" where
  "LoginHandler_steps A E r w =
     (case unmarshal_LoginRequest (rq_Body r) of
        None \<Rightarrow> Return (WriteProblem r (BadRequest ''invalid JSON body'') w)
      | Some req \<Rightarrow>
          if lr_APIKey req \<noteq> '''' then
            (case map_of (ap_keys A) (lr_APIKey req) of
               None \<Rightarrow> Return (WriteProblem r (Unauthorized ''invalid API key'') w)
             | Some entry \<Rightarrow> open_session_steps A E r 200 (ke_Role entry) uuid_Nil w)
          else if lr_Email req \<noteq> '''' \<and> lr_Password req \<noteq> '''' then
            bind (reading (\<lambda>d. read_query (re_fault1 E) (q_GetUserByEmail (lr_Email req) d)))
              (\<lambda>res. case res of
                 Inl err \<Rightarrow> Return (WriteProblem r (Unauthorized ''invalid email or password'') w)
               | Inr user \<Rightarrow>
                   if ap_bcrypt_Compare A (usr_PasswordHash user) (lr_Password req)
                   then open_session_steps A E r 200 (usr_Role user) (usr_TenantID user) w
                   else Return (WriteProblem r (Unauthorized ''invalid email or password'') w))
          else Return (WriteProblem r (BadRequest ''must provide api_key or email/password'') w))"

definition SignupHandler_steps :: "('r, 'o) app \<Rightarrow> ('r, 'o, 'b) step_handler" where
  "SignupHandler_steps A E r w =
     (case unmarshal_SignupRequest (rq_Body r) of
        None \<Rightarrow> Return (WriteProblem r (BadRequest ''invalid JSON body'') w)
      | Some req \<Rightarrow>
          if sr_Email req = '''' \<or> sr_Password req = ''''
          then Return (WriteProblem r (BadRequest ''email and password are required'') w)
          else case ap_bcrypt_Generate A (re_salt E) (sr_Password req) of
            Inl err \<Rightarrow> Return (WriteProblem r (InternalError ''failed to process password'') w)
          | Inr hashedPassword \<Rightarrow>
              bind (on_db (autocommit (re_fault1 E) (q_CreateTenant (re_tenant_id E) (re_db_now E)
                       (''Organization of '' @ sr_Email req))))
                (\<lambda>res. case res of
                   Inl err \<Rightarrow>
                     Return (WriteProblem r (InternalError ''failed to create organization'') w)
                 | Inr tenant \<Rightarrow>
                     bind (on_db (autocommit (re_fault2 E) (q_CreateUser (re_user_id E) (re_db_now E)
                              \<lparr>cup_TenantID = tn_ID tenant, cup_Email = sr_Email req,
                               cup_PasswordHash = hashedPassword, cup_Role = ''admin''\<rparr>)))
                       (\<lambda>res. case res of
                          Inl err \<Rightarrow>
                            Return (WriteProblem r (NewProblem ''about:blank'' ''Conflict'' 409
                              ''email already exists'') w)
                        | Inr user \<Rightarrow>
                            open_session_steps A E r 201 (usr_Role user) (usr_TenantID user) w)))"

definition GetAccountBalance_steps ::
  "string option \<Rightarrow> string option \<Rightarrow> uuid \<Rightarrow> int64
    \<Rightarrow> ('r, 'o, 'b, svc_error + BalanceResponse) steps" where
  "GetAccountBalance_steps flt1 flt2 tenantID accountID =
     bind (reading (\<lambda>d. read_query flt1
              (q_GetAccountByID \<lparr>gap_ID = accountID, gap_TenantID = tenantID\<rparr> d)))
       (\<lambda>res. case res of
          Inl NoRows \<Rightarrow> Return (Inl (Sentinel ErrAccountNotFound))
        | Inl e \<Rightarrow> Return (Inl (DbError ''get account for balance'' e))
        | Inr account \<Rightarrow>
            bind (reading (\<lambda>d. read_query flt2 (q_GetAccountBalance
                     \<lparr>gab_AccountID = accountID, gab_TenantID = tenantID\<rparr> d)))
              (\<lambda>res. Return (case res of
                 Inl e \<Rightarrow> Inl (DbError ''get account balance'' e)
               | Inr balance \<Rightarrow>
                   Inr \<lparr>br_AccountID = accountID, br_TotalDebits = bal_TotalDebits balance,
                        br_TotalCredits = bal_TotalCredits balance,
                        br_NetBalance = bal_NetBalance balance,
                        br_Currency = acc_Currency account\<rparr>)))"

definition GetAccountBalanceHandler_steps :: "('r, 'o) app \<Rightarrow> ('r, 'o, 'b) step_handler" where
  "GetAccountBalanceHandler_steps A E r w =
     (case ParseInt (rq_URLParam r ''id'') of
        (_, Some _) \<Rightarrow> Return (WriteProblem r bad_account_id w)
      | (i, None) \<Rightarrow>
          bind (GetAccountBalance_steps (re_fault1 E) (re_fault2 E) (GetTenantID (rq_Context r)) i)
            (\<lambda>res. Return (case res of
               Inl err \<Rightarrow>
                 if errors_Is err ErrAccountNotFound then WriteProblem r (no_account i) w
                 else WriteProblem r (InternalError ''failed to get balance'') w
             | Inr balance \<Rightarrow> writeJSON 200 (encode_BalanceResponse balance) w)))"

definition GetTransaction_steps ::
  "string option \<Rightarrow> string option \<Rightarrow> uuid \<Rightarrow> uuid
    \<Rightarrow> ('r, 'o, 'b, svc_error + TransactionResponse) steps" where
  "GetTransaction_steps flt1 flt2 tenantID i =
     bind (reading (\<lambda>d. read_query flt1
              (q_GetTransactionByID \<lparr>gtp_ID = i, gtp_TenantID = tenantID\<rparr> d)))
       (\<lambda>res. case res of
          Inl NoRows \<Rightarrow> Return (Inl (Sentinel ErrTransactionNotFound))
        | Inl e \<Rightarrow> Return (Inl (DbError ''get transaction'' e))
        | Inr txRecord \<Rightarrow>
            bind (reading (\<lambda>d. read_query flt2 (q_GetPostingsByTransactionID
                     \<lparr>gpt_TransactionID = i, gpt_TenantID = tenantID\<rparr> d)))
              (\<lambda>res. Return (case res of
                 Inl e \<Rightarrow> Inl (DbError ''get postings'' e)
               | Inr rows \<Rightarrow> Inr (make_response txRecord (Some rows)))))"

definition GetTransactionHandler_steps :: "('r, 'o) app \<Rightarrow> ('r, 'o, 'b) step_handler" where
  "GetTransactionHandler_steps A E r w =
     (case uuid_Parse (ap_F A) (rq_URLParam r ''id'') of
        None \<Rightarrow>
          Return (WriteProblem r (BadRequest (''invalid transaction id '' @ em_dash
            @ '' must be a valid UUID'')) w)
      | Some i \<Rightarrow>
          bind (GetTransaction_steps (re_fault1 E) (re_fault2 E) (GetTenantID (rq_Context r)) i)
            (\<lambda>res. Return (case res of
               Inl err \<Rightarrow>
                 if errors_Is err ErrTransactionNotFound
                 then WriteProblem r (TransactionNotFound (''transaction with id ''
                         @ rq_URLParam r ''id'' @ '' does not exist'')) w
                 else WriteProblem r (InternalError ''failed to get transaction'') w
             | Inr txnResponse \<Rightarrow>
                 writeJSON 200 (encode_TransactionResponse (ap_F A) txnResponse) w)))"

text \<open>The call of \<^verbatim>\<open>CreateTransaction\<close>: lock, cache, database transaction, postings, cache, release.\<close>

definition under_lock_steps ::
  "formats \<Rightarrow> 'r redis \<Rightarrow> int \<Rightarrow> call_env \<Rightarrow> uuid \<Rightarrow> CreateTransactionRequest
    \<Rightarrow> ('r, 'o, 'b, svc_error + TransactionResponse) steps" where
  "under_lock_steps F R ttl E tenantID req =
     (let key = idempotency_key F tenantID (ctr_IdempotencyKey req) in
      bind (on_redis (\<lambda>r. (cached_replay F R key r, r)))
        (\<lambda>cached. case cached of
           Some replay \<Rightarrow> Return (Inr replay)
         | None \<Rightarrow>
             bind (on_db (write_transaction F E tenantID req))
               (\<lambda>res. case res of
                  Inl err \<Rightarrow> Return (Inl err)
                | Inr txRecord \<Rightarrow>
                    bind (reading (\<lambda>d. make_response txRecord
                            (fetch_postings (ce_fault E AtFetchPostings) tenantID (tx_ID txRecord) d)))
                      (\<lambda>response.
                         bind (on_redis (rd_Set R key (Doc (encode_TransactionResponse F response)) ttl))
                           (\<lambda>setErr. Return (Inr response))))))"

definition CreateTransaction_steps ::
  "formats \<Rightarrow> 'r redis \<Rightarrow> int \<Rightarrow> call_env \<Rightarrow> uuid \<Rightarrow> CreateTransactionRequest
    \<Rightarrow> ('r, 'o, 'b, svc_error + TransactionResponse) steps" where
  "CreateTransaction_steps F R idempotencyTTL E tenantID req =
     (case check_request req of
        Some err \<Rightarrow> Return (Inl err)
      | None \<Rightarrow>
          (let lockKey = lock_key F tenantID (ctr_IdempotencyKey req) in
           bind (on_redis (lk_Obtain R lockKey lock_ttl))
             (\<lambda>obtained. case obtained of
                Some _ \<Rightarrow> Return (Inl (Sentinel ErrLockAcquisitionFailed))
              | None \<Rightarrow>
                  bind (under_lock_steps F R idempotencyTTL E tenantID req)
                    (\<lambda>res. bind (on_redis (lk_Release R lockKey)) (\<lambda>releaseErr. Return res)))))"

definition CreateTransactionHandler_steps :: "('r, 'o) app \<Rightarrow> ('r, 'o, 'b) step_handler" where
  "CreateTransactionHandler_steps A E r w =
     (case unmarshal_CreateTransactionRequest (rq_Body r) of
        None \<Rightarrow> Return
          (WriteProblem r (BadRequest (''invalid request body: '' @ ap_json_error A (rq_Body r))) w)
      | Some req0 \<Rightarrow>
          (let req = req0\<lparr>ctr_IdempotencyKey := rq_Header r ''Idempotency-Key''\<rparr>;
               vr = ValidateCreateTransactionRequest req in
           if HasErrors vr then Return (WriteProblem r (ToProblem vr) w)
           else bind (CreateTransaction_steps (ap_F A) (ap_R A) (ap_idempotencyTTL A) (re_call E)
                        (GetTenantID (rq_Context r)) req)
             (\<lambda>res. Return (case res of
                Inl err \<Rightarrow> WriteProblem r (transaction_problem err) w
              | Inr txnResponse \<Rightarrow>
                  writeJSON 201 (encode_TransactionResponse (ap_F A) txnResponse) w))))"

definition AttachDocument_steps ::
  "formats \<Rightarrow> 'o storage \<Rightarrow> StorageService \<Rightarrow> document_env \<Rightarrow> uuid \<Rightarrow> uuid \<Rightarrow> string \<Rightarrow> string
    \<Rightarrow> int64 \<Rightarrow> string \<Rightarrow> ('r, 'o, 'b, svc_error + DocumentResponse) steps" where
  "AttachDocument_steps F S s E tenantID transactionID filename contentType sizeBytes file =
     bind (reading (\<lambda>d. read_query (de_lookup_fault E)
              (q_GetTransactionByID \<lparr>gtp_ID = transactionID, gtp_TenantID = tenantID\<rparr> d)))
       (\<lambda>res. case res of
          Inl NoRows \<Rightarrow> Return (Inl (Sentinel ErrTransactionNotFound))
        | Inl e \<Rightarrow> Return (Inl (DbError ''verify transaction'' e))
        | Inr _ \<Rightarrow>
            (let objectKey = object_key F tenantID transactionID (de_doc_uuid E) filename in
             bind (on_objects (UploadFile S s file objectKey contentType))
               (\<lambda>err. case err of
                  Some e \<Rightarrow> Return (Inl (StoreError ''upload to storage'' e))
                | None \<Rightarrow>
                    bind (on_db (autocommit (de_insert_fault E) (q_CreateDocument (de_row_id E) (de_now E)
                       \<lparr>cdp_TenantID = tenantID, cdp_TransactionID = transactionID,
                        cdp_Filename = filename, cdp_ContentType = contentType,
                        cdp_SizeBytes = sizeBytes, cdp_ObjectKey = objectKey\<rparr>)))
                      (\<lambda>res. Return (case res of
                         Inl e \<Rightarrow> Inl (DbError ''save document metadata'' e)
                       | Inr doc \<Rightarrow> Inr (document_response doc (download_url S s objectKey)))))))"

definition AttachDocumentHandler_steps :: "('r, 'o) app \<Rightarrow> ('r, 'o, 'b) step_handler" where
  "AttachDocumentHandler_steps A E r w =
     (case uuid_Parse (ap_F A) (rq_URLParam r ''id'') of
        None \<Rightarrow> Return (WriteProblem r bad_document_id w)
      | Some txID \<Rightarrow>
          (case rq_Form r of
             Inl _ \<Rightarrow>
               Return (WriteProblem r (WithInvalidParams (BadRequest ''Failed to parse multipart form'')
                 [\<lparr>ip_Name = ''body'',
                   ip_Reason = ''must be valid multipart/form-data and under 10MB''\<rparr>]) w)
           | Inr form \<Rightarrow>
               (case form ''file'' of
                  None \<Rightarrow>
                    Return (WriteProblem r (WithInvalidParams (BadRequest ''Missing file part'')
                      [\<lparr>ip_Name = ''file'', ip_Reason = ''multipart form must contain a ''
                          @ quote ''file'' @ '' field''\<rparr>]) w)
                | Some part \<Rightarrow>
                    (let contentType = (if ff_ContentType part = '''' then ''application/octet-stream''
                                        else ff_ContentType part) in
                     bind (AttachDocument_steps (ap_F A) (ap_storage A) (ap_storageService A)
                             (re_document E) (GetTenantID (rq_Context r)) txID (ff_Filename part)
                             contentType (ff_Size part) (ff_Content part))
                       (\<lambda>res. Return (case res of
                          Inl err \<Rightarrow> WriteProblem r
                            (if errors_Is err ErrTransactionNotFound
                             then TransactionNotFound ''Transaction not found''
                             else InternalError ''Failed to process document upload'') w
                        | Inr docResp \<Rightarrow>
                            writeJSON 201 (encode_DocumentResponse (ap_F A) docResp) w))))))"

section \<open>The stack\<close>

fun endpoint_steps :: "chi \<Rightarrow> ('r, 'o) app \<Rightarrow> endpoint \<Rightarrow> ('r, 'o, 'b) step_handler" where
  "endpoint_steps ch A ELogin = LoginHandler_steps A"
| "endpoint_steps ch A ESignup = SignupHandler_steps A"
| "endpoint_steps ch A EGetAccountBalance = GetAccountBalanceHandler_steps A"
| "endpoint_steps ch A EGetTransaction = GetTransactionHandler_steps A"
| "endpoint_steps ch A ECreateTransaction = CreateTransactionHandler_steps A"
| "endpoint_steps ch A EAttachDocument = AttachDocumentHandler_steps A"
| "endpoint_steps ch A e = one_call (endpoint_handler ch A e)"

definition RequireRole_steps ::
  "string list \<Rightarrow> ('r, 'o, 'b) step_handler \<Rightarrow> ('r, 'o, 'b) step_handler" where
  "RequireRole_steps allowed next_handler E r w =
     (let role = GetAPIKeyRole (rq_Context r) in
      if role = '''' then Return (WriteProblem r (Unauthorized ''authentication required'') w)
      else if role \<notin> set allowed
      then Return (WriteProblem r (Forbidden (''role '' @ quote role
              @ '' does not have permission for this operation'')) w)
      else next_handler E r w)"

definition APIKeyAuthMiddleware_steps ::
  "('r, 'o) app \<Rightarrow> ('r, 'o, 'b) step_handler \<Rightarrow> ('r, 'o, 'b) step_handler" where
  "APIKeyAuthMiddleware_steps A next_handler E r w =
     (if is_public (rq_Path r) then next_handler E r w
      else bind (on_server (cookie_session A r))
        (\<lambda>session. case session of
           Some sessionData \<Rightarrow>
             next_handler E (with_identity (sd_Role sessionData) (sd_TenantID sessionData) r) w
         | None \<Rightarrow>
             (let apiKey = presented_key r in
              if apiKey = ''''
              then Return (WriteProblem r
                     (Unauthorized ''authentication required (API key or session cookie)'') w)
              else case map_of (ap_keys A) apiKey of
                None \<Rightarrow> Return (WriteProblem r (Unauthorized ''invalid API key'') w)
              | Some entry \<Rightarrow> next_handler E (with_identity (ke_Role entry) uuid_Nil r) w)))"

definition RateLimitMiddleware_steps ::
  "(int \<Rightarrow> string) \<Rightarrow> RateLimitConfig \<Rightarrow> ('r, 'o, 'b) step_handler \<Rightarrow> ('r, 'o, 'b) step_handler" where
  "RateLimitMiddleware_steps txt cfg next_handler E r w =
     (case re_limit_error E of
        Some _ \<Rightarrow> next_handler E r w
      | None \<Rightarrow>
          bind (on_server (\<lambda>s.
            case limit_check txt cfg (re_limit_expired E) (re_limit_rnd E) (re_now E)
                   (sv_limits s (limit_key r)) of
              (result, z) \<Rightarrow> (result, s\<lparr>sv_limits := (sv_limits s)(limit_key r := z)\<rparr>)))
            (\<lambda>(allowed, current, limit).
               let remaining = max 0 (limit - current);
                   W = rl_WindowDuration cfg;
                   w1 = SetHeader ''X-RateLimit-Reset'' (show_int ((re_now E + W) div 10 ^ 9))
                         (SetHeader ''X-RateLimit-Remaining'' (show_int remaining)
                           (SetHeader ''X-RateLimit-Limit'' (show_int limit) w))
               in if allowed \<noteq> 1
                  then Return (WriteProblem r (RateLimitExceeded (''rate limit of ''
                          @ show_int (rl_RequestsPerWindow cfg) @ '' requests per '' @ duration_String W
                          @ '' exceeded '' @ em_dash @ '' retry after '' @ duration_String W))
                          (SetHeader ''Retry-After'' (show_int (sgn W * (\<bar>W\<bar> div 10 ^ 9))) w1))
                  else next_handler E r w1))"

definition route_steps :: "chi \<Rightarrow> ('r, 'o) app \<Rightarrow> route \<Rightarrow> ('r, 'o, 'b) step_handler" where
  "route_steps ch A rt =
     (case rt_Roles rt of
        Some allowed \<Rightarrow>
          if auth_enabled A then RequireRole_steps allowed (endpoint_steps ch A (rt_Endpoint rt))
          else endpoint_steps ch A (rt_Endpoint rt)
      | None \<Rightarrow> endpoint_steps ch A (rt_Endpoint rt))"

definition dispatch_steps :: "chi \<Rightarrow> ('r, 'o) app \<Rightarrow> ('r, 'o, 'b) step_handler" where
  "dispatch_steps ch A E r w =
     (case ch_Match ch routes (rq_Method r) (rq_Path r) of
        None \<Rightarrow> Return (WriteHeader (ch_Fallback ch (rq_Method r) (rq_Path r)) w)
      | Some (rt, ps) \<Rightarrow> route_steps ch A rt E (r\<lparr>rq_URLParam := ps\<rparr>) w)"

definition inner_steps ::
  "chi \<Rightarrow> (int \<Rightarrow> string) \<Rightarrow> ('r, 'o) app \<Rightarrow> RouterConfig \<Rightarrow> ('r, 'o, 'b) step_handler" where
  "inner_steps ch txt A cfg =
     (let h1 = (if auth_enabled A then APIKeyAuthMiddleware_steps A (dispatch_steps ch A)
                else dispatch_steps ch A)
      in case rc_RateLimitConfig cfg of
           Some rl \<Rightarrow> RateLimitMiddleware_steps txt rl h1 | None \<Rightarrow> h1)"

text \<open>The outer middleware makes no call: it answers a preflight, or sets headers and the context.\<close>

definition serve_steps ::
  "chi \<Rightarrow> (int \<Rightarrow> string) \<Rightarrow> ('r, 'o) app \<Rightarrow> RouterConfig \<Rightarrow> request_env \<Rightarrow> request
    \<Rightarrow> ('r, 'o, 'b, writer) steps" where
  "serve_steps ch txt A cfg E r =
     (if rq_Method r = ''OPTIONS'' then Return (WriteHeader 204 (cors_writer cfg))
      else inner_steps ch txt A cfg E (traced_request ch A cfg E r)
        (SetHeader ''X-Trace-ID'' (trace_of A E r) (cors_writer cfg)))"

section \<open>The outbox worker\<close>

primrec process_events_steps ::
  "formats \<Rightarrow> 'b broker \<Rightarrow> OutboxWorker \<Rightarrow> poll_env \<Rightarrow> LedgerOutbox list
    \<Rightarrow> ('r, 'o, 'b, unit) steps" where
  "process_events_steps F B w P [] = Return ()"
| "process_events_steps F B w P (event # events) =
     bind (on_broker (publishEvent F B w event))
       (\<lambda>published.
          bind (on_db (\<lambda>d. ((), case published of
                  Some err \<Rightarrow> handlePublishFailure P w event err d
                | None \<Rightarrow> handlePublishSuccess P event d)))
            (\<lambda>_. process_events_steps F B w P events))"

definition processBatch_steps ::
  "formats \<Rightarrow> 'b broker \<Rightarrow> OutboxWorker \<Rightarrow> poll_env \<Rightarrow> ('r, 'o, 'b, unit) steps" where
  "processBatch_steps F B w P =
     bind (reading (\<lambda>d. read_query (po_fetch_fault P) (q_GetPendingOutboxEvents (ow_batchSize w) d)))
       (\<lambda>res. case res of Inl _ \<Rightarrow> Return () | Inr events \<Rightarrow> process_events_steps F B w P events)"

section \<open>Alone, the steps are the handlers\<close>

lemma run_calls [simp]:
  "run (on_server f) (s, b) = (case f s of (a, s') \<Rightarrow> (a, (s', b)))"
  "run (on_db q) (s, b) = (case q (sv_db s) of (a, d) \<Rightarrow> (a, (set_db d s, b)))"
  "run (reading g) (s, b) = (g (sv_db s), (s, b))"
  "run (on_redis c) (s, b) = (case c (sv_redis s) of (a, rd) \<Rightarrow> (a, (set_redis rd s, b)))"
  "run (on_objects c') (s, b) = (case c' (sv_objects s) of (a, ob) \<Rightarrow> (a, (s\<lparr>sv_objects := ob\<rparr>, b)))"
  "run (on_broker c'') (s, b) = (case c'' b of (a, b') \<Rightarrow> (a, (s, b')))"
  by (simp_all add: on_server_def on_db_def reading_def on_redis_def on_objects_def on_broker_def
      split: prod.splits)

declare run_bind [simp]

text \<open>A step handler, run alone, and the handler it stands for.\<close>

definition runs_as :: "('r, 'o, 'b) step_handler \<Rightarrow> ('r, 'o) handler \<Rightarrow> bool" where
  "runs_as hs h \<longleftrightarrow> (\<forall>E r w s b. run (hs E r w) (s, b) = (case h E r (w, s) of (w', s') \<Rightarrow> (w', (s', b))))"

lemma runs_as_one_call: "runs_as (one_call h) h"
  by (simp add: runs_as_def one_call_def)

lemma run_open_session [simp]:
  "run (open_session_steps A E r status role T w) (s, b) =
     (case open_session A E r status role T (w, s) of (w', s') \<Rightarrow> (w', (s', b)))"
  by (auto simp: open_session_steps_def open_session_def split: prod.splits sum.splits)

lemma runs_as_Login: "runs_as (LoginHandler_steps A) (LoginHandler A)"
  by (auto simp: runs_as_def LoginHandler_steps_def LoginHandler_def
      split: option.splits sum.splits)

lemma runs_as_Signup: "runs_as (SignupHandler_steps A) (SignupHandler A)"
  by (auto simp: runs_as_def SignupHandler_steps_def SignupHandler_def set_db_def
      split: option.splits sum.splits prod.splits)

lemma run_GetAccountBalance [simp]:
  "run (GetAccountBalance_steps f1 f2 T i) (s, b) = (GetAccountBalance f1 f2 T i (sv_db s), (s, b))"
  by (auto simp: GetAccountBalance_steps_def GetAccountBalance_def split: sum.splits pg_error.splits)

lemma runs_as_GetAccountBalance:
  "runs_as (GetAccountBalanceHandler_steps A) (GetAccountBalanceHandler A)"
  by (auto simp: runs_as_def GetAccountBalanceHandler_steps_def GetAccountBalanceHandler_def
      split: option.splits sum.splits prod.splits)

lemma run_GetTransaction [simp]:
  "run (GetTransaction_steps f1 f2 T i) (s, b) = (GetTransaction f1 f2 T i (sv_db s), (s, b))"
  by (auto simp: GetTransaction_steps_def GetTransaction_def split: sum.splits pg_error.splits)

lemma runs_as_GetTransaction:
  "runs_as (GetTransactionHandler_steps A) (GetTransactionHandler A)"
  by (auto simp: runs_as_def GetTransactionHandler_steps_def GetTransactionHandler_def
      split: option.splits sum.splits prod.splits)

lemma set_world_simps [simp]:
  "sv_world (set_db d s) = (sv_world s)\<lparr>w_db := d\<rparr>"
  "sv_world (set_redis rd s) = (sv_world s)\<lparr>w_redis := rd\<rparr>"
  "set_db d (s\<lparr>sv_world := x\<rparr>) = s\<lparr>sv_world := x\<lparr>w_db := d\<rparr>\<rparr>"
  "set_redis rd (s\<lparr>sv_world := x\<rparr>) = s\<lparr>sv_world := x\<lparr>w_redis := rd\<rparr>\<rparr>"
  by (simp_all add: set_db_def set_redis_def)

lemma run_under_lock [simp]:
  "run (under_lock_steps F R ttl E T req) (s, b) =
     (case under_lock F R ttl E T req (sv_world s) of
        (res, v) \<Rightarrow> (res, (s\<lparr>sv_world := v\<rparr>, b)))"
  by (auto simp: under_lock_steps_def under_lock_def Let_def set_db_def set_redis_def
      split: option.splits sum.splits prod.splits)

lemma run_CreateTransaction [simp]:
  "run (CreateTransaction_steps F R ttl E T req) (s, b) =
     (case CreateTransaction F R ttl E T req (sv_world s) of
        (res, v) \<Rightarrow> (res, (s\<lparr>sv_world := v\<rparr>, b)))"
  by (auto simp: CreateTransaction_steps_def CreateTransaction_def Let_def set_redis_def
      split: option.splits sum.splits prod.splits)

lemma runs_as_CreateTransaction:
  "runs_as (CreateTransactionHandler_steps A) (CreateTransactionHandler A)"
  by (auto simp: runs_as_def CreateTransactionHandler_steps_def CreateTransactionHandler_def Let_def
      split: option.splits sum.splits prod.splits)

lemma run_AttachDocument [simp]:
  "run (AttachDocument_steps F S x E T t filename ct sz body) (s, b) =
     (case AttachDocument F S x E T t filename ct sz body (sv_db s, sv_objects s) of
        (res, d, ob) \<Rightarrow> (res, ((set_db d s)\<lparr>sv_objects := ob\<rparr>, b)))"
  by (auto simp: AttachDocument_steps_def AttachDocument_def Let_def set_db_def
      split: option.splits sum.splits prod.splits pg_error.splits)

lemma runs_as_AttachDocument:
  "runs_as (AttachDocumentHandler_steps A) (AttachDocumentHandler A)"
  by (auto simp: runs_as_def AttachDocumentHandler_steps_def AttachDocumentHandler_def Let_def
      split: option.splits sum.splits prod.splits)

lemma runs_as_endpoint: "runs_as (endpoint_steps ch A e) (endpoint_handler ch A e)"
  by (cases e) (simp_all add: runs_as_Login runs_as_Signup runs_as_GetAccountBalance
    runs_as_GetTransaction runs_as_CreateTransaction runs_as_AttachDocument runs_as_one_call
    del: endpoint_handler.simps add: endpoint_handler.simps(3,4,10,12,13,15))

lemma runs_as_RequireRole: "runs_as hs h \<Longrightarrow> runs_as (RequireRole_steps allowed hs) (RequireRole allowed h)"
  by (auto simp: runs_as_def RequireRole_steps_def RequireRole_def Let_def)

lemma runs_as_APIKeyAuth:
  "runs_as hs h \<Longrightarrow> runs_as (APIKeyAuthMiddleware_steps A hs) (APIKeyAuthMiddleware A h)"
  by (auto simp: runs_as_def APIKeyAuthMiddleware_steps_def APIKeyAuthMiddleware_def Let_def
      split: option.splits prod.splits)

lemma runs_as_RateLimit:
  "runs_as hs h \<Longrightarrow> runs_as (RateLimitMiddleware_steps txt cfg hs) (RateLimitMiddleware txt cfg h)"
  by (auto simp: runs_as_def RateLimitMiddleware_steps_def RateLimitMiddleware_def Let_def
      split: option.splits prod.splits)

lemma runs_as_route: "runs_as (route_steps ch A rt) (route_handler ch A rt)"
  by (simp add: route_steps_def route_handler_def runs_as_endpoint runs_as_RequireRole
      split: option.split)

lemma runs_as_dispatch: "runs_as (dispatch_steps ch A) (dispatch ch A)"
  by (auto simp: runs_as_def dispatch_steps_def dispatch_def runs_as_route [unfolded runs_as_def, rule_format]
      split: option.splits)

lemma runs_as_inner: "runs_as (inner_steps ch txt A cfg) (inner_stack ch txt A cfg)"
  by (simp add: inner_steps_def inner_stack_def Let_def runs_as_RateLimit runs_as_APIKeyAuth
      runs_as_dispatch split: option.split)

lemma run_serve:
  "run (serve_steps ch txt A cfg E r) (s, b) =
     (case serve ch txt A cfg E r s of (w, s') \<Rightarrow> (w, (s', b)))"
  by (simp add: serve_steps_def serve_eq runs_as_inner [unfolded runs_as_def, rule_format])

lemma run_process_events:
  "run (process_events_steps F B w P events) (s, b) =
     (case process_events F B w P events (b, sv_db s) of (b', d') \<Rightarrow> ((), (set_db d' s, b')))"
proof (induction events arbitrary: s b)
  case Nil
  then show ?case by (simp add: set_db_def)
next
  case (Cons event events)
  then show ?case by (auto simp: set_db_def split: prod.splits option.splits)
qed

lemma run_processBatch:
  "run (processBatch_steps F B w P) (s, b) =
     (case processBatch F B w P (b, sv_db s) of (b', d') \<Rightarrow> ((), (set_db d' s, b')))"
  by (auto simp: processBatch_steps_def processBatch_def run_process_events set_db_def split: sum.splits)

end
