(* ===== verification/Interference.thy ===== *)
theory Interference
  imports Interleaving
begin

text \<open>
  Many requests and outbox workers at the same time, interleaved call by call (\<open>Interleaving\<close>): the
  invariant of the server and what the broker has been given are kept by every single call, whatever
  the others have done since the last one.
\<close>

section \<open>What every call keeps\<close>

definition event_key :: "LedgerOutbox \<Rightarrow> uuid \<times> string \<times> json" where
  "event_key e = (ob_ID e, ob_RoutingKey e, ob_Payload e)"

text \<open>
  The invariant of the shared state: the server's, and every event marked as published has been
  written to the exchange \<open>x\<close>. Everybody may rely on this: rows, objects and messages are not lost,
  and the events stay what they are but for their status.
\<close>

definition shared_ok ::
  "('r, 'o) app \<Rightarrow> 'b broker \<Rightarrow> string \<Rightarrow> ('r, 'o) server \<times> 'b \<Rightarrow> bool" where
  "shared_ok A B x = (\<lambda>(s, b). server_ok A s
     \<and> delivered (ap_F A) {m \<in> set (bk_written B b). pub_Exchange m = x} (sv_db s))"

definition shared_grows ::
  "('r, 'o) app \<Rightarrow> 'b broker \<Rightarrow> ('r, 'o) server \<times> 'b \<Rightarrow> ('r, 'o) server \<times> 'b \<Rightarrow> bool" where
  "shared_grows A B = (\<lambda>(s, b) (s', b'). evolves (sv_db s) (sv_db s')
     \<and> prefix (map event_key (db_outbox (sv_db s))) (map event_key (db_outbox (sv_db s')))
     \<and> (\<forall>k. st_objects (ap_storage A) (sv_objects s) k \<noteq> None \<longrightarrow>
            st_objects (ap_storage A) (sv_objects s') k \<noteq> None)
     \<and> set (bk_written B b) \<subseteq> set (bk_written B b'))"

interpretation shared: rely "shared_ok A B x" "shared_grows A B" for A B x
proof unfold_locales
  show "shared_grows A B st st" for st by (cases st) (simp add: shared_grows_def)
  show "shared_grows A B st st2" if "shared_grows A B st st1" "shared_grows A B st1 st2" for st st1 st2
    using that by (cases st; cases st1; cases st2)
      (auto simp: shared_grows_def intro: evolves_trans prefix_order.trans)
qed

text \<open>What a call of a request does to the server.\<close>

definition server_step :: "('r, 'o) app \<Rightarrow> ('r, 'o) server \<Rightarrow> ('r, 'o) server \<Rightarrow> bool" where
  "server_step A s s' \<longleftrightarrow> server_ok A s' \<and> evolves (sv_db s) (sv_db s')
     \<and> events_added (sv_db s) (sv_db s')
     \<and> (\<forall>k. st_objects (ap_storage A) (sv_objects s) k \<noteq> None \<longrightarrow>
            st_objects (ap_storage A) (sv_objects s') k \<noteq> None)"

lemma server_step_shared:
  assumes "server_step A s s'" and "shared_ok A B x (s, b)"
  shows "shared_ok A B x (s', b) \<and> shared_grows A B (s, b) (s', b)"
  using assms by (auto simp: server_step_def shared_ok_def shared_grows_def events_added_def
      intro: delivered_events_added)

lemma server_step_redis [simp]: "server_ok A s \<Longrightarrow> server_step A s (set_redis rd s)"
  by (simp add: server_step_def events_added_same)

lemma server_step_refl [simp]: "server_ok A s \<Longrightarrow> server_step A s s"
  by (simp add: server_step_def events_added_same)

text \<open>The first call of a program, by kind.\<close>

lemma safe_on_server:
  assumes "\<And>s1 b1 a s2. server_ok A s1 \<Longrightarrow> shared_grows A B st (s1, b1) \<Longrightarrow> f s1 = (a, s2) \<Longrightarrow>
      server_step A s1 s2 \<and> safe (shared_ok A B x) (shared_grows A B) Q (k a) (s2, b1)"
  shows "safe (shared_ok A B x) (shared_grows A B) Q (bind (on_server f) k) st"
  unfolding on_server_def
proof (rule shared.safe_act)
  fix st1 a st2
  assume st: "shared_ok A B x st1" "shared_grows A B st st1"
    and f: "(case st1 of (s, b) \<Rightarrow> case f s of (a, s') \<Rightarrow> (a, (s', b))) = (a, st2)"
  obtain s1 b1 s2 where st1: "st1 = (s1, b1)" and "f s1 = (a, s2)" and st2: "st2 = (s2, b1)"
    using f by (cases st1) (auto split: prod.splits)
  with st assms [of s1 b1 a s2] server_step_shared [of A s1 s2 B x b1]
  show "shared_ok A B x st2 \<and> shared_grows A B st1 st2
      \<and> safe (shared_ok A B x) (shared_grows A B) Q (k a) st2"
    by (simp add: shared_ok_def)
qed

lemma safe_quiet:
  assumes "\<And>s a s'. server_ok A s \<Longrightarrow> f s = (a, s') \<Longrightarrow> server_step A s s'"
    and "\<And>a st'. safe (shared_ok A B x) (shared_grows A B) Q (k a) st'"
  shows "safe (shared_ok A B x) (shared_grows A B) Q (bind (on_server f) k) st"
  by (rule safe_on_server) (use assms in blast)

lemma safe_reading:
  assumes "\<And>a st'. safe (shared_ok A B x) (shared_grows A B) Q (k a) st'"
  shows "safe (shared_ok A B x) (shared_grows A B) Q (bind (reading g) k) st"
  unfolding reading_def by (rule safe_quiet) (use assms in auto)

lemma safe_on_redis:
  assumes "\<And>a st'. safe (shared_ok A B x) (shared_grows A B) Q (k a) st'"
  shows "safe (shared_ok A B x) (shared_grows A B) Q (bind (on_redis c) k) st"
  unfolding on_redis_def by (rule safe_quiet) (use assms in \<open>auto split: prod.splits\<close>)

definition keeps_ledger :: "formats \<Rightarrow> (db \<Rightarrow> 'a \<times> db) \<Rightarrow> bool" where
  "keeps_ledger F q \<longleftrightarrow> (\<forall>d a d'. ledger_ok F d \<longrightarrow> q d = (a, d') \<longrightarrow>
     ledger_ok F d' \<and> evolves d d' \<and> events_added d d' \<and> db_documents d' = db_documents d)"

lemma safe_on_db:
  assumes "keeps_ledger (ap_F A) q"
    and "\<And>a st'. safe (shared_ok A B x) (shared_grows A B) Q (k a) st'"
  shows "safe (shared_ok A B x) (shared_grows A B) Q (bind (on_db q) k) st"
  unfolding on_db_def
proof (rule safe_quiet)
  show "server_step A s s'"
    if ok: "server_ok A s" and q: "(case q (sv_db s) of (a, d) \<Rightarrow> (a, set_db d s)) = (a, s')" for s a s'
  proof -
    obtain d where d: "q (sv_db s) = (a, d)" "s' = set_db d s" using q by (auto split: prod.splits)
    from ok have "ledger_ok (ap_F A) (sv_db s)" by (simp add: server_ok_def)
    with assms(1) d(1) have "ledger_ok (ap_F A) d" "evolves (sv_db s) d" "events_added (sv_db s) d"
        "db_documents d = db_documents (sv_db s)"
      unfolding keeps_ledger_def by blast+
    with server_ok_set_db [OF ok] show ?thesis by (simp add: server_step_def d(2))
  qed
qed (rule assms(2))

section \<open>The writing calls\<close>

lemma keeps_inserts:
  "keeps_ledger F (autocommit flt (q_CreateTenant i now name))"
  "keeps_ledger F (autocommit flt (q_CreateUser i now uarg))"
proof -
  have out: "db_outbox (snd (autocommit flt (q_CreateTenant i now name) d)) = db_outbox d"
      "db_outbox (snd (autocommit flt (q_CreateUser i now uarg) d)) = db_outbox d" for d
    by (rule autocommit_field; auto simp: q_CreateTenant_def q_CreateUser_def insert_row_def put_defs
        split: sum.splits)+
  show "keeps_ledger F (autocommit flt (q_CreateTenant i now name))"
    using CreateTenant.autocommit_step [OF _ books_inserts(1) documents_inserts(1), of F _ flt i now name]
      out(1) unfolding keeps_ledger_def by (metis events_added_same snd_conv)
  show "keeps_ledger F (autocommit flt (q_CreateUser i now uarg))"
    using CreateUser.autocommit_step [OF _ books_inserts(2) documents_inserts(2), of F _ flt i now uarg]
      out(2) unfolding keeps_ledger_def by (metis events_added_same snd_conv)
qed

lemma keeps_write_transaction:
  assumes "check_request req = None"
  shows "keeps_ledger F (write_transaction F E T req)"
  unfolding keeps_ledger_def
proof (intro allI impI)
  fix d a d'
  assume led: "ledger_ok F d" and w: "write_transaction F E T req d = (a, d')"
  have "unchanged d d' \<or> posted F E T req d d'"
    using w write_transaction_Inl [of F E T req d] write_transaction_Inr(2) [of F E T req d]
    by (cases a) auto
  then have "events_added d d' \<and> db_documents d' = db_documents d"
  proof
    assume "unchanged d d'"
    then have "db_outbox d' = db_outbox d" "db_documents d' = db_documents d"
      by (subst unchanged_def [THEN iffD1], assumption, simp add: rollback_db_def)+
    then show ?thesis by (simp add: events_added_same)
  qed (auto simp: posted_def event_row_def events_added_def)
  then show "ledger_ok F d' \<and> evolves d d' \<and> events_added d d' \<and> db_documents d' = db_documents d"
    using write_transaction_ledger_ok [OF led assms w] write_transaction_committed [OF _ w] led
    by (simp add: ledger_ok_def)
qed

section \<open>Handlers\<close>

text \<open>What the response of a request with path and trace id will be.\<close>

definition answered :: "string \<Rightarrow> string \<Rightarrow> writer \<Rightarrow> bool" where
  "answered path tr w \<longleftrightarrow> swagger_path path \<or> response_ok path tr w"

lemma answered_rules:
  "ready tr w \<Longrightarrow> GetTraceID (rq_Context r) = tr \<Longrightarrow> plain_problem p \<Longrightarrow>
     answered (rq_Path r) tr (WriteProblem r p w)"
  "ready tr w \<Longrightarrow> status \<in> {200, 201, 503} \<Longrightarrow> answered path tr (writeJSON status j w)"
  "ready tr w \<Longrightarrow> status \<in> {204, 404, 405} \<Longrightarrow> answered path tr (WriteHeader status w)"
  by (simp_all add: answered_def response_rules)

lemmas safe_rules = safe_reading safe_on_redis safe_on_db answered_rules ready_SetCookie ready_SetHeader

lemma CreateTransaction_safe:
  "safe (shared_ok A B x) (shared_grows A B) (\<lambda>_. True)
     (CreateTransaction_steps (ap_F A) R ttl E T req) st"
proof (cases "check_request req")
  case None
  note w = keeps_write_transaction [OF None, of "ap_F A" E T]
  have "safe (shared_ok A B x) (shared_grows A B) (\<lambda>_. True)
      (under_lock_steps (ap_F A) R ttl E T req) st" for st
    by (auto simp: under_lock_steps_def Let_def intro!: safe_rules w split: option.split sum.split)
  then show ?thesis
    by (auto simp: CreateTransaction_steps_def None Let_def split: option.split
        intro!: safe_on_redis shared.safe_bind)
qed (simp add: CreateTransaction_steps_def)

text \<open>The insert of a document row keeps the ledger; its object is there by then.\<close>

lemma document_insert:
  assumes "ledger_ok F d" and "autocommit flt (q_CreateDocument i now arg) d = (res, d')"
  shows "ledger_ok F d'" and "evolves d d'" and "events_added d d'"
    and "set (map doc_ObjectKey (db_documents d'))
      \<subseteq> insert (cdp_ObjectKey arg) (set (map doc_ObjectKey (db_documents d)))"
proof -
  have d': "d' = snd (autocommit flt (q_CreateDocument i now arg) d)" using assms(2) by simp
  show "ledger_ok F d'" unfolding d'
    by (rule CreateDocument.autocommit_ledger_ok [OF assms(1) books_inserts(4)])
  show "evolves d d'" unfolding d' by (rule CreateDocument.autocommit_evolves)
  have "db_outbox d' = db_outbox d" unfolding d'
    by (rule autocommit_field; auto simp: q_CreateDocument_def insert_row_def put_document_def)
  then show "events_added d d'" by (rule events_added_same)
  show "set (map doc_ObjectKey (db_documents d'))
      \<subseteq> insert (cdp_ObjectKey arg) (set (map doc_ObjectKey (db_documents d)))"
    using autocommit_CreateDocument [OF _ assms(2)] assms(1)
    by (cases res) (auto simp: ledger_ok_def committed_ok_def put_document_def)
qed

lemma documents_stored_insert:
  assumes "set (map doc_ObjectKey (db_documents d')) \<subseteq> insert key (set (map doc_ObjectKey (db_documents d)))"
    and "documents_stored S x d ob" and "st_objects S ob (ss_bucketName x, key) \<noteq> None"
  shows "documents_stored S x d' ob"
  unfolding documents_stored_def
proof
  fix doc assume "doc \<in> set (db_documents d')"
  then have "doc_ObjectKey doc \<in> set (map doc_ObjectKey (db_documents d'))" by simp
  with assms(1) have "doc_ObjectKey doc \<in> insert key (set (map doc_ObjectKey (db_documents d)))"
    by (rule subsetD)
  then show "st_objects S ob (ss_bucketName x, doc_ObjectKey doc) \<noteq> None"
  proof
    assume "doc_ObjectKey doc \<in> set (map doc_ObjectKey (db_documents d))"
    then obtain y where "y \<in> set (db_documents d)" "doc_ObjectKey doc = doc_ObjectKey y" by fastforce
    with assms(2) show ?thesis unfolding documents_stored_def by metis
  qed (use assms(3) in simp)
qed

lemma UploadFile_keeps_objects:
  assumes "storage_ok S" and "UploadFile S x file key ct ob = (e, ob')" and "st_objects S ob k \<noteq> None"
  shows "st_objects S ob' k \<noteq> None"
  using UploadFile_stores [OF assms(1,2)] assms(3) by (metis option.distinct(1))

lemma document_insert_safe:
  assumes "st_objects (ap_storage A) (sv_objects s)
      (ss_bucketName (ap_storageService A), cdp_ObjectKey arg) \<noteq> None"
  shows "safe (shared_ok A B x) (shared_grows A B) (\<lambda>_. True)
    (bind (on_db (autocommit flt (q_CreateDocument i now arg))) (\<lambda>res. Return (f res))) (s, b)"
  unfolding on_db_def
proof (rule safe_on_server)
  let ?insert = "autocommit flt (q_CreateDocument i now arg)"
  fix s1 b1 a s2
  assume ok: "server_ok A s1" and grown: "shared_grows A B (s, b) (s1, b1)"
    and q: "(case ?insert (sv_db s1) of (a, d) \<Rightarrow> (a, set_db d s1)) = (a, s2)"
  obtain d where d: "?insert (sv_db s1) = (a, d)" and s2: "s2 = set_db d s1"
    using q by (auto split: prod.splits)
  have led: "ledger_ok (ap_F A) (sv_db s1)" using ok by (simp add: server_ok_def)
  have there: "st_objects (ap_storage A) (sv_objects s1)
      (ss_bucketName (ap_storageService A), cdp_ObjectKey arg) \<noteq> None"
    using grown assms by (simp add: shared_grows_def)
  have "documents_stored (ap_storage A) (ap_storageService A) (sv_db s1) (sv_objects s1)"
    using ok by (simp add: server_ok_def)
  note documents_stored_insert [OF document_insert(4) [OF led d] this there]
  with document_insert(1-3) [OF led d]
  show "server_step A s1 s2 \<and> safe (shared_ok A B x) (shared_grows A B) (\<lambda>_. True) (Return (f a)) (s2, b1)"
    by (simp add: server_step_def server_ok_def s2)
qed

lemma upload_safe:
  assumes "storage_ok (ap_storage A)"
    and "\<And>s b. st_objects (ap_storage A) (sv_objects s) (ss_bucketName (ap_storageService A), key) \<noteq> None \<Longrightarrow>
      safe (shared_ok A B x) (shared_grows A B) Q (k None) (s, b)"
    and "\<And>e st. safe (shared_ok A B x) (shared_grows A B) Q (k (Some e)) st"
  shows "safe (shared_ok A B x) (shared_grows A B) Q
    (bind (on_objects (UploadFile (ap_storage A) (ap_storageService A) body key ct)) k) st"
  unfolding on_objects_def
proof (rule safe_on_server)
  let ?S = "ap_storage A" and ?x = "ap_storageService A"
  fix s1 b1 a s2
  assume ok: "server_ok A s1"
    and c: "(case UploadFile ?S ?x body key ct (sv_objects s1) of
        (a, ob) \<Rightarrow> (a, s1\<lparr>sv_objects := ob\<rparr>)) = (a, s2)"
  obtain ob where ob: "UploadFile ?S ?x body key ct (sv_objects s1) = (a, ob)"
      and s2: "s2 = s1\<lparr>sv_objects := ob\<rparr>"
    using c by (auto split: prod.splits)
  have "documents_stored ?S ?x (sv_db s1) ob"
    using UploadFile_keeps [OF assms(1), of ?x "sv_db s1" "sv_objects s1" body key ct] ok ob
    by (simp add: server_ok_def)
  with ok have "server_ok A s2" by (simp add: server_ok_def s2)
  moreover have "st_objects ?S ob k' \<noteq> None" if "st_objects ?S (sv_objects s1) k' \<noteq> None" for k'
    by (rule UploadFile_keeps_objects [OF assms(1) ob that])
  ultimately have "server_step A s1 s2"
    unfolding server_step_def by (simp add: s2 events_added_same)
  moreover have "st_objects ?S ob (ss_bucketName ?x, key) \<noteq> None" if "a = None"
    using UploadFile_stores(1) [OF assms(1) ob] that by auto
  ultimately show "server_step A s1 s2 \<and> safe (shared_ok A B x) (shared_grows A B) Q (k a) (s2, b1)"
    using assms(2) [of s2 b1] assms(3) by (cases a) (simp_all add: s2)
qed

lemma AttachDocument_safe:
  assumes "storage_ok (ap_storage A)"
  shows "safe (shared_ok A B x) (shared_grows A B) (\<lambda>_. True)
     (AttachDocument_steps (ap_F A) (ap_storage A) (ap_storageService A) E T t filename ct sz body) st"
  unfolding AttachDocument_steps_def Let_def
  by (rule safe_reading)
    (auto split: sum.split pg_error.split
      intro!: upload_safe [OF assms] document_insert_safe)

text \<open>
  The contract of a handler among others: every call keeps the shared state, and the answer is well
  formed. The middleware passes it on.
\<close>

locale safe_handler =
  fixes A :: "('r, 'o) app"
    and B :: "'b broker"
    and x :: string
    and hs :: "('r, 'o, 'b) step_handler"
  assumes safe: "storage_ok (ap_storage A) \<Longrightarrow> ready tr w \<Longrightarrow> GetTraceID (rq_Context r) = tr \<Longrightarrow>
      safe (shared_ok A B x) (shared_grows A B) (answered (rq_Path r) tr) (hs E r w) st"
begin

lemma RequireRole: "safe_handler A B x (RequireRole_steps allowed hs)"
  by unfold_locales (auto simp: RequireRole_steps_def Let_def intro!: answered_rules safe)

lemma APIKeyAuth: "safe_handler A B x (APIKeyAuthMiddleware_steps A hs)"
proof unfold_locales
  fix tr w E st and r :: request
  assume pre: "storage_ok (ap_storage A)" "ready tr w" "GetTraceID (rq_Context r) = tr"
  have session: "server_step A s s'" if "server_ok A s" "cookie_session A r s = (a, s')" for s a s'
    using that by (auto simp: cookie_session_def split: option.splits if_splits prod.splits sum.splits)
  have who: "safe (shared_ok A B x) (shared_grows A B) (answered (rq_Path r) tr)
      (hs E (with_identity role T r) w) st" for role T st
    using safe [OF pre(1,2), of "with_identity role T r" E st] pre(3)
    by (simp add: with_identity_def GetTraceID_def)
  show "safe (shared_ok A B x) (shared_grows A B) (answered (rq_Path r) tr)
      (APIKeyAuthMiddleware_steps A hs E r w) st"
    using safe [OF pre]
    by (auto simp: APIKeyAuthMiddleware_steps_def Let_def who split: option.split
        intro!: safe_quiet session answered_rules pre)
qed

lemma RateLimit: "safe_handler A B x (RateLimitMiddleware_steps txt cfg hs)"
proof unfold_locales
  fix tr w E st and r :: request
  assume pre: "storage_ok (ap_storage A)" "ready tr w" "GetTraceID (rq_Context r) = tr"
  have "server_step A s (s\<lparr>sv_limits := z\<rparr>)" if "server_ok A s" for s z
    using that by (simp add: server_step_def server_ok_def events_added_same)
  then show "safe (shared_ok A B x) (shared_grows A B) (answered (rq_Path r) tr)
      (RateLimitMiddleware_steps txt cfg hs E r w) st"
    using safe [OF pre]
    by (auto simp: RateLimitMiddleware_steps_def Let_def split: option.split prod.splits
        intro!: safe_quiet safe answered_rules ready_SetHeader pre)
qed

end

lemma open_session_safe:
  assumes "ready tr w" and "GetTraceID (rq_Context r) = tr" and "status \<in> {200, 201}"
  shows "safe (shared_ok A B x) (shared_grows A B) (answered (rq_Path r) tr)
    (open_session_steps A E r status role T w) st"
  using assms by (auto simp: open_session_steps_def intro!: safe_rules split: sum.split)

interpretation LoginHandler: safe_handler A B x "LoginHandler_steps A" for A B x
  by unfold_locales
    (auto simp: LoginHandler_steps_def intro!: safe_rules open_session_safe split: option.split sum.split)

interpretation SignupHandler: safe_handler A B x "SignupHandler_steps A" for A B x
  by unfold_locales
    (auto simp: SignupHandler_steps_def intro!: safe_rules keeps_inserts open_session_safe
      split: option.split sum.split)

lemma reads_safe:
  "safe (shared_ok A B x) (shared_grows A B) (\<lambda>_. True) (GetAccountBalance_steps f1 f2 T i) st"
  "safe (shared_ok A B x) (shared_grows A B) (\<lambda>_. True) (GetTransaction_steps f1 f2 T j) st"
  by (auto simp: GetAccountBalance_steps_def GetTransaction_steps_def intro!: safe_reading
      split: sum.split pg_error.split)

interpretation GetAccountBalanceHandler: safe_handler A B x "GetAccountBalanceHandler_steps A" for A B x
  by unfold_locales
    (auto simp: GetAccountBalanceHandler_steps_def intro!: shared.safe_bind [OF reads_safe(1)] safe_rules
      split: option.split sum.split prod.split)

interpretation GetTransactionHandler: safe_handler A B x "GetTransactionHandler_steps A" for A B x
  by unfold_locales
    (auto simp: GetTransactionHandler_steps_def intro!: shared.safe_bind [OF reads_safe(2)] safe_rules
      split: option.split sum.split)

interpretation CreateTransactionHandler: safe_handler A B x "CreateTransactionHandler_steps A" for A B x
  by unfold_locales
    (auto simp: CreateTransactionHandler_steps_def Let_def
      intro!: shared.safe_bind [OF CreateTransaction_safe] safe_rules split: option.split sum.split)

interpretation AttachDocumentHandler: safe_handler A B x "AttachDocumentHandler_steps A" for A B x
  by unfold_locales
    (auto simp: AttachDocumentHandler_steps_def Let_def
      intro!: shared.safe_bind [OF AttachDocument_safe] safe_rules split: option.split sum.split)

text \<open>The other endpoints make one call at most.\<close>

definition single_call :: "endpoint \<Rightarrow> bool" where
  "single_call e \<longleftrightarrow> e \<notin> {ELogin, ESignup, EGetAccountBalance, EGetTransaction, ECreateTransaction,
     EAttachDocument}"

lemma single_call_objects:
  "single_call e \<Longrightarrow> sv_objects (snd (endpoint_handler ch A e E r (w, s))) = sv_objects s"
  by (cases e) (auto simp: single_call_def HealthCheck_def CreateAccountHandler_def
    GetAccountHandler_def ListAccountsHandler_def GetAccountPostingsHandler_def
    ListTransactionsHandler_def ListTransactionDocumentsHandler_def LogoutHandler_def MeHandler_def
    Let_def split: option.splits prod.splits sum.splits)

lemma endpoint_call:
  assumes "storage_ok (ap_storage A)" and "server_ok A s" and "single_call e"
  shows "server_step A s (snd (endpoint_handler ch A e E r (w, s)))"
proof (cases "e = ESwagger")
  case False
  show ?thesis
    unfolding server_step_def single_call_objects [OF assms(3)]
    using http_handler.keeps [OF endpoint_ok [OF False] assms(1,2)] endpoint_events [OF assms(2)]
    by blast
qed (use assms(2) in simp)

lemma one_call_safe:
  assumes "storage_ok (ap_storage A)" and "single_call e"
    and "\<And>s. answered path tr (fst (endpoint_handler ch A e E r (w, s)))"
  shows "safe (shared_ok A B x) (shared_grows A B) (answered path tr)
    (one_call (endpoint_handler ch A e) E r w) st"
proof -
  have "one_call (endpoint_handler ch A e) E r w
      = bind (on_server (\<lambda>s. endpoint_handler ch A e E r (w, s))) Return"
    by (simp add: one_call_def on_server_def act_def comp_def map_prod_def case_prod_unfold)
  also have "safe (shared_ok A B x) (shared_grows A B) (answered path tr) \<dots> st"
  proof (rule safe_on_server)
    fix s1 b1 a s2
    assume "server_ok A s1" and "endpoint_handler ch A e E r (w, s1) = (a, s2)"
    with endpoint_call [OF assms(1) _ assms(2), of s1 ch E r w] assms(3) [of s1]
    show "server_step A s1 s2 \<and> safe (shared_ok A B x) (shared_grows A B) (answered path tr)
        (Return a) (s2, b1)"
      by simp
  qed
  finally show ?thesis .
qed

lemma endpoint_safe:
  assumes "e \<noteq> ESwagger"
  shows "safe_handler A B x (endpoint_steps ch A e)"
proof (cases "single_call e")
  case True
  then have steps: "endpoint_steps ch A e = one_call (endpoint_handler ch A e)"
    by (cases e) (simp_all add: single_call_def)
  show ?thesis unfolding steps
    by unfold_locales (auto simp: answered_def intro!: one_call_safe True
        http_handler.responds [OF endpoint_ok [OF assms]])
next
  case False
  then show ?thesis
    by (cases e) (simp_all add: single_call_def LoginHandler.safe_handler_axioms
      SignupHandler.safe_handler_axioms GetAccountBalanceHandler.safe_handler_axioms
      GetTransactionHandler.safe_handler_axioms CreateTransactionHandler.safe_handler_axioms
      AttachDocumentHandler.safe_handler_axioms)
qed

lemma route_safe: "rt_Endpoint rt \<noteq> ESwagger \<Longrightarrow> safe_handler A B x (route_steps ch A rt)"
  using endpoint_safe [of "rt_Endpoint rt" A B x ch] safe_handler.RequireRole
  by (auto simp: route_steps_def split: option.split)

lemma swagger_safe:
  assumes "chi_ok ch" and "ch_Match ch routes m path = Some (rt, ps)" and "rt_Endpoint rt = ESwagger"
    and "storage_ok (ap_storage A)"
  shows "safe (shared_ok A B x) (shared_grows A B) (answered path tr) (route_steps ch A rt E r w) st"
proof -
  have rt: "rt \<in> set routes" using assms(1,2) unfolding chi_ok_def by blast
  have "list_all (\<lambda>y. rt_Endpoint y = ESwagger \<longrightarrow> rt_Roles y = None) routes"
    by (simp add: routes_def)
  with rt assms(3) have role: "rt_Roles rt = None" by (auto simp: list_all_iff)
  have "answered path tr v" for v
    using swagger_route(1) [OF assms(1-3)] by (simp add: answered_def)
  then have "safe (shared_ok A B x) (shared_grows A B) (answered path tr)
      (one_call (endpoint_handler ch A ESwagger) E r w) st"
    by (intro one_call_safe [OF assms(4)]) (simp_all add: single_call_def)
  then show ?thesis by (simp add: route_steps_def role assms(3) del: endpoint_handler.simps)
qed

lemma dispatch_safe:
  assumes "chi_ok ch"
  shows "safe_handler A B x (dispatch_steps ch A)"
proof unfold_locales
  fix tr w E st and r :: request
  assume pre: "storage_ok (ap_storage A)" "ready tr w" "GetTraceID (rq_Context r) = tr"
  show "safe (shared_ok A B x) (shared_grows A B) (answered (rq_Path r) tr) (dispatch_steps ch A E r w) st"
  proof (cases "ch_Match ch routes (rq_Method r) (rq_Path r)")
    case None
    have "ch_Fallback ch (rq_Method r) (rq_Path r) \<in> {204, 404, 405}"
      using assms unfolding chi_ok_def by blast
    with None pre show ?thesis by (simp add: dispatch_steps_def answered_rules(3))
  next
    case (Some m)
    obtain rt ps where m: "m = (rt, ps)" by (cases m)
    show ?thesis
    proof (cases "rt_Endpoint rt = ESwagger")
      case True
      from swagger_safe [OF assms Some [unfolded m] this pre(1)] show ?thesis
        by (simp add: dispatch_steps_def Some m)
    next
      case False
      from safe_handler.safe [OF route_safe [OF False] pre(1,2), of "r\<lparr>rq_URLParam := ps\<rparr>"] pre(3)
      show ?thesis by (simp add: dispatch_steps_def Some m)
    qed
  qed
qed

lemma inner_safe:
  assumes "chi_ok ch"
  shows "safe_handler A B x (inner_steps ch lua A cfg)"
proof -
  have "safe_handler A B x (if auth_enabled A then APIKeyAuthMiddleware_steps A (dispatch_steps ch A)
      else dispatch_steps ch A)"
    using dispatch_safe [OF assms, of A B x] safe_handler.APIKeyAuth [of A B x "dispatch_steps ch A"]
    by simp
  from this safe_handler.RateLimit [OF this] show ?thesis
    unfolding inner_steps_def Let_def by (cases "rc_RateLimitConfig cfg") (simp_all only: option.simps)
qed

lemma serve_safe:
  assumes "chi_ok ch" and "storage_ok (ap_storage A)"
  shows "safe (shared_ok A B x) (shared_grows A B)
    (\<lambda>w. rq_Method r = ''OPTIONS'' \<or> answered (rq_Path r) (trace_of A E r) w)
    (serve_steps ch lua A cfg E r) st"
  using safe_handler.safe [OF inner_safe [OF assms(1), of A B x lua cfg] assms(2) traced_writer_ready,
      where r = "traced_request ch A cfg E r" and E = E and st = st]
  by (simp add: serve_steps_def)

section \<open>The worker\<close>

definition known :: "LedgerOutbox \<Rightarrow> db \<Rightarrow> bool" where
  "known e d \<longleftrightarrow> event_key e \<in> set (map event_key (db_outbox d))"

lemma known_grows: "known e (sv_db s) \<Longrightarrow> shared_grows A B (s, b) (s', b') \<Longrightarrow> known e (sv_db s')"
  unfolding known_def shared_grows_def by (auto dest!: set_mono_prefix simp del: set_map)

lemma delivered_mono: "delivered F W d \<Longrightarrow> W \<subseteq> W' \<Longrightarrow> delivered F W' d"
  unfolding delivered_def by (meson subsetD)

text \<open>An update of the worker leaves the events as they are but for their status.\<close>

definition marks :: "bool \<Rightarrow> uuid \<Rightarrow> db \<Rightarrow> db \<Rightarrow> bool" where
  "marks published i d d' \<longleftrightarrow> map event_key (db_outbox d') = map event_key (db_outbox d)
     \<and> (\<forall>r' \<in> set (db_outbox d'). ob_Status r' = OutboxStatusPublished \<longrightarrow>
          (\<exists>r \<in> set (db_outbox d). event_key r' = event_key r
             \<and> (ob_Status r = OutboxStatusPublished \<or> published \<and> ob_ID r = i)))"

lemma marks_refl: "marks p i d d"
  unfolding marks_def by blast

lemma marks_update:
  assumes "\<And>r. event_key (f r) = event_key r"
    and "\<And>r. sel r \<Longrightarrow> ob_Status (f r) = OutboxStatusPublished \<Longrightarrow>
      ob_Status r = OutboxStatusPublished \<or> p \<and> ob_ID r = i"
  shows "marks p i d (update_outbox sel f d)"
  using assms by (auto simp: marks_def update_outbox_def split: if_splits)

lemma marks_autocommit:
  assumes "db_deferred d = []" and "marks p i d (snd (q d))" and "db_deferred (snd (q d)) = []"
  shows "marks p i d (snd (autocommit flt q d))"
  using assms
  by (auto simp: autocommit_def marks_refl commit_db_def marks_def rollback_db_def
      split: option.splits sum.splits prod.splits)

lemma books_marks:
  "books (snd (q_MarkOutboxEventPublished now i d)) = books d"
  "books (snd (q_MarkOutboxEventFailed now farg d)) = books d"
  "books (snd (q_IncrementOutboxRetry rarg d)) = books d"
  "db_documents (snd (q_MarkOutboxEventPublished now i d)) = db_documents d"
  "db_documents (snd (q_MarkOutboxEventFailed now farg d)) = db_documents d"
  "db_documents (snd (q_IncrementOutboxRetry rarg d)) = db_documents d"
  by (simp_all add: q_MarkOutboxEventPublished_def q_MarkOutboxEventFailed_def
      q_IncrementOutboxRetry_def Let_def books_update_outbox)

lemma marks_statements:
  "marks True i d (snd (q_MarkOutboxEventPublished now i d))"
  "marks False j d (snd (q_MarkOutboxEventFailed now farg d))"
  "marks False j d (snd (q_IncrementOutboxRetry rarg d))"
  by (auto simp: q_MarkOutboxEventPublished_def q_MarkOutboxEventFailed_def
      q_IncrementOutboxRetry_def Let_def event_key_def OutboxStatusFailed_def OutboxStatusPublished_def
      intro!: marks_update marks_refl)

lemma deferred_marks:
  "db_deferred (snd (q_MarkOutboxEventPublished now i d)) = db_deferred d"
  "db_deferred (snd (q_MarkOutboxEventFailed now farg d)) = db_deferred d"
  "db_deferred (snd (q_IncrementOutboxRetry rarg d)) = db_deferred d"
  by (simp_all add: q_MarkOutboxEventPublished_def q_MarkOutboxEventFailed_def
      q_IncrementOutboxRetry_def Let_def update_outbox_def)

text \<open>The bookkeeping after a publish, successful or not.\<close>

definition handled :: "OutboxWorker \<Rightarrow> poll_env \<Rightarrow> LedgerOutbox \<Rightarrow> string option \<Rightarrow> db \<Rightarrow> db" where
  "handled w P e published d =
     (case published of
        Some err \<Rightarrow> handlePublishFailure P w e err d
      | None \<Rightarrow> handlePublishSuccess P e d)"

lemma handled_keeps:
  assumes "ledger_ok F d"
  shows "ledger_ok F (handled w P e p d) \<and> evolves d (handled w P e p d)
    \<and> db_documents (handled w P e p d) = db_documents d
    \<and> marks (p = None) (ob_ID e) d (handled w P e p d)"
proof -
  have quiet: "db_deferred d = []" using assms by (simp add: ledger_ok_def committed_ok_def)
  note step = MarkOutboxEventPublished.autocommit_step [OF assms books_marks(1,4)]
    MarkOutboxEventFailed.autocommit_step [OF assms books_marks(2,5)]
    IncrementOutboxRetry.autocommit_step [OF assms books_marks(3,6)]
  show ?thesis
    by (cases p) (simp_all add: handled_def handlePublishFailure_def handlePublishSuccess_def Let_def
      step marks_autocommit marks_statements deferred_marks quiet)
qed

lemma delivered_marks:
  assumes "delivered F W d" and "marks p (ob_ID e) d d'" and "distinct (map ob_ID (db_outbox d))"
    and "known e d" and "p \<Longrightarrow> event_message F w e \<in> W"
  shows "delivered F W d'"
  unfolding delivered_def
proof (intro ballI impI)
  fix r' assume r': "r' \<in> set (db_outbox d')" "ob_Status r' = OutboxStatusPublished"
  then obtain r where r: "r \<in> set (db_outbox d)" "event_key r' = event_key r"
      "ob_Status r = OutboxStatusPublished \<or> p \<and> ob_ID r = ob_ID e"
    using assms(2) unfolding marks_def by blast
  have key: "ob_ID r' = ob_ID r" "ob_RoutingKey r' = ob_RoutingKey r" "ob_Payload r' = ob_Payload r"
    using r(2) by (simp_all add: event_key_def)
  from r(3) show "\<exists>m \<in> W. pub_MessageId m = uuid_String F (ob_ID r') \<and> pub_Body m = ob_Payload r'
      \<and> pub_RoutingKey m = ob_RoutingKey r' \<and> pub_Persistent m"
  proof
    assume "ob_Status r = OutboxStatusPublished"
    with assms(1) r(1) show ?thesis unfolding delivered_def key by blast
  next
    assume p: "p \<and> ob_ID r = ob_ID e"
    obtain y where y: "y \<in> set (db_outbox d)" "event_key y = event_key e"
      using assms(4) unfolding known_def by (metis imageE list.set_map)
    have "ob_ID y = ob_ID r" using y(2) p by (simp add: event_key_def)
    then have "y = r" by (rule distinct_map_unique [OF assms(3) y(1) r(1)])
    with y(2) have "ob_ID e = ob_ID r'" "ob_RoutingKey e = ob_RoutingKey r'" "ob_Payload e = ob_Payload r'"
      by (simp_all add: event_key_def key)
    with assms(5) p show ?thesis
      by (intro bexI [of _ "event_message F w e"]) (simp_all add: event_message_def)
  qed
qed

lemma event_handled_safe:
  assumes "known e (sv_db s)" and "ow_exchangeName w = x"
    and "p = None \<Longrightarrow> event_message (ap_F A) w e \<in> set (bk_written B b)"
    and "\<And>s' b'. shared_grows A B (s, b) (s', b') \<Longrightarrow>
      safe (shared_ok A B x) (shared_grows A B) Q k (s', b')"
  shows "safe (shared_ok A B x) (shared_grows A B) Q
    (bind (on_db (\<lambda>d. ((), handled w P e p d))) (\<lambda>_. k)) (s, b)"
  unfolding on_db_def on_server_def
proof (rule shared.safe_act)
  fix st1 u st2
  assume st1: "shared_ok A B x st1" "shared_grows A B (s, b) st1"
    and f: "(case st1 of (s, b) \<Rightarrow> case case ((), handled w P e p (sv_db s)) of (a, d) \<Rightarrow> (a, set_db d s)
        of (a, s') \<Rightarrow> (a, (s', b))) = (u, st2)"
  obtain s1 b1 where s1: "st1 = (s1, b1)" by (cases st1)
  let ?d = "handled w P e p (sv_db s1)"
  have st2: "st2 = (set_db ?d s1, b1)" using f by (simp add: s1)
  have ok: "server_ok A s1" and led: "ledger_ok (ap_F A) (sv_db s1)"
    and del: "delivered (ap_F A) {m \<in> set (bk_written B b1). pub_Exchange m = x} (sv_db s1)"
    using st1(1) by (simp_all add: s1 shared_ok_def server_ok_def)
  note new = handled_keeps [OF led, of w P e p]
  have dist: "distinct (map ob_ID (db_outbox (sv_db s1)))"
    using led by (simp add: ledger_ok_def committed_ok_def tx_ok_def schema_ok_def keys_ok_def)
  have "event_message (ap_F A) w e \<in> {m \<in> set (bk_written B b1). pub_Exchange m = x}" if "p = None"
    using assms(3) [OF that] st1(2) assms(2) by (auto simp: s1 shared_grows_def event_message_def)
  with new have del': "delivered (ap_F A) {m \<in> set (bk_written B b1). pub_Exchange m = x} ?d"
    by (intro delivered_marks [OF del _ dist known_grows [OF assms(1) st1(2) [unfolded s1]]]) blast+
  have "shared_ok A B x st2" "shared_grows A B st1 st2"
    using server_ok_set_db [OF ok] new del'
    by (simp_all add: st2 s1 shared_ok_def shared_grows_def marks_def)
  moreover from this have "safe (shared_ok A B x) (shared_grows A B) Q k st2"
    using shared.goes_on [OF st1(2)] assms(4) by (cases st2) blast
  ultimately show "shared_ok A B x st2 \<and> shared_grows A B st1 st2
      \<and> safe (shared_ok A B x) (shared_grows A B) Q k st2" by blast
qed

lemma process_events_safe:
  assumes "broker_ok B" and "ow_exchangeName w = x" and "\<forall>e \<in> set events. known e (sv_db s)"
  shows "safe (shared_ok A B x) (shared_grows A B) (\<lambda>_. True)
    (process_events_steps (ap_F A) B w P events) (s, b)"
  using assms(3)
proof (induction events arbitrary: s b)
  case (Cons e events)
  show ?case
    unfolding process_events_steps.simps on_broker_def handled_def [symmetric]
  proof (rule shared.safe_act)
    fix st1 p st2
    assume st1: "shared_ok A B x st1" "shared_grows A B (s, b) st1"
      and f: "(case st1 of (s, b) \<Rightarrow> case publishEvent (ap_F A) B w e b of
          (a, b') \<Rightarrow> (a, (s, b'))) = (p, st2)"
    obtain s1 b1 where s1: "st1 = (s1, b1)" by (cases st1)
    obtain b2 where pub: "publishEvent (ap_F A) B w e b1 = (p, b2)" and st2: "st2 = (s1, b2)"
      using f by (auto simp: s1 split: prod.splits)
    have w: "set (bk_written B b1) \<subseteq> set (bk_written B b2)"
        "p = None \<Longrightarrow> event_message (ap_F A) w e \<in> set (bk_written B b2)"
      using assms(1) pub unfolding broker_ok_def publishEvent_def by blast+
    have ok: "shared_ok A B x st2" and grown: "shared_grows A B st1 st2"
      using st1(1) w(1) by (auto simp: s1 st2 shared_ok_def shared_grows_def intro: delivered_mono)
    have R: "shared_grows A B (s, b) (s1, b2)"
      using shared.goes_on [OF st1(2) grown] by (simp add: st2)
    have "known e (sv_db s1)" by (rule known_grows [OF _ R]) (use Cons.prems in simp)
    then have "safe (shared_ok A B x) (shared_grows A B) (\<lambda>_. True)
        (bind (on_db (\<lambda>d. ((), handled w P e p d))) (\<lambda>_. process_events_steps (ap_F A) B w P events)) st2"
      unfolding st2
    proof (rule event_handled_safe [OF _ assms(2) w(2)])
      fix s' b' assume "shared_grows A B (s1, b2) (s', b')"
      from shared.goes_on [OF R this] Cons.prems show "safe (shared_ok A B x) (shared_grows A B)
          (\<lambda>_. True) (process_events_steps (ap_F A) B w P events) (s', b')"
        by (intro Cons.IH) (auto intro: known_grows)
    qed
    with ok grown show "shared_ok A B x st2 \<and> shared_grows A B st1 st2
        \<and> safe (shared_ok A B x) (shared_grows A B) (\<lambda>_. True)
          (bind (on_db (\<lambda>d. ((), handled w P e p d))) (\<lambda>_. process_events_steps (ap_F A) B w P events)) st2"
      by blast
  qed
qed simp

lemma pending_known:
  assumes "read_query flt (q_GetPendingOutboxEvents n d) = Inr events" and "e \<in> set events"
  shows "known e d"
proof -
  have "e \<in> set (db_outbox d)"
    using assms by (auto simp: read_query_def q_GetPendingOutboxEvents_def limit_rows_def
        split: option.splits if_splits dest!: in_set_takeD)
  then show ?thesis by (simp add: known_def)
qed

lemma processBatch_safe:
  assumes "broker_ok B" and "ow_exchangeName w = x"
  shows "safe (shared_ok A B x) (shared_grows A B) (\<lambda>_. True) (processBatch_steps (ap_F A) B w P) st"
  unfolding processBatch_steps_def reading_def
proof (rule safe_on_server)
  fix s1 b1 res s2
  assume ok: "server_ok A s1"
    and f: "(read_query (po_fetch_fault P) (q_GetPendingOutboxEvents (ow_batchSize w) (sv_db s1)), s1)
        = (res, s2)"
  show "server_step A s1 s2 \<and> safe (shared_ok A B x) (shared_grows A B) (\<lambda>_. True)
      (case res of Inl _ \<Rightarrow> Return () | Inr events \<Rightarrow> process_events_steps (ap_F A) B w P events) (s2, b1)"
    using f ok pending_known by (cases res) (auto intro!: process_events_safe [OF assms])
qed

end
