(* ===== verification/Traffic.thy ===== *)
theory Traffic
  imports Interference
begin

text \<open>
  The service under load: any number of requests in progress and any number of outbox workers (of
  several instances of the program, say) take turns call by call. The atomic model of \<open>Program\<close> is one
  of the schedules; the invariants hold for all of them.
\<close>

section \<open>The pool\<close>

text \<open>
  A request in progress is kept with the environment it meets, what is left of it, or its response. A
  worker between two polls has nothing left to do.
\<close>

record ('r, 'o, 'b) pool =
  pl_server :: "('r, 'o) server"
  pl_broker :: 'b
  pl_requests :: "nat \<Rightarrow> (request_env \<times> request \<times> ('r, 'o, 'b, writer) steps) option"
  pl_workers :: "nat \<Rightarrow> ('r, 'o, 'b, unit) steps"

abbreviation shared_state :: "('r, 'o, 'b) pool \<Rightarrow> ('r, 'o) server \<times> 'b" where
  "shared_state p \<equiv> (pl_server p, pl_broker p)"

text \<open>
  One step: a request arrives; a request or a worker makes its next call; a worker starts a poll; a
  request is answered, or it or a poll ends at any point because its process dies; Redis changes.
\<close>

inductive pool_step ::
  "chi \<Rightarrow> (int \<Rightarrow> string) \<Rightarrow> ('r, 'o) app \<Rightarrow> RouterConfig \<Rightarrow> 'b broker \<Rightarrow> OutboxWorker
    \<Rightarrow> ('r, 'o, 'b) pool \<Rightarrow> ('r, 'o, 'b) pool \<Rightarrow> bool"
  for ch lua A cfg B ow where
  arrives: "pl_requests p i = None \<Longrightarrow>
     pool_step ch lua A cfg B ow p (p\<lparr>pl_requests :=
       (pl_requests p)(i \<mapsto> (E, r, serve_steps ch lua A cfg E r))\<rparr>)"
| request_calls: "pl_requests p i = Some (E, r, Act f) \<Longrightarrow> f (shared_state p) = (k, (s, b)) \<Longrightarrow>
     pool_step ch lua A cfg B ow p (p\<lparr>pl_server := s, pl_broker := b,
       pl_requests := (pl_requests p)(i \<mapsto> (E, r, k))\<rparr>)"
| request_ends: "pool_step ch lua A cfg B ow p (p\<lparr>pl_requests := (pl_requests p)(i := None)\<rparr>)"
| polls: "pl_workers p i = Return () \<Longrightarrow>
     pool_step ch lua A cfg B ow p (p\<lparr>pl_workers :=
       (pl_workers p)(i := processBatch_steps (ap_F A) B ow P)\<rparr>)"
| worker_calls: "pl_workers p i = Act f \<Longrightarrow> f (shared_state p) = (k, (s, b)) \<Longrightarrow>
     pool_step ch lua A cfg B ow p (p\<lparr>pl_server := s, pl_broker := b,
       pl_workers := (pl_workers p)(i := k)\<rparr>)"
| worker_ends: "pool_step ch lua A cfg B ow p (p\<lparr>pl_workers := (pl_workers p)(i := Return ())\<rparr>)"
| redis: "pool_step ch lua A cfg B ow p (p\<lparr>pl_server := set_redis rd (pl_server p)\<rparr>)"

text \<open>Nothing in progress.\<close>

definition idle :: "('r, 'o) server \<times> 'b \<Rightarrow> ('r, 'o, 'b) pool" where
  "idle = (\<lambda>(s, b). \<lparr>pl_server = s, pl_broker = b, pl_requests = (\<lambda>_. None),
     pl_workers = (\<lambda>_. Return ())\<rparr>)"

section \<open>Whole requests are one of the schedules\<close>

lemma request_runs:
  assumes "run q (s, b) = (w, (s', b'))"
  shows "(pool_step ch lua A cfg B ow)\<^sup>*\<^sup>*
      (p\<lparr>pl_server := s, pl_broker := b, pl_requests := (pl_requests p)(i \<mapsto> (E, r, q))\<rparr>)
      (p\<lparr>pl_server := s', pl_broker := b', pl_requests := (pl_requests p)(i \<mapsto> (E, r, Return w))\<rparr>)"
  using assms
proof (induction q arbitrary: s b)
  case (Act f)
  let ?at = "\<lambda>s b q. p\<lparr>pl_server := s, pl_broker := b, pl_requests := (pl_requests p)(i \<mapsto> (E, r, q))\<rparr>"
  obtain k s1 b1 where f: "f (s, b) = (k, (s1, b1))" by (metis surj_pair)
  have "pool_step ch lua A cfg B ow (?at s b (Act f)) (?at s1 b1 k)"
    using pool_step.request_calls [of "?at s b (Act f)" i E r f k s1 b1] f by simp
  moreover have "(pool_step ch lua A cfg B ow)\<^sup>*\<^sup>* (?at s1 b1 k) (?at s' b' (Return w))"
  proof (rule Act.IH)
    show "k \<in> Basic_BNFs.fsts (f (s, b))" by (simp add: f)
    show "run k (s1, b1) = (w, (s', b'))" using Act.prems by (simp add: f)
  qed simp
  ultimately show ?case by (rule converse_rtranclp_into_rtranclp)
qed simp

lemma worker_runs:
  assumes "run q (s, b) = ((), (s', b'))"
  shows "(pool_step ch lua A cfg B ow)\<^sup>*\<^sup>*
      (p\<lparr>pl_server := s, pl_broker := b, pl_workers := (pl_workers p)(i := q)\<rparr>)
      (p\<lparr>pl_server := s', pl_broker := b', pl_workers := (pl_workers p)(i := Return ())\<rparr>)"
  using assms
proof (induction q arbitrary: s b)
  case (Act f)
  let ?at = "\<lambda>s b q. p\<lparr>pl_server := s, pl_broker := b, pl_workers := (pl_workers p)(i := q)\<rparr>"
  obtain k s1 b1 where f: "f (s, b) = (k, (s1, b1))" by (metis surj_pair)
  have "pool_step ch lua A cfg B ow (?at s b (Act f)) (?at s1 b1 k)"
    using pool_step.worker_calls [of "?at s b (Act f)" i f k s1 b1] f by simp
  moreover have "(pool_step ch lua A cfg B ow)\<^sup>*\<^sup>* (?at s1 b1 k) (?at s' b' (Return ()))"
  proof (rule Act.IH)
    show "k \<in> Basic_BNFs.fsts (f (s, b))" by (simp add: f)
    show "run k (s1, b1) = ((), (s', b'))" using Act.prems by (simp add: f)
  qed simp
  ultimately show ?case by (rule converse_rtranclp_into_rtranclp)
qed simp

lemma program_step_is_pool_steps:
  assumes "program_step ch lua A cfg B ow st st'"
  shows "(pool_step ch lua A cfg B ow)\<^sup>*\<^sup>* (idle st) (idle st')"
  using assms
proof cases
  case (request s b E r)
  obtain w s' where sv: "serve ch lua A cfg E r s = (w, s')" by fastforce
  let ?steps = "serve_steps ch lua A cfg E r" and ?p = "idle (s, b)"
  have "pool_step ch lua A cfg B ow ?p (?p\<lparr>pl_requests := (pl_requests ?p)(0 \<mapsto> (E, r, ?steps))\<rparr>)"
    by (rule pool_step.arrives) (simp add: idle_def)
  also have "(pool_step ch lua A cfg B ow)\<^sup>*\<^sup>* \<dots> (?p\<lparr>pl_server := s', pl_broker := b,
      pl_requests := (pl_requests ?p)(0 \<mapsto> (E, r, Return w))\<rparr>)"
    using request_runs [of ?steps s b w s' b ch lua A cfg B ow ?p 0 E r]
    by (simp add: run_serve sv idle_def)
  also have "pool_step ch lua A cfg B ow \<dots> (idle (s', b))"
    using pool_step.request_ends [of ch lua A cfg B ow "?p\<lparr>pl_server := s', pl_broker := b,
      pl_requests := (pl_requests ?p)(0 \<mapsto> (E, r, Return w))\<rparr>" 0]
    by (simp add: idle_def fun_upd_idem)
  finally show ?thesis by (simp add: request sv)
next
  case (poll P b s b' d')
  let ?steps = "processBatch_steps (ap_F A) B ow P" and ?p = "idle (s, b)"
  have "pool_step ch lua A cfg B ow ?p (?p\<lparr>pl_workers := (pl_workers ?p)(0 := ?steps)\<rparr>)"
    by (rule pool_step.polls) (simp add: idle_def)
  also have "(pool_step ch lua A cfg B ow)\<^sup>*\<^sup>* \<dots> (idle (set_db d' s, b'))"
    using worker_runs [of ?steps s b "set_db d' s" b' ch lua A cfg B ow ?p 0] poll(3)
    by (simp add: run_processBatch idle_def fun_upd_idem)
  finally show ?thesis by (simp add: poll)
next
  case (redis s b rd)
  have "pool_step ch lua A cfg B ow (idle (s, b)) (idle (set_redis rd s, b))"
    using pool_step.redis [of ch lua A cfg B ow "idle (s, b)" rd] by (simp add: idle_def)
  then show ?thesis by (simp add: redis)
qed



section \<open>What holds under every schedule\<close>

definition pool_ok ::
  "('r, 'o) app \<Rightarrow> 'b broker \<Rightarrow> string \<Rightarrow> ('r, 'o, 'b) pool \<Rightarrow> bool" where
  "pool_ok A B x p \<longleftrightarrow> shared_ok A B x (shared_state p)
     \<and> (\<forall>i E r q. pl_requests p i = Some (E, r, q) \<longrightarrow>
          safe (shared_ok A B x) (shared_grows A B)
            (\<lambda>w. rq_Method r = ''OPTIONS'' \<or> answered (rq_Path r) (trace_of A E r) w) q (shared_state p))
     \<and> (\<forall>i. safe (shared_ok A B x) (shared_grows A B) (\<lambda>_. True) (pl_workers p i) (shared_state p))"

text \<open>A call of one member: the others stay safe.\<close>

lemma pool_ok_call:
  assumes "pool_ok A B x p" and "shared_ok A B x (s, b)" and "shared_grows A B (shared_state p) (s, b)"
  shows "pool_ok A B x (p\<lparr>pl_server := s, pl_broker := b\<rparr>)"
  using assms(1,2) by (auto simp: pool_ok_def intro: shared.safe_stable [OF _ assms(3)])

lemma pool_ok_request:
  assumes "pool_ok A B x p"
    and "safe (shared_ok A B x) (shared_grows A B)
      (\<lambda>w. rq_Method r = ''OPTIONS'' \<or> answered (rq_Path r) (trace_of A E r) w) q (shared_state p)"
  shows "pool_ok A B x (p\<lparr>pl_requests := (pl_requests p)(i \<mapsto> (E, r, q))\<rparr>)"
  using assms unfolding pool_ok_def by auto

lemma pool_ok_worker:
  assumes "pool_ok A B x p"
    and "safe (shared_ok A B x) (shared_grows A B) (\<lambda>_. True) q (shared_state p)"
  shows "pool_ok A B x (p\<lparr>pl_workers := (pl_workers p)(i := q)\<rparr>)"
  using assms unfolding pool_ok_def by simp

lemma pool_step_ok:
  assumes "pool_step ch lua A cfg B ow p p'" and "pool_ok A B (ow_exchangeName ow) p"
    and "chi_ok ch" and "storage_ok (ap_storage A)" and "broker_ok B"
  shows "pool_ok A B (ow_exchangeName ow) p' \<and> shared_grows A B (shared_state p) (shared_state p')"
  using assms(1)
proof cases
  case (arrives i E r)
  with pool_ok_request [OF assms(2) serve_safe [OF assms(3,4)], of i] show ?thesis
    by (simp add: shared.stays)
next
  case (request_calls i E r f k s b)
  let ?Q = "\<lambda>w. rq_Method r = ''OPTIONS'' \<or> answered (rq_Path r) (trace_of A E r) w"
  have "safe (shared_ok A B (ow_exchangeName ow)) (shared_grows A B) ?Q (Act f) (shared_state p)"
      "shared_ok A B (ow_exchangeName ow) (shared_state p)"
    using assms(2) request_calls(2) unfolding pool_ok_def by blast+
  note call = shared.safe_step [OF this request_calls(3)]
  then have "pool_ok A B (ow_exchangeName ow) (p\<lparr>pl_server := s, pl_broker := b\<rparr>)"
    using pool_ok_call [OF assms(2)] by blast
  from pool_ok_request [OF this, of r E k i] call show ?thesis
    by (simp add: request_calls(1))
next
  case (request_ends i)
  then show ?thesis using assms(2) by (auto simp: pool_ok_def shared.stays split: if_splits)
next
  case (polls i P)
  with pool_ok_worker [OF assms(2) processBatch_safe [OF assms(5) refl], of i] show ?thesis
    by (simp add: shared.stays)
next
  case (worker_calls i f k s b)
  have "safe (shared_ok A B (ow_exchangeName ow)) (shared_grows A B) (\<lambda>_. True) (Act f) (shared_state p)"
      "shared_ok A B (ow_exchangeName ow) (shared_state p)"
    using assms(2) worker_calls(2) [symmetric] unfolding pool_ok_def by metis+
  note call = shared.safe_step [OF this worker_calls(3)]
  then have "pool_ok A B (ow_exchangeName ow) (p\<lparr>pl_server := s, pl_broker := b\<rparr>)"
    using pool_ok_call [OF assms(2)] by blast
  from pool_ok_worker [OF this, of k i] call show ?thesis by (simp add: worker_calls(1))
next
  case (worker_ends i)
  with pool_ok_worker [OF assms(2), of "Return ()" i] show ?thesis by (simp add: shared.stays)
next
  case (redis rd)
  have ok: "shared_ok A B (ow_exchangeName ow) (shared_state p)"
    using assms(2) by (simp add: pool_ok_def)
  then have "server_step A (pl_server p) (set_redis rd (pl_server p))"
    by (intro server_step_redis) (simp add: shared_ok_def)
  from server_step_shared [OF this ok] pool_ok_call [OF assms(2)] show ?thesis
    unfolding redis by fastforce
qed



end
