(* ===== verification/Spec2Isabelle.thy ===== *)
theory Spec2Isabelle
  imports Posting Acceptance Replay Accounts Isolation Pages Outbox Concurrency Requests Sessions
    RateLimit Identity Lifecycle Deployment Documented Traffic
begin

text \<open>
  LedgerPro, a multi-tenant double-entry ledger with an HTTP API: PostgreSQL holds the books, Redis the
  locks, the idempotency cache, the sessions and the rate limits, a RabbitMQ exchange receives an event
  for every posted transaction through a transactional outbox, and an S3 store holds documents. This
  development is a shallow embedding of the Go program; the definitions carry the names of the source
  wherever HOL leaves them free (queries have the prefix \<^verbatim>\<open>q_\<close>, record fields a short prefix).

  \<^bold>\<open>The parts and their theories.\<close>

  \<^item> \<open>Prelude\<close>, \<open>Json\<close>: Go integers as words (\<open>int64\<close>, \<open>int32\<close>), UTF-8 and string functions, tables as
    lists of rows; \<^verbatim>\<open>encoding/json\<close> and \<^verbatim>\<open>strconv\<close> as the source uses them. \<open>Externals\<close>: the records of
    functions that stand for \<^verbatim>\<open>google/uuid\<close>, timestamps, Redis and \<^verbatim>\<open>redislock\<close>, each with its documented
    behaviour as a predicate and an instance in memory.
  \<^item> \<open>Models\<close>, \<open>Store\<close>, \<open>Queries\<close>: \<^verbatim>\<open>internal/db\<close> and \<^verbatim>\<open>db/migrations\<close>. A database is the record \<open>db\<close>:
    one list per table in the order of insertion, the two sequences, and the transactions that the
    deferred balance trigger still has to check. A query is a function from a database to a result
    or a \<open>pg_error\<close> and a database; \<open>autocommit\<close>, \<open>commit_db\<close> and \<open>rollback_db\<close> are the transaction
    boundaries. \<open>Integrity\<close>: the schema as an invariant that each statement keeps.
  \<^item> \<open>Sql\<close>, \<open>Migrations\<close>: the DDL and DML that \<^verbatim>\<open>db/migrations\<close> uses, as an interpreter over a catalog
    with rows (\<open>sqldb\<close>), and its ten files as lists of statements, the triggers among them. \<open>Catalog\<close> is
    what they build, as data, with an encoding of a \<open>db\<close> as an \<open>sqldb\<close>; \<open>Upgrade\<close> runs the files,
    \<open>Conformance\<close> compares the statements of \<^verbatim>\<open>queries.sql\<close> under the catalog with \<open>Queries\<close>.
  \<^item> \<open>Messages\<close>, \<open>Ledger\<close>, \<open>Outbox\<close>, \<open>Sessions\<close>, \<open>Documents\<close>: \<^verbatim>\<open>internal/service\<close>. The state of the
    ledger service is a \<open>world\<close>, a database with a Redis; errors are values of \<open>svc_error\<close>, so every
    early return is a branch. The outbox worker runs over the database and a \<open>broker\<close>.
  \<^item> \<open>Problem\<close>, \<open>Validation\<close>, \<open>Http\<close>, \<open>Handlers\<close>, \<open>RateLimit\<close>, \<open>Middleware\<close>, \<open>Router\<close>: \<^verbatim>\<open>internal/api\<close>.
    A handler maps a request environment and a request to a transformation of a response writer and a
    \<open>server\<close>; a middleware maps handlers to handlers; \<open>NewRouter\<close> is the stack in the order of the
    code and \<open>serve\<close> one request through it.
  \<^item> \<open>Docs\<close>: \<^verbatim>\<open>docs/docs.go\<close>, the API document the server publishes, as a JSON value.
  \<^item> \<open>Config\<close>, \<open>Lifecycle\<close>: \<^verbatim>\<open>cmd/server/main.go\<close>. The meaning of the environment variables, the start-up
    sequence with its exits, and a step relation for the life of a process: starting, serving,
    polling, the orderly stop, the failure to listen, the deferred closes, being killed.

  \<^bold>\<open>How they interact.\<close> A request passes the middleware, is decoded and validated, and reaches one
  operation of the ledger service. \<open>CreateTransaction\<close> takes a lock in Redis, looks for a cached
  response, runs one SERIALIZABLE database transaction that writes the transaction, its postings and
  its outbox event, caches the response and releases the lock. The outbox worker later reads pending
  events and publishes them. \<open>Program.program_step\<close> interleaves whole requests, polls and arbitrary
  changes of Redis; \<open>Concurrency.call_step\<close> cuts one call of \<open>CreateTransaction\<close> at each of its calls
  of Redis and the database and interleaves many of them; \<open>Lifecycle.life_step\<close> adds starts and ends.
  \<open>Traffic.pool_step\<close> interleaves single calls: \<open>Interleaving\<close> has the handlers that make more than one
  call of the database, Redis, the storage or the broker, the middleware around them and the poll of
  the worker again, as programs of atomic steps (\<open>Steps\<close>).

  \<^bold>\<open>What the lemmas show.\<close>

  \<^item> \<open>Bookkeeping\<close> gives the effect of \<open>CreateTransaction\<close> on every branch and the invariant
    \<open>ledger_ok\<close>: the schema's constraints, two or more postings for each transaction, debits equal to
    credits as exact integers, and one event per transaction. \<open>Posting\<close>, \<open>Acceptance\<close>, \<open>Replay\<close>,
    \<open>Accounts\<close>, \<open>Isolation\<close>, \<open>Pages\<close> and \<open>Requests\<close> state what this means: what is posted, refused,
    replayed, listed, balanced, and seen by other tenants.
  \<^item> \<open>Server\<close> states one contract for handlers (\<open>http_handler\<close>: a well-formed response, the invariant
    kept, rows only added), interprets it for each of the fifteen handlers, and carries it through
    the middleware. \<open>Program\<close>, \<open>Answers\<close>, \<open>Permanence\<close> and \<open>Identity\<close> draw the conclusions for clients.
  \<^item> \<open>Interleaving\<close> proves that these programs, run without interruption, are the handlers and the poll;
    \<open>Interference\<close> that each of their calls keeps the invariant and what the others rely on, by rely and
    guarantee (\<open>Steps.safe\<close>); \<open>Traffic\<close> concludes for any number of requests and workers.
  \<^item> \<open>Deployment\<close> connects the two views of the database: the up files build the model's initial
    database, and every statement of the model answers as the catalog demands; the down files lead
    back; the immutability triggers keep posted rows, and stop migration 5 on a database in use.
    \<open>Documented\<close> compares the published document with the routes, statuses and bodies of \<open>Router\<close> and
    \<open>Handlers\<close>.
  \<^item> The locales are the interfaces: \<open>keyed_table\<close> (a table under a unique key), \<open>statement\<close> (what a
    write keeps), \<open>keyset_pages\<close> (a cursor over a sorted table), \<open>nullable_enum\<close>, \<open>session_store\<close>,
    \<open>http_handler\<close>, and for the interleaved service \<open>rely\<close> and \<open>safe_handler\<close>, each interpreted on the definitions of the program.
  \<^item> Several theorems record behaviour that is not what the code or its documentation intends; their
    texts say so: sums that wrap around pass the pre-checks and are stopped only by the trigger; postings to
    accounts of other tenants; rows skipped by a cursor on equal times; a second worker that undoes a
    publication; a rate limit that does not count equal members; keys without a colon that switch
    authentication off; a failed listen that costs events an attempt; a migration its own triggers
    refuse; statuses and bodies that the published document does not have.

  \<^bold>\<open>Assumptions.\<close> Strings from outside are valid UTF-8 without NUL bytes. A JSONB column holds the
  JSON value it was given. Rows that a query leaves unordered come in the order of their insertion.
  A SERIALIZABLE transaction is one step. A statement that fails outside a transaction has changed
  nothing but sequences; of a COMMIT the reply may be lost. Times are nanoseconds and are given by the
  environment of a call, as are fresh ids and random bytes, so nothing is assumed of clocks. Any
  database, Redis, storage or broker call may fail: the environment says which ones do. A timeout or
  a cancelled context is such a failure. The behaviour of Redis, chi, the AWS SDK, bcrypt and the
  broker is a parameter, restricted by \<open>redis_ok\<close>, \<open>chi_ok\<close>, \<open>storage_ok\<close> and \<open>broker_ok\<close> where a
  property needs it; bcrypt has no law.

  \<^bold>\<open>Bounds.\<close> Nothing of the program needs fuel: its loops are structural or come with a measure. The client that follows
  a cursor (\<open>follow_pages\<close>) takes a number of pages; one more than there are rows is enough, and then
  it has met the empty page that ends it. The examples use small limits (a window of 3 ns, for instance)
  only so that they evaluate; the properties hold for all.

  \<^bold>\<open>Not modelled.\<close> Log lines (all that \<^verbatim>\<open>StructuredLoggerMiddleware\<close> adds to a handler, and the only use of the backoff of
  the outbox worker); the web interface under \<^verbatim>\<open>web\<close>; chi's \<^verbatim>\<open>RequestID\<close> and \<^verbatim>\<open>Recoverer\<close> (no handler of
  the model panics); the sizes of connection pools and the client timeouts set in \<^verbatim>\<open>main\<close>; golang-migrate's
  own bookkeeping (\<open>start_main\<close> has its calls, which may fail, and \<open>Upgrade\<close> the files it applies); DELETE,
  which nothing in the repository issues, and the SELECTs of \<^verbatim>\<open>queries.sql\<close> in terms of the catalog. Requests are atomic in
  \<open>program_step\<close> and \<open>life_step\<close>, on which the theorems about clients rest; \<open>Traffic\<close> shows which of them hold
  call by call, and \<open>Concurrency\<close> what concurrent calls of \<open>CreateTransaction\<close> may return. A database
  transaction stays one step, as does a pipeline or a script of Redis.
\<close>

end
